(* ===== verification/A2A_Prelude.thy ===== *)
theory A2A_Prelude
  imports Main "HOL-Library.Word" "HOL-Library.Monad_Syntax" "HOL-Library.Char_ord"
    "HOL-Library.List_Lexorder" "HOL-Library.Sublist" "HOL-Library.AList"
begin

text \<open>
  Shared vocabulary of the development: the C and C++ library functions the sources call on byte
  strings (\<open>std::string_view::find\<close>, \<open>std::to_string\<close>, \<open>std::from_chars\<close>, \<open>std::tolower\<close>,
  \<open>std::isspace\<close>, \<open>std::isgraph\<close>), two's complement bounds, and the generic list lemmas that
  several components use. A byte string is a HOL \<open>string\<close>: a \<open>char\<close> is one byte, and
  \<open>operator<\<close> on \<open>std::string\<close>, which compares bytes as unsigned values, is the lexicographic
  order of \<open>Char_ord\<close> and \<open>List_Lexorder\<close>.
\<close>

unbundle bit_operations_syntax

named_theorems text_defs \<open>definitions of the text utilities\<close>
named_theorems store_defs \<open>definitions of the store operations\<close>

section \<open>Searching in byte strings\<close>

text \<open>\<open>index_of P s\<close> is the position of the first byte satisfying \<open>P\<close>; \<open>None\<close> is \<open>npos\<close>.\<close>

primrec index_of :: "('a \<Rightarrow> bool) \<Rightarrow> 'a list \<Rightarrow> nat option" where
  "index_of P [] = None"
| "index_of P (x # xs) = (if P x then Some 0 else map_option Suc (index_of P xs))"

text \<open>\<open>s.find(c, pos)\<close>: the search starts at \<open>pos\<close>; past the end it fails.\<close>

definition find_from :: "('a \<Rightarrow> bool) \<Rightarrow> nat \<Rightarrow> 'a list \<Rightarrow> nat option" where
  "find_from P pos s = map_option (\<lambda>i. pos + i) (index_of P (drop pos s))"

text \<open>\<open>s.rfind(c)\<close>: the position of the last occurrence.\<close>

primrec last_index_of :: "('a \<Rightarrow> bool) \<Rightarrow> 'a list \<Rightarrow> nat option" where
  "last_index_of P [] = None"
| "last_index_of P (x # xs) =
     (case last_index_of P xs of
        Some i \<Rightarrow> Some (Suc i)
      | None \<Rightarrow> if P x then Some 0 else None)"

text \<open>\<open>s.find(needle)\<close> for a string needle.\<close>

primrec find_sub :: "'a list \<Rightarrow> 'a list \<Rightarrow> nat option" where
  "find_sub needle [] = (if needle = [] then Some 0 else None)"
| "find_sub needle (x # xs) =
     (if prefix needle (x # xs) then Some 0 else map_option Suc (find_sub needle xs))"

lemma index_of_None: "index_of P s = None \<longleftrightarrow> (\<forall>x\<in>set s. \<not> P x)"
  by (induction s) auto

lemma index_of_Some:
  "index_of P s = Some n \<longleftrightarrow> n < length s \<and> P (s ! n) \<and> (\<forall>i<n. \<not> P (s ! i))"
proof (induction s arbitrary: n)
  case Nil
  then show ?case by simp
next
  case (Cons x xs)
  show ?case
    by (cases n) (auto simp: Cons.IH less_Suc_eq_0_disj)
qed

lemma index_of_less: "index_of P s = Some n \<Longrightarrow> n < length s"
  by (simp add: index_of_Some)

lemma index_of_take: "index_of P s = Some n \<Longrightarrow> take n s = takeWhile (\<lambda>x. \<not> P x) s"
  by (induction s arbitrary: n) (auto split: if_splits)

lemma index_of_drop: "index_of P s = Some n \<Longrightarrow> drop n s = dropWhile (\<lambda>x. \<not> P x) s"
  by (induction s arbitrary: n) (auto split: if_splits)

lemma index_of_append:
  "index_of P (s @ t) =
     (case index_of P s of Some n \<Rightarrow> Some n | None \<Rightarrow> map_option (\<lambda>i. length s + i) (index_of P t))"
proof (induction s)
  case Nil
  then show ?case by (cases "index_of P t") simp_all
next
  case (Cons a s)
  then show ?case by (cases "index_of P t") (auto split: option.splits)
qed

lemma index_of_append_hit: "\<forall>x\<in>set s. \<not> P x \<Longrightarrow> P c \<Longrightarrow> index_of P (s @ c # t) = Some (length s)"
  by (induction s) auto

lemma index_of_split:
  "index_of P s = Some n \<Longrightarrow> s = take n s @ s ! n # drop (Suc n) s"
  by (simp add: index_of_Some id_take_nth_drop)

lemma index_of_take_clean: "index_of P s = Some n \<Longrightarrow> \<forall>x\<in>set (take n s). \<not> P x"
  by (auto simp: index_of_take dest: set_takeWhileD)

lemma find_from_0 [simp]: "find_from P 0 s = index_of P s"
  by (simp add: find_from_def option.map_ident)

lemma find_from_Some_le: "find_from P pos s = Some n \<Longrightarrow> pos \<le> n \<and> n < length s"
  by (auto simp: find_from_def index_of_Some)

lemma last_index_of_None: "last_index_of P s = None \<longleftrightarrow> (\<forall>x\<in>set s. \<not> P x)"
  by (induction s) (auto split: option.splits)

lemma last_index_of_append_hit:
  "P c \<Longrightarrow> \<forall>x\<in>set t. \<not> P x \<Longrightarrow> last_index_of P (s @ c # t) = Some (length s)"
proof (induction s)
  case Nil
  then have "last_index_of P t = None" by (simp add: last_index_of_None)
  then show ?case using Nil by simp
next
  case (Cons a s)
  then show ?case by simp
qed

lemma find_sub_Some_prefix: "find_sub needle s = Some n \<Longrightarrow> prefix needle (drop n s)"
  by (induction s arbitrary: n) (auto split: if_splits)

lemma find_sub_Some_le: "find_sub needle s = Some n \<Longrightarrow> n + length needle \<le> length s"
proof (induction s arbitrary: n)
  case Nil
  then show ?case by (auto split: if_splits)
next
  case (Cons x xs)
  then show ?case
    by (auto split: if_splits dest: prefix_length_le)
qed

text \<open>Bytes that arrive later never move the first occurrence of the needle.\<close>

lemma find_sub_append: "find_sub needle s = Some n \<Longrightarrow> find_sub needle (s @ t) = Some n"
proof (induction s arbitrary: n)
  case Nil
  then show ?case by (cases t) (auto split: if_splits)
next
  case (Cons x xs)
  show ?case
  proof (cases "prefix needle (x # xs)")
    case True
    then have "prefix needle (x # xs @ t)"
      by (metis append_Cons prefix_prefix)
    with True Cons.prems show ?thesis by simp
  next
    case False
    then obtain m where m: "find_sub needle xs = Some m" "n = Suc m"
      using Cons.prems by auto
    from find_sub_Some_le[OF m(1)] have len: "length needle \<le> length (x # xs)" by simp
    have "\<not> prefix needle ((x # xs) @ t)"
    proof
      assume "prefix needle ((x # xs) @ t)"
      with len have "prefix needle (x # xs)"
        using prefix_length_prefix[of needle "(x # xs) @ t" "x # xs"] by (simp add: prefixI)
      with False show False by blast
    qed
    with m Cons.IH[OF m(1)] show ?thesis by simp
  qed
qed

text \<open>\<open>s.substr(pos, n)\<close> for \<open>pos\<close> within the string.\<close>

definition substr :: "nat \<Rightarrow> nat \<Rightarrow> 'a list \<Rightarrow> 'a list" where
  "substr pos n s = take n (drop pos s)"

text \<open>The pieces of a list between separators: the specification of the splitting loops.\<close>

fun split_on :: "'a \<Rightarrow> 'a list \<Rightarrow> 'a list list" where
  "split_on c [] = [[]]"
| "split_on c (x # xs) = (if x = c then [] # split_on c xs else (x # hd (split_on c xs)) # tl (split_on c xs))"

fun join_with :: "'a \<Rightarrow> 'a list list \<Rightarrow> 'a list" where
  "join_with c [] = []"
| "join_with c [x] = x"
| "join_with c (x # y # ys) = x @ c # join_with c (y # ys)"

lemma split_on_nonempty [simp]: "split_on c s \<noteq> []"
  by (cases s) auto

lemma split_on_none: "c \<notin> set s \<Longrightarrow> split_on c s = [s]"
  by (induction s) auto

lemma split_on_append: "c \<notin> set s \<Longrightarrow> split_on c (s @ c # t) = s # split_on c t"
  by (induction s) auto

lemma split_on_index_None: "index_of (\<lambda>x. x = c) s = None \<Longrightarrow> split_on c s = [s]"
  by (rule split_on_none) (auto simp: index_of_None)

lemma split_on_index_Some:
  assumes "index_of (\<lambda>x. x = c) s = Some n"
  shows "split_on c s = take n s # split_on c (drop (Suc n) s)"
proof -
  have "s = take n s @ c # drop (Suc n) s"
    using index_of_split[OF assms] assms by (auto simp: index_of_Some)
  moreover have "c \<notin> set (take n s)"
    using index_of_take_clean[OF assms] by blast
  ultimately show ?thesis
    using split_on_append[of c "take n s" "drop (Suc n) s"] by simp
qed

lemma split_on_join:
  "xs \<noteq> [] \<Longrightarrow> \<forall>x\<in>set xs. c \<notin> set x \<Longrightarrow> split_on c (join_with c xs) = xs"
  by (induction c xs rule: join_with.induct) (auto simp: split_on_none split_on_append)

section \<open>The C character classes\<close>

definition isspace :: "char \<Rightarrow> bool" where
  "isspace c \<longleftrightarrow> (let n = of_char c :: nat in n = 32 \<or> (9 \<le> n \<and> n \<le> 13))"

definition isgraph :: "char \<Rightarrow> bool" where
  "isgraph c \<longleftrightarrow> (let n = of_char c :: nat in 33 \<le> n \<and> n \<le> 126)"

definition isdigit :: "char \<Rightarrow> bool" where
  "isdigit c \<longleftrightarrow> (let n = of_char c :: nat in 48 \<le> n \<and> n \<le> 57)"

definition tolower :: "char \<Rightarrow> char" where
  "tolower c = (let n = of_char c :: nat in if 65 \<le> n \<and> n \<le> 90 then char_of (n + 32) else c)"

lemma isgraph_not_isspace: "isgraph c \<Longrightarrow> \<not> isspace c"
  by (auto simp: isgraph_def isspace_def Let_def)

lemma of_char_char_of_nat [simp]: "n < 256 \<Longrightarrow> of_char (char_of n) = (n :: nat)"
  by simp

lemma tolower_tolower [simp]: "tolower (tolower c) = tolower c"
  by (auto simp: tolower_def Let_def)

section \<open>Decimal numbers\<close>

definition digit_char :: "nat \<Rightarrow> char" where
  "digit_char d = char_of (48 + d)"

definition digit_val :: "char \<Rightarrow> nat" where
  "digit_val c = of_char c - 48"

text \<open>\<open>std::to_string\<close> on an unsigned value.\<close>

fun to_string_nat :: "nat \<Rightarrow> string" where
  "to_string_nat n = (if n < 10 then [digit_char n] else to_string_nat (n div 10) @ [digit_char (n mod 10)])"

declare to_string_nat.simps [simp del]

definition to_string_int :: "int \<Rightarrow> string" where
  "to_string_int i = (if i < 0 then CHR ''-'' # to_string_nat (nat (- i)) else to_string_nat (nat i))"

definition dec_value :: "string \<Rightarrow> nat" where
  "dec_value s = foldl (\<lambda>a c. 10 * a + digit_val c) 0 s"

lemma isdigit_digit_char [simp]: "d < 10 \<Longrightarrow> isdigit (digit_char d)"
  by (simp add: isdigit_def digit_char_def Let_def)

lemma digit_val_digit_char [simp]: "d < 10 \<Longrightarrow> digit_val (digit_char d) = d"
  by (simp add: digit_val_def digit_char_def)

lemma dec_value_snoc [simp]: "dec_value (s @ [c]) = 10 * dec_value s + digit_val c"
  by (simp add: dec_value_def)

lemma dec_value_to_string_nat [simp]: "dec_value (to_string_nat n) = n"
proof (induction n rule: to_string_nat.induct)
  case (1 n)
  show ?case
  proof (cases "n < 10")
    case True
    then show ?thesis
      by (simp add: to_string_nat.simps[of n] dec_value_def)
  next
    case False
    with "1.IH" show ?thesis
      by (simp add: to_string_nat.simps[of n])
  qed
qed

lemma to_string_nat_digits: "\<forall>c\<in>set (to_string_nat n). isdigit c"
proof (induction n rule: to_string_nat.induct)
  case (1 n)
  then show ?case
    by (cases "n < 10") (auto simp: to_string_nat.simps[of n])
qed

lemma to_string_nat_nonempty [simp]: "to_string_nat n \<noteq> []"
  by (subst to_string_nat.simps) simp

lemma to_string_nat_inject [simp]: "to_string_nat m = to_string_nat n \<longleftrightarrow> m = n"
  by (metis dec_value_to_string_nat)

text \<open>
  \<open>std::from_chars(first, last, value)\<close>: the longest run of digits (with a leading minus sign for a
  signed target) is consumed; an empty run is \<open>invalid_argument\<close> and a value outside the target
  type is \<open>result_out_of_range\<close>. On success the value and the unread rest are returned.
\<close>

datatype errc = invalid_argument | result_out_of_range

definition from_chars_unsigned :: "nat \<Rightarrow> string \<Rightarrow> errc + (nat \<times> string)" where
  "from_chars_unsigned max_value s =
     (let ds = takeWhile isdigit s; rest = dropWhile isdigit s in
      if ds = [] then Inl invalid_argument
      else if dec_value ds > max_value then Inl result_out_of_range
      else Inr (dec_value ds, rest))"

definition from_chars_signed :: "int \<Rightarrow> int \<Rightarrow> string \<Rightarrow> errc + (int \<times> string)" where
  "from_chars_signed min_value max_value s =
     (let neg = (s \<noteq> [] \<and> hd s = CHR ''-'');
          body = (if neg then tl s else s);
          ds = takeWhile isdigit body; rest = dropWhile isdigit body;
          v = (if neg then - int (dec_value ds) else int (dec_value ds)) in
      if ds = [] then Inl invalid_argument
      else if v < min_value \<or> v > max_value then Inl result_out_of_range
      else Inr (v, rest))"

definition INT64_MAX :: int where "INT64_MAX = 9223372036854775807"
definition INT64_MIN :: int where "INT64_MIN = -9223372036854775808"
definition INT32_MAX :: int where "INT32_MAX = 2147483647"
definition INT32_MIN :: int where "INT32_MIN = -2147483648"
definition SIZE_MAX :: nat where "SIZE_MAX = 18446744073709551615"

text \<open>Subtraction of two \<open>std::size_t\<close> values: below zero it wraps modulo \<open>2^64\<close>.\<close>

definition size_sub :: "nat \<Rightarrow> nat \<Rightarrow> nat" where
  "size_sub a b = (if b \<le> a then a - b else SIZE_MAX + 1 + a - b)"

lemma size_sub_ge [simp]: "b \<le> a \<Longrightarrow> size_sub a b = a - b"
  by (simp add: size_sub_def)

lemma INT64_MAX_pos [simp]: "0 \<le> INT64_MAX" "0 < INT64_MAX"
  by (simp_all add: INT64_MAX_def)

lemma takeWhile_digits_to_string [simp]:
  "takeWhile isdigit (to_string_nat n) = to_string_nat n"
  using to_string_nat_digits[of n] by (simp add: takeWhile_eq_all_conv)

lemma dropWhile_digits_to_string [simp]:
  "dropWhile isdigit (to_string_nat n) = []"
  using to_string_nat_digits[of n] by (simp add: dropWhile_eq_Nil_conv)

lemma hd_to_string_nat_not_minus [simp]: "hd (to_string_nat n) \<noteq> CHR ''-''"
proof
  assume a: "hd (to_string_nat n) = CHR ''-''"
  have "hd (to_string_nat n) \<in> set (to_string_nat n)" by simp
  then have "isdigit (hd (to_string_nat n))" using to_string_nat_digits by blast
  with a show False by (simp add: isdigit_def)
qed

lemma from_chars_unsigned_to_string:
  "n \<le> m \<Longrightarrow> from_chars_unsigned m (to_string_nat n) = Inr (n, [])"
  by (simp add: from_chars_unsigned_def Let_def)

lemma from_chars_signed_to_string:
  "0 \<le> i \<Longrightarrow> i \<le> m \<Longrightarrow> lo \<le> 0 \<Longrightarrow>
   from_chars_signed lo m (to_string_int i) = Inr (i, [])"
  by (simp add: from_chars_signed_def to_string_int_def Let_def)

lemma from_chars_signed_range:
  "from_chars_signed lo hi s = Inr (v, rest) \<Longrightarrow> lo \<le> v \<and> v \<le> hi"
  by (auto simp: from_chars_signed_def Let_def split: if_splits)

section \<open>Association lists and sorted lists\<close>

text \<open>
  An \<open>std::unordered_map\<close> is an association list with distinct keys in the container's iteration
  order, which the standard leaves open; every statement holds for any order.
  \<open>insert_or_assign\<close> is \<open>AList.update\<close> and \<open>find\<close> is \<open>map_of\<close>.
\<close>

lemma map_of_update [simp]: "map_of (AList.update k v al) = (map_of al)(k \<mapsto> v)"
  by (rule update_conv')

lemma sorted_wrt_filter: "sorted_wrt R xs \<Longrightarrow> sorted_wrt R (filter P xs)"
  by (induction xs) auto

lemma sorted_wrt_distinct:
  "sorted_wrt R xs \<Longrightarrow> (\<And>x. \<not> R x x) \<Longrightarrow> distinct xs"
  by (induction xs) auto

lemma sorted_wrt_set_unique:
  assumes "sorted_wrt R xs" "sorted_wrt R ys" "set xs = set ys"
    and irr: "\<And>x. \<not> R x x" and asym: "\<And>x y. R x y \<Longrightarrow> \<not> R y x"
  shows "xs = ys"
  using assms(1-3)
proof (induction xs arbitrary: ys)
  case Nil
  then show ?case by simp
next
  case (Cons x xs)
  then obtain y ys' where ys: "ys = y # ys'" by (cases ys) auto
  have "x = y"
  proof (rule ccontr)
    assume "x \<noteq> y"
    with Cons.prems ys have "R x y" "R y x" by auto
    with asym show False by blast
  qed
  moreover have "x \<notin> set xs" "y \<notin> set ys'"
    using Cons.prems ys irr by auto
  ultimately have "set xs = set ys'" using Cons.prems(3) ys by auto
  with Cons ys \<open>x = y\<close> show ?case by auto
qed

end
