(* ===== verification/Core_Error.thy ===== *)
theory Core_Error
  imports A2A_Prelude
begin

text \<open>
  \<open>a2a::core::Error\<close>, \<open>a2a::core::Result\<close> and the protocol error factories
  (\<open>include/a2a/core/error.h\<close>, \<open>src/core/error.cpp\<close>, \<open>include/a2a/core/result.h\<close>,
  \<open>include/a2a/core/protocol_errors.h\<close>, \<open>include/a2a/core/protocol_codes.h\<close>). A
  \<open>Result<T>\<close> is a sum whose left injection is the error. Copy, move and assignment of
  \<open>Error\<close> are value semantics and need no definition of their own.
\<close>

datatype ErrorCode = kValidation | kUnsupportedVersion | kNetwork | kRemoteProtocol | kSerialization | kInternal

record Error =
  error_code :: ErrorCode
  error_message :: string
  error_transport :: "string option"
  error_protocol_code :: "string option"
  error_http_status :: "int option"

type_synonym 'a Result = "Error + 'a"

definition MakeError :: "ErrorCode \<Rightarrow> string \<Rightarrow> Error" where
  "MakeError c msg = \<lparr>error_code = c, error_message = msg, error_transport = None,
     error_protocol_code = None, error_http_status = None\<rparr>"

definition Validation :: "string \<Rightarrow> Error" where
  "Validation msg = MakeError kValidation msg"

definition UnsupportedVersion :: "string \<Rightarrow> Error" where
  "UnsupportedVersion msg = MakeError kUnsupportedVersion msg"

definition Network :: "string \<Rightarrow> Error" where
  "Network msg = MakeError kNetwork msg"

definition RemoteProtocol :: "string \<Rightarrow> Error" where
  "RemoteProtocol msg = MakeError kRemoteProtocol msg"

definition Serialization :: "string \<Rightarrow> Error" where
  "Serialization msg = MakeError kSerialization msg"

definition Internal :: "string \<Rightarrow> Error" where
  "Internal msg = MakeError kInternal msg"

definition WithTransport :: "string \<Rightarrow> Error \<Rightarrow> Error" where
  "WithTransport t e = e\<lparr>error_transport := Some t\<rparr>"

definition WithProtocolCode :: "string \<Rightarrow> Error \<Rightarrow> Error" where
  "WithProtocolCode c e = e\<lparr>error_protocol_code := Some c\<rparr>"

definition WithHttpStatus :: "int \<Rightarrow> Error \<Rightarrow> Error" where
  "WithHttpStatus st e = e\<lparr>error_http_status := Some st\<rparr>"

section \<open>Protocol errors\<close>

text \<open>Each factory takes the message that the C++ default argument or the caller supplies.\<close>

definition Unauthenticated :: "string \<Rightarrow> Error" where
  "Unauthenticated msg = WithHttpStatus 401 (RemoteProtocol msg)"

definition PermissionDenied :: "string \<Rightarrow> Error" where
  "PermissionDenied msg = WithHttpStatus 403 (RemoteProtocol msg)"

definition TaskNotFound :: "string \<Rightarrow> Error" where
  "TaskNotFound msg = WithProtocolCode ''-32001'' (WithHttpStatus 404 (RemoteProtocol msg))"

definition TaskNotCancelable :: "string \<Rightarrow> Error" where
  "TaskNotCancelable msg = WithProtocolCode ''-32002'' (WithHttpStatus 409 (RemoteProtocol msg))"

definition PushNotificationNotSupported :: "string \<Rightarrow> Error" where
  "PushNotificationNotSupported msg = WithProtocolCode ''-32003'' (WithHttpStatus 400 (RemoteProtocol msg))"

definition UnsupportedOperation :: "string \<Rightarrow> Error" where
  "UnsupportedOperation msg = WithProtocolCode ''-32004'' (WithHttpStatus 400 (RemoteProtocol msg))"

definition ContentTypeNotSupported :: "string \<Rightarrow> Error" where
  "ContentTypeNotSupported msg = WithProtocolCode ''-32005'' (WithHttpStatus 415 (RemoteProtocol msg))"

definition InvalidAgentResponse :: "string \<Rightarrow> Error" where
  "InvalidAgentResponse msg = WithProtocolCode ''-32006'' (WithHttpStatus 502 (RemoteProtocol msg))"

definition ExtendedAgentCardNotConfigured :: "string \<Rightarrow> Error" where
  "ExtendedAgentCardNotConfigured msg = WithProtocolCode ''-32007'' (WithHttpStatus 400 (RemoteProtocol msg))"

definition VersionNotSupported :: "string \<Rightarrow> Error" where
  "VersionNotSupported msg = WithProtocolCode ''-32009'' (WithHttpStatus 400 (UnsupportedVersion msg))"

definition ExtensionSupportRequired :: "string \<Rightarrow> Error" where
  "ExtensionSupportRequired msg = WithProtocolCode ''-32008'' (WithHttpStatus 400 (RemoteProtocol msg))"

lemmas error_defs = MakeError_def Validation_def UnsupportedVersion_def Network_def RemoteProtocol_def
  Serialization_def Internal_def WithTransport_def WithProtocolCode_def WithHttpStatus_def
  Unauthenticated_def PermissionDenied_def TaskNotFound_def TaskNotCancelable_def
  PushNotificationNotSupported_def UnsupportedOperation_def ContentTypeNotSupported_def
  InvalidAgentResponse_def ExtendedAgentCardNotConfigured_def VersionNotSupported_def
  ExtensionSupportRequired_def

section \<open>Sequencing results\<close>

text \<open>
  \<open>result_bind\<close> is the shape \<open>if (!r.ok()) return r.error(); ... r.value() ...\<close> that every caller of a
  \<open>Result\<close> uses.
\<close>

definition result_bind :: "'a Result \<Rightarrow> ('a \<Rightarrow> 'b Result) \<Rightarrow> 'b Result" where
  "result_bind r f = (case r of Inl e \<Rightarrow> Inl e | Inr v \<Rightarrow> f v)"

lemma result_bind_simps [simp]:
  "result_bind (Inl e) f = Inl e" "result_bind (Inr v) f = f v"
  by (simp_all add: result_bind_def)

lemma result_bind_Inr: "result_bind r f = Inr w \<longleftrightarrow> (\<exists>v. r = Inr v \<and> f v = Inr w)"
  by (cases r) auto

lemma result_bind_assoc: "result_bind (result_bind r f) g = result_bind r (\<lambda>v. result_bind (f v) g)"
  by (cases r) simp_all

end
