(* ===== verification/Proto.thy ===== *)
theory Proto
  imports Core_Error
begin

text \<open>
  The protocol messages of \<open>proto/a2a/v1/a2a.proto\<close> that the server logic reads and writes, and
  \<open>include/a2a/core/task_states.h\<close>. A singular message field and an \<open>optional\<close> scalar are options
  (\<open>has_x()\<close> is \<open>\<noteq> None\<close>), the getter of an absent message field returns the default instance, a
  \<open>repeated\<close> field is a list, a \<open>oneof\<close> is a datatype with a constructor for the unset case. Proto3
  enumerations are open: a value outside the schema is kept as \<open>..._unknown\<close>. A
  \<open>google.protobuf.Struct\<close> is an association list and a number of a \<open>Value\<close> is its 64-bit pattern.
\<close>

section \<open>Well-known types\<close>

record Timestamp =
  Timestamp_seconds :: int
  Timestamp_nanos :: int

datatype Value =
    KindNotSet
  | NullValue
  | NumberValue "64 word"
  | StringValue string
  | BoolValue bool
  | StructValue "(string \<times> Value) list"
  | ListValue "Value list"

type_synonym Struct = "(string \<times> Value) list"

fun bool_value :: "Value \<Rightarrow> bool" where
  "bool_value (BoolValue b) = b"
| "bool_value _ = False"

section \<open>Messages, artifacts and tasks\<close>

datatype TaskState =
    TASK_STATE_UNSPECIFIED | TASK_STATE_SUBMITTED | TASK_STATE_WORKING | TASK_STATE_COMPLETED
  | TASK_STATE_FAILED | TASK_STATE_CANCELED | TASK_STATE_INPUT_REQUIRED | TASK_STATE_REJECTED
  | TASK_STATE_AUTH_REQUIRED | TASK_STATE_unknown int

datatype Role = ROLE_UNSPECIFIED | ROLE_USER | ROLE_AGENT | ROLE_unknown int

datatype Part_content =
  Part_content_not_set | Part_text string | Part_raw string | Part_url string | Part_data Value

record Part =
  Part_content :: Part_content
  Part_metadata :: "Struct option"
  Part_filename :: string
  Part_media_type :: string

record Message =
  Message_message_id :: string
  Message_context_id :: string
  Message_task_id :: string
  Message_role :: Role
  Message_parts :: "Part list"
  Message_metadata :: "Struct option"
  Message_extensions :: "string list"
  Message_reference_task_ids :: "string list"

record Artifact =
  Artifact_artifact_id :: string
  Artifact_name :: string
  Artifact_description :: string
  Artifact_parts :: "Part list"
  Artifact_metadata :: "Struct option"
  Artifact_extensions :: "string list"

record TaskStatus =
  TaskStatus_state :: TaskState
  TaskStatus_message :: "Message option"
  TaskStatus_timestamp :: "Timestamp option"

record Task =
  Task_id :: string
  Task_context_id :: string
  Task_status :: "TaskStatus option"
  Task_artifacts :: "Artifact list"
  Task_history :: "Message list"
  Task_metadata :: "Struct option"
  Task_unknown_fields :: string

definition default_Message :: Message where
  "default_Message = \<lparr>Message_message_id = [], Message_context_id = [], Message_task_id = [],
     Message_role = ROLE_UNSPECIFIED, Message_parts = [], Message_metadata = None,
     Message_extensions = [], Message_reference_task_ids = []\<rparr>"

definition default_TaskStatus :: TaskStatus where
  "default_TaskStatus = \<lparr>TaskStatus_state = TASK_STATE_UNSPECIFIED, TaskStatus_message = None,
     TaskStatus_timestamp = None\<rparr>"

definition default_Task :: Task where
  "default_Task = \<lparr>Task_id = [], Task_context_id = [], Task_status = None, Task_artifacts = [],
     Task_history = [], Task_metadata = None, Task_unknown_fields = []\<rparr>"

text \<open>\<open>task.status()\<close>, \<open>task.metadata().fields()\<close> and \<open>mutable_status()\<close>.\<close>

definition status :: "Task \<Rightarrow> TaskStatus" where
  "status t = (case Task_status t of None \<Rightarrow> default_TaskStatus | Some s \<Rightarrow> s)"

definition task_state :: "Task \<Rightarrow> TaskState" where
  "task_state t = TaskStatus_state (status t)"

definition metadata_fields :: "Task \<Rightarrow> Struct" where
  "metadata_fields t = (case Task_metadata t of None \<Rightarrow> [] | Some m \<Rightarrow> m)"

definition update_status :: "(TaskStatus \<Rightarrow> TaskStatus) \<Rightarrow> Task \<Rightarrow> Task" where
  "update_status f t = t\<lparr>Task_status := Some (f (status t))\<rparr>"

definition set_state :: "TaskState \<Rightarrow> Task \<Rightarrow> Task" where
  "set_state st t = update_status (\<lambda>s. s\<lparr>TaskStatus_state := st\<rparr>) t"

fun IsTerminalTaskState :: "TaskState \<Rightarrow> bool" where
  "IsTerminalTaskState TASK_STATE_COMPLETED = True"
| "IsTerminalTaskState TASK_STATE_FAILED = True"
| "IsTerminalTaskState TASK_STATE_CANCELED = True"
| "IsTerminalTaskState TASK_STATE_REJECTED = True"
| "IsTerminalTaskState TASK_STATE_UNSPECIFIED = False"
| "IsTerminalTaskState TASK_STATE_SUBMITTED = False"
| "IsTerminalTaskState TASK_STATE_WORKING = False"
| "IsTerminalTaskState TASK_STATE_INPUT_REQUIRED = False"
| "IsTerminalTaskState TASK_STATE_AUTH_REQUIRED = False"
| "IsTerminalTaskState (TASK_STATE_unknown _) = False"

section \<open>Requests, responses and stream events\<close>

record TaskStatusUpdateEvent =
  TSU_task_id :: string
  TSU_context_id :: string
  TSU_status :: "TaskStatus option"
  TSU_metadata :: "Struct option"

record TaskArtifactUpdateEvent =
  TAU_task_id :: string
  TAU_context_id :: string
  TAU_artifact :: "Artifact option"
  TAU_append :: bool
  TAU_last_chunk :: bool
  TAU_metadata :: "Struct option"

datatype StreamResponse =
    StreamResponse_not_set
  | StreamResponse_task Task
  | StreamResponse_message Message
  | StreamResponse_status_update TaskStatusUpdateEvent
  | StreamResponse_artifact_update TaskArtifactUpdateEvent

datatype SendMessageResponse =
  SendMessageResponse_not_set | SendMessageResponse_task Task | SendMessageResponse_message Message

record AuthenticationInfo =
  Auth_scheme :: string
  Auth_credentials :: string

record TaskPushNotificationConfig =
  Push_tenant :: string
  Push_id :: string
  Push_task_id :: string
  Push_url :: string
  Push_token :: string
  Push_authentication :: "AuthenticationInfo option"

record SendMessageConfiguration =
  SMC_accepted_output_modes :: "string list"
  SMC_task_push_notification_config :: "TaskPushNotificationConfig option"
  SMC_history_length :: "int option"
  SMC_return_immediately :: bool

record SendMessageRequest =
  SMR_tenant :: string
  SMR_message :: "Message option"
  SMR_configuration :: "SendMessageConfiguration option"
  SMR_metadata :: "Struct option"

record GetTaskRequest =
  GTR_tenant :: string
  GTR_id :: string
  GTR_history_length :: "int option"

record CancelTaskRequest =
  CTR_tenant :: string
  CTR_id :: string
  CTR_metadata :: "Struct option"

record GetTaskPushNotificationConfigRequest =
  GPR_tenant :: string
  GPR_task_id :: string
  GPR_id :: string

record DeleteTaskPushNotificationConfigRequest =
  DPR_tenant :: string
  DPR_task_id :: string
  DPR_id :: string

record ListTaskPushNotificationConfigsRequest =
  LPR_tenant :: string
  LPR_task_id :: string
  LPR_page_size :: int
  LPR_page_token :: string

record ListTaskPushNotificationConfigsResponse =
  LPResp_configs :: "TaskPushNotificationConfig list"
  LPResp_next_page_token :: string

record GetExtendedAgentCardRequest =
  GEC_tenant :: string

text \<open>\<open>request.message()\<close> of an absent message is the default instance.\<close>

definition request_message :: "SendMessageRequest \<Rightarrow> Message" where
  "request_message r = (case SMR_message r of None \<Rightarrow> default_Message | Some m \<Rightarrow> m)"

section \<open>Facts\<close>

lemma status_update_status [simp]: "status (update_status f t) = f (status t)"
  by (simp add: update_status_def status_def)

lemma task_state_set_state [simp]: "task_state (set_state st t) = st"
  by (simp add: set_state_def task_state_def)

lemma update_status_frame [simp]:
  "Task_id (update_status f t) = Task_id t"
  "Task_context_id (update_status f t) = Task_context_id t"
  "Task_history (update_status f t) = Task_history t"
  "Task_artifacts (update_status f t) = Task_artifacts t"
  "Task_metadata (update_status f t) = Task_metadata t"
  by (simp_all add: update_status_def)

lemma set_state_frame [simp]:
  "Task_id (set_state st t) = Task_id t"
  "Task_context_id (set_state st t) = Task_context_id t"
  "Task_history (set_state st t) = Task_history t"
  "Task_artifacts (set_state st t) = Task_artifacts t"
  "Task_metadata (set_state st t) = Task_metadata t"
  by (simp_all add: set_state_def)

lemma status_more [simp]:
  "status (t\<lparr>Task_history := h\<rparr>) = status t"
  "status (t\<lparr>Task_metadata := m\<rparr>) = status t"
  "status (t\<lparr>Task_context_id := c\<rparr>) = status t"
  "status (t\<lparr>Task_artifacts := a\<rparr>) = status t"
  by (simp_all add: status_def)

end
