(* ===== verification/Core_Text.thy ===== *)
theory Core_Text
  imports Core_Error
begin

text \<open>
  The text utilities of the core library: \<open>src/core/string_utils.cpp\<close>, \<open>src/core/http_utils.cpp\<close>,
  \<open>src/core/version.cpp\<close>, \<open>src/core/extensions.cpp\<close> and \<open>include/a2a/core/url_utils.h\<close>, with the
  round trip of the extension header, the language of supported versions and the shape of an
  extracted target path.
\<close>

section \<open>String utilities\<close>

definition ToLowerAscii :: "string \<Rightarrow> string" where
  "ToLowerAscii value = map tolower value"

text \<open>The two index loops of \<open>TrimAsciiWhitespace\<close>, then the final \<open>substr\<close>.\<close>

function trim_start_loop :: "string \<Rightarrow> nat \<Rightarrow> nat" where
  "trim_start_loop value start =
     (if start < length value \<and> isspace (value ! start) then trim_start_loop value (Suc start) else start)"
  by pat_completeness auto
termination
  by (relation "measure (\<lambda>(value, start). length value - start)") auto

fun trim_end_loop :: "string \<Rightarrow> nat \<Rightarrow> nat \<Rightarrow> nat" where
  "trim_end_loop value start 0 = 0"
| "trim_end_loop value start (Suc n) =
     (if start < Suc n \<and> isspace (value ! n) then trim_end_loop value start n else Suc n)"

declare trim_start_loop.simps [simp del]

definition TrimAsciiWhitespace :: "string \<Rightarrow> string" where
  "TrimAsciiWhitespace value =
     (let start = trim_start_loop value 0;
          end = trim_end_loop value start (length value)
      in substr start (end - start) value)"

definition EqualsAsciiCaseInsensitive :: "string \<Rightarrow> string \<Rightarrow> bool" where
  "EqualsAsciiCaseInsensitive lhs rhs =
     (if length lhs \<noteq> length rhs then False
      else list_all (\<lambda>i. tolower (lhs ! i) = tolower (rhs ! i)) [0..<length lhs])"

section \<open>HTTP utilities\<close>

type_synonym headers = "(string \<times> string) list"

primrec FindHeaderValue :: "headers \<Rightarrow> string \<Rightarrow> string option" where
  "FindHeaderValue [] name = None"
| "FindHeaderValue (h # hs) name =
     (if EqualsAsciiCaseInsensitive (fst h) name then Some (snd h) else FindHeaderValue hs name)"

definition IsMediaType :: "string \<Rightarrow> string \<Rightarrow> bool" where
  "IsMediaType content_type expected =
     (let media_type = TrimAsciiWhitespace
            (case index_of (\<lambda>c. c = CHR '';'') content_type of None \<Rightarrow> content_type | Some n \<Rightarrow> take n content_type)
      in EqualsAsciiCaseInsensitive media_type expected)"

definition IsJsonContentType :: "string \<Rightarrow> bool" where
  "IsJsonContentType ct = IsMediaType ct ''application/json''"

definition IsSseContentType :: "string \<Rightarrow> bool" where
  "IsSseContentType ct = IsMediaType ct ''text/event-stream''"

section \<open>Protocol version\<close>

definition kProtocolVersion :: string where "kProtocolVersion = ''1.0''"
definition kEmptyVersionFallback :: string where "kEmptyVersionFallback = ''0.3''"
definition kVersionHeaderName :: string where "kVersionHeaderName = ''A2A-Version''"

definition IsNumericComponent :: "string \<Rightarrow> bool" where
  "IsNumericComponent c =
     (c \<noteq> [] \<and> (length c = 1 \<or> hd c \<noteq> CHR ''0'') \<and> list_all isdigit c)"

definition MajorMinor :: "string \<Rightarrow> string option" where
  "MajorMinor version =
     (if version = [] then Some kEmptyVersionFallback
      else case index_of (\<lambda>c. c = CHR ''.'') version of
        None \<Rightarrow> None
      | Some minor_start \<Rightarrow>
          if \<not> IsNumericComponent (take minor_start version) then None
          else let patch_start = find_from (\<lambda>c. c = CHR ''.'') (minor_start + 1) version;
                   major_minor = (case patch_start of None \<Rightarrow> version | Some p \<Rightarrow> take p version)
               in if \<not> IsNumericComponent (drop (minor_start + 1) major_minor) then None
                  else (case patch_start of
                          Some p \<Rightarrow> if \<not> IsNumericComponent (drop (p + 1) version) then None
                                    else Some major_minor
                        | None \<Rightarrow> Some major_minor))"

definition IsSupported :: "string \<Rightarrow> bool" where
  "IsSupported version \<longleftrightarrow> MajorMinor version = Some kProtocolVersion"

definition HeaderValue :: string where
  "HeaderValue = kProtocolVersion"

section \<open>Extensions\<close>

definition kExtensionsHeaderName :: string where "kExtensionsHeaderName = ''A2A-Extensions''"

definition IsValidToken :: "string \<Rightarrow> bool" where
  "IsValidToken token = (if token = [] then False else list_all (\<lambda>c. isgraph c \<and> c \<noteq> CHR '','') token)"

definition Normalize :: "string list \<Rightarrow> string list" where
  "Normalize extensions = remdups_adj (sort extensions)"

definition Extensions_Format :: "string list \<Rightarrow> string" where
  "Extensions_Format extensions =
     (let normalized = Normalize (filter (\<lambda>e. e \<noteq> []) extensions)
      in foldl (\<lambda>result i. (if 0 < i then result @ '','' else result) @ normalized ! i) []
           [0..<length normalized])"

function Extensions_Parse_loop :: "string \<Rightarrow> nat \<Rightarrow> string list \<Rightarrow> string list Result" where
  "Extensions_Parse_loop header_value start parsed =
     (if start \<le> length header_value then
        (let delimiter = find_from (\<lambda>c. c = CHR '','') start header_value;
             end = (case delimiter of None \<Rightarrow> length header_value | Some d \<Rightarrow> d);
             token = TrimAsciiWhitespace (substr start (end - start) header_value)
         in if token \<noteq> [] \<and> \<not> IsValidToken token
            then Inl (Validation (''A2A-Extensions header contains invalid token: '' @ token))
            else let parsed' = (if token \<noteq> [] then parsed @ [token] else parsed)
                 in case delimiter of
                      None \<Rightarrow> Inr parsed'
                    | Some d \<Rightarrow> Extensions_Parse_loop header_value (d + 1) parsed')
      else Inr parsed)"
  by pat_completeness auto
termination
  by (relation "measure (\<lambda>(hv, start, parsed). Suc (length hv) - start)")
    (auto dest!: find_from_Some_le[OF sym])

declare Extensions_Parse_loop.simps [simp del]

definition Extensions_Parse :: "string \<Rightarrow> string list Result" where
  "Extensions_Parse header_value =
     result_bind (Extensions_Parse_loop header_value 0 []) (\<lambda>parsed. Inr (Normalize parsed))"

section \<open>URL targets\<close>

datatype UrlSuffixPolicy = kPathOnly | kPathAndQuery | kPathQueryAndFragment

definition is_authority_suffix :: "char \<Rightarrow> bool" where
  "is_authority_suffix c \<longleftrightarrow> c = CHR ''/'' \<or> c = CHR ''?'' \<or> c = CHR ''#''"

definition url_suffix :: "string \<Rightarrow> string" where
  "url_suffix url =
     (let scheme_pos = find_sub ''://'' url;
          path_start =
            (case scheme_pos of
               Some sp \<Rightarrow> (case find_from is_authority_suffix (sp + 3) url of None \<Rightarrow> length url | Some s \<Rightarrow> s)
             | None \<Rightarrow> if prefix ''//'' url
                       then (case find_from is_authority_suffix 2 url of None \<Rightarrow> length url | Some s \<Rightarrow> s)
                       else 0);
          suffix = (if path_start \<ge> length url then [] else drop path_start url)
      in if scheme_pos = None \<and> \<not> prefix ''//'' url \<and> url \<noteq> [] \<and>
            hd url \<noteq> CHR ''/'' \<and> hd url \<noteq> CHR ''?'' \<and> hd url \<noteq> CHR ''#''
         then url else suffix)"

definition absolute_target :: "string \<Rightarrow> string" where
  "absolute_target path = (if path = [] then ''/'' else if hd path = CHR ''/'' then path else CHR ''/'' # path)"

definition ExtractTargetPath :: "string \<Rightarrow> UrlSuffixPolicy \<Rightarrow> string" where
  "ExtractTargetPath url suffix_policy =
     (let suffix = url_suffix url;
          query_pos = index_of (\<lambda>c. c = CHR ''?'') suffix;
          fragment_pos = index_of (\<lambda>c. c = CHR ''#'') suffix;
          path = (case query_pos of
                    None \<Rightarrow> (case fragment_pos of None \<Rightarrow> suffix | Some f \<Rightarrow> take f suffix)
                  | Some q \<Rightarrow> (case fragment_pos of None \<Rightarrow> take q suffix | Some f \<Rightarrow> take (min q f) suffix));
          target = absolute_target path
      in if suffix_policy = kPathOnly then target
         else let target = (case query_pos of
                     None \<Rightarrow> target
                   | Some q \<Rightarrow> let query_end = (case fragment_pos of None \<Rightarrow> length suffix | Some f \<Rightarrow> f)
                               in target @ substr q (size_sub query_end q) suffix)
              in if suffix_policy = kPathQueryAndFragment
                 then (case fragment_pos of None \<Rightarrow> target | Some f \<Rightarrow> target @ drop f suffix)
                 else target)"

section \<open>Facts about the text utilities\<close>

lemmas [text_defs] = ToLowerAscii_def TrimAsciiWhitespace_def EqualsAsciiCaseInsensitive_def
  IsMediaType_def IsNumericComponent_def IsValidToken_def substr_def

text \<open>The index loops compute the usual two-sided trim.\<close>

definition trim :: "string \<Rightarrow> string" where
  "trim s = rev (dropWhile isspace (rev (dropWhile isspace s)))"

lemma trim_start_loop_drop:
  "start \<le> length v \<Longrightarrow>
   drop (trim_start_loop v start) v = dropWhile isspace (drop start v) \<and>
   trim_start_loop v start \<le> length v"
proof (induction v start rule: trim_start_loop.induct)
  case (1 v start)
  show ?case
  proof (cases "start < length v \<and> isspace (v ! start)")
    case True
    then have "drop start v = v ! start # drop (Suc start) v"
      by (simp add: Cons_nth_drop_Suc)
    with True "1.IH" show ?thesis
      by (simp add: trim_start_loop.simps[of v start])
  next
    case False
    then have stop: "trim_start_loop v start = start"
      using trim_start_loop.simps[of v start] by (simp only: if_False)
    have "dropWhile isspace (drop start v) = drop start v"
    proof (cases "start < length v")
      case True
      with False have "\<not> isspace (v ! start)" by simp
      with True show ?thesis by (simp flip: Cons_nth_drop_Suc)
    qed simp
    with stop "1.prems" show ?thesis by simp
  qed
qed

lemma trim_end_loop_take:
  "start \<le> n \<Longrightarrow> n \<le> length v \<Longrightarrow>
   substr start (trim_end_loop v start n - start) v = rev (dropWhile isspace (rev (substr start (n - start) v)))"
proof (induction v start n rule: trim_end_loop.induct)
  case (1 v start)
  then show ?case by (simp add: substr_def)
next
  case (2 v start n)
  show ?case
  proof (cases "start < Suc n")
    case True
    then have le: "start \<le> n" by simp
    have "Suc n - start = Suc (n - start)" using le by simp
    then have split: "substr start (Suc n - start) v = substr start (n - start) v @ [v ! n]"
      using le "2.prems"(2) by (simp add: substr_def take_Suc_conv_app_nth)
    show ?thesis
    proof (cases "isspace (v ! n)")
      case True
      with \<open>start < Suc n\<close> "2.IH" le "2.prems"(2) split show ?thesis by simp
    next
      case False
      with split show ?thesis by simp
    qed
  next
    case False
    with "2.prems" have "start = Suc n" by simp
    then show ?thesis by (simp add: substr_def)
  qed
qed

lemma TrimAsciiWhitespace_trim: "TrimAsciiWhitespace v = trim v"
proof -
  let ?s = "trim_start_loop v 0"
  have s: "drop ?s v = dropWhile isspace v" "?s \<le> length v"
    using trim_start_loop_drop[of 0 v] by simp_all
  have "substr ?s (length v - ?s) v = drop ?s v" by (simp add: substr_def)
  with trim_end_loop_take[of ?s "length v" v] s show ?thesis
    by (simp add: TrimAsciiWhitespace_def trim_def Let_def)
qed

lemma trim_clean: "list_all (\<lambda>c. \<not> isspace c) s \<Longrightarrow> trim s = s"
proof -
  assume a: "list_all (\<lambda>c. \<not> isspace c) s"
  have "dropWhile isspace s = s"
    using a by (cases s) auto
  moreover have "dropWhile isspace (rev s) = rev s"
  proof (cases s rule: rev_cases)
    case (snoc ys y)
    with a show ?thesis by simp
  qed simp
  ultimately show ?thesis by (simp add: trim_def)
qed

lemma EqualsAsciiCaseInsensitive_iff:
  "EqualsAsciiCaseInsensitive a b \<longleftrightarrow> ToLowerAscii a = ToLowerAscii b"
proof -
  have "ToLowerAscii a = ToLowerAscii b \<longleftrightarrow>
      length a = length b \<and> (\<forall>i<length a. tolower (a ! i) = tolower (b ! i))"
    unfolding ToLowerAscii_def list_eq_iff_nth_eq[of "map tolower a"] by auto
  then show ?thesis
    by (auto simp: EqualsAsciiCaseInsensitive_def list_all_iff)
qed

lemma FindHeaderValue_Some:
  "FindHeaderValue hs name = Some v \<Longrightarrow>
   \<exists>h. (h, v) \<in> set hs \<and> ToLowerAscii h = ToLowerAscii name"
  by (induction hs) (auto simp: EqualsAsciiCaseInsensitive_iff split: if_splits)

lemma FindHeaderValue_None:
  "FindHeaderValue hs name = None \<longleftrightarrow> (\<forall>(h, v) \<in> set hs. ToLowerAscii h \<noteq> ToLowerAscii name)"
  by (induction hs) (auto simp: EqualsAsciiCaseInsensitive_iff)

section \<open>Supported versions\<close>

lemma MajorMinor_patch_free: "MajorMinor ''1.0'' = Some ''1.0''"
  by (simp add: MajorMinor_def IsNumericComponent_def isdigit_def find_from_def)

lemma MajorMinor_patch:
  "IsNumericComponent p \<Longrightarrow> MajorMinor (''1.0.'' @ p) = Some ''1.0''"
  by (simp add: MajorMinor_def find_from_def) (simp add: IsNumericComponent_def isdigit_def)

lemma MajorMinor_Some_shape:
  assumes "MajorMinor v = Some m" "v \<noteq> []"
  shows "v = m \<or> (\<exists>p. IsNumericComponent p \<and> v = m @ ''.'' @ p)"
proof -
  from assms obtain ms where ms: "index_of (\<lambda>c. c = CHR ''.'') v = Some ms"
    by (auto simp: MajorMinor_def split: option.splits)
  show ?thesis
  proof (cases "find_from (\<lambda>c. c = CHR ''.'') (ms + 1) v")
    case None
    with assms ms show ?thesis
      by (auto simp: MajorMinor_def split: if_splits)
  next
    case (Some p)
    with assms ms have m: "m = take p v" and num: "IsNumericComponent (drop (p + 1) v)"
      by (auto simp: MajorMinor_def Let_def split: if_splits)
    from Some have "p < length v" "v ! p = CHR ''.''"
      by (auto simp: find_from_def index_of_Some)
    then have "v = take p v @ CHR ''.'' # drop (Suc p) v"
      by (metis id_take_nth_drop)
    with m num show ?thesis by auto
  qed
qed

text \<open>A version header value is supported exactly when it is \<open>1.0\<close> or \<open>1.0.\<close> followed by a decimal
  patch number without leading zeros.\<close>

lemma IsSupported_iff:
  "IsSupported v \<longleftrightarrow> v = ''1.0'' \<or> (\<exists>p. IsNumericComponent p \<and> v = ''1.0.'' @ p)"
proof
  assume sup: "IsSupported v"
  then have "v \<noteq> []"
    by (auto simp: IsSupported_def MajorMinor_def kEmptyVersionFallback_def kProtocolVersion_def)
  with sup show "v = ''1.0'' \<or> (\<exists>p. IsNumericComponent p \<and> v = ''1.0.'' @ p)"
    using MajorMinor_Some_shape[of v kProtocolVersion]
    by (auto simp: IsSupported_def kProtocolVersion_def)
next
  assume "v = ''1.0'' \<or> (\<exists>p. IsNumericComponent p \<and> v = ''1.0.'' @ p)"
  then show "IsSupported v"
    using MajorMinor_patch by (auto simp: IsSupported_def kProtocolVersion_def MajorMinor_patch_free)
qed

section \<open>The extension header round trip\<close>

text \<open>The parse loop collects the trimmed non-empty pieces between commas, in order.\<close>

fun collect_tokens :: "string list \<Rightarrow> string list \<Rightarrow> string list Result" where
  "collect_tokens parsed [] = Inr parsed"
| "collect_tokens parsed (piece # pieces) =
     (let token = trim piece in
      if token \<noteq> [] \<and> \<not> IsValidToken token
      then Inl (Validation (''A2A-Extensions header contains invalid token: '' @ token))
      else collect_tokens (if token \<noteq> [] then parsed @ [token] else parsed) pieces)"

lemma Extensions_Parse_loop_step:
  assumes "index_of (\<lambda>c. c = CHR '','') (drop start hv) = Some n" "start \<le> length hv"
  shows "Extensions_Parse_loop hv start parsed =
    (let token = trim (take n (drop start hv)) in
     if token \<noteq> [] \<and> \<not> IsValidToken token
     then Inl (Validation (''A2A-Extensions header contains invalid token: '' @ token))
     else Extensions_Parse_loop hv (start + n + 1) (if token \<noteq> [] then parsed @ [token] else parsed))"
  using assms
  by (simp add: Extensions_Parse_loop.simps[of hv start parsed] find_from_def substr_def
      TrimAsciiWhitespace_trim Let_def)

lemma Extensions_Parse_loop_split:
  "start \<le> length hv \<Longrightarrow>
   Extensions_Parse_loop hv start parsed = collect_tokens parsed (split_on (CHR '','') (drop start hv))"
proof (induction "length hv - start" arbitrary: start parsed rule: less_induct)
  case less
  show ?case
  proof (cases "index_of (\<lambda>c. c = CHR '','') (drop start hv)")
    case None
    then show ?thesis using less.prems
      by (simp add: Extensions_Parse_loop.simps[of hv start parsed] find_from_def substr_def
          TrimAsciiWhitespace_trim split_on_index_None Let_def)
  next
    case (Some n)
    then have n: "start + n < length hv" using index_of_less[OF Some] by simp
    then have "Extensions_Parse_loop hv (start + n + 1) p =
        collect_tokens p (split_on (CHR '','') (drop (Suc n) (drop start hv)))" for p
      using less.hyps[of "start + n + 1" p] by (simp add: add.commute)
    then show ?thesis
      by (simp add: Extensions_Parse_loop_step[OF Some less.prems] split_on_index_Some[OF Some] Let_def)
  qed
qed

lemma Extensions_Parse_split:
  "Extensions_Parse hv =
     result_bind (collect_tokens [] (split_on (CHR '','') hv)) (\<lambda>parsed. Inr (Normalize parsed))"
  by (simp add: Extensions_Parse_def Extensions_Parse_loop_split)

lemma collect_tokens_valid:
  "\<forall>t\<in>set toks. IsValidToken t \<Longrightarrow> collect_tokens parsed toks = Inr (parsed @ toks)"
proof (induction toks arbitrary: parsed)
  case (Cons t toks)
  then have "trim t = t"
    by (intro trim_clean) (auto simp: IsValidToken_def list_all_iff isgraph_not_isspace split: if_splits)
  moreover from Cons.prems have "t \<noteq> []" by (auto simp: IsValidToken_def)
  ultimately show ?case using Cons by (simp add: Let_def)
qed simp

lemma collect_tokens_Inr:
  "collect_tokens parsed pieces = Inr toks \<Longrightarrow> \<forall>t\<in>set parsed. IsValidToken t \<Longrightarrow>
   \<forall>t\<in>set toks. IsValidToken t"
proof (induction pieces arbitrary: parsed)
  case (Cons p pieces)
  let ?parsed = "if trim p \<noteq> [] then parsed @ [trim p] else parsed"
  from Cons.prems(1) have ok: "trim p = [] \<or> IsValidToken (trim p)"
    and rest: "collect_tokens ?parsed pieces = Inr toks"
    by (auto simp: Let_def split: if_splits)
  from ok Cons.prems(2) have "\<forall>t\<in>set ?parsed. IsValidToken t" by auto
  with rest show ?case by (rule Cons.IH)
qed simp

lemma join_with_snoc:
  "join_with c (ys @ [y]) = (if ys = [] then y else join_with c ys @ c # y)"
  by (induction c ys rule: join_with.induct) auto

lemma join_loop_take:
  "n \<le> length xs \<Longrightarrow>
   foldl (\<lambda>result i. (if 0 < i then result @ [c] else result) @ xs ! i) [] [0..<n] = join_with c (take n xs)"
  by (induction n) (auto simp: take_Suc_conv_app_nth join_with_snoc)

lemma Extensions_Format_join:
  "Extensions_Format xs = join_with (CHR '','') (Normalize (filter (\<lambda>e. e \<noteq> []) xs))"
  by (simp add: Extensions_Format_def join_loop_take)

lemma set_Normalize [simp]: "set (Normalize xs) = set xs"
  by (simp add: Normalize_def)

lemma sorted_Normalize: "sorted (Normalize xs)" "distinct (Normalize xs)"
proof -
  show "sorted (Normalize xs)" by (simp add: Normalize_def sorted_remdups_adj)
  have "sorted zs \<Longrightarrow> distinct (remdups_adj zs)" for zs :: "string list"
    by (induction zs rule: remdups_adj.induct) auto
  then show "distinct (Normalize xs)" by (simp add: Normalize_def)
qed



text \<open>Whatever the parser accepts is a sorted duplicate-free list of valid tokens.\<close>

lemma Extensions_Parse_sound:
  assumes "Extensions_Parse hv = Inr exts"
  shows "sorted exts \<and> distinct exts \<and> (\<forall>e\<in>set exts. IsValidToken e)"
proof -
  from assms obtain toks where
    t: "collect_tokens [] (split_on (CHR '','') hv) = Inr toks" and e: "exts = Normalize toks"
    by (auto simp: Extensions_Parse_split result_bind_Inr)
  from collect_tokens_Inr[OF t] have "\<forall>e\<in>set toks. IsValidToken e" by simp
  with e sorted_Normalize[of toks] show ?thesis by auto
qed

section \<open>Target paths\<close>

lemma absolute_target_Cons:
  "absolute_target p = CHR ''/'' # (if p \<noteq> [] \<and> hd p = CHR ''/'' then tl p else p)"
  by (cases p) (auto simp: absolute_target_def)

lemma ExtractTargetPath_absolute: "\<exists>rest. ExtractTargetPath url policy = CHR ''/'' # rest"
  by (simp add: ExtractTargetPath_def absolute_target_Cons Let_def split: option.splits)

end
