(* ===== verification/List_Tasks.thy ===== *)
theory List_Tasks
  imports Proto Core_Text "HOL-Library.Multiset"
begin

text \<open>
  Listing tasks: \<open>include/a2a/server/tasks/list_tasks.h\<close>, \<open>src/server/tasks/list_tasks.cpp\<close> and
  \<open>src/server/tasks/task_ordering.cpp\<close>. The
  request and response structures, the filters, the list order of the cursors, the page token codec
  and the projection of a task for a list. \<open>core::MessageToJson\<close> rests on the protobuf runtime and
  is a parameter of \<open>SerializeListTasksResponse\<close>.
\<close>

section \<open>Requests, cursors and responses\<close>

definition kDefaultListTasksPageSize :: nat where "kDefaultListTasksPageSize = 50"
definition kMaxListTasksPageSize :: nat where "kMaxListTasksPageSize = 100"

record ListTasksRequest =
  LTR_page_size :: nat
  LTR_page_token :: string
  LTR_context_id :: string
  LTR_status_filter :: "TaskState option"
  LTR_status_timestamp_after :: "Timestamp option"
  LTR_history_length :: "nat option"
  LTR_include_artifacts :: bool
  LTR_include_total_size :: bool

definition default_ListTasksRequest :: ListTasksRequest where
  "default_ListTasksRequest = \<lparr>LTR_page_size = 0, LTR_page_token = [], LTR_context_id = [],
     LTR_status_filter = None, LTR_status_timestamp_after = None, LTR_history_length = None,
     LTR_include_artifacts = False, LTR_include_total_size = True\<rparr>"

datatype ListTaskCursor = ListTaskCursor (cursor_updated_at: int) (cursor_task_id: string)

record ListTasksResponse =
  LTResp_tasks :: "Task list"
  LTResp_page_size :: nat
  LTResp_total_size :: nat
  LTResp_next_page_token :: string
  LTResp_task_cursors :: "ListTaskCursor list"

definition empty_ListTasksResponse :: ListTasksResponse where
  "empty_ListTasksResponse = \<lparr>LTResp_tasks = [], LTResp_page_size = 0, LTResp_total_size = 0,
     LTResp_next_page_token = [], LTResp_task_cursors = []\<rparr>"

section \<open>Page size and filters\<close>

definition NormalizeListTasksPageSize :: "int option \<Rightarrow> nat Result" where
  "NormalizeListTasksPageSize page_size =
     (case page_size of
        None \<Rightarrow> Inr kDefaultListTasksPageSize
      | Some p \<Rightarrow> if p < 1 \<or> p > int kMaxListTasksPageSize
                  then Inl (Validation ''ListTasksRequest.page_size must be between 1 and 100'')
                  else Inr (nat p))"

definition HasStatusAfterCutoff :: "Task \<Rightarrow> Timestamp \<Rightarrow> bool" where
  "HasStatusAfterCutoff task cutoff =
     (case TaskStatus_timestamp (status task) of
        None \<Rightarrow> False
      | Some ts \<Rightarrow> Timestamp_seconds ts > Timestamp_seconds cutoff \<or>
          (Timestamp_seconds ts = Timestamp_seconds cutoff \<and> Timestamp_nanos ts \<ge> Timestamp_nanos cutoff))"

definition MatchesListFilters :: "Task \<Rightarrow> ListTasksRequest \<Rightarrow> bool" where
  "MatchesListFilters task request =
     (if LTR_context_id request \<noteq> [] \<and> Task_context_id task \<noteq> LTR_context_id request then False
      else if (case LTR_status_filter request of None \<Rightarrow> False | Some st \<Rightarrow> task_state task \<noteq> st) then False
      else if (case LTR_status_timestamp_after request of None \<Rightarrow> False
               | Some cutoff \<Rightarrow> \<not> HasStatusAfterCutoff task cutoff) then False
      else True)"

section \<open>The list order\<close>

definition ListCursorPrecedes :: "ListTaskCursor \<Rightarrow> ListTaskCursor \<Rightarrow> bool" where
  "ListCursorPrecedes lhs rhs =
     (if cursor_updated_at lhs \<noteq> cursor_updated_at rhs then cursor_updated_at lhs > cursor_updated_at rhs
      else cursor_task_id lhs > cursor_task_id rhs)"

text \<open>
  \<open>ListCursorPrecedes\<close> orders cursors by descending update time, then by descending id. It is a
  strict linear order, so cursors form a \<open>linorder\<close> in which the \<open>std::set\<close> of the store is a
  strictly sorted list.
\<close>

instantiation ListTaskCursor :: linorder
begin

definition less_ListTaskCursor :: "ListTaskCursor \<Rightarrow> ListTaskCursor \<Rightarrow> bool" where
  "less_ListTaskCursor a b \<longleftrightarrow> ListCursorPrecedes a b"

definition less_eq_ListTaskCursor :: "ListTaskCursor \<Rightarrow> ListTaskCursor \<Rightarrow> bool" where
  "less_eq_ListTaskCursor a b \<longleftrightarrow> a = b \<or> ListCursorPrecedes a b"

instance
proof
  fix x y z :: ListTaskCursor
  show "x < y \<longleftrightarrow> x \<le> y \<and> \<not> y \<le> x"
    by (auto simp: less_ListTaskCursor_def less_eq_ListTaskCursor_def ListCursorPrecedes_def)
  show "x \<le> x" by (simp add: less_eq_ListTaskCursor_def)
  show "x \<le> y \<Longrightarrow> y \<le> z \<Longrightarrow> x \<le> z"
    by (auto simp: less_eq_ListTaskCursor_def ListCursorPrecedes_def split: if_splits)
  show "x \<le> y \<Longrightarrow> y \<le> x \<Longrightarrow> x = y"
    by (auto simp: less_eq_ListTaskCursor_def ListCursorPrecedes_def split: if_splits)
  show "x \<le> y \<or> y \<le> x"
    by (cases x, cases y) (auto simp: less_eq_ListTaskCursor_def ListCursorPrecedes_def)
qed

end

section \<open>Page tokens\<close>

definition kCursorPrefix :: string where "kCursorPrefix = ''a2a1_''"
definition kHexDigits :: string where "kHexDigits = ''0123456789abcdef''"
definition kInvalidCursor :: string where
  "kInvalidCursor = ''ListTasksRequest.page_token is not a valid v1 cursor; restart pagination''"

definition hex_byte :: "char \<Rightarrow> string" where
  "hex_byte character =
     (let byte = of_char character :: nat
      in [kHexDigits ! (drop_bit 4 byte), kHexDigits ! (byte AND 15)])"

definition EncodeListPageToken :: "ListTaskCursor \<Rightarrow> string" where
  "EncodeListPageToken cursor =
     (let payload = to_string_int (cursor_updated_at cursor) @ CHR '':'' # cursor_task_id cursor
      in kCursorPrefix @ concat (map hex_byte payload))"

definition hex_value :: "char \<Rightarrow> nat option" where
  "hex_value c = index_of (\<lambda>d. d = c) kHexDigits"

text \<open>The decoding loop steps over two characters at a time; a dangling character is excluded by the
  length check before it.\<close>

fun decode_hex :: "string \<Rightarrow> string option" where
  "decode_hex [] = Some []"
| "decode_hex [_] = None"
| "decode_hex (x # y # rest) =
     (case hex_value x of
        None \<Rightarrow> None
      | Some high \<Rightarrow> (case hex_value y of
          None \<Rightarrow> None
        | Some low \<Rightarrow> map_option ((#) (char_of (push_bit 4 high OR low))) (decode_hex rest)))"

definition ParseListPageToken :: "string \<Rightarrow> ListTaskCursor option Result" where
  "ParseListPageToken page_token =
     (let invalid = Inl (Validation kInvalidCursor) in
      if page_token = [] then Inr None
      else if \<not> prefix kCursorPrefix page_token then invalid
      else let hex = drop (length kCursorPrefix) page_token in
        if length hex mod 2 \<noteq> 0 then invalid
        else (case decode_hex hex of
            None \<Rightarrow> invalid
          | Some payload \<Rightarrow>
              (case index_of (\<lambda>c. c = CHR '':'') payload of
                 None \<Rightarrow> invalid
               | Some separator \<Rightarrow>
                   if separator + 1 = length payload then invalid
                   else (case from_chars_signed INT64_MIN INT64_MAX (take separator payload) of
                       Inl _ \<Rightarrow> invalid
                     | Inr (updated_at, rest) \<Rightarrow>
                         if rest \<noteq> [] \<or> updated_at < 0 then invalid
                         else let cursor = ListTaskCursor updated_at (drop (separator + 1) payload) in
                           if EncodeListPageToken cursor \<noteq> kCursorPrefix @ hex then invalid
                           else Inr (Some cursor)))))"

section \<open>Serialisation\<close>

record ListTasksResponsePayload =
  LTPay_tasks :: "Task list"
  LTPay_page_size :: int
  LTPay_total_size :: int
  LTPay_next_page_token :: string

definition append_field :: "string \<Rightarrow> string \<Rightarrow> string" where
  "append_field missing field = (if missing \<noteq> [] then missing @ '','' @ field else missing @ field)"

definition missing_fields :: "ListTasksResponse \<Rightarrow> string" where
  "missing_fields response =
     (let m0 = [];
          m1 = (if LTResp_tasks response = [] then append_field m0 ''\"tasks\":[]'' else m0);
          m2 = (if LTResp_page_size response = 0 then append_field m1 ''\"pageSize\":0'' else m1);
          m3 = (if LTResp_total_size response = 0 then append_field m2 ''\"totalSize\":0'' else m2)
      in if LTResp_next_page_token response = [] then append_field m3 ''\"nextPageToken\":\"\"'' else m3)"

text \<open>Inserting before the last byte of an empty text would throw: the outcome \<open>None\<close>.\<close>

definition SerializeListTasksResponse ::
  "(ListTasksResponsePayload \<Rightarrow> string Result) \<Rightarrow> ListTasksResponse \<Rightarrow> string Result option" where
  "SerializeListTasksResponse MessageToJson response =
     (if length (LTResp_tasks response) > nat INT32_MAX \<or> LTResp_page_size response > nat INT32_MAX \<or>
         LTResp_total_size response > nat INT32_MAX
      then Some (Inl (Serialization ''ListTasksResponse value exceeds the protobuf int32 range''))
      else let payload = \<lparr>LTPay_tasks = LTResp_tasks response, LTPay_page_size = int (LTResp_page_size response),
                 LTPay_total_size = int (LTResp_total_size response),
                 LTPay_next_page_token = LTResp_next_page_token response\<rparr>
           in case MessageToJson payload of
                Inl e \<Rightarrow> Some (Inl e)
              | Inr json \<Rightarrow>
                  (let missing = missing_fields response in
                   if missing = [] then Some (Inr json)
                   else if json = [] then None
                   else let missing = (if length json > 2 then CHR '','' # missing else missing)
                        in Some (Inr (take (length json - 1) json @ missing @ drop (length json - 1) json))))"

section \<open>Projection\<close>

definition ApplyArtifactProjection :: "Task \<Rightarrow> bool \<Rightarrow> Task" where
  "ApplyArtifactProjection task include_artifacts =
     (if \<not> include_artifacts then task\<lparr>Task_artifacts := []\<rparr> else task)"

definition ProjectTaskForList :: "Task \<Rightarrow> bool \<Rightarrow> nat option \<Rightarrow> Task" where
  "ProjectTaskForList task include_artifacts history_length =
     (if include_artifacts \<and> history_length = None then task
      else let p0 = default_Task\<lparr>Task_unknown_fields := Task_unknown_fields task,
                 Task_id := Task_id task, Task_context_id := Task_context_id task\<rparr>;
               p1 = (case Task_status task of None \<Rightarrow> p0 | Some s \<Rightarrow> p0\<lparr>Task_status := Some s\<rparr>);
               p2 = (if include_artifacts then p1\<lparr>Task_artifacts := Task_artifacts task\<rparr> else p1)
           in case history_length of
                None \<Rightarrow> (let p3 = p2\<lparr>Task_history := Task_history task\<rparr> in
                  case Task_metadata task of None \<Rightarrow> p3 | Some m \<Rightarrow> p3\<lparr>Task_metadata := Some m\<rparr>)
              | Some limit \<Rightarrow>
                  (let history_size = length (Task_history task);
                       retained = min limit history_size;
                       first = history_size - retained;
                       p3 = p2\<lparr>Task_history := map (\<lambda>i. Task_history task ! i) [first..<history_size]\<rparr>
                   in case Task_metadata task of None \<Rightarrow> p3 | Some m \<Rightarrow> p3\<lparr>Task_metadata := Some m\<rparr>))"

section \<open>Ordering by status timestamp\<close>

definition ts_key :: "Task \<Rightarrow> int \<times> int" where
  "ts_key t = (case TaskStatus_timestamp (status t) of None \<Rightarrow> (0, 0)
     | Some ts \<Rightarrow> (Timestamp_seconds ts, Timestamp_nanos ts))"

definition timestamp_desc :: "Task \<Rightarrow> Task \<Rightarrow> bool" where
  "timestamp_desc lhs rhs =
     (if fst (ts_key lhs) \<noteq> fst (ts_key rhs) then fst (ts_key lhs) > fst (ts_key rhs)
      else snd (ts_key lhs) > snd (ts_key rhs))"

text \<open>\<open>std::ranges::stable_sort\<close> with a strict comparison: insertion before the first element that the new
  one precedes.\<close>

primrec stable_insert :: "('a \<Rightarrow> 'a \<Rightarrow> bool) \<Rightarrow> 'a \<Rightarrow> 'a list \<Rightarrow> 'a list" where
  "stable_insert lt x [] = [x]"
| "stable_insert lt x (y # ys) = (if lt y x then y # stable_insert lt x ys else x # y # ys)"

primrec stable_sort :: "('a \<Rightarrow> 'a \<Rightarrow> bool) \<Rightarrow> 'a list \<Rightarrow> 'a list" where
  "stable_sort lt [] = []"
| "stable_sort lt (x # xs) = stable_insert lt x (stable_sort lt xs)"

definition TimestampDescTaskOrdering_Sort :: "Task list \<Rightarrow> Task list" where
  "TimestampDescTaskOrdering_Sort tasks = stable_sort timestamp_desc tasks"

section \<open>The page token codec\<close>

lemma cursor_less_iff: "a < b \<longleftrightarrow> ListCursorPrecedes a b" for a b :: ListTaskCursor
  by (simp add: less_ListTaskCursor_def)

lemma of_char_less_256 [simp]: "(of_char c :: nat) < 256"
proof -
  have "of_char c mod 256 = (of_char c :: nat)" by simp
  moreover have "of_char c mod 256 < (256 :: nat)" by simp
  ultimately show ?thesis by simp
qed

lemma nibbles_of_byte:
  assumes "b < (256 :: nat)"
  shows "drop_bit 4 b < 16" "b AND 15 < 16" "push_bit 4 (drop_bit 4 b) OR (b AND 15) = b"
proof -
  have mask: "b AND 15 = take_bit 4 b"
    by (simp add: take_bit_eq_mask mask_eq_exp_minus_1)
  show "drop_bit 4 b < 16" using assms by (simp add: drop_bit_eq_div)
  show "b AND 15 < 16" unfolding mask by (simp add: take_bit_eq_mod)
  show "push_bit 4 (drop_bit 4 b) OR (b AND 15) = b"
    unfolding mask by (rule bit_eqI) (auto simp: bit_simps)
qed

lemma length_kHexDigits [simp]: "length kHexDigits = 16"
  by (simp add: kHexDigits_def)

lemma distinct_kHexDigits [simp]: "distinct kHexDigits"
  by (simp add: kHexDigits_def)

lemma hex_value_nth: "n < 16 \<Longrightarrow> hex_value (kHexDigits ! n) = Some n"
  by (auto simp: hex_value_def index_of_Some nth_eq_iff_index_eq)

lemma decode_hex_encode: "decode_hex (concat (map hex_byte s) @ t) = map_option ((@) s) (decode_hex t)"
proof (induction s)
  case Nil
  then show ?case by (cases "decode_hex t") simp_all
next
  case (Cons c s)
  have "decode_hex (hex_byte c @ u) = map_option ((#) c) (decode_hex u)" for u
    using nibbles_of_byte[of "of_char c"] by (simp add: hex_byte_def Let_def hex_value_nth)
  with Cons show ?case by (cases "decode_hex t") simp_all
qed

lemma length_hex_byte [simp]: "length (hex_byte c) = 2"
  by (simp add: hex_byte_def Let_def)

lemma length_hex_bytes: "length (concat (map hex_byte s)) = 2 * length s"
  by (induction s) simp_all

lemma colon_not_in_to_string: "0 \<le> i \<Longrightarrow> \<forall>c\<in>set (to_string_int i). c \<noteq> CHR '':''"
  using to_string_nat_digits[of "nat i"] by (auto simp: to_string_int_def isdigit_def)

lemma parse_encode_cursor:
  assumes "0 \<le> cursor_updated_at c" "cursor_updated_at c \<le> INT64_MAX" "cursor_task_id c \<noteq> []"
  shows "ParseListPageToken (EncodeListPageToken c) = Inr (Some c)"
proof -
  let ?n = "to_string_int (cursor_updated_at c)"
  let ?payload = "?n @ CHR '':'' # cursor_task_id c"
  let ?hex = "concat (map hex_byte ?payload)"
  have dec: "decode_hex ?hex = Some ?payload"
    using decode_hex_encode[of ?payload "[]"] by simp
  have idx: "index_of (\<lambda>x. x = CHR '':'') ?payload = Some (length ?n)"
    by (rule index_of_append_hit) (use colon_not_in_to_string[OF assms(1)] in auto)
  have num: "from_chars_signed INT64_MIN INT64_MAX ?n = Inr (cursor_updated_at c, [])"
    using assms by (intro from_chars_signed_to_string) (simp_all add: INT64_MIN_def)
  have tok: "EncodeListPageToken c = kCursorPrefix @ ?hex"
    by (simp add: EncodeListPageToken_def Let_def)
  have "ParseListPageToken (kCursorPrefix @ ?hex) = Inr (Some c)"
    unfolding ParseListPageToken_def Let_def
    using dec idx num assms tok
    by (simp add: length_hex_bytes) (simp add: kCursorPrefix_def)
  with tok show ?thesis by simp
qed

text \<open>C32: every page token the server hands out parses back to the cursor it was made from, for every
  stored update time and every non-empty task id, whatever bytes the id holds.\<close>

theorem ParseListPageToken_Encode:
  assumes "0 \<le> cursor_updated_at c" "cursor_updated_at c \<le> INT64_MAX" "cursor_task_id c \<noteq> []"
  shows "ParseListPageToken (EncodeListPageToken c) = Inr (Some c)"
  using assms by (rule parse_encode_cursor)

theorem ParseListPageToken_Encode_witness:
  "ParseListPageToken (EncodeListPageToken (ListTaskCursor 42 ''t:1'')) = Inr (Some (ListTaskCursor 42 ''t:1''))"
  using ParseListPageToken_Encode[of "ListTaskCursor 42 ''t:1''"] by (simp add: INT64_MAX_def)

text \<open>the parser accepts canonical tokens only: an accepted non-empty token is the encoding of
  the cursor it yields, so no two tokens denote the same cursor, and the cursor's time is a valid
  non-negative storage time.\<close>

theorem ParseListPageToken_canonical:
  assumes "ParseListPageToken tok = Inr (Some c)"
  shows "EncodeListPageToken c = tok \<and> 0 \<le> cursor_updated_at c \<and> cursor_updated_at c \<le> INT64_MAX \<and>
    cursor_task_id c \<noteq> []"
  using assms
  by (auto simp: ParseListPageToken_def Let_def prefix_def index_of_Some
      split: if_splits option.splits sum.splits dest!: from_chars_signed_range)

theorem ParseListPageToken_canonical_witness:
  "ParseListPageToken (EncodeListPageToken (ListTaskCursor 7 ''x'')) = Inr (Some (ListTaskCursor 7 ''x'')) \<and>
   cursor_task_id (ListTaskCursor 7 ''x'') \<noteq> []"
proof -
  have h: "ParseListPageToken (EncodeListPageToken (ListTaskCursor 7 ''x'')) = Inr (Some (ListTaskCursor 7 ''x''))"
    by code_simp
  show ?thesis using h ParseListPageToken_canonical[OF h] by blast
qed

lemma EncodeListPageToken_nonempty [simp]: "EncodeListPageToken c \<noteq> []"
  by (simp add: EncodeListPageToken_def Let_def kCursorPrefix_def)

lemma ParseListPageToken_empty [simp]: "ParseListPageToken [] = Inr None"
  by (simp add: ParseListPageToken_def)

section \<open>Page size and projection\<close>

text \<open>a page size that survives normalisation is between 1 and 100, and an absent one is 50.\<close>

theorem NormalizeListTasksPageSize_range:
  "(\<forall>n. NormalizeListTasksPageSize p = Inr n \<longrightarrow> 1 \<le> n \<and> n \<le> kMaxListTasksPageSize \<and>
      (case p of None \<Rightarrow> n = 50 | Some v \<Rightarrow> int n = v)) \<and>
   (isl (NormalizeListTasksPageSize p) \<longleftrightarrow> (\<exists>v. p = Some v \<and> (v < 1 \<or> v > 100)))"
  by (auto simp: NormalizeListTasksPageSize_def kDefaultListTasksPageSize_def kMaxListTasksPageSize_def
      split: option.splits if_splits)

theorem NormalizeListTasksPageSize_range_witness:
  "NormalizeListTasksPageSize (Some 7) = Inr 7 \<and> (1 :: nat) \<le> 7 \<and> 7 \<le> kMaxListTasksPageSize"
proof -
  have h: "NormalizeListTasksPageSize (Some 7) = Inr 7"
    by (simp add: NormalizeListTasksPageSize_def kMaxListTasksPageSize_def)
  show ?thesis using h NormalizeListTasksPageSize_range[of "Some 7"] by auto
qed

lemma map_nth_upt_drop: "n \<le> length xs \<Longrightarrow> map (\<lambda>i. xs ! i) [n..<length xs] = drop n xs"
  by (rule nth_equalityI) auto

lemma ProjectTaskForList_fields:
  "ProjectTaskForList t inc h =
     t\<lparr>Task_artifacts := (if inc then Task_artifacts t else []),
       Task_history := (case h of None \<Rightarrow> Task_history t
          | Some n \<Rightarrow> drop (length (Task_history t) - n) (Task_history t))\<rparr>"
  by (cases t) (auto simp: ProjectTaskForList_def default_Task_def Let_def map_nth_upt_drop min_def
      split: option.splits)

lemma ProjectTaskForList_id [simp]:
  "Task_id (ProjectTaskForList t inc h) = Task_id t"
  "Task_context_id (ProjectTaskForList t inc h) = Task_context_id t"
  "Task_status (ProjectTaskForList t inc h) = Task_status t"
  by (simp_all add: ProjectTaskForList_fields)

section \<open>The stable sort\<close>

lemma mset_stable_sort: "mset (stable_sort lt xs) = mset xs"
proof -
  have "mset (stable_insert lt x ys) = add_mset x (mset ys)" for x ys
    by (induction ys) auto
  then show ?thesis by (induction xs) auto
qed

end
