(* ===== verification/Task_History.thy ===== *)
theory Task_History
  imports List_Tasks
begin

text \<open>
  History retention and deduplication (\<open>src/server/tasks/task_history.cpp\<close>) and the value types of the
  \<open>TaskStore\<close> interface (\<open>include/a2a/server/tasks/task_store.h\<close>). \<open>Part::SerializeAsString\<close> is code of
  the protobuf runtime: the deduplication functions take it as the parameter \<open>ser\<close>, a function of the
  part's value.
\<close>

section \<open>Value types of the task store\<close>

record TaskSnapshot =
  snapshot_task :: Task
  snapshot_revision :: "64 word"

datatype ConditionalWriteResult = kUpdated | kConflict

datatype HistoryAppendPolicy = kNoDedup | kDedupByMessageId | kDedupByIdOrFingerprint

datatype DedupeReason = kDuplicateMessageIdAndFingerprint | kDuplicateFingerprintWithoutMessageId

record HistoryDedupeEvent =
  event_task_id :: string
  event_message_id :: string
  event_policy :: HistoryAppendPolicy
  event_reason :: DedupeReason

record HistoryTelemetrySnapshot =
  dedupe_dropped_total :: "64 word"
  dedupe_dropped_by_message_id_and_fingerprint :: "64 word"
  dedupe_dropped_by_fingerprint_without_message_id :: "64 word"

definition empty_telemetry :: HistoryTelemetrySnapshot where
  "empty_telemetry = \<lparr>dedupe_dropped_total = 0, dedupe_dropped_by_message_id_and_fingerprint = 0,
     dedupe_dropped_by_fingerprint_without_message_id = 0\<rparr>"

section \<open>Retention\<close>

definition ApplyHistoryLimit :: "Task \<Rightarrow> nat \<Rightarrow> Task" where
  "ApplyHistoryLimit task keep =
     (if keep = 0 then task\<lparr>Task_history := []\<rparr>
      else if length (Task_history task) \<le> keep then task
      else task\<lparr>Task_history := drop (length (Task_history task) - keep) (Task_history task)\<rparr>)"

definition ApplyHistoryRetention :: "Task \<Rightarrow> nat option \<Rightarrow> Task" where
  "ApplyHistoryRetention task history_length =
     (case history_length of None \<Rightarrow> task | Some keep \<Rightarrow> ApplyHistoryLimit task keep)"

section \<open>Deduplication\<close>

definition HasSameMessageFingerprint :: "(Part \<Rightarrow> string) \<Rightarrow> Message \<Rightarrow> Message \<Rightarrow> bool" where
  "HasSameMessageFingerprint ser existing message =
     (if Message_task_id existing \<noteq> Message_task_id message \<or>
         Message_context_id existing \<noteq> Message_context_id message \<or>
         Message_role existing \<noteq> Message_role message \<or>
         length (Message_parts existing) \<noteq> length (Message_parts message) then False
      else list_all (\<lambda>i. ser (Message_parts existing ! i) = ser (Message_parts message ! i))
             [0..<length (Message_parts existing)])"

definition HasSameMessageIdAndFingerprint :: "(Part \<Rightarrow> string) \<Rightarrow> Message \<Rightarrow> Message \<Rightarrow> bool" where
  "HasSameMessageIdAndFingerprint ser existing message =
     (Message_message_id existing \<noteq> [] \<and> Message_message_id existing = Message_message_id message \<and>
      HasSameMessageFingerprint ser existing message)"

primrec FindMessageIdDedupeReason ::
  "(Part \<Rightarrow> string) \<Rightarrow> Message list \<Rightarrow> Message \<Rightarrow> DedupeReason option" where
  "FindMessageIdDedupeReason ser [] message = None"
| "FindMessageIdDedupeReason ser (existing # history) message =
     (if HasSameMessageIdAndFingerprint ser existing message then Some kDuplicateMessageIdAndFingerprint
      else FindMessageIdDedupeReason ser history message)"

primrec FindIdOrFingerprintDedupeReason ::
  "(Part \<Rightarrow> string) \<Rightarrow> Message list \<Rightarrow> Message \<Rightarrow> DedupeReason option" where
  "FindIdOrFingerprintDedupeReason ser [] message = None"
| "FindIdOrFingerprintDedupeReason ser (existing # history) message =
     (if Message_message_id message \<noteq> [] \<and> HasSameMessageIdAndFingerprint ser existing message
      then Some kDuplicateMessageIdAndFingerprint
      else if Message_message_id message = [] \<and> HasSameMessageFingerprint ser existing message
      then Some kDuplicateFingerprintWithoutMessageId
      else FindIdOrFingerprintDedupeReason ser history message)"

definition FindHistoryDedupeReason ::
  "(Part \<Rightarrow> string) \<Rightarrow> Message list \<Rightarrow> Message \<Rightarrow> HistoryAppendPolicy \<Rightarrow> DedupeReason option" where
  "FindHistoryDedupeReason ser history message policy =
     (if policy = kDedupByMessageId \<and> Message_message_id message \<noteq> []
      then FindMessageIdDedupeReason ser history message
      else if policy = kDedupByIdOrFingerprint
      then FindIdOrFingerprintDedupeReason ser history message
      else None)"

definition UpdateDedupeSnapshot :: "HistoryTelemetrySnapshot \<Rightarrow> DedupeReason \<Rightarrow> HistoryTelemetrySnapshot" where
  "UpdateDedupeSnapshot snapshot reason =
     (let snapshot = snapshot\<lparr>dedupe_dropped_total := dedupe_dropped_total snapshot + 1\<rparr>
      in if reason = kDuplicateMessageIdAndFingerprint
         then snapshot\<lparr>dedupe_dropped_by_message_id_and_fingerprint :=
                dedupe_dropped_by_message_id_and_fingerprint snapshot + 1\<rparr>
         else snapshot\<lparr>dedupe_dropped_by_fingerprint_without_message_id :=
                dedupe_dropped_by_fingerprint_without_message_id snapshot + 1\<rparr>)"

section \<open>Facts\<close>

lemma ApplyHistoryRetention_fields:
  "ApplyHistoryRetention t h = t\<lparr>Task_history := (case h of None \<Rightarrow> Task_history t
     | Some n \<Rightarrow> drop (length (Task_history t) - n) (Task_history t))\<rparr>"
  by (auto simp: ApplyHistoryRetention_def ApplyHistoryLimit_def split: option.splits)

text \<open>the one-pass list projection, which builds a new task, equals the two in-place projections:
  clear the artifacts unless asked for, then keep the last \<open>n\<close> history entries.\<close>

theorem ProjectTaskForList_reference:
  "ProjectTaskForList t inc h = ApplyHistoryRetention (ApplyArtifactProjection t inc) h"
  by (simp add: ProjectTaskForList_fields ApplyHistoryRetention_fields ApplyArtifactProjection_def
      split: option.splits)

lemma HasSameMessageFingerprint_iff:
  "HasSameMessageFingerprint ser a b \<longleftrightarrow>
     Message_task_id a = Message_task_id b \<and> Message_context_id a = Message_context_id b \<and>
     Message_role a = Message_role b \<and> map ser (Message_parts a) = map ser (Message_parts b)"
proof -
  have "map ser (Message_parts a) = map ser (Message_parts b) \<longleftrightarrow>
      length (Message_parts a) = length (Message_parts b) \<and>
      (\<forall>i<length (Message_parts a). ser (Message_parts a ! i) = ser (Message_parts b ! i))"
    unfolding list_eq_iff_nth_eq[of "map ser (Message_parts a)"] by auto
  then show ?thesis
    by (auto simp: HasSameMessageFingerprint_def list_all_iff)
qed

lemma FindMessageIdDedupeReason_iff:
  "FindMessageIdDedupeReason ser h m =
     (if \<exists>e\<in>set h. HasSameMessageIdAndFingerprint ser e m then Some kDuplicateMessageIdAndFingerprint else None)"
  by (induction h) auto

lemma FindIdOrFingerprintDedupeReason_iff:
  "FindIdOrFingerprintDedupeReason ser h m =
     (if Message_message_id m \<noteq> []
      then (if \<exists>e\<in>set h. HasSameMessageIdAndFingerprint ser e m then Some kDuplicateMessageIdAndFingerprint else None)
      else (if \<exists>e\<in>set h. HasSameMessageFingerprint ser e m then Some kDuplicateFingerprintWithoutMessageId else None))"
  by (induction h) auto

lemma dedupe_reason_cases:
  "FindHistoryDedupeReason ser h m policy =
     (if policy \<noteq> kNoDedup \<and> Message_message_id m \<noteq> [] \<and>
         (\<exists>e\<in>set h. HasSameMessageIdAndFingerprint ser e m) then Some kDuplicateMessageIdAndFingerprint
      else if policy = kDedupByIdOrFingerprint \<and> Message_message_id m = [] \<and>
         (\<exists>e\<in>set h. HasSameMessageFingerprint ser e m) then Some kDuplicateFingerprintWithoutMessageId
      else None)"
  by (cases policy)
    (auto simp: FindHistoryDedupeReason_def FindMessageIdDedupeReason_iff FindIdOrFingerprintDedupeReason_iff)

text \<open>what counts as a duplicate under each policy: nothing without deduplication; with an id, an
  earlier message with the same id and fingerprint under both other policies; without an id, an earlier
  message with the same fingerprint, under the id-or-fingerprint policy only.\<close>

theorem FindHistoryDedupeReason_spec:
  "FindHistoryDedupeReason ser h m policy =
     (if policy \<noteq> kNoDedup \<and> Message_message_id m \<noteq> [] \<and>
         (\<exists>e\<in>set h. Message_message_id e = Message_message_id m \<and> HasSameMessageFingerprint ser e m)
      then Some kDuplicateMessageIdAndFingerprint
      else if policy = kDedupByIdOrFingerprint \<and> Message_message_id m = [] \<and>
         (\<exists>e\<in>set h. HasSameMessageFingerprint ser e m)
      then Some kDuplicateFingerprintWithoutMessageId else None)"
  by (auto simp: dedupe_reason_cases HasSameMessageIdAndFingerprint_def)

lemma FindHistoryDedupeReason_append_self:
  "policy = kDedupByIdOrFingerprint \<or> (policy = kDedupByMessageId \<and> Message_message_id m \<noteq> []) \<Longrightarrow>
   FindHistoryDedupeReason ser (h @ [m]) m policy \<noteq> None"
  by (auto simp: dedupe_reason_cases HasSameMessageIdAndFingerprint_def HasSameMessageFingerprint_iff)

end
