(* ===== verification/Task_Store_Spec.thy ===== *)
theory Task_Store_Spec
  imports Task_History
begin

text \<open>
  The \<open>TaskStore\<close> interface (\<open>include/a2a/server/tasks/task_store.h\<close>): the virtual operations as a record
  of functions over an implementation's state, the abstract store that a task store promises (a finite
  map from task ids to task, revision and update time, together with the clock and the deduplication
  telemetry), the abstract operations on it, and the contract as a locale. A step that yields \<open>None\<close> is an
  execution without a defined outcome; the contract excludes it.
\<close>

section \<open>The interface\<close>

type_synonym ('s, 'a) step = "'s \<Rightarrow> ('s \<times> 'a Result) option"

record 's TaskStore =
  TS_CreateOrUpdate :: "Task \<Rightarrow> ('s, unit) step"
  TS_SupportsConditionalWrites :: bool
  TS_GetSnapshot :: "string \<Rightarrow> 's \<Rightarrow> TaskSnapshot Result option"
  TS_CreateOrUpdateIfRevision :: "Task \<Rightarrow> 64 word \<Rightarrow> ('s, ConditionalWriteResult) step"
  TS_Get :: "string \<Rightarrow> 's \<Rightarrow> Task Result option"
  TS_List :: "ListTasksRequest \<Rightarrow> 's \<Rightarrow> ListTasksResponse Result option"
  TS_Cancel :: "string \<Rightarrow> ('s, Task) step"
  TS_AppendTaskHistory :: "string \<Rightarrow> Message \<Rightarrow> HistoryAppendPolicy \<Rightarrow> ('s, Task) step"
  TS_GetHistoryTelemetrySnapshot :: "'s \<Rightarrow> HistoryTelemetrySnapshot"

text \<open>The defaults of the base class for a store without conditional writes.\<close>

definition kConditionalTaskPersistenceUnsupportedMessage :: string where
  "kConditionalTaskPersistenceUnsupportedMessage = ''conditional task persistence is not supported''"

definition TaskStore_base_GetSnapshot :: "string \<Rightarrow> 's \<Rightarrow> TaskSnapshot Result option" where
  "TaskStore_base_GetSnapshot task_id s = Some (Inl (Internal kConditionalTaskPersistenceUnsupportedMessage))"

definition TaskStore_base_CreateOrUpdateIfRevision ::
  "Task \<Rightarrow> 64 word \<Rightarrow> ('s, ConditionalWriteResult) step" where
  "TaskStore_base_CreateOrUpdateIfRevision task expected s =
     Some (s, Inl (Internal kConditionalTaskPersistenceUnsupportedMessage))"

section \<open>The abstract store\<close>

record AbstractStore =
  a_map :: "string \<rightharpoonup> (Task \<times> 64 word \<times> int)"
  a_clock :: "nat \<Rightarrow> int"
  a_calls :: nat
  a_sink :: bool
  a_telemetry :: HistoryTelemetrySnapshot
  a_events :: "HistoryDedupeEvent list"

definition kUpdateTimeExhaustedMessage :: string where
  "kUpdateTimeExhaustedMessage = ''Task storage update timestamp cannot advance''"

definition a_wf :: "AbstractStore \<Rightarrow> bool" where
  "a_wf a \<longleftrightarrow> finite (dom (a_map a)) \<and>
     (\<forall>k t r u. a_map a k = Some (t, r, u) \<longrightarrow> Task_id t = k \<and> k \<noteq> [] \<and> 0 \<le> u \<and> u \<le> INT64_MAX) \<and>
     (\<forall>n. INT64_MIN \<le> a_clock a n \<and> a_clock a n \<le> INT64_MAX)"

text \<open>The one write primitive: a new task starts at revision 1 and the current time, an existing one
  advances its revision and moves strictly forward in time.\<close>

definition a_put :: "Task \<Rightarrow> AbstractStore \<Rightarrow> AbstractStore \<times> unit Result" where
  "a_put task a =
     (let now = a_clock a (a_calls a); k = Task_id task in
      case a_map a k of
        None \<Rightarrow> (a\<lparr>a_map := (a_map a)(k \<mapsto> (task, 1, max 0 now)), a_calls := Suc (a_calls a)\<rparr>, Inr ())
      | Some (_, revision, time) \<Rightarrow>
          if time = INT64_MAX then (a, Inl (Internal kUpdateTimeExhaustedMessage))
          else (a\<lparr>a_map := (a_map a)(k \<mapsto> (task, revision + 1, max (time + 1) now)),
                  a_calls := Suc (a_calls a)\<rparr>, Inr ()))"

definition a_return :: "'b \<Rightarrow> AbstractStore \<times> unit Result \<Rightarrow> AbstractStore \<times> 'b Result" where
  "a_return v = (\<lambda>(a, r). (a, result_bind r (\<lambda>_. Inr v)))"

definition spec_CreateOrUpdate :: "Task \<Rightarrow> AbstractStore \<Rightarrow> AbstractStore \<times> unit Result" where
  "spec_CreateOrUpdate task a =
     (if Task_id task = [] then (a, Inl (Validation ''Task.id is required'')) else a_put task a)"

definition spec_lookup :: "string \<Rightarrow> AbstractStore \<Rightarrow> (Task \<times> 64 word \<times> int) Result" where
  "spec_lookup k a =
     (if k = [] then Inl (Validation ''Task id is required'')
      else case a_map a k of None \<Rightarrow> Inl (TaskNotFound ''Task not found'') | Some e \<Rightarrow> Inr e)"

definition spec_Get :: "string \<Rightarrow> AbstractStore \<Rightarrow> Task Result" where
  "spec_Get k a = result_bind (spec_lookup k a) (\<lambda>(t, r, u). Inr t)"

definition spec_GetSnapshot :: "string \<Rightarrow> AbstractStore \<Rightarrow> TaskSnapshot Result" where
  "spec_GetSnapshot k a =
     result_bind (spec_lookup k a) (\<lambda>(t, r, u). Inr \<lparr>snapshot_task = t, snapshot_revision = r\<rparr>)"

definition spec_CreateOrUpdateIfRevision ::
  "Task \<Rightarrow> 64 word \<Rightarrow> AbstractStore \<Rightarrow> AbstractStore \<times> ConditionalWriteResult Result" where
  "spec_CreateOrUpdateIfRevision task expected a =
     (if Task_id task = [] then (a, Inl (Validation ''Task.id is required''))
      else let current = (case a_map a (Task_id task) of None \<Rightarrow> 0 | Some (_, r, _) \<Rightarrow> r)
           in if current \<noteq> expected then (a, Inr kConflict) else a_return kUpdated (a_put task a))"

definition spec_Cancel :: "string \<Rightarrow> AbstractStore \<Rightarrow> AbstractStore \<times> Task Result" where
  "spec_Cancel k a =
     (case spec_Get k a of
        Inl e \<Rightarrow> (a, Inl e)
      | Inr t \<Rightarrow>
          if IsTerminalTaskState (task_state t) then (a, Inl (TaskNotCancelable ''task is already terminal''))
          else let t' = set_state TASK_STATE_CANCELED t in a_return t' (a_put t' a))"

definition spec_AppendTaskHistory ::
  "(Part \<Rightarrow> string) \<Rightarrow> string \<Rightarrow> Message \<Rightarrow> HistoryAppendPolicy \<Rightarrow> AbstractStore \<Rightarrow> AbstractStore \<times> Task Result" where
  "spec_AppendTaskHistory ser k m policy a =
     (case spec_Get k a of
        Inl e \<Rightarrow> (a, Inl e)
      | Inr t \<Rightarrow>
          (case FindHistoryDedupeReason ser (Task_history t) m policy of
             Some reason \<Rightarrow>
               (a\<lparr>a_telemetry := UpdateDedupeSnapshot (a_telemetry a) reason,
                  a_events := (if a_sink a then a_events a @
                    [\<lparr>event_task_id = k, event_message_id = Message_message_id m,
                      event_policy = policy, event_reason = reason\<rparr>] else a_events a)\<rparr>, Inr t)
           | None \<Rightarrow> let t' = t\<lparr>Task_history := Task_history t @ [m]\<rparr> in a_return t' (a_put t' a)))"

text \<open>Listing: the matching tasks in the order of their cursors, after the boundary, one page of them.\<close>

definition a_cursors :: "AbstractStore \<Rightarrow> ListTaskCursor list" where
  "a_cursors a = sorted_list_of_set {ListTaskCursor u k | k t r u. a_map a k = Some (t, r, u)}"

definition a_task :: "AbstractStore \<Rightarrow> ListTaskCursor \<Rightarrow> Task" where
  "a_task a c = fst (the (a_map a (cursor_task_id c)))"

definition a_matching :: "ListTasksRequest \<Rightarrow> AbstractStore \<Rightarrow> ListTaskCursor list" where
  "a_matching request a = filter (\<lambda>c. MatchesListFilters (a_task a c) request) (a_cursors a)"

definition after_boundary :: "ListTaskCursor option \<Rightarrow> ListTaskCursor list \<Rightarrow> ListTaskCursor list" where
  "after_boundary boundary cs = (case boundary of None \<Rightarrow> cs | Some b \<Rightarrow> filter (\<lambda>c. b < c) cs)"

definition page_of :: "nat \<Rightarrow> 'a list \<Rightarrow> 'a list" where
  "page_of n xs = (if n = 0 then xs else take n xs)"

definition project_for :: "ListTasksRequest \<Rightarrow> Task \<Rightarrow> Task" where
  "project_for request t = ProjectTaskForList t (LTR_include_artifacts request) (LTR_history_length request)"

definition spec_List :: "ListTasksRequest \<Rightarrow> AbstractStore \<Rightarrow> ListTasksResponse Result" where
  "spec_List request a =
     result_bind (ParseListPageToken (LTR_page_token request)) (\<lambda>boundary.
       let rest = after_boundary boundary (a_matching request a);
           page = page_of (LTR_page_size request) rest
       in Inr \<lparr>LTResp_tasks = map (project_for request \<circ> a_task a) page,
               LTResp_page_size = length page,
               LTResp_total_size = (if LTR_include_total_size request then length (a_matching request a) else 0),
               LTResp_next_page_token =
                 (if LTR_page_size request \<noteq> 0 \<and> LTR_page_size request < length rest
                  then EncodeListPageToken (last page) else []),
               LTResp_task_cursors = page\<rparr>)"

section \<open>The contract\<close>

text \<open>\<open>implements step spec\<close>: from a good state the step has a defined outcome, ends in a good state and does to
  the abstract store what the specification says.\<close>

definition implements ::
  "('s \<Rightarrow> bool) \<Rightarrow> ('s \<Rightarrow> AbstractStore) \<Rightarrow> ('s, 'a) step \<Rightarrow> (AbstractStore \<Rightarrow> AbstractStore \<times> 'a Result) \<Rightarrow> bool" where
  "implements good view step spec \<longleftrightarrow>
     (\<forall>s. good s \<longrightarrow> (\<exists>s'. step s = Some (s', snd (spec (view s))) \<and> good s' \<and> view s' = fst (spec (view s))))"

lemma implementsE:
  assumes "implements good view step spec" "good s"
  obtains s' where "step s = Some (s', snd (spec (view s)))" "good s'" "view s' = fst (spec (view s))"
  using assms unfolding implements_def by blast

locale task_store =
  fixes ops :: "'s TaskStore"
    and good :: "'s \<Rightarrow> bool"
    and view :: "'s \<Rightarrow> AbstractStore"
    and ser :: "Part \<Rightarrow> string"
  assumes wf: "good s \<Longrightarrow> a_wf (view s)"
    and get_impl: "good s \<Longrightarrow> TS_Get ops k s = Some (spec_Get k (view s))"
    and snapshot_impl: "good s \<Longrightarrow> TS_GetSnapshot ops k s = Some (spec_GetSnapshot k (view s))"
    and list_impl: "good s \<Longrightarrow> TS_List ops request s = Some (spec_List request (view s))"
    and upsert_impl: "implements good view (TS_CreateOrUpdate ops t) (spec_CreateOrUpdate t)"
    and conditional_impl:
      "implements good view (TS_CreateOrUpdateIfRevision ops t e) (spec_CreateOrUpdateIfRevision t e)"
    and cancel_impl: "implements good view (TS_Cancel ops k) (spec_Cancel k)"
    and append_impl:
      "implements good view (TS_AppendTaskHistory ops k m p) (spec_AppendTaskHistory ser k m p)"

section \<open>Facts about the abstract operations\<close>

lemma a_return_simps [simp]:
  "fst (a_return v p) = fst p" "snd (a_return v p) = result_bind (snd p) (\<lambda>_. Inr v)"
  by (simp_all add: a_return_def split: prod.split)

lemma a_put_Inr_lookup:
  "snd (a_put t a) = Inr () \<Longrightarrow> \<exists>r u. a_map (fst (a_put t a)) (Task_id t) = Some (t, r, u)"
  by (auto simp: a_put_def Let_def split: option.splits if_splits)

lemma a_put_other: "k \<noteq> Task_id t \<Longrightarrow> a_map (fst (a_put t a)) k = a_map a k"
  by (auto simp: a_put_def Let_def split: option.splits)

lemma a_put_Inl: "snd (a_put t a) = Inl e \<Longrightarrow> fst (a_put t a) = a"
  by (auto simp: a_put_def Let_def split: option.splits if_splits)

lemma a_put_result_cases:
  obtains (ok) "snd (a_put t a) = Inr ()"
  | (exhausted) r t' where "snd (a_put t a) = Inl (Internal kUpdateTimeExhaustedMessage)"
      "fst (a_put t a) = a" "a_map a (Task_id t) = Some (t', r, INT64_MAX)"
proof (cases "\<exists>t' r. a_map a (Task_id t) = Some (t', r, INT64_MAX)")
  case True
  then obtain t' r where "a_map a (Task_id t) = Some (t', r, INT64_MAX)" by blast
  then show ?thesis by (intro exhausted[of t' r]) (simp_all add: a_put_def)
next
  case False
  then show ?thesis by (intro ok) (auto simp: a_put_def Let_def split: option.splits)
qed

lemma a_put_wf:
  assumes "a_wf a" "Task_id t \<noteq> []"
  shows "a_wf (fst (a_put t a))"
proof (cases "a_map a (Task_id t)")
  case None
  with assms show ?thesis by (auto simp: a_wf_def a_put_def Let_def)
next
  case (Some e)
  obtain t' r u where e: "e = (t', r, u)" by (cases e)
  from Some e assms(1) have "0 \<le> u" "u \<le> INT64_MAX" by (auto simp: a_wf_def)
  then have "u \<noteq> INT64_MAX \<Longrightarrow> u + 1 \<le> INT64_MAX" by simp
  moreover have "0 \<le> max (u + 1) n" for n using \<open>0 \<le> u\<close> by simp
  ultimately show ?thesis
    using Some e assms by (auto simp: a_wf_def a_put_def Let_def)
qed

text \<open>Every successful write moves the task strictly forward in time and changes its revision.\<close>

lemma a_put_advances:
  assumes "a_map a (Task_id t) = Some (t0, r0, u0)" "snd (a_put t a) = Inr ()"
  shows "\<exists>u. a_map (fst (a_put t a)) (Task_id t) = Some (t, r0 + 1, u) \<and> u0 < u"
  using assms by (auto simp: a_put_def Let_def split: if_splits)

lemma finite_cursor_set:
  "finite (dom m) \<Longrightarrow> finite {ListTaskCursor u k | k t r u. m k = Some (t, r, u)}"
proof -
  assume "finite (dom m)"
  then have "finite ((\<lambda>k. ListTaskCursor (snd (snd (the (m k)))) k) ` dom m)" by simp
  moreover have "{ListTaskCursor u k | k t r u. m k = Some (t, r, u)} \<subseteq>
      (\<lambda>k. ListTaskCursor (snd (snd (the (m k)))) k) ` dom m"
    by (force simp: image_iff)
  ultimately show ?thesis by (rule rev_finite_subset)
qed

lemma set_a_cursors:
  "a_wf a \<Longrightarrow> set (a_cursors a) = {ListTaskCursor u k | k t r u. a_map a k = Some (t, r, u)}"
  unfolding a_cursors_def by (rule set_sorted_list_of_set) (simp add: a_wf_def finite_cursor_set)

lemma sorted_a_cursors [simp]: "sorted (a_cursors a)" "distinct (a_cursors a)"
  by (simp_all add: a_cursors_def)

lemma sorted_a_matching [simp]: "sorted (a_matching r a)" "distinct (a_matching r a)"
  by (simp_all add: a_matching_def sorted_wrt_filter)

end
