(* ===== verification/Task_Store.thy ===== *)
theory Task_Store
  imports Task_Store_Spec
begin

text \<open>
  \<open>InMemoryTaskStore\<close> (\<open>src/server/tasks/in_memory_task_store.cpp\<close>,
  \<open>include/a2a/server/tasks/in_memory_task_store.h\<close>). Each operation runs under the store lock, so an
  operation is one atomic step on the state. A result \<open>None\<close> stands for an execution the C++ standard
  gives no meaning to or that throws: an index outside a vector, the value of an empty node handle,
  \<open>at\<close> on a missing key, \<open>back\<close> of an empty vector. The update clock is the sequence of its readings with the
  number of calls made so far; the events handed to the telemetry sink are recorded in order.
  \<open>std::set\<close> with \<open>CursorOrder\<close> is a sorted duplicate-free list.
\<close>

section \<open>State\<close>

record InMemoryTaskStore =
  update_clock :: "nat \<Rightarrow> int"
  clock_calls :: nat
  updated_at :: "int list"
  update_order :: "ListTaskCursor list"
  telemetry_sink :: bool
  sink_events :: "HistoryDedupeEvent list"
  telemetry_snapshot :: HistoryTelemetrySnapshot
  ordered_tasks :: "Task list"
  revisions :: "64 word list"
  task_indices :: "string \<rightharpoonup> nat"

definition new_InMemoryTaskStore :: "bool \<Rightarrow> (nat \<Rightarrow> int) \<Rightarrow> InMemoryTaskStore" where
  "new_InMemoryTaskStore sink clock = \<lparr>update_clock = clock, clock_calls = 0, updated_at = [],
     update_order = [], telemetry_sink = sink, sink_events = [], telemetry_snapshot = empty_telemetry,
     ordered_tasks = [], revisions = [], task_indices = Map.empty\<rparr>"

definition kInitialTaskRevision :: "64 word" where "kInitialTaskRevision = 1"

section \<open>Containers\<close>

definition vec_get :: "'a list \<Rightarrow> nat \<Rightarrow> 'a option" where
  "vec_get xs i = (if i < length xs then Some (xs ! i) else None)"

definition vec_set :: "'a list \<Rightarrow> nat \<Rightarrow> 'a \<Rightarrow> 'a list option" where
  "vec_set xs i x = (if i < length xs then Some (xs[i := x]) else None)"

definition set_insert :: "'a::linorder \<Rightarrow> 'a list \<Rightarrow> 'a list" where
  "set_insert x xs = (if x \<in> set xs then xs else insort x xs)"

definition set_extract :: "'a::linorder \<Rightarrow> 'a list \<Rightarrow> 'a list option" where
  "set_extract x xs = (if x \<in> set xs then Some (remove1 x xs) else None)"

definition upper_bound :: "'a::linorder \<Rightarrow> 'a list \<Rightarrow> 'a list" where
  "upper_bound b xs = dropWhile (\<lambda>c. \<not> b < c) xs"

definition sample_clock :: "InMemoryTaskStore \<Rightarrow> int \<times> InMemoryTaskStore" where
  "sample_clock s = (update_clock s (clock_calls s), s\<lparr>clock_calls := Suc (clock_calls s)\<rparr>)"

section \<open>Operations\<close>

definition TouchTask :: "nat \<Rightarrow> (InMemoryTaskStore, unit) step" where
  "TouchTask index s = do {
     task \<leftarrow> vec_get (ordered_tasks s) index;
     let id = Task_id task;
     if index = length (updated_at s) then do {
       let (reading, s) = sample_clock s;
       let now = max 0 reading;
       Some (s\<lparr>update_order := set_insert (ListTaskCursor now id) (update_order s),
               updated_at := updated_at s @ [now]\<rparr>, Inr ())
     } else do {
       time \<leftarrow> vec_get (updated_at s) index;
       if time = INT64_MAX then Some (s, Inl (Internal kUpdateTimeExhaustedMessage))
       else do {
         let (reading, s) = sample_clock s;
         let next_time = max (time + 1) reading;
         order \<leftarrow> set_extract (ListTaskCursor time id) (update_order s);
         Some (s\<lparr>update_order := set_insert (ListTaskCursor next_time id) order,
                 updated_at := (updated_at s)[index := next_time]\<rparr>, Inr ())
       }
     }
   }"

text \<open>Overwriting the task at an index and \<open>++revisions_[index]\<close>.\<close>

definition store_task :: "nat \<Rightarrow> Task \<Rightarrow> InMemoryTaskStore \<Rightarrow> InMemoryTaskStore option" where
  "store_task index task s = do {
     tasks \<leftarrow> vec_set (ordered_tasks s) index task;
     revision \<leftarrow> vec_get (revisions s) index;
     revs \<leftarrow> vec_set (revisions s) index (revision + 1);
     Some (s\<lparr>ordered_tasks := tasks, revisions := revs\<rparr>)
   }"

text \<open>Appending a new task, with the rollback that the destructor of \<open>TaskAppendRollback\<close> performs unless
  the append was committed.\<close>

definition rollback_append :: "InMemoryTaskStore \<Rightarrow> InMemoryTaskStore" where
  "rollback_append s = s\<lparr>ordered_tasks := butlast (ordered_tasks s), revisions := butlast (revisions s)\<rparr>"

definition append_task :: "Task \<Rightarrow> (InMemoryTaskStore, unit) step" where
  "append_task task s = do {
     let s = s\<lparr>ordered_tasks := ordered_tasks s @ [task], revisions := revisions s @ [kInitialTaskRevision]\<rparr>;
     let index = length (ordered_tasks s) - 1;
     if task_indices s (Task_id task) \<noteq> None
     then Some (rollback_append s, Inl (Internal ''Task index insertion failed''))
     else do {
       let s = s\<lparr>task_indices := (task_indices s)(Task_id task \<mapsto> index)\<rparr>;
       (s, touched) \<leftarrow> TouchTask index s;
       case touched of
         Inl e \<Rightarrow> Some (rollback_append (s\<lparr>task_indices := (task_indices s)(Task_id task := None)\<rparr>), Inl e)
       | Inr _ \<Rightarrow> Some (s, Inr ())
     }
   }"

definition InMemory_CreateOrUpdate :: "Task \<Rightarrow> (InMemoryTaskStore, unit) step" where
  "InMemory_CreateOrUpdate task s =
     (if Task_id task = [] then Some (s, Inl (Validation ''Task.id is required''))
      else case task_indices s (Task_id task) of
        Some index \<Rightarrow> do {
          (s, touched) \<leftarrow> TouchTask index s;
          case touched of
            Inl e \<Rightarrow> Some (s, Inl e)
          | Inr _ \<Rightarrow> do { s \<leftarrow> store_task index task s; Some (s, Inr ()) }
        }
      | None \<Rightarrow> append_task task s)"

definition InMemory_GetSnapshot :: "string \<Rightarrow> InMemoryTaskStore \<Rightarrow> TaskSnapshot Result option" where
  "InMemory_GetSnapshot task_id s =
     (if task_id = [] then Some (Inl (Validation ''Task id is required''))
      else case task_indices s task_id of
        None \<Rightarrow> Some (Inl (TaskNotFound ''Task not found''))
      | Some index \<Rightarrow> do {
          task \<leftarrow> vec_get (ordered_tasks s) index;
          revision \<leftarrow> vec_get (revisions s) index;
          Some (Inr \<lparr>snapshot_task = task, snapshot_revision = revision\<rparr>)
        })"

definition InMemory_CreateOrUpdateIfRevision ::
  "Task \<Rightarrow> 64 word \<Rightarrow> (InMemoryTaskStore, ConditionalWriteResult) step" where
  "InMemory_CreateOrUpdateIfRevision task expected_revision s =
     (if Task_id task = [] then Some (s, Inl (Validation ''Task.id is required''))
      else case task_indices s (Task_id task) of
        None \<Rightarrow>
          if expected_revision \<noteq> 0 then Some (s, Inr kConflict)
          else do {
            (s, appended) \<leftarrow> append_task task s;
            case appended of Inl e \<Rightarrow> Some (s, Inl e) | Inr _ \<Rightarrow> Some (s, Inr kUpdated)
          }
      | Some index \<Rightarrow> do {
          revision \<leftarrow> vec_get (revisions s) index;
          if revision \<noteq> expected_revision then Some (s, Inr kConflict)
          else do {
            (s, touched) \<leftarrow> TouchTask index s;
            case touched of
              Inl e \<Rightarrow> Some (s, Inl e)
            | Inr _ \<Rightarrow> do { s \<leftarrow> store_task index task s; Some (s, Inr kUpdated) }
          }
        })"

definition InMemory_Get :: "string \<Rightarrow> InMemoryTaskStore \<Rightarrow> Task Result option" where
  "InMemory_Get task_id s =
     (if task_id = [] then Some (Inl (Validation ''Task id is required''))
      else case task_indices s task_id of
        None \<Rightarrow> Some (Inl (TaskNotFound ''Task not found''))
      | Some index \<Rightarrow> do { task \<leftarrow> vec_get (ordered_tasks s) index; Some (Inr task) })"

definition list_total_size :: "ListTasksRequest \<Rightarrow> InMemoryTaskStore \<Rightarrow> nat" where
  "list_total_size request s =
     (let filtered = (LTR_context_id request \<noteq> [] \<or> LTR_status_filter request \<noteq> None \<or>
            LTR_status_timestamp_after request \<noteq> None)
      in if filtered \<and> LTR_include_total_size request
         then foldl (\<lambda>n task. n + (if MatchesListFilters task request then 1 else 0)) 0 (ordered_tasks s)
         else if LTR_include_total_size request then length (ordered_tasks s)
         else 0)"

primrec list_loop ::
  "ListTasksRequest \<Rightarrow> InMemoryTaskStore \<Rightarrow> ListTaskCursor list \<Rightarrow> Task list \<Rightarrow> ListTaskCursor list \<Rightarrow>
   (Task list \<times> ListTaskCursor list \<times> string) option" where
  "list_loop request s [] tasks cursors = Some (tasks, cursors, [])"
| "list_loop request s (it # its) tasks cursors = do {
     index \<leftarrow> task_indices s (cursor_task_id it);
     task \<leftarrow> vec_get (ordered_tasks s) index;
     if \<not> MatchesListFilters task request then list_loop request s its tasks cursors
     else if LTR_page_size request \<noteq> 0 \<and> length tasks = LTR_page_size request
     then (if cursors = [] then None
           else Some (tasks, cursors, EncodeListPageToken (last cursors)))
     else list_loop request s its
            (tasks @ [ProjectTaskForList task (LTR_include_artifacts request) (LTR_history_length request)])
            (cursors @ [it])
   }"

definition InMemory_List :: "ListTasksRequest \<Rightarrow> InMemoryTaskStore \<Rightarrow> ListTasksResponse Result option" where
  "InMemory_List request s =
     (case ParseListPageToken (LTR_page_token request) of
        Inl e \<Rightarrow> Some (Inl e)
      | Inr boundary \<Rightarrow> do {
          let its = (case boundary of None \<Rightarrow> update_order s | Some b \<Rightarrow> upper_bound b (update_order s));
          (tasks, cursors, next_page_token) \<leftarrow> list_loop request s its [] [];
          Some (Inr \<lparr>LTResp_tasks = tasks, LTResp_page_size = length tasks,
                     LTResp_total_size = list_total_size request s,
                     LTResp_next_page_token = next_page_token, LTResp_task_cursors = cursors\<rparr>)
        })"

definition InMemory_Cancel :: "string \<Rightarrow> (InMemoryTaskStore, Task) step" where
  "InMemory_Cancel task_id s =
     (if task_id = [] then Some (s, Inl (Validation ''Task id is required''))
      else case task_indices s task_id of
        None \<Rightarrow> Some (s, Inl (TaskNotFound ''Task not found''))
      | Some index \<Rightarrow> do {
          task \<leftarrow> vec_get (ordered_tasks s) index;
          if IsTerminalTaskState (task_state task)
          then Some (s, Inl (TaskNotCancelable ''task is already terminal''))
          else do {
            (s, touched) \<leftarrow> TouchTask index s;
            case touched of
              Inl e \<Rightarrow> Some (s, Inl e)
            | Inr _ \<Rightarrow> do {
                let task = set_state TASK_STATE_CANCELED task;
                s \<leftarrow> store_task index task s;
                Some (s, Inr task)
              }
          }
        })"

definition InMemory_AppendTaskHistory ::
  "(Part \<Rightarrow> string) \<Rightarrow> string \<Rightarrow> Message \<Rightarrow> HistoryAppendPolicy \<Rightarrow> (InMemoryTaskStore, Task) step" where
  "InMemory_AppendTaskHistory ser task_id message policy s =
     (if task_id = [] then Some (s, Inl (Validation ''Task id is required''))
      else case task_indices s task_id of
        None \<Rightarrow> Some (s, Inl (TaskNotFound ''Task not found''))
      | Some index \<Rightarrow> do {
          task \<leftarrow> vec_get (ordered_tasks s) index;
          case FindHistoryDedupeReason ser (Task_history task) message policy of
            Some reason \<Rightarrow>
              let s = s\<lparr>telemetry_snapshot := UpdateDedupeSnapshot (telemetry_snapshot s) reason\<rparr>;
                  event = \<lparr>event_task_id = task_id, event_message_id = Message_message_id message,
                           event_policy = policy, event_reason = reason\<rparr>;
                  s = (if telemetry_sink s then s\<lparr>sink_events := sink_events s @ [event]\<rparr> else s)
              in Some (s, Inr task)
          | None \<Rightarrow> do {
              (s, touched) \<leftarrow> TouchTask index s;
              case touched of
                Inl e \<Rightarrow> Some (s, Inl e)
              | Inr _ \<Rightarrow> do {
                  let task = task\<lparr>Task_history := Task_history task @ [message]\<rparr>;
                  s \<leftarrow> store_task index task s;
                  Some (s, Inr task)
                }
            }
        })"

definition InMemory_GetHistoryTelemetrySnapshot :: "InMemoryTaskStore \<Rightarrow> HistoryTelemetrySnapshot" where
  "InMemory_GetHistoryTelemetrySnapshot s = telemetry_snapshot s"

lemmas [store_defs] = vec_get_def vec_set_def set_extract_def sample_clock_def

end
