(* ===== verification/Task_Store_Refine.thy ===== *)
theory Task_Store_Refine
  imports Task_Store
begin

text \<open>
  The in-memory store keeps its vectors, index map and ordered set consistent, never runs into an
  undefined execution and implements the abstract store: the interpretation of the \<open>task_store\<close> contract
  on \<open>InMemoryTaskStore\<close>.
\<close>

section \<open>The invariant and the abstraction\<close>

definition cursor_at :: "InMemoryTaskStore \<Rightarrow> nat \<Rightarrow> ListTaskCursor" where
  "cursor_at s i = ListTaskCursor (updated_at s ! i) (Task_id (ordered_tasks s ! i))"

definition store_inv :: "InMemoryTaskStore \<Rightarrow> bool" where
  "store_inv s \<longleftrightarrow>
     length (updated_at s) = length (ordered_tasks s) \<and>
     length (revisions s) = length (ordered_tasks s) \<and>
     (\<forall>k i. task_indices s k = Some i \<longleftrightarrow> i < length (ordered_tasks s) \<and> Task_id (ordered_tasks s ! i) = k) \<and>
     (\<forall>i < length (ordered_tasks s). Task_id (ordered_tasks s ! i) \<noteq> [] \<and>
        0 \<le> updated_at s ! i \<and> updated_at s ! i \<le> INT64_MAX) \<and>
     sorted (update_order s) \<and> distinct (update_order s) \<and>
     set (update_order s) = cursor_at s ` {..<length (ordered_tasks s)} \<and>
     (\<forall>n. INT64_MIN \<le> update_clock s n \<and> update_clock s n \<le> INT64_MAX)"

definition store_view :: "InMemoryTaskStore \<Rightarrow> AbstractStore" where
  "store_view s = \<lparr>
     a_map = (\<lambda>k. map_option (\<lambda>i. (ordered_tasks s ! i, revisions s ! i, updated_at s ! i)) (task_indices s k)),
     a_clock = update_clock s, a_calls = clock_calls s, a_sink = telemetry_sink s,
     a_telemetry = telemetry_snapshot s, a_events = sink_events s\<rparr>"

definition in_memory_ops :: "(Part \<Rightarrow> string) \<Rightarrow> InMemoryTaskStore TaskStore" where
  "in_memory_ops ser = \<lparr>TS_CreateOrUpdate = InMemory_CreateOrUpdate, TS_SupportsConditionalWrites = True,
     TS_GetSnapshot = InMemory_GetSnapshot,
     TS_CreateOrUpdateIfRevision = InMemory_CreateOrUpdateIfRevision, TS_Get = InMemory_Get,
     TS_List = InMemory_List, TS_Cancel = InMemory_Cancel,
     TS_AppendTaskHistory = InMemory_AppendTaskHistory ser,
     TS_GetHistoryTelemetrySnapshot = InMemory_GetHistoryTelemetrySnapshot\<rparr>"

lemma in_memory_ops_sel:
  "TS_CreateOrUpdate (in_memory_ops ser) = InMemory_CreateOrUpdate"
  "TS_SupportsConditionalWrites (in_memory_ops ser) = True"
  "TS_GetSnapshot (in_memory_ops ser) = InMemory_GetSnapshot"
  "TS_CreateOrUpdateIfRevision (in_memory_ops ser) = InMemory_CreateOrUpdateIfRevision"
  "TS_Get (in_memory_ops ser) = InMemory_Get" "TS_List (in_memory_ops ser) = InMemory_List"
  "TS_Cancel (in_memory_ops ser) = InMemory_Cancel"
  "TS_AppendTaskHistory (in_memory_ops ser) = InMemory_AppendTaskHistory ser"
  "TS_GetHistoryTelemetrySnapshot (in_memory_ops ser) = InMemory_GetHistoryTelemetrySnapshot"
  by (simp_all add: in_memory_ops_def)

lemma store_inv_index:
  "store_inv s \<Longrightarrow> task_indices s k = Some i \<longleftrightarrow> i < length (ordered_tasks s) \<and> Task_id (ordered_tasks s ! i) = k"
  by (simp add: store_inv_def)

lemma store_inv_indexD:
  "store_inv s \<Longrightarrow> task_indices s k = Some i \<Longrightarrow> i < length (ordered_tasks s) \<and> Task_id (ordered_tasks s ! i) = k"
  by (simp add: store_inv_def)

lemma store_inv_inj:
  assumes "store_inv s" "i < length (ordered_tasks s)" "j < length (ordered_tasks s)"
    "Task_id (ordered_tasks s ! i) = Task_id (ordered_tasks s ! j)"
  shows "i = j"
proof -
  from assms have "task_indices s (Task_id (ordered_tasks s ! j)) = Some i"
    "task_indices s (Task_id (ordered_tasks s ! j)) = Some j"
    by (auto simp: store_inv_index)
  then show ?thesis by simp
qed

lemma store_inv_lengths:
  "store_inv s \<Longrightarrow> length (updated_at s) = length (ordered_tasks s) \<and> length (revisions s) = length (ordered_tasks s)"
  by (simp add: store_inv_def)

lemma new_store_inv:
  "\<forall>n. INT64_MIN \<le> clock n \<and> clock n \<le> INT64_MAX \<Longrightarrow> store_inv (new_InMemoryTaskStore sink clock)"
  by (simp add: store_inv_def new_InMemoryTaskStore_def)

lemma store_view_map:
  "a_map (store_view s) k =
     map_option (\<lambda>i. (ordered_tasks s ! i, revisions s ! i, updated_at s ! i)) (task_indices s k)"
  by (simp add: store_view_def)

lemma store_view_wf: "store_inv s \<Longrightarrow> a_wf (store_view s)"
proof -
  assume inv: "store_inv s"
  have "dom (task_indices s) \<subseteq> (\<lambda>i. Task_id (ordered_tasks s ! i)) ` {..<length (ordered_tasks s)}"
    using inv by (auto simp: store_inv_index)
  then have "finite (dom (task_indices s))" by (rule finite_subset) simp
  moreover have "dom (a_map (store_view s)) = dom (task_indices s)"
    by (auto simp: store_view_map)
  moreover have "Task_id t = k \<and> k \<noteq> [] \<and> 0 \<le> u \<and> u \<le> INT64_MAX"
    if "a_map (store_view s) k = Some (t, r, u)" for k t r u
  proof -
    from that obtain i where "task_indices s k = Some i" "t = ordered_tasks s ! i" "u = updated_at s ! i"
      by (auto simp: store_view_map)
    with inv show ?thesis by (auto simp: store_inv_def)
  qed
  moreover have "\<forall>n. INT64_MIN \<le> a_clock (store_view s) n \<and> a_clock (store_view s) n \<le> INT64_MAX"
    using inv by (simp add: store_inv_def store_view_def)
  ultimately show ?thesis unfolding a_wf_def by simp
qed

section \<open>The two write primitives\<close>

text \<open>What touching and overwriting an existing task amounts to.\<close>

definition next_time :: "InMemoryTaskStore \<Rightarrow> nat \<Rightarrow> int" where
  "next_time s i = max (updated_at s ! i + 1) (update_clock s (clock_calls s))"

definition put_existing :: "nat \<Rightarrow> Task \<Rightarrow> InMemoryTaskStore \<Rightarrow> InMemoryTaskStore" where
  "put_existing i task s = s\<lparr>clock_calls := Suc (clock_calls s),
     update_order := set_insert (ListTaskCursor (next_time s i) (Task_id (ordered_tasks s ! i)))
       (remove1 (cursor_at s i) (update_order s)),
     updated_at := (updated_at s)[i := next_time s i],
     ordered_tasks := (ordered_tasks s)[i := task],
     revisions := (revisions s)[i := revisions s ! i + 1]\<rparr>"

definition put_new :: "Task \<Rightarrow> InMemoryTaskStore \<Rightarrow> InMemoryTaskStore" where
  "put_new task s = (let now = max 0 (update_clock s (clock_calls s)) in
     s\<lparr>clock_calls := Suc (clock_calls s),
       update_order := set_insert (ListTaskCursor now (Task_id task)) (update_order s),
       updated_at := updated_at s @ [now],
       ordered_tasks := ordered_tasks s @ [task],
       revisions := revisions s @ [1],
       task_indices := (task_indices s)(Task_id task \<mapsto> length (ordered_tasks s))\<rparr>)"

lemma write_existing:
  assumes "store_inv s" "task_indices s k = Some i"
  shows "do { (s, touched) \<leftarrow> TouchTask i s;
            case touched of
              Inl e \<Rightarrow> Some (s, Inl e)
            | Inr _ \<Rightarrow> do { s \<leftarrow> store_task i task s; Some (s, Inr v) } } =
    (if updated_at s ! i = INT64_MAX then Some (s, Inl (Internal kUpdateTimeExhaustedMessage))
     else Some (put_existing i task s, Inr v))"
proof -
  have i: "i < length (ordered_tasks s)" and len: "length (updated_at s) = length (ordered_tasks s)"
    "length (revisions s) = length (ordered_tasks s)"
    using assms store_inv_indexD store_inv_lengths by blast+
  then have "cursor_at s i \<in> set (update_order s)"
    using assms(1) by (simp add: store_inv_def)
  then show ?thesis
    using i len
    by (simp add: TouchTask_def store_task_def put_existing_def store_defs cursor_at_def next_time_def Let_def)
qed

lemma write_new:
  assumes "store_inv s" "task_indices s (Task_id task) = None"
  shows "append_task task s = Some (put_new task s, Inr ())"
  using assms(2) store_inv_lengths[OF assms(1)]
  by (simp add: append_task_def TouchTask_def put_new_def store_defs kInitialTaskRevision_def Let_def)

lemma set_set_insert [simp]: "set (set_insert x xs) = insert x (set xs)"
  by (auto simp: set_insert_def set_insort_key)

lemma sorted_set_insert:
  "sorted xs \<Longrightarrow> distinct xs \<Longrightarrow> sorted (set_insert x xs) \<and> distinct (set_insert x xs)"
  by (auto simp: set_insert_def sorted_insort distinct_insort)

lemma put_existing_inv:
  assumes inv: "store_inv s" and i: "task_indices s (Task_id task) = Some i"
    and time: "updated_at s ! i \<noteq> INT64_MAX"
  shows "store_inv (put_existing i task s)"
proof -
  let ?s = "put_existing i task s"
  let ?n = "length (ordered_tasks s)"
  have lt: "i < ?n" "Task_id (ordered_tasks s ! i) = Task_id task"
    using store_inv_indexD[OF inv i] by auto
  have ids: "Task_id ((ordered_tasks s)[i := task] ! j) = Task_id (ordered_tasks s ! j)" if "j < ?n" for j
    using lt that by (cases "j = i") simp_all
  have cur: "cursor_at ?s j = (if j = i then ListTaskCursor (next_time s i) (Task_id task) else cursor_at s j)"
    if "j < ?n" for j
    using that lt store_inv_lengths[OF inv] by (simp add: cursor_at_def put_existing_def)
  have diff: "cursor_at s j \<noteq> cursor_at s i" if "j < ?n" "j \<noteq> i" for j
    using store_inv_inj[OF inv that(1) lt(1)] that by (auto simp: cursor_at_def)
  have old: "set (update_order s) = cursor_at s ` {..<?n}" "sorted (update_order s)" "distinct (update_order s)"
    using inv by (simp_all add: store_inv_def)
  then have "set (remove1 (cursor_at s i) (update_order s)) = cursor_at s ` ({..<?n} - {i})"
    using diff by auto
  then have "set (update_order ?s) = cursor_at ?s ` {..<?n}"
    using lt cur by (auto simp: put_existing_def)
  moreover have "sorted (update_order ?s) \<and> distinct (update_order ?s)"
    using old by (simp add: put_existing_def sorted_set_insert sorted_remove1)
  moreover have "0 \<le> updated_at s ! i" "updated_at s ! i \<le> INT64_MAX"
    using inv lt by (simp_all add: store_inv_def)
  then have "0 \<le> next_time s i" "next_time s i \<le> INT64_MAX"
    using time inv by (auto simp: next_time_def store_inv_def)
  ultimately show ?thesis
    using inv ids lt unfolding store_inv_def
    by (simp add: put_existing_def nth_list_update)
qed

lemma put_existing_view:
  assumes inv: "store_inv s" and i: "task_indices s (Task_id task) = Some i"
    and time: "updated_at s ! i \<noteq> INT64_MAX"
  shows "a_put task (store_view s) = (store_view (put_existing i task s), Inr ())"
proof -
  have lt: "i < length (ordered_tasks s)" using store_inv_indexD[OF inv i] by simp
  have other: "task_indices s k = Some j \<Longrightarrow> k \<noteq> Task_id task \<Longrightarrow> j \<noteq> i" for k j
    using store_inv_indexD[OF inv, of k j] store_inv_indexD[OF inv i] by auto
  have "a_map (store_view (put_existing i task s)) =
    (a_map (store_view s))(Task_id task \<mapsto> (task, revisions s ! i + 1, next_time s i))"
  proof
    fix k
    show "a_map (store_view (put_existing i task s)) k =
      ((a_map (store_view s))(Task_id task \<mapsto> (task, revisions s ! i + 1, next_time s i))) k"
      using i lt other[of k] store_inv_lengths[OF inv]
      by (cases "task_indices s k") (auto simp: store_view_map put_existing_def)
  qed
  then show ?thesis
    using i time
    by (simp add: a_put_def store_view_map) (simp add: store_view_def put_existing_def next_time_def)
qed

lemma put_new_inv:
  assumes inv: "store_inv s" and new: "task_indices s (Task_id task) = None" and ne: "Task_id task \<noteq> []"
  shows "store_inv (put_new task s)"
proof -
  let ?s = "put_new task s"
  let ?n = "length (ordered_tasks s)"
  have fresh: "Task_id (ordered_tasks s ! j) \<noteq> Task_id task" if "j < ?n" for j
    using store_inv_index[OF inv, of "Task_id task" j] new that by auto
  have cur: "cursor_at ?s j = (if j < ?n then cursor_at s j
      else ListTaskCursor (max 0 (update_clock s (clock_calls s))) (Task_id task))" if "j < Suc ?n" for j
    using that store_inv_lengths[OF inv]
    by (auto simp: cursor_at_def put_new_def nth_append Let_def less_Suc_eq)
  have "set (update_order ?s) = cursor_at ?s ` {..<Suc ?n}"
    using inv cur by (auto simp: store_inv_def put_new_def Let_def lessThan_Suc)
  moreover have "sorted (update_order ?s) \<and> distinct (update_order ?s)"
    using inv by (simp add: put_new_def sorted_set_insert store_inv_def Let_def)
  moreover have "0 \<le> max 0 (update_clock s n)" "max 0 (update_clock s n) \<le> INT64_MAX" for n
    using inv by (auto simp: store_inv_def)
  ultimately show ?thesis
    using inv fresh ne store_inv_lengths[OF inv] unfolding store_inv_def
    by (auto simp: put_new_def nth_append Let_def less_Suc_eq)
qed

lemma put_new_view:
  assumes inv: "store_inv s" and new: "task_indices s (Task_id task) = None"
  shows "a_put task (store_view s) = (store_view (put_new task s), Inr ())"
proof -
  have "a_map (store_view (put_new task s)) =
    (a_map (store_view s))(Task_id task \<mapsto> (task, 1, max 0 (update_clock s (clock_calls s))))"
  proof
    fix k
    show "a_map (store_view (put_new task s)) k =
      ((a_map (store_view s))(Task_id task \<mapsto> (task, 1, max 0 (update_clock s (clock_calls s))))) k"
      using store_inv_lengths[OF inv] store_inv_indexD[OF inv, of k]
      by (cases "task_indices s k") (auto simp: store_view_map put_new_def Let_def nth_append)
  qed
  then show ?thesis
    using new by (simp add: a_put_def store_view_map) (simp add: store_view_def put_new_def Let_def)
qed

section \<open>Every write implements its specification\<close>

lemma put_exhausted:
  "task_indices s (Task_id t) = Some i \<Longrightarrow> updated_at s ! i = INT64_MAX \<Longrightarrow>
   a_put t (store_view s) = (store_view s, Inl (Internal kUpdateTimeExhaustedMessage))"
  by (simp add: a_put_def store_view_map)

text \<open>The common tail of every write to an existing task, against the abstract write.\<close>

lemma write_existing_spec:
  assumes "store_inv s" "task_indices s (Task_id task) = Some i"
  shows "\<exists>s'. do { (s, touched) \<leftarrow> TouchTask i s;
            case touched of
              Inl e \<Rightarrow> Some (s, Inl e)
            | Inr _ \<Rightarrow> do { s \<leftarrow> store_task i task s; Some (s, Inr v) } } =
      Some (s', snd (a_return v (a_put task (store_view s)))) \<and>
    store_inv s' \<and> store_view s' = fst (a_return v (a_put task (store_view s)))"
proof (cases "updated_at s ! i = INT64_MAX")
  case True
  with assms show ?thesis
    unfolding write_existing[OF assms] by (simp add: put_exhausted a_return_def)
next
  case False
  with assms show ?thesis
    unfolding write_existing[OF assms]
    by (simp add: put_existing_view put_existing_inv a_return_def)
qed

lemma a_return_unit [simp]: "a_return () p = p"
  by (cases p) (auto simp: a_return_def result_bind_def split: sum.splits)

lemma get_implements: "store_inv s \<Longrightarrow> InMemory_Get k s = Some (spec_Get k (store_view s))"
  by (auto simp: InMemory_Get_def spec_Get_def spec_lookup_def store_view_map vec_get_def
      split: option.splits dest: store_inv_indexD)

lemma snapshot_implements:
  "store_inv s \<Longrightarrow> InMemory_GetSnapshot k s = Some (spec_GetSnapshot k (store_view s))"
  using store_inv_lengths[of s]
  by (auto simp: InMemory_GetSnapshot_def spec_GetSnapshot_def spec_lookup_def store_view_map vec_get_def
      split: option.splits dest: store_inv_indexD)

lemma append_task_spec:
  assumes "store_inv s" "task_indices s (Task_id t) = None" "Task_id t \<noteq> []"
  shows "append_task t s = Some (put_new t s, Inr ()) \<and> store_inv (put_new t s) \<and>
    a_put t (store_view s) = (store_view (put_new t s), Inr ())"
  using assms by (simp add: write_new put_new_inv put_new_view)

lemma upsert_implements: "implements store_inv store_view (InMemory_CreateOrUpdate t) (spec_CreateOrUpdate t)"
  unfolding implements_def
proof (intro allI impI)
  fix s assume inv: "store_inv s"
  show "\<exists>s'. InMemory_CreateOrUpdate t s = Some (s', snd (spec_CreateOrUpdate t (store_view s))) \<and>
    store_inv s' \<and> store_view s' = fst (spec_CreateOrUpdate t (store_view s))"
  proof (cases "Task_id t = []")
    case True
    with inv show ?thesis by (simp add: InMemory_CreateOrUpdate_def spec_CreateOrUpdate_def)
  next
    case ne: False
    show ?thesis
    proof (cases "task_indices s (Task_id t)")
      case None
      with inv ne append_task_spec[OF inv None ne] show ?thesis
        by (simp add: InMemory_CreateOrUpdate_def spec_CreateOrUpdate_def)
    next
      case (Some i)
      with ne write_existing_spec[OF inv Some, of "()"] show ?thesis
        unfolding InMemory_CreateOrUpdate_def spec_CreateOrUpdate_def by simp
    qed
  qed
qed

lemma conditional_implements:
  "implements store_inv store_view (InMemory_CreateOrUpdateIfRevision t e) (spec_CreateOrUpdateIfRevision t e)"
  unfolding implements_def
proof (intro allI impI)
  fix s assume inv: "store_inv s"
  show "\<exists>s'. InMemory_CreateOrUpdateIfRevision t e s =
      Some (s', snd (spec_CreateOrUpdateIfRevision t e (store_view s))) \<and>
    store_inv s' \<and> store_view s' = fst (spec_CreateOrUpdateIfRevision t e (store_view s))"
  proof (cases "Task_id t = []")
    case True
    with inv show ?thesis
      by (simp add: InMemory_CreateOrUpdateIfRevision_def spec_CreateOrUpdateIfRevision_def)
  next
    case ne: False
    show ?thesis
    proof (cases "task_indices s (Task_id t)")
      case None
      with inv ne append_task_spec[OF inv None ne] show ?thesis
        by (simp add: InMemory_CreateOrUpdateIfRevision_def spec_CreateOrUpdateIfRevision_def
            store_view_map a_return_def)
    next
      case (Some i)
      then have "i < length (revisions s)"
        using store_inv_indexD[OF inv Some] store_inv_lengths[OF inv] by simp
      with ne inv Some write_existing_spec[OF inv Some, of kUpdated] show ?thesis
        unfolding InMemory_CreateOrUpdateIfRevision_def spec_CreateOrUpdateIfRevision_def
        by (simp add: store_view_map vec_get_def)
    qed
  qed
qed

lemma cancel_implements: "implements store_inv store_view (InMemory_Cancel k) (spec_Cancel k)"
  unfolding implements_def
proof (intro allI impI)
  fix s assume inv: "store_inv s"
  show "\<exists>s'. InMemory_Cancel k s = Some (s', snd (spec_Cancel k (store_view s))) \<and>
    store_inv s' \<and> store_view s' = fst (spec_Cancel k (store_view s))"
  proof (cases "k = [] \<or> task_indices s k = None")
    case True
    with inv show ?thesis
      by (auto simp: InMemory_Cancel_def spec_Cancel_def spec_Get_def spec_lookup_def store_view_map)
  next
    case False
    then obtain i where i: "task_indices s k = Some i" and ne: "k \<noteq> []" by auto
    let ?t = "set_state TASK_STATE_CANCELED (ordered_tasks s ! i)"
    from store_inv_indexD[OF inv i] have lt: "i < length (ordered_tasks s)" and k: "Task_id ?t = k" by auto
    from write_existing_spec[OF inv i[folded k], of ?t] i ne lt inv k show ?thesis
      unfolding InMemory_Cancel_def spec_Cancel_def spec_Get_def spec_lookup_def Let_def
      by (simp add: store_view_map vec_get_def)
  qed
qed

lemma append_implements:
  "implements store_inv store_view (InMemory_AppendTaskHistory ser k m p) (spec_AppendTaskHistory ser k m p)"
  unfolding implements_def
proof (intro allI impI)
  fix s assume inv: "store_inv s"
  show "\<exists>s'. InMemory_AppendTaskHistory ser k m p s =
      Some (s', snd (spec_AppendTaskHistory ser k m p (store_view s))) \<and>
    store_inv s' \<and> store_view s' = fst (spec_AppendTaskHistory ser k m p (store_view s))"
  proof (cases "k = [] \<or> task_indices s k = None")
    case True
    with inv show ?thesis
      by (auto simp: InMemory_AppendTaskHistory_def spec_AppendTaskHistory_def spec_Get_def
          spec_lookup_def store_view_map)
  next
    case False
    then obtain i where i: "task_indices s k = Some i" and ne: "k \<noteq> []" by auto
    let ?h = "Task_history (ordered_tasks s ! i)"
    let ?t = "(ordered_tasks s ! i)\<lparr>Task_history := ?h @ [m]\<rparr>"
    from store_inv_indexD[OF inv i] have lt: "i < length (ordered_tasks s)" and k: "Task_id ?t = k" by auto
    show ?thesis
    proof (cases "FindHistoryDedupeReason ser ?h m p")
      case None
      from write_existing_spec[OF inv i[folded k], of ?t] i ne lt inv k None show ?thesis
        unfolding InMemory_AppendTaskHistory_def spec_AppendTaskHistory_def spec_Get_def spec_lookup_def Let_def
        by (simp add: store_view_map vec_get_def)
    next
      case (Some reason)
      with i ne lt inv show ?thesis
        by (simp add: InMemory_AppendTaskHistory_def spec_AppendTaskHistory_def spec_Get_def spec_lookup_def
            store_view_map vec_get_def Let_def)
          (simp add: store_view_def store_inv_def cursor_at_def)
    qed
  qed
qed

section \<open>Listing implements its specification\<close>

lemma upper_bound_filter: "sorted xs \<Longrightarrow> upper_bound b xs = filter (\<lambda>c. b < c) xs"
proof (induction xs)
  case (Cons x xs)
  show ?case
  proof (cases "b < x")
    case True
    then have "filter (\<lambda>c. b < c) xs = xs"
      using Cons.prems by (auto simp: filter_id_conv)
    with True show ?thesis by (simp add: upper_bound_def)
  next
    case False
    with Cons show ?thesis by (simp add: upper_bound_def)
  qed
qed (simp add: upper_bound_def)

lemma update_order_cursors:
  assumes "store_inv s"
  shows "update_order s = a_cursors (store_view s)"
proof -
  have "set (update_order s) = set (a_cursors (store_view s))"
    unfolding set_a_cursors[OF store_view_wf[OF assms]]
  proof (intro set_eqI iffI)
    fix c assume "c \<in> set (update_order s)"
    with assms obtain i where "i < length (ordered_tasks s)" "c = cursor_at s i"
      by (auto simp: store_inv_def)
    with assms show "c \<in> {ListTaskCursor u k | k t r u. a_map (store_view s) k = Some (t, r, u)}"
      by (auto simp: cursor_at_def store_view_map store_inv_index)
  next
    fix c assume "c \<in> {ListTaskCursor u k | k t r u. a_map (store_view s) k = Some (t, r, u)}"
    then obtain k i where "task_indices s k = Some i" "c = ListTaskCursor (updated_at s ! i) k"
      by (auto simp: store_view_map)
    with assms show "c \<in> set (update_order s)"
      by (auto simp: store_inv_def cursor_at_def)
  qed
  then show ?thesis
    using assms by (intro sorted_distinct_set_unique) (auto simp: store_inv_def)
qed

lemma cursor_lookup:
  assumes "store_inv s" "c \<in> set (update_order s)"
  obtains i where "i < length (ordered_tasks s)" "task_indices s (cursor_task_id c) = Some i"
    "c = cursor_at s i" "a_task (store_view s) c = ordered_tasks s ! i"
proof -
  from assms obtain i where i: "i < length (ordered_tasks s)" "c = cursor_at s i"
    by (auto simp: store_inv_def)
  moreover from this have "task_indices s (cursor_task_id c) = Some i"
    using assms(1) by (simp add: store_inv_index cursor_at_def)
  moreover from this have "a_task (store_view s) c = ordered_tasks s ! i"
    by (simp add: a_task_def store_view_map)
  ultimately show thesis using that by blast
qed

text \<open>The listing loop collects the matching entries up to the page size; it stops with a token at the
  first further match.\<close>

lemma list_loop_spec:
  assumes inv: "store_inv s"
    and "set its \<subseteq> set (update_order s)"
    and "length cursors = length tasks" "LTR_page_size req \<noteq> 0 \<longrightarrow> length tasks \<le> LTR_page_size req"
  shows "list_loop req s its tasks cursors =
    (let rest = filter (\<lambda>c. MatchesListFilters (a_task (store_view s) c) req) its;
         room = LTR_page_size req - length tasks;
         more = (if LTR_page_size req = 0 then rest else take room rest)
     in Some (tasks @ map (project_for req \<circ> a_task (store_view s)) more, cursors @ more,
          if LTR_page_size req \<noteq> 0 \<and> room < length rest then EncodeListPageToken (last (cursors @ more)) else []))"
  using assms(2-4)
proof (induction its arbitrary: tasks cursors)
  case Nil
  then show ?case by (simp add: Let_def)
next
  case (Cons it its)
  let ?t = "a_task (store_view s) it"
  from Cons.prems obtain i where i: "i < length (ordered_tasks s)" "task_indices s (cursor_task_id it) = Some i"
    and t: "?t = ordered_tasks s ! i"
    by (auto elim: cursor_lookup[OF inv, of it])
  show ?case
  proof (cases "MatchesListFilters ?t req")
    case False
    with Cons i t show ?thesis by (simp add: vec_get_def)
  next
    case match: True
    show ?thesis
    proof (cases "LTR_page_size req \<noteq> 0 \<and> length tasks = LTR_page_size req")
      case True
      with Cons.prems have "cursors \<noteq> []" by auto
      with True match i t show ?thesis by (simp add: vec_get_def)
    next
      case False
      let ?p = "project_for req ?t"
      have "list_loop req s (it # its) tasks cursors = list_loop req s its (tasks @ [?p]) (cursors @ [it])"
        using False match i t by (auto simp: vec_get_def project_for_def)
      moreover have "LTR_page_size req \<noteq> 0 \<Longrightarrow> LTR_page_size req - length tasks = Suc (LTR_page_size req - Suc (length tasks))"
        using False Cons.prems by auto
      ultimately show ?thesis
        using Cons.IH[of "cursors @ [it]" "tasks @ [?p]"] Cons.prems False match
        by (auto simp: Let_def)
    qed
  qed
qed

lemma matching_count:
  assumes inv: "store_inv s"
  shows "length (filter (\<lambda>t. MatchesListFilters t req) (ordered_tasks s)) = length (a_matching req (store_view s))"
proof -
  let ?n = "length (ordered_tasks s)" and ?P = "\<lambda>t. MatchesListFilters t req"
  have inj: "inj_on (cursor_at s) {i. i < ?n \<and> ?P (ordered_tasks s ! i)}"
    using store_inv_inj[OF inv] by (auto simp: inj_on_def cursor_at_def)
  have "set (a_matching req (store_view s)) = cursor_at s ` {i. i < ?n \<and> ?P (ordered_tasks s ! i)}"
  proof (intro set_eqI iffI)
    fix c assume "c \<in> set (a_matching req (store_view s))"
    then have c: "c \<in> set (update_order s)" "?P (a_task (store_view s) c)"
      by (auto simp: a_matching_def update_order_cursors[OF inv])
    from c(1) show "c \<in> cursor_at s ` {i. i < ?n \<and> ?P (ordered_tasks s ! i)}"
      by (rule cursor_lookup[OF inv]) (use c(2) in auto)
  next
    fix c assume "c \<in> cursor_at s ` {i. i < ?n \<and> ?P (ordered_tasks s ! i)}"
    then obtain i where i: "i < ?n" "?P (ordered_tasks s ! i)" "c = cursor_at s i" by auto
    moreover from i have "c \<in> set (update_order s)" using inv by (auto simp: store_inv_def)
    moreover have "task_indices s (Task_id (ordered_tasks s ! i)) = Some i"
      using i inv by (simp add: store_inv_index)
    then have "a_task (store_view s) c = ordered_tasks s ! i"
      using i by (simp add: a_task_def cursor_at_def store_view_map)
    ultimately show "c \<in> set (a_matching req (store_view s))"
      by (simp add: a_matching_def update_order_cursors[OF inv, symmetric])
  qed
  then have "length (a_matching req (store_view s)) = card (cursor_at s ` {i. i < ?n \<and> ?P (ordered_tasks s ! i)})"
    using distinct_card[of "a_matching req (store_view s)"] by simp
  also have "\<dots> = card {i. i < ?n \<and> ?P (ordered_tasks s ! i)}"
    by (rule card_image[OF inj])
  finally show ?thesis by (simp add: length_filter_conv_card)
qed

lemma foldl_count: "foldl (\<lambda>n t. n + (if P t then 1 else 0)) (k :: nat) xs = k + length (filter P xs)"
  by (induction xs arbitrary: k) auto

lemma list_total_size_spec:
  assumes "store_inv s"
  shows "list_total_size req s =
    (if LTR_include_total_size req then length (a_matching req (store_view s)) else 0)"
proof -
  have "LTR_context_id req = [] \<Longrightarrow> LTR_status_filter req = None \<Longrightarrow> LTR_status_timestamp_after req = None \<Longrightarrow>
      filter (\<lambda>t. MatchesListFilters t req) (ordered_tasks s) = ordered_tasks s"
    by (simp add: MatchesListFilters_def)
  with matching_count[OF assms, of req] show ?thesis
    by (auto simp: list_total_size_def foldl_count)
qed

lemma list_implements: "store_inv s \<Longrightarrow> InMemory_List req s = Some (spec_List req (store_view s))"
proof -
  assume inv: "store_inv s"
  let ?v = "store_view s"
  show ?thesis
  proof (cases "ParseListPageToken (LTR_page_token req)")
    case (Inl e)
    then show ?thesis by (simp add: InMemory_List_def spec_List_def)
  next
    case (Inr b)
    let ?its = "case b of None \<Rightarrow> update_order s | Some c \<Rightarrow> upper_bound c (update_order s)"
    have its: "?its = after_boundary b (a_cursors ?v)"
      using upper_bound_filter inv
      by (auto simp: after_boundary_def store_inv_def simp flip: update_order_cursors[OF inv] split: option.splits)
    have "filter (\<lambda>c. MatchesListFilters (a_task ?v c) req) ?its = after_boundary b (a_matching req ?v)"
      unfolding its
      by (auto simp: after_boundary_def a_matching_def conj_commute split: option.splits)
    moreover have "set ?its \<subseteq> set (update_order s)"
      by (auto simp: upper_bound_def split: option.splits dest: set_dropWhileD)
    ultimately show ?thesis
      using list_loop_spec[OF inv, of ?its "[]" "[]" req] Inr list_total_size_spec[OF inv, of req]
      by (simp add: InMemory_List_def spec_List_def page_of_def Let_def)
  qed
qed

interpretation mem: task_store "in_memory_ops ser" store_inv store_view ser
  by unfold_locales
    (simp_all add: in_memory_ops_def store_view_wf get_implements snapshot_implements list_implements
      upsert_implements conditional_implements cancel_implements append_implements)

end
