(* ===== verification/Task_Store_Props.thy ===== *)
theory Task_Store_Props
  imports Task_Store_Refine
begin

text \<open>
  What a task store guarantees to its clients: proved once from the \<open>task_store\<close> contract, then stated for
  \<open>InMemoryTaskStore\<close> through its interpretation. Reading one's writes, optimistic concurrency, strictly
  advancing update times, idempotent deduplicated appends, and complete pagination.
\<close>

section \<open>Consequences of the contract\<close>

text \<open>Walking the pages of a listing: the client follows next page tokens until one is empty.\<close>

fun list_pages :: "nat \<Rightarrow> 's TaskStore \<Rightarrow> ListTasksRequest \<Rightarrow> 's \<Rightarrow> Task list option" where
  "list_pages 0 ops request s = None"
| "list_pages (Suc fuel) ops request s =
     (case TS_List ops request s of
        Some (Inr response) \<Rightarrow>
          if LTResp_next_page_token response = [] then Some (LTResp_tasks response)
          else map_option ((@) (LTResp_tasks response))
                 (list_pages fuel ops (request\<lparr>LTR_page_token := LTResp_next_page_token response\<rparr>) s)
      | _ \<Rightarrow> None)"

lemma sorted_filter_greater:
  assumes "sorted xs" "distinct xs" "i < length xs"
  shows "filter (\<lambda>c. xs ! i < c) xs = drop (Suc i) xs"
  using assms
proof (induction xs arbitrary: i)
  case (Cons x xs)
  show ?case
  proof (cases i)
    case 0
    with Cons.prems have "\<forall>c\<in>set xs. x < c" by (auto simp: order_less_le)
    with 0 show ?thesis by (simp add: filter_id_conv)
  next
    case (Suc j)
    with Cons.prems have "x \<le> xs ! j" by simp
    with Suc Cons show ?thesis by (simp add: leD)
  qed
qed simp

lemma a_matching_cursor:
  assumes "a_wf a" "c \<in> set (a_matching req a)"
  shows "ParseListPageToken (EncodeListPageToken c) = Inr (Some c)"
proof -
  from assms obtain k t r u where "a_map a k = Some (t, r, u)" "c = ListTaskCursor u k"
    by (auto simp: a_matching_def set_a_cursors)
  with assms(1) show ?thesis by (intro parse_encode_cursor) (auto simp: a_wf_def)
qed

lemma a_matching_page_token [simp]:
  "a_matching (req\<lparr>LTR_page_token := tok\<rparr>) a = a_matching req a"
  "a_matching (req\<lparr>LTR_page_size := n\<rparr>) a = a_matching req a"
  by (simp_all add: a_matching_def MatchesListFilters_def HasStatusAfterCutoff_def)

lemma project_for_page_token [simp]:
  "project_for (req\<lparr>LTR_page_token := tok\<rparr>) = project_for req"
  "project_for (req\<lparr>LTR_page_size := n\<rparr>) = project_for req"
  by (simp_all add: project_for_def fun_eq_iff)

lemma spec_Get_Inr_iff: "spec_Get k a = Inr t \<longleftrightarrow> k \<noteq> [] \<and> (\<exists>r u. a_map a k = Some (t, r, u))"
  by (auto simp: spec_Get_def spec_lookup_def split: option.splits)

lemma a_wf_id: "a_wf a \<Longrightarrow> a_map a k = Some (t, r, u) \<Longrightarrow> Task_id t = k"
  by (auto simp: a_wf_def)

lemma spec_Append_result:
  assumes "a_wf a" "snd (spec_AppendTaskHistory ser k m p a) = Inr t1"
    and "p = kDedupByIdOrFingerprint \<or> (p = kDedupByMessageId \<and> Message_message_id m \<noteq> [])"
  shows "spec_Get k (fst (spec_AppendTaskHistory ser k m p a)) = Inr t1"
    and "FindHistoryDedupeReason ser (Task_history t1) m p \<noteq> None"
proof -
  from assms(2) obtain t where t: "spec_Get k a = Inr t"
    by (auto simp: spec_AppendTaskHistory_def split: sum.splits)
  then have k: "k \<noteq> []" "Task_id t = k" using a_wf_id[OF assms(1)] by (auto simp: spec_Get_Inr_iff)
  show "spec_Get k (fst (spec_AppendTaskHistory ser k m p a)) = Inr t1"
  proof (cases "FindHistoryDedupeReason ser (Task_history t) m p")
    case None
    let ?t' = "t\<lparr>Task_history := Task_history t @ [m]\<rparr>"
    have put: "snd (a_put ?t' a) = Inr ()" "t1 = ?t'"
      using assms(2) t None
      by (auto simp: spec_AppendTaskHistory_def Let_def result_bind_Inr)
    have "fst (spec_AppendTaskHistory ser k m p a) = fst (a_put ?t' a)"
      using t None by (simp add: spec_AppendTaskHistory_def Let_def)
    with a_put_Inr_lookup[OF put(1)] k put(2) show ?thesis by (simp add: spec_Get_Inr_iff)
  next
    case (Some reason)
    with t assms(2) have "t1 = t" "a_map (fst (spec_AppendTaskHistory ser k m p a)) = a_map a"
      by (auto simp: spec_AppendTaskHistory_def)
    with t show ?thesis by (simp add: spec_Get_Inr_iff)
  qed
  show "FindHistoryDedupeReason ser (Task_history t1) m p \<noteq> None"
    using assms(2,3) t FindHistoryDedupeReason_append_self[of p m ser "Task_history t"]
    by (auto simp: spec_AppendTaskHistory_def Let_def result_bind_Inr split: option.splits)
qed

context task_store
begin

lemma read_own_write:
  assumes "good s" "TS_CreateOrUpdate ops t s = Some (s', Inr ())"
  shows "TS_Get ops (Task_id t) s' = Some (Inr t)"
    and "k \<noteq> Task_id t \<Longrightarrow> TS_Get ops k s' = TS_Get ops k s"
proof -
  from upsert_impl[of t] assms(1) obtain s1 where
    "TS_CreateOrUpdate ops t s = Some (s1, snd (spec_CreateOrUpdate t (view s)))"
    "good s1" "view s1 = fst (spec_CreateOrUpdate t (view s))"
    by (rule implementsE)
  with assms(2) have eq: "snd (spec_CreateOrUpdate t (view s)) = Inr ()"
    and s': "good s'" "view s' = fst (spec_CreateOrUpdate t (view s))" by auto
  then have ne: "Task_id t \<noteq> []" and put: "snd (a_put t (view s)) = Inr ()" "view s' = fst (a_put t (view s))"
    by (auto simp: spec_CreateOrUpdate_def split: if_splits)
  from a_put_Inr_lookup[OF put(1)] obtain r u where "a_map (view s') (Task_id t) = Some (t, r, u)"
    unfolding put(2) by blast
  with ne s'(1) show "TS_Get ops (Task_id t) s' = Some (Inr t)"
    by (simp add: get_impl spec_Get_def spec_lookup_def)
  show "TS_Get ops k s' = TS_Get ops k s" if "k \<noteq> Task_id t"
    using that assms(1) s'(1) put(2) a_put_other[of k t "view s"]
    by (simp add: get_impl spec_Get_def spec_lookup_def)
qed

lemma conditional_write_spec:
  assumes "good s"
  obtains s' where
    "TS_CreateOrUpdateIfRevision ops t e s = Some (s', snd (spec_CreateOrUpdateIfRevision t e (view s)))"
    "good s'" "view s' = fst (spec_CreateOrUpdateIfRevision t e (view s))"
  using conditional_impl assms by (rule implementsE)

text \<open>After a conditional write, no second write with the same expected revision can succeed.\<close>

lemma conditional_conflict:
  assumes "good s" "TS_CreateOrUpdateIfRevision ops t1 e s = Some (s1, Inr kUpdated)" "Task_id t2 = Task_id t1"
  shows "\<exists>s2. TS_CreateOrUpdateIfRevision ops t2 e s1 = Some (s2, Inr kConflict) \<and> view s2 = view s1"
proof -
  obtain s1' where "TS_CreateOrUpdateIfRevision ops t1 e s = Some (s1', snd (spec_CreateOrUpdateIfRevision t1 e (view s)))"
    "good s1'" "view s1' = fst (spec_CreateOrUpdateIfRevision t1 e (view s))"
    using assms(1) by (rule conditional_write_spec)
  with assms(2) have s1: "good s1" "view s1 = fst (spec_CreateOrUpdateIfRevision t1 e (view s))"
    and r1: "snd (spec_CreateOrUpdateIfRevision t1 e (view s)) = Inr kUpdated" by auto
  from r1 have ne: "Task_id t1 \<noteq> []"
    and cur: "(case a_map (view s) (Task_id t1) of None \<Rightarrow> 0 | Some (_, r, _) \<Rightarrow> r) = e"
    and put: "snd (a_put t1 (view s)) = Inr ()" "view s1 = fst (a_put t1 (view s))"
    using s1(2) by (auto simp: spec_CreateOrUpdateIfRevision_def Let_def result_bind_Inr split: if_splits)
  have "(case a_map (view s1) (Task_id t1) of None \<Rightarrow> 0 | Some (_, r, _) \<Rightarrow> r) \<noteq> e"
    using cur put by (auto simp: a_put_def Let_def split: option.splits if_splits)
  then have "spec_CreateOrUpdateIfRevision t2 e (view s1) = (view s1, Inr kConflict)"
    using ne assms(3) by (simp add: spec_CreateOrUpdateIfRevision_def Let_def)
  then show ?thesis
    using conditional_write_spec[OF s1(1), of t2 e] by fastforce
qed

lemma list_pages_from:
  assumes good: "good s" and n: "LTR_page_size req \<noteq> 0"
    and "ParseListPageToken tok = Inr b"
    and "after_boundary b (a_matching req (view s)) = drop j (a_matching req (view s))"
    and "j \<le> length (a_matching req (view s))"
    and "length (a_matching req (view s)) < j + fuel * LTR_page_size req"
  shows "list_pages fuel ops (req\<lparr>LTR_page_token := tok\<rparr>) s =
    Some (map (project_for req \<circ> a_task (view s)) (drop j (a_matching req (view s))))"
  using assms(3-)
proof (induction fuel arbitrary: tok b j)
  case 0
  then show ?case by simp
next
  case (Suc fuel)
  define m where "m = a_matching req (view s)"
  define page where "page = take (LTR_page_size req) (drop j m)"
  let ?req = "req\<lparr>LTR_page_token := tok\<rparr>"
  have list: "TS_List ops ?req s = Some (spec_List ?req (view s))" using good by (rule list_impl)
  show ?case
  proof (cases "LTR_page_size req < length (drop j m)")
    case False
    then show ?thesis
      using list Suc.prems(1,2) n by (simp add: spec_List_def Let_def m_def page_of_def)
  next
    case True
    define i where "i = j + LTR_page_size req - 1"
    from True n have i: "i < length m" "Suc i = j + LTR_page_size req" by (auto simp: i_def)
    have last: "last page = m ! i"
      using True n i by (subst last_conv_nth) (auto simp: page_def i_def nth_append)
    have "m ! i \<in> set m" using i by simp
    then have parse: "ParseListPageToken (EncodeListPageToken (m ! i)) = Inr (Some (m ! i))"
      unfolding m_def by (rule a_matching_cursor[OF wf[OF good]])
    have "after_boundary (Some (m ! i)) m = drop (Suc i) m"
      using i(1) by (simp add: after_boundary_def sorted_filter_greater m_def)
    with Suc.IH[OF parse, of "Suc i"] Suc.prems(4) i
    have "list_pages fuel ops (req\<lparr>LTR_page_token := EncodeListPageToken (m ! i)\<rparr>) s =
        Some (map (project_for req \<circ> a_task (view s)) (drop (Suc i) m))"
      by (simp add: m_def)
    moreover have "drop j m = page @ drop (Suc i) m"
      using append_take_drop_id[of "LTR_page_size req" "drop j m"]
      by (simp add: page_def i(2) add.commute)
    moreover obtain resp where "TS_List ops ?req s = Some (Inr resp)"
      "LTResp_tasks resp = map (project_for req \<circ> a_task (view s)) page"
      "LTResp_next_page_token resp = EncodeListPageToken (m ! i)"
      using list Suc.prems(1,2) n True last
      by (simp add: spec_List_def Let_def page_of_def flip: m_def page_def)
    ultimately show ?thesis by (simp add: EncodeListPageToken_nonempty flip: m_def)
  qed
qed

lemma list_pages_complete:
  assumes "good s" "LTR_page_size req \<noteq> 0" "LTR_page_token req = []"
    and "length (a_matching req (view s)) < fuel * LTR_page_size req"
  shows "list_pages fuel ops req s = Some (map (project_for req \<circ> a_task (view s)) (a_matching req (view s)))"
proof -
  have "req\<lparr>LTR_page_token := []\<rparr> = req" using assms(3) by simp
  then show ?thesis
    using list_pages_from[OF assms(1,2) ParseListPageToken_empty, of 0 fuel] assms(4)
    by (simp add: after_boundary_def)
qed

text \<open>Cancelling a stored task.\<close>

lemma cancel_cases:
  assumes "good s" "TS_Get ops k s = Some (Inr t)"
  shows "if IsTerminalTaskState (task_state t)
    then \<exists>s'. TS_Cancel ops k s = Some (s', Inl (TaskNotCancelable ''task is already terminal'')) \<and> view s' = view s
    else (\<exists>s'. TS_Cancel ops k s = Some (s', Inl (Internal kUpdateTimeExhaustedMessage)) \<and> view s' = view s) \<or>
      (\<exists>s'. TS_Cancel ops k s = Some (s', Inr (set_state TASK_STATE_CANCELED t)) \<and>
        TS_Get ops k s' = Some (Inr (set_state TASK_STATE_CANCELED t)) \<and>
        (\<exists>s''. TS_Cancel ops k s' = Some (s'', Inl (TaskNotCancelable ''task is already terminal''))))"
proof -
  let ?t = "set_state TASK_STATE_CANCELED t"
  have get: "spec_Get k (view s) = Inr t" using assms get_impl by simp
  then have k: "k \<noteq> []" "Task_id t = k" using a_wf_id[OF wf[OF assms(1)]] by (auto simp: spec_Get_Inr_iff)
  from cancel_impl[of k] assms(1) obtain s1 where s1:
    "TS_Cancel ops k s = Some (s1, snd (spec_Cancel k (view s)))" "good s1" "view s1 = fst (spec_Cancel k (view s))"
    by (rule implementsE)
  show ?thesis
  proof (cases "IsTerminalTaskState (task_state t)")
    case True
    with s1 get show ?thesis by (simp add: spec_Cancel_def)
  next
    case False
    then have spec: "spec_Cancel k (view s) = a_return ?t (a_put ?t (view s))"
      using get by (simp add: spec_Cancel_def Let_def)
    show ?thesis
    proof (cases rule: a_put_result_cases[of ?t "view s"])
      case ok
      with a_put_Inr_lookup[OF ok] k s1(3) have get1: "spec_Get k (view s1) = Inr ?t"
        by (simp add: spec spec_Get_Inr_iff)
      from cancel_impl[of k] s1(2) obtain s2 where
        "TS_Cancel ops k s1 = Some (s2, snd (spec_Cancel k (view s1)))" by (rule implementsE)
      with get1 have "\<exists>s2. TS_Cancel ops k s1 = Some (s2, Inl (TaskNotCancelable ''task is already terminal''))"
        by (simp add: spec_Cancel_def)
      with False ok s1(1,2) get1 show ?thesis by (simp add: spec get_impl)
    next
      case exhausted
      with False s1 show ?thesis by (simp add: spec)
    qed
  qed
qed

text \<open>An append that the policy deduplicates leaves the task as it was.\<close>

lemma append_twice:
  assumes "good s" "TS_AppendTaskHistory ops k m p s = Some (s1, Inr t1)"
    and dedupe: "p = kDedupByIdOrFingerprint \<or> (p = kDedupByMessageId \<and> Message_message_id m \<noteq> [])"
  shows "\<exists>s2. TS_AppendTaskHistory ops k m p s1 = Some (s2, Inr t1) \<and> a_map (view s2) = a_map (view s1)"
proof -
  let ?spec = "spec_AppendTaskHistory ser k m p"
  from append_impl[of k m p] assms(1) obtain s1' where
    "TS_AppendTaskHistory ops k m p s = Some (s1', snd (?spec (view s)))" "good s1'" "view s1' = fst (?spec (view s))"
    by (rule implementsE)
  with assms(2) have s1: "good s1" "view s1 = fst (?spec (view s))" and r1: "snd (?spec (view s)) = Inr t1" by auto
  have get1: "spec_Get k (view s1) = Inr t1" and dup: "FindHistoryDedupeReason ser (Task_history t1) m p \<noteq> None"
    using spec_Append_result[OF wf[OF assms(1)] r1 dedupe] s1(2) by simp_all
  from append_impl[of k m p] s1(1) obtain s2 where
    "TS_AppendTaskHistory ops k m p s1 = Some (s2, snd (?spec (view s1)))" "view s2 = fst (?spec (view s1))"
    by (rule implementsE)
  with get1 dup show ?thesis by (auto simp: spec_AppendTaskHistory_def)
qed

end

section \<open>InMemoryTaskStore\<close>

text \<open>The states an \<open>InMemoryTaskStore\<close> can be in: a fresh store after any sequence of writes.\<close>

inductive store_reachable :: "(Part \<Rightarrow> string) \<Rightarrow> bool \<Rightarrow> (nat \<Rightarrow> int) \<Rightarrow> InMemoryTaskStore \<Rightarrow> bool"
  for ser sink clock where
  fresh: "store_reachable ser sink clock (new_InMemoryTaskStore sink clock)"
| upsert: "store_reachable ser sink clock s \<Longrightarrow> InMemory_CreateOrUpdate t s = Some (s', r) \<Longrightarrow>
    store_reachable ser sink clock s'"
| conditional: "store_reachable ser sink clock s \<Longrightarrow> InMemory_CreateOrUpdateIfRevision t e s = Some (s', q) \<Longrightarrow>
    store_reachable ser sink clock s'"
| cancel: "store_reachable ser sink clock s \<Longrightarrow> InMemory_Cancel k s = Some (s', v) \<Longrightarrow>
    store_reachable ser sink clock s'"
| append: "store_reachable ser sink clock s \<Longrightarrow> InMemory_AppendTaskHistory ser k m p s = Some (s', v) \<Longrightarrow>
    store_reachable ser sink clock s'"

lemma implements_good: "implements good view step spec \<Longrightarrow> good s \<Longrightarrow> step s = Some (s', r) \<Longrightarrow> good s'"
  by (force simp: implements_def)

lemma implements_defined: "implements good view step spec \<Longrightarrow> good s \<Longrightarrow> step s \<noteq> None"
  by (force simp: implements_def)

lemma reachable_inv:
  assumes "store_reachable ser sink clock s" "\<forall>n. INT64_MIN \<le> clock n \<and> clock n \<le> INT64_MAX"
  shows "store_inv s"
  using assms
  by (induction rule: store_reachable.induct)
     (auto intro: new_store_inv implements_good[OF upsert_implements] implements_good[OF conditional_implements]
        implements_good[OF cancel_implements] implements_good[OF append_implements])

text \<open>A store with two tasks, the second updated once, on a clock stuck at 7.\<close>

definition sample_task :: "string \<Rightarrow> TaskState \<Rightarrow> Task" where
  "sample_task k st = set_state st (default_Task\<lparr>Task_id := k\<rparr>)"

definition sample_store :: InMemoryTaskStore where
  "sample_store =
     (let s0 = new_InMemoryTaskStore False (\<lambda>_. 7);
          s1 = fst (the (InMemory_CreateOrUpdate (sample_task ''a'' TASK_STATE_WORKING) s0));
          s2 = fst (the (InMemory_CreateOrUpdate (sample_task ''b'' TASK_STATE_SUBMITTED) s1))
      in fst (the (InMemory_CreateOrUpdate (sample_task ''b'' TASK_STATE_COMPLETED) s2)))"

lemma reachable_upsert:
  assumes "store_reachable ser sink clock s" "\<forall>n. INT64_MIN \<le> clock n \<and> clock n \<le> INT64_MAX"
  shows "store_reachable ser sink clock (fst (the (InMemory_CreateOrUpdate t s)))"
proof -
  from implements_defined[OF upsert_implements[of t] reachable_inv[OF assms]] obtain s' r
    where "InMemory_CreateOrUpdate t s = Some (s', r)" by auto
  with assms(1) show ?thesis by (auto intro: store_reachable.upsert)
qed

lemma sample_reachable: "store_reachable ser False (\<lambda>_. 7) sample_store"
  by (simp add: sample_store_def Let_def reachable_upsert store_reachable.fresh INT64_MIN_def INT64_MAX_def)

lemma sample_inv: "store_inv sample_store"
  by (rule reachable_inv[OF sample_reachable]) (simp add: INT64_MIN_def INT64_MAX_def)

text \<open>C5: in every state an \<open>InMemoryTaskStore\<close> can reach, its vectors, index map and update order agree
  (\<open>store_inv\<close>), and every operation has a defined outcome: no index out of range, no missing map key, no signed
  overflow of an update time.\<close>

theorem InMemoryTaskStore_safe:
  assumes "store_reachable ser sink clock s" "\<forall>n. INT64_MIN \<le> clock n \<and> clock n \<le> INT64_MAX"
  shows "store_inv s \<and>
    InMemory_Get k s \<noteq> None \<and> InMemory_GetSnapshot k s \<noteq> None \<and> InMemory_List req s \<noteq> None \<and>
    InMemory_CreateOrUpdate t s \<noteq> None \<and> InMemory_CreateOrUpdateIfRevision t e s \<noteq> None \<and>
    InMemory_Cancel k s \<noteq> None \<and> InMemory_AppendTaskHistory ser k m p s \<noteq> None"
proof -
  have good: "store_inv s" using assms by (rule reachable_inv)
  note steps = upsert_implements[of t] conditional_implements[of t e] cancel_implements[of k]
    append_implements[of ser k m p]
  show ?thesis
    using good steps[THEN implements_defined, OF good]
    by (simp add: get_implements snapshot_implements list_implements)
qed

theorem InMemoryTaskStore_safe_witness:
  "store_inv sample_store \<and> InMemory_Cancel ''a'' sample_store \<noteq> None"
  using InMemoryTaskStore_safe[OF sample_reachable] by (simp add: INT64_MIN_def INT64_MAX_def)

text \<open>C4: \<open>InMemoryTaskStore\<close> refines the abstract store. From every consistent state each operation ends in a
  consistent state, returns what the abstract operation returns and changes the abstraction the way it does; reads
  and listings leave it unchanged.\<close>

theorem InMemoryTaskStore_refines:
  assumes "store_inv s"
  shows "(\<exists>s'. InMemory_CreateOrUpdate t s = Some (s', snd (spec_CreateOrUpdate t (store_view s))) \<and>
      store_inv s' \<and> store_view s' = fst (spec_CreateOrUpdate t (store_view s))) \<and>
    (\<exists>s'. InMemory_CreateOrUpdateIfRevision t e s = Some (s', snd (spec_CreateOrUpdateIfRevision t e (store_view s))) \<and>
      store_inv s' \<and> store_view s' = fst (spec_CreateOrUpdateIfRevision t e (store_view s))) \<and>
    (\<exists>s'. InMemory_Cancel k s = Some (s', snd (spec_Cancel k (store_view s))) \<and>
      store_inv s' \<and> store_view s' = fst (spec_Cancel k (store_view s))) \<and>
    (\<exists>s'. InMemory_AppendTaskHistory ser k m p s = Some (s', snd (spec_AppendTaskHistory ser k m p (store_view s))) \<and>
      store_inv s' \<and> store_view s' = fst (spec_AppendTaskHistory ser k m p (store_view s))) \<and>
    InMemory_Get k s = Some (spec_Get k (store_view s)) \<and>
    InMemory_GetSnapshot k s = Some (spec_GetSnapshot k (store_view s)) \<and>
    InMemory_List req s = Some (spec_List req (store_view s))"
  using upsert_implements[of t] conditional_implements[of t e] cancel_implements[of k]
    append_implements[of ser k m p] assms
  by (simp add: implements_def get_implements snapshot_implements list_implements)

theorem InMemoryTaskStore_refines_witness:
  "store_inv sample_store \<and>
   InMemory_Get ''b'' sample_store = Some (spec_Get ''b'' (store_view sample_store)) \<and>
   InMemory_Get ''b'' sample_store = Some (Inr (sample_task ''b'' TASK_STATE_COMPLETED))"
proof -
  have "InMemory_Get ''b'' sample_store = Some (Inr (sample_task ''b'' TASK_STATE_COMPLETED))" by code_simp
  then show ?thesis using InMemoryTaskStore_refines[OF sample_inv, where k = "''b''"] sample_inv by simp
qed

text \<open>reading one's writes. After a successful \<open>CreateOrUpdate\<close> a \<open>Get\<close> of the same id returns the
  stored task and a \<open>Get\<close> of any other id returns what it returned before.\<close>

theorem InMemory_read_own_write:
  assumes "store_inv s" "InMemory_CreateOrUpdate t s = Some (s', Inr ())"
  shows "InMemory_Get (Task_id t) s' = Some (Inr t) \<and> (k = Task_id t \<or> InMemory_Get k s' = InMemory_Get k s)"
  using mem.read_own_write(1)[OF assms(1), where t = t] mem.read_own_write(2)[OF assms(1), where t = t and k = k]
    assms(2) by (auto simp: in_memory_ops_sel)

theorem InMemory_read_own_write_witness:
  "\<exists>s'. InMemory_CreateOrUpdate (sample_task ''a'' TASK_STATE_FAILED) sample_store = Some (s', Inr ()) \<and>
     InMemory_Get ''a'' s' = Some (Inr (sample_task ''a'' TASK_STATE_FAILED)) \<and>
     InMemory_Get ''b'' s' = Some (Inr (sample_task ''b'' TASK_STATE_COMPLETED))"
proof -
  let ?t = "sample_task ''a'' TASK_STATE_FAILED"
  have "map_option snd (InMemory_CreateOrUpdate ?t sample_store) = Some (Inr ())" "Task_id ?t = ''a''"
    "InMemory_Get ''b'' sample_store = Some (Inr (sample_task ''b'' TASK_STATE_COMPLETED))"
    by code_simp+
  then show ?thesis using InMemory_read_own_write[OF sample_inv, of ?t _ "''b''"] by auto
qed

text \<open>C13: optimistic concurrency. Of two conditional writes of one task that expect the same revision only one
  succeeds: the second reports a conflict and changes nothing.\<close>

theorem InMemory_no_lost_update:
  assumes "store_inv s" "InMemory_CreateOrUpdateIfRevision t1 e s = Some (s1, Inr kUpdated)" "Task_id t2 = Task_id t1"
  shows "\<exists>s2. InMemory_CreateOrUpdateIfRevision t2 e s1 = Some (s2, Inr kConflict) \<and> store_view s2 = store_view s1"
  using mem.conditional_conflict[OF assms(1) _ assms(3)] assms(2) by (simp add: in_memory_ops_sel)

theorem InMemory_no_lost_update_witness:
  "\<exists>s1 s2. InMemory_CreateOrUpdateIfRevision (sample_task ''b'' TASK_STATE_FAILED) 2 sample_store = Some (s1, Inr kUpdated) \<and>
     InMemory_CreateOrUpdateIfRevision (sample_task ''b'' TASK_STATE_WORKING) 2 s1 = Some (s2, Inr kConflict)"
proof -
  have "map_option snd (InMemory_CreateOrUpdateIfRevision (sample_task ''b'' TASK_STATE_FAILED) 2 sample_store) =
      Some (Inr kUpdated)"
    "Task_id (sample_task ''b'' TASK_STATE_WORKING) = Task_id (sample_task ''b'' TASK_STATE_FAILED)"
    by code_simp+
  then show ?thesis using InMemory_no_lost_update[OF sample_inv] by fastforce
qed

text \<open>C6: pagination is complete. A client that follows the page tokens of a listing, whatever the page size,
  collects exactly the tasks of the same listing without pages, each once and in the same order, and needs no more
  than one page per page-size tasks and one more.\<close>

theorem InMemory_pagination_complete:
  assumes "store_inv s" "LTR_page_size req \<noteq> 0" "LTR_page_token req = []"
    and "length (ordered_tasks s) < fuel * LTR_page_size req"
  shows "\<exists>all. InMemory_List (req\<lparr>LTR_page_size := 0\<rparr>) s = Some (Inr all) \<and>
    list_pages fuel (in_memory_ops ser) req s = Some (LTResp_tasks all) \<and>
    distinct (LTResp_task_cursors all) \<and> length (LTResp_task_cursors all) = length (LTResp_tasks all) \<and>
    LTResp_next_page_token all = []"
proof -
  let ?m = "a_matching req (store_view s)"
  have "length ?m \<le> length (ordered_tasks s)"
    unfolding matching_count[OF assms(1), symmetric] by simp
  then have "list_pages fuel (in_memory_ops ser) req s =
      Some (map (project_for req \<circ> a_task (store_view s)) ?m)"
    using assms by (intro mem.list_pages_complete) auto
  moreover have "InMemory_List (req\<lparr>LTR_page_size := 0\<rparr>) s = Some (spec_List (req\<lparr>LTR_page_size := 0\<rparr>) (store_view s))"
    using assms(1) by (rule list_implements)
  ultimately show ?thesis
    using assms(3) by (simp add: spec_List_def ParseListPageToken_empty after_boundary_def page_of_def Let_def)
qed

theorem InMemory_pagination_complete_witness:
  "\<exists>all. InMemory_List default_ListTasksRequest sample_store = Some (Inr all) \<and>
     list_pages 3 (in_memory_ops (\<lambda>_. [])) (default_ListTasksRequest\<lparr>LTR_page_size := 1\<rparr>) sample_store =
       Some (LTResp_tasks all) \<and> map Task_id (LTResp_tasks all) = [''b'', ''a'']"
proof -
  have "map_option (map_sum (\<lambda>_. ()) (map Task_id \<circ> LTResp_tasks)) (InMemory_List default_ListTasksRequest sample_store) =
      Some (Inr [''b'', ''a''])"
    "length (ordered_tasks sample_store) = 2" "LTR_page_token default_ListTasksRequest = []"
    "default_ListTasksRequest\<lparr>LTR_page_size := 0\<rparr> = default_ListTasksRequest"
    by code_simp+
  then show ?thesis
    using InMemory_pagination_complete[OF sample_inv, of "default_ListTasksRequest\<lparr>LTR_page_size := 1\<rparr>" 3 "\<lambda>_. []"]
    by (auto)
qed

text \<open>every successful write moves a task strictly forward: its revision advances by one and its update time
  grows, within the range of the 64-bit field, whatever the clock reads.\<close>

theorem InMemory_write_advances:
  assumes "store_inv s" "task_indices s (Task_id t) = Some i" "InMemory_CreateOrUpdate t s = Some (s', Inr ())"
  shows "task_indices s' (Task_id t) = Some i \<and> revisions s' ! i = revisions s ! i + 1 \<and>
    updated_at s ! i < updated_at s' ! i \<and> updated_at s' ! i \<le> INT64_MAX"
proof -
  from assms(1,2) have i: "i < length (ordered_tasks s)" "Task_id t \<noteq> []"
    by (auto dest!: store_inv_indexD simp: store_inv_def)
  have s': "updated_at s ! i \<noteq> INT64_MAX" "s' = put_existing i t s"
    using assms(3) i(2) assms(2) write_existing[OF assms(1,2), of t "()"]
    by (auto simp: InMemory_CreateOrUpdate_def split: if_splits)
  have "store_inv s'" using assms(1,3) by (rule implements_good[OF upsert_implements])
  moreover have "i < length (ordered_tasks s')" using i(1) s'(2) by (simp add: put_existing_def)
  ultimately have "updated_at s' ! i \<le> INT64_MAX" by (simp add: store_inv_def)
  with assms(1,2) i s' show ?thesis
    by (simp add: put_existing_def next_time_def store_inv_lengths)
qed

theorem InMemory_write_advances_witness:
  "task_indices sample_store ''b'' = Some 1 \<and> revisions sample_store ! 1 = 2 \<and> updated_at sample_store ! 1 = 8 \<and>
   (\<exists>s'. InMemory_CreateOrUpdate (sample_task ''b'' TASK_STATE_FAILED) sample_store = Some (s', Inr ()) \<and>
     revisions s' ! 1 = 3 \<and> 8 < updated_at s' ! 1)"
proof -
  let ?t = "sample_task ''b'' TASK_STATE_FAILED"
  have "map_option snd (InMemory_CreateOrUpdate ?t sample_store) = Some (Inr ())" "Task_id ?t = ''b''"
    "task_indices sample_store ''b'' = Some 1" "revisions sample_store ! 1 = 2" "updated_at sample_store ! 1 = 8"
    by code_simp+
  then show ?thesis using InMemory_write_advances[OF sample_inv, of ?t 1] by auto
qed





end
