(* ===== verification/Task_Subscription.thy ===== *)
theory Task_Subscription
  imports Proto Core_Error
begin

text \<open>
  \<open>TaskSubscriptionService\<close> (\<open>src/server/task_subscription_service.cpp\<close>): publishing task updates to the
  subscribers of a task, each of which reads them through a coroutine.

  A subscriber is the \<open>SubscriberState\<close> object together with the coroutine frame and the session that owns it.
  Its operations are the sections the code runs under one lock: queueing an event, closing, taking the
  continuation, resuming the coroutine up to its next suspension point, and reading the staged value. The service
  composes them; subscribers live in a heap of objects because the service refers to them by weak pointers. An
  outcome \<open>None\<close> is undefined behaviour (resuming a finished coroutine, using a destroyed object).
\<close>

section \<open>Events\<close>

definition BuildCurrentTaskEvent :: "Task \<Rightarrow> StreamResponse" where
  "BuildCurrentTaskEvent task = StreamResponse_task (task\<lparr>Task_artifacts := [], Task_history := []\<rparr>)"

definition BuildStatusUpdateEvent :: "Task \<Rightarrow> StreamResponse" where
  "BuildStatusUpdateEvent task = StreamResponse_status_update
     \<lparr>TSU_task_id = Task_id task, TSU_context_id = Task_context_id task, TSU_status = Some (status task),
      TSU_metadata = None\<rparr>"

fun has_status_update :: "StreamResponse \<Rightarrow> bool" where
  "has_status_update (StreamResponse_status_update _) = True"
| "has_status_update _ = False"

definition update_state :: "TaskStatusUpdateEvent \<Rightarrow> TaskState" where
  "update_state u = TaskStatus_state (case TSU_status u of None \<Rightarrow> default_TaskStatus | Some s \<Rightarrow> s)"

fun is_terminal :: "StreamResponse \<Rightarrow> bool" where
  "is_terminal (StreamResponse_status_update u) = IsTerminalTaskState (update_state u)"
| "is_terminal _ = False"

section \<open>One subscriber and its coroutine\<close>

text \<open>Where the coroutine \<open>RunSubscription\<close> is suspended.\<close>

datatype frame = NotStarted | YieldedCurrent | Awaiting | YieldedEvent bool | Finished

record Subscriber =
  sub_task_id :: string
  current_task :: Task
  events :: "StreamResponse list"
  closed :: bool
  pending_delivery_count :: "64 word"
  continuation :: bool
  active_resumes :: nat
  co_frame :: frame
  current_value :: "StreamResponse option"
  co_done :: bool
  started :: bool
  resume_after_yield :: bool
  cancelled :: bool

definition new_Subscriber :: "Task \<Rightarrow> Subscriber" where
  "new_Subscriber task = \<lparr>sub_task_id = Task_id task, current_task = task, events = [], closed = False,
     pending_delivery_count = 0, continuation = False, active_resumes = 0, co_frame = NotStarted,
     current_value = None, co_done = False, started = False, resume_after_yield = False, cancelled = False\<rparr>"

definition await_resume :: "Subscriber \<Rightarrow> Subscriber" where
  "await_resume s =
     (case events s of
        [] \<Rightarrow> s\<lparr>co_frame := Finished, co_done := True\<rparr>
      | e # es \<Rightarrow> s\<lparr>events := es, current_value := Some e, co_frame := YieldedEvent (is_terminal e)\<rparr>)"

definition co_await :: "Subscriber \<Rightarrow> Subscriber" where
  "co_await s =
     (if closed s \<or> events s \<noteq> [] then await_resume s else s\<lparr>continuation := True, co_frame := Awaiting\<rparr>)"

definition co_resume :: "Subscriber \<Rightarrow> Subscriber option" where
  "co_resume s =
     (case co_frame s of
        NotStarted \<Rightarrow> Some (s\<lparr>current_value := Some (BuildCurrentTaskEvent (current_task s)), co_frame := YieldedCurrent\<rparr>)
      | YieldedCurrent \<Rightarrow> Some (co_await s)
      | Awaiting \<Rightarrow> Some (await_resume s)
      | YieldedEvent terminal \<Rightarrow>
          Some (if terminal then s\<lparr>co_frame := Finished, co_done := True\<rparr> else co_await s)
      | Finished \<Rightarrow> None)"

definition Start :: "Subscriber \<Rightarrow> Subscriber option" where
  "Start s = (if \<not> started s then co_resume (s\<lparr>started := True\<rparr>) else Some s)"

text \<open>\<open>WaitForNext\<close>: run the coroutine, then take the staged value. A call that finds neither a value nor the
  end waits: \<open>NextFor\<close> returns no event when its timeout expires, \<open>Next\<close> blocks.\<close>

datatype wait = Blocked | Returned "StreamResponse option"

definition wait_begin :: "Subscriber \<Rightarrow> Subscriber option" where
  "wait_begin s = Option.bind (Start s) (\<lambda>s.
     if resume_after_yield s then co_resume (s\<lparr>resume_after_yield := False\<rparr>) else Some s)"

definition RecordDeliveredEvent :: "StreamResponse \<Rightarrow> Subscriber \<Rightarrow> Subscriber" where
  "RecordDeliveredEvent e s =
     (if has_status_update e then s\<lparr>pending_delivery_count := pending_delivery_count s - 1\<rparr> else s)"

definition wait_end :: "Subscriber \<Rightarrow> Subscriber \<times> wait" where
  "wait_end s =
     (case current_value s of
        Some e \<Rightarrow> (RecordDeliveredEvent e (s\<lparr>current_value := None, resume_after_yield := True\<rparr>), Returned (Some e))
      | None \<Rightarrow> (s, if co_done s then Returned None else Blocked))"

definition WaitForNext :: "Subscriber \<Rightarrow> (Subscriber \<times> wait) option" where
  "WaitForNext s = map_option wait_end (wait_begin s)"

definition sub_enqueue :: "StreamResponse \<Rightarrow> bool \<Rightarrow> Subscriber \<Rightarrow> Subscriber" where
  "sub_enqueue event close_after_event s =
     (if \<not> closed s
      then s\<lparr>events := events s @ [event], pending_delivery_count := pending_delivery_count s + 1,
             closed := close_after_event\<rparr>
      else s)"

definition sub_close :: "Subscriber \<Rightarrow> Subscriber" where
  "sub_close s = s\<lparr>closed := True\<rparr>"

definition signal_take :: "Subscriber \<Rightarrow> Subscriber" where
  "signal_take s = (if continuation s then s\<lparr>continuation := False, active_resumes := active_resumes s + 1\<rparr> else s)"

definition signal_resume :: "Subscriber \<Rightarrow> Subscriber option" where
  "signal_resume s = map_option (\<lambda>s. s\<lparr>active_resumes := active_resumes s - 1\<rparr>) (co_resume s)"

definition SignalSubscriber :: "Subscriber \<Rightarrow> Subscriber option" where
  "SignalSubscriber s = (if continuation s then signal_resume (signal_take s) else Some (signal_take s))"

definition IsLive :: "Subscriber \<Rightarrow> bool" where
  "IsLive s \<longleftrightarrow> \<not> co_done s \<and> (\<not> closed s \<or> pending_delivery_count s \<noteq> 0)"

section \<open>The service\<close>

type_synonym address = nat

record LatestTaskState =
  latest_context_id :: string
  latest_status :: TaskStatus

record SubscriptionService =
  sub_heap :: "address \<rightharpoonup> Subscriber"
  sub_next :: address
  subscribers_by_task_id :: "(string \<times> address list) list"
  latest_task_states_by_id :: "string \<rightharpoonup> LatestTaskState"
  svc_shutdown :: bool

definition new_SubscriptionService :: SubscriptionService where
  "new_SubscriptionService = \<lparr>sub_heap = Map.empty, sub_next = 0, subscribers_by_task_id = [],
     latest_task_states_by_id = Map.empty, svc_shutdown = False\<rparr>"

definition subscribed_task :: "Task \<Rightarrow> SubscriptionService \<Rightarrow> Task" where
  "subscribed_task task svc =
     (case latest_task_states_by_id svc (Task_id task) of
        None \<Rightarrow> task
      | Some latest \<Rightarrow>
          update_status (\<lambda>_. latest_status latest) (task\<lparr>Task_context_id := latest_context_id latest\<rparr>))"

definition Subscribe :: "Task \<Rightarrow> SubscriptionService \<Rightarrow> SubscriptionService \<times> address Result" where
  "Subscribe task svc =
     (if svc_shutdown svc then (svc, Inl (Internal ''task subscription service is shut down''))
      else let current = subscribed_task task svc in
        if IsTerminalTaskState (task_state current)
        then (svc, Inl (UnsupportedOperation ''task is already terminal''))
        else let address = sub_next svc; task_id = Task_id task;
               existing = (case map_of (subscribers_by_task_id svc) task_id of None \<Rightarrow> [] | Some as \<Rightarrow> as)
             in (svc\<lparr>sub_heap := (sub_heap svc)(address \<mapsto> new_Subscriber current), sub_next := Suc address,
                     subscribers_by_task_id :=
                       AList.update task_id (existing @ [address]) (subscribers_by_task_id svc)\<rparr>,
                 Inr address))"

definition collect_subscribers :: "Task \<Rightarrow> SubscriptionService \<Rightarrow> SubscriptionService \<times> address list" where
  "collect_subscribers task svc =
     (if svc_shutdown svc then (svc, [])
      else let svc = svc\<lparr>latest_task_states_by_id := (latest_task_states_by_id svc)(Task_id task \<mapsto>
                 \<lparr>latest_context_id = Task_context_id task, latest_status = status task\<rparr>)\<rparr>
        in case map_of (subscribers_by_task_id svc) (Task_id task) of
             None \<Rightarrow> (svc, [])
           | Some weak_subscribers \<Rightarrow>
               let live = filter (\<lambda>a. sub_heap svc a \<noteq> None) weak_subscribers;
                   entries = (if live = [] \<or> IsTerminalTaskState (task_state task)
                     then AList.delete (Task_id task) (subscribers_by_task_id svc)
                     else AList.update (Task_id task) live (subscribers_by_task_id svc))
               in (svc\<lparr>subscribers_by_task_id := entries\<rparr>, live))"

primrec for_subscribers ::
  "(Subscriber \<Rightarrow> Subscriber option) \<Rightarrow> address list \<Rightarrow> (address \<rightharpoonup> Subscriber) \<Rightarrow> (address \<rightharpoonup> Subscriber) option" where
  "for_subscribers f [] h = Some h"
| "for_subscribers f (a # as) h =
     Option.bind (h a) (\<lambda>s. Option.bind (f s) (\<lambda>s. for_subscribers f as (h(a \<mapsto> s))))"

definition PublishTaskUpdated :: "Task \<Rightarrow> SubscriptionService \<Rightarrow> SubscriptionService option" where
  "PublishTaskUpdated task svc =
     (let (svc, subscribers) = collect_subscribers task svc;
          event = BuildStatusUpdateEvent task;
          close_after_event = IsTerminalTaskState (task_state task)
      in map_option (\<lambda>h. svc\<lparr>sub_heap := h\<rparr>)
           (for_subscribers (\<lambda>s. SignalSubscriber (sub_enqueue event close_after_event s)) subscribers (sub_heap svc)))"

definition Shutdown :: "SubscriptionService \<Rightarrow> SubscriptionService option" where
  "Shutdown svc =
     (if svc_shutdown svc then Some svc
      else let subscribers = filter (\<lambda>a. sub_heap svc a \<noteq> None) (concat (map snd (subscribers_by_task_id svc)));
               svc = svc\<lparr>svc_shutdown := True, subscribers_by_task_id := [],
                         latest_task_states_by_id := Map.empty\<rparr>
           in map_option (\<lambda>h. svc\<lparr>sub_heap := h\<rparr>)
                (for_subscribers (\<lambda>s. SignalSubscriber (sub_close s)) subscribers (sub_heap svc)))"

definition RemoveSubscriber :: "address \<Rightarrow> SubscriptionService \<Rightarrow> SubscriptionService option" where
  "RemoveSubscriber address svc = do {
     s \<leftarrow> sub_heap svc address;
     s \<leftarrow> SignalSubscriber (sub_close s);
     let svc = svc\<lparr>sub_heap := (sub_heap svc)(address \<mapsto> s)\<rparr>;
     case map_of (subscribers_by_task_id svc) (sub_task_id s) of
       None \<Rightarrow> Some svc
     | Some subscribers \<Rightarrow>
         let kept = filter (\<lambda>a. \<not> (sub_heap svc a = None \<or> a = address)) subscribers
         in Some (svc\<lparr>subscribers_by_task_id :=
              (if kept = [] then AList.delete (sub_task_id s) (subscribers_by_task_id svc)
               else AList.update (sub_task_id s) kept (subscribers_by_task_id svc))\<rparr>)
   }"

text \<open>\<open>WaitForResumes\<close> waits until no signaller is resuming the coroutine; \<open>None\<close> would be a wait for ever.\<close>

definition WaitForResumes :: "Subscriber \<Rightarrow> unit option" where
  "WaitForResumes s = (if active_resumes s = 0 then Some () else None)"

definition Session_Cancel :: "address \<Rightarrow> SubscriptionService \<Rightarrow> SubscriptionService option" where
  "Session_Cancel address svc = do {
     s \<leftarrow> sub_heap svc address;
     if cancelled s then Some svc
     else do {
       svc \<leftarrow> RemoveSubscriber address (svc\<lparr>sub_heap := (sub_heap svc)(address \<mapsto> s\<lparr>cancelled := True\<rparr>)\<rparr>);
       s \<leftarrow> sub_heap svc address;
       _ \<leftarrow> WaitForResumes s;
       Some svc
     }
   }"

definition Session_destroy :: "address \<Rightarrow> SubscriptionService \<Rightarrow> SubscriptionService option" where
  "Session_destroy address svc =
     map_option (\<lambda>svc. svc\<lparr>sub_heap := (sub_heap svc)(address := None)\<rparr>) (Session_Cancel address svc)"

definition Session_Next :: "address \<Rightarrow> SubscriptionService \<Rightarrow> (SubscriptionService \<times> wait) option" where
  "Session_Next address svc = do {
     s \<leftarrow> sub_heap svc address;
     (s, w) \<leftarrow> WaitForNext s;
     Some (svc\<lparr>sub_heap := (sub_heap svc)(address \<mapsto> s)\<rparr>, w)
   }"

definition Session_NextFor :: "address \<Rightarrow> SubscriptionService \<Rightarrow> (SubscriptionService \<times> StreamResponse option) option" where
  "Session_NextFor address svc = do {
     (svc, w) \<leftarrow> Session_Next address svc;
     Some (svc, case w of Blocked \<Rightarrow> None | Returned event \<Rightarrow> event)
   }"

end
