(* ===== verification/Task_Subscription_Props.thy ===== *)
theory Task_Subscription_Props
  imports Task_Subscription
begin

text \<open>
  Task subscriptions: what one subscriber guarantees under every interleaving of publishers, cancellers and its
  reader (in order, nothing lost, nothing twice, no undefined resumption), and what the service operations do to the
  streams of all subscribers.
\<close>

section \<open>One subscriber under every interleaving\<close>

text \<open>The consistency of the coroutine frame, its promise, the continuation and the reader's flags.\<close>

definition sub_inv :: "Subscriber \<Rightarrow> bool" where
  "sub_inv s \<longleftrightarrow>
     (co_frame s = NotStarted \<longleftrightarrow> \<not> started s) \<and>
     (co_frame s = Finished \<longleftrightarrow> co_done s) \<and>
     (co_frame s = Awaiting \<longleftrightarrow> continuation s \<or> active_resumes s \<noteq> 0) \<and>
     active_resumes s \<le> 1 \<and> (continuation s \<longrightarrow> active_resumes s = 0) \<and>
     (resume_after_yield s \<longrightarrow> (co_frame s = YieldedCurrent \<or> (\<exists>b. co_frame s = YieldedEvent b)) \<and> current_value s = None) \<and>
     (current_value s = None \<longrightarrow> co_frame s = NotStarted \<or> co_frame s = Awaiting \<or> co_frame s = Finished \<or> resume_after_yield s) \<and>
     (current_value s \<noteq> None \<longrightarrow> co_frame s = YieldedCurrent \<or> (\<exists>b. co_frame s = YieldedEvent b))"

text \<open>What the reader has still to receive.\<close>

definition staged :: "Subscriber \<Rightarrow> StreamResponse list" where
  "staged s = (if co_frame s = NotStarted then [BuildCurrentTaskEvent (current_task s)] else []) @
     (case current_value s of None \<Rightarrow> [] | Some e \<Rightarrow> [e])"

definition sub_stream :: "Subscriber \<Rightarrow> StreamResponse list" where
  "sub_stream s = staged s @ events s"

text \<open>A terminal event ends the stream: it is the last one queued, and queueing it closes the subscriber.\<close>

definition terminal_last :: "Subscriber \<Rightarrow> bool" where
  "terminal_last s \<longleftrightarrow>
     (\<forall>e\<in>set (butlast (events s)). \<not> is_terminal e) \<and>
     (events s \<noteq> [] \<and> is_terminal (last (events s)) \<longrightarrow> closed s) \<and>
     (co_frame s = YieldedEvent True \<longrightarrow> closed s \<and> events s = []) \<and>
     (\<forall>e. current_value s = Some e \<and> is_terminal e \<longrightarrow> co_frame s = YieldedEvent True)"

text \<open>The runs of one subscriber: \<open>sub_run task queued read s\<close> when some interleaving of queueing, closing,
  signalling and reading leads from a fresh subscription to \<open>s\<close>, having queued \<open>queued\<close> and read \<open>read\<close>.\<close>

inductive sub_run :: "Task \<Rightarrow> StreamResponse list \<Rightarrow> StreamResponse list \<Rightarrow> Subscriber \<Rightarrow> bool" for task where
  fresh: "sub_run task [] [] (new_Subscriber task)"
| enqueue: "sub_run task q r s \<Longrightarrow> \<not> closed s \<Longrightarrow> has_status_update e \<Longrightarrow>
    sub_run task (q @ [e]) r (sub_enqueue e (is_terminal e) s)"
| enqueue_closed: "sub_run task q r s \<Longrightarrow> closed s \<Longrightarrow> sub_run task q r (sub_enqueue e c s)"
| close: "sub_run task q r s \<Longrightarrow> sub_run task q r (sub_close s)"
| take: "sub_run task q r s \<Longrightarrow> sub_run task q r (signal_take s)"
| resume: "sub_run task q r s \<Longrightarrow> active_resumes s \<noteq> 0 \<Longrightarrow> signal_resume s = Some s' \<Longrightarrow> sub_run task q r s'"
| read_begin: "sub_run task q r s \<Longrightarrow> wait_begin s = Some s' \<Longrightarrow> sub_run task q r s'"
| read_event: "sub_run task q r s \<Longrightarrow> wait_end s = (s', Returned (Some e)) \<Longrightarrow> sub_run task q (r @ [e]) s'"
| read_nothing: "sub_run task q r s \<Longrightarrow> wait_end s = (s', Blocked) \<or> wait_end s = (s', Returned None) \<Longrightarrow>
    sub_run task q r s'"

lemmas co_defs = co_resume_def co_await_def await_resume_def

lemma new_Subscriber_inv: "sub_inv (new_Subscriber t)" "terminal_last (new_Subscriber t)"
  "sub_stream (new_Subscriber t) = [BuildCurrentTaskEvent t]"
  by (simp_all add: sub_inv_def terminal_last_def sub_stream_def staged_def new_Subscriber_def)

lemma stream_flags [simp]:
  "sub_stream (s\<lparr>active_resumes := n\<rparr>) = sub_stream s" "terminal_last (s\<lparr>active_resumes := n\<rparr>) = terminal_last s"
  "sub_stream (s\<lparr>continuation := b\<rparr>) = sub_stream s" "terminal_last (s\<lparr>continuation := b\<rparr>) = terminal_last s"
  "sub_stream (s\<lparr>started := b\<rparr>) = sub_stream s" "terminal_last (s\<lparr>started := b\<rparr>) = terminal_last s"
  "sub_stream (s\<lparr>resume_after_yield := b\<rparr>) = sub_stream s" "terminal_last (s\<lparr>resume_after_yield := b\<rparr>) = terminal_last s"
  "sub_stream (s\<lparr>cancelled := b\<rparr>) = sub_stream s" "terminal_last (s\<lparr>cancelled := b\<rparr>) = terminal_last s"
  by (simp_all add: sub_stream_def staged_def terminal_last_def)

lemma co_await_cases:
  obtains (ended) "events s = []" "closed s" "co_await s = s\<lparr>co_frame := Finished, co_done := True\<rparr>"
  | (event) e es where "events s = e # es"
      "co_await s = s\<lparr>events := es, current_value := Some e, co_frame := YieldedEvent (is_terminal e)\<rparr>"
  | (waiting) "events s = []" "\<not> closed s" "co_await s = s\<lparr>continuation := True, co_frame := Awaiting\<rparr>"
proof (cases "events s")
  case Nil
  then show ?thesis by (cases "closed s") (simp_all add: ended waiting co_await_def await_resume_def)
next
  case (Cons e es)
  then show ?thesis by (intro event) (simp_all add: co_await_def await_resume_def)
qed

text \<open>Resuming moves at most the head of the queue into the promise.\<close>

lemma co_resume_stream:
  assumes "current_value s = None" "co_resume s = Some s'" "terminal_last s"
  shows "sub_stream s' = sub_stream s" "terminal_last s'" "closed s' = closed s" "current_task s' = current_task s"
    "pending_delivery_count s' = pending_delivery_count s"
proof -
  show "sub_stream s' = sub_stream s"
    using assms by (auto simp: co_defs sub_stream_def staged_def split: frame.splits list.splits if_splits)
  show "terminal_last s'"
    using assms unfolding terminal_last_def
    by (cases "events s") (auto simp: co_defs BuildCurrentTaskEvent_def split: frame.splits list.splits if_splits)
  show "closed s' = closed s" "current_task s' = current_task s" "pending_delivery_count s' = pending_delivery_count s"
    using assms by (auto simp: co_defs split: frame.splits list.splits if_splits)
qed

lemma sub_inv_frames:
  assumes "sub_inv s"
  shows "\<not> started s \<Longrightarrow> co_frame s = NotStarted \<and> current_value s = None \<and> \<not> resume_after_yield s"
    and "resume_after_yield s \<Longrightarrow> (co_frame s = YieldedCurrent \<or> (\<exists>b. co_frame s = YieldedEvent b)) \<and> current_value s = None"
    and "active_resumes s \<noteq> 0 \<Longrightarrow> co_frame s = Awaiting \<and> current_value s = None \<and> active_resumes s = 1 \<and> \<not> continuation s"
    and "continuation s \<Longrightarrow> co_frame s = Awaiting \<and> current_value s = None \<and> active_resumes s = 0"
  using assms unfolding sub_inv_def by (cases "co_frame s"; simp; fail)+

lemma wait_begin_inv:
  assumes "sub_inv s"
  obtains s' where "wait_begin s = Some s'" "sub_inv s'" "started s'" "\<not> resume_after_yield s'"
    "current_value s' = None \<longrightarrow> co_frame s' = Awaiting \<or> co_frame s' = Finished"
proof -
  consider (fresh) "\<not> started s" | (resume) "started s" "resume_after_yield s" | (idle) "started s" "\<not> resume_after_yield s"
    by blast
  then have "\<exists>s'. wait_begin s = Some s' \<and> sub_inv s' \<and> started s' \<and> \<not> resume_after_yield s' \<and>
    (current_value s' = None \<longrightarrow> co_frame s' = Awaiting \<or> co_frame s' = Finished)"
  proof cases
    case fresh
    with sub_inv_frames(1)[OF assms] assms show ?thesis
      by (auto simp: wait_begin_def Start_def co_resume_def sub_inv_def)
  next
    case resume
    let ?s = "s\<lparr>resume_after_yield := False\<rparr>"
    have flags: "current_value s = None" "active_resumes s = 0" "\<not> continuation s" "\<not> co_done s"
      and frame: "co_frame s = YieldedCurrent \<or> (\<exists>b. co_frame s = YieldedEvent b)"
      using resume assms unfolding sub_inv_def by auto
    then have "wait_begin s = Some (co_await ?s) \<or> wait_begin s = Some (?s\<lparr>co_frame := Finished, co_done := True\<rparr>)"
      using resume by (auto simp: wait_begin_def Start_def co_resume_def)
    moreover have "sub_inv (?s\<lparr>co_frame := Finished, co_done := True\<rparr>)"
      using flags resume by (simp add: sub_inv_def)
    moreover have "sub_inv (co_await ?s) \<and> started (co_await ?s) \<and> \<not> resume_after_yield (co_await ?s) \<and>
        (current_value (co_await ?s) = None \<longrightarrow> co_frame (co_await ?s) = Awaiting \<or> co_frame (co_await ?s) = Finished)"
      by (cases rule: co_await_cases[of ?s]) (use flags resume in \<open>simp_all add: sub_inv_def\<close>)
    ultimately show ?thesis using resume by (elim disjE) auto
  next
    case idle
    with assms show ?thesis by (auto simp: wait_begin_def Start_def sub_inv_def)
  qed
  then show ?thesis by (elim exE conjE) (rule that)
qed

lemma wait_begin_cases:
  assumes "sub_inv s"
  obtains (start) "wait_begin s = co_resume (s\<lparr>started := True\<rparr>)" "current_value s = None" "co_frame s \<noteq> Awaiting"
  | (resume) "wait_begin s = co_resume (s\<lparr>resume_after_yield := False\<rparr>)" "current_value s = None" "co_frame s \<noteq> Awaiting"
  | (idle) "wait_begin s = Some s"
proof (cases "started s")
  case False
  with sub_inv_frames(1)[OF assms] show ?thesis
    by (intro start) (simp_all add: wait_begin_def Start_def co_resume_def)
next
  case True
  show ?thesis
  proof (cases "resume_after_yield s")
    case r: True
    with True sub_inv_frames(2)[OF assms] show ?thesis by (intro resume) (auto simp: wait_begin_def Start_def)
  next
    case False
    with True show ?thesis by (intro idle) (simp add: wait_begin_def Start_def)
  qed
qed

lemma wait_begin_stream:
  assumes "sub_inv s" "terminal_last s" "wait_begin s = Some s'"
  shows "sub_stream s' = sub_stream s \<and> terminal_last s' \<and> closed s' = closed s \<and> current_task s' = current_task s \<and>
    pending_delivery_count s' = pending_delivery_count s"
  using assms(1)
proof (cases rule: wait_begin_cases)
  case start
  with co_resume_stream[of "s\<lparr>started := True\<rparr>" s'] assms(2,3) show ?thesis by simp
next
  case resume
  with co_resume_stream[of "s\<lparr>resume_after_yield := False\<rparr>" s'] assms(2,3) show ?thesis by simp
next
  case idle
  with assms show ?thesis by simp
qed

lemma signal_resume_inv:
  assumes "sub_inv s" "active_resumes s \<noteq> 0"
  obtains s' where "signal_resume s = Some s'" "sub_inv s'" "active_resumes s' = 0"
proof -
  have flags: "co_frame s = Awaiting" "current_value s = None" "active_resumes s = 1" "\<not> continuation s"
    "started s" "\<not> resume_after_yield s" "\<not> co_done s"
    using sub_inv_frames(3)[OF assms] assms(1) unfolding sub_inv_def by auto
  then have "\<exists>s'. signal_resume s = Some s' \<and> sub_inv s' \<and> active_resumes s' = 0"
    by (cases "events s") (simp_all add: signal_resume_def co_resume_def await_resume_def sub_inv_def)
  then show ?thesis by (elim exE conjE) (rule that)
qed

lemma signal_resume_stream:
  assumes "sub_inv s" "terminal_last s" "active_resumes s \<noteq> 0" "signal_resume s = Some s'"
  shows "sub_stream s' = sub_stream s" "terminal_last s'" "closed s' = closed s" "current_task s' = current_task s"
    "pending_delivery_count s' = pending_delivery_count s"
proof -
  from assms(4) obtain s1 where s1: "co_resume s = Some s1" "s' = s1\<lparr>active_resumes := active_resumes s1 - 1\<rparr>"
    by (auto simp: signal_resume_def)
  have "current_value s = None" using sub_inv_frames(3)[OF assms(1,3)] by simp
  note co_resume_stream[OF this s1(1) assms(2)]
  then show "sub_stream s' = sub_stream s" "terminal_last s'" "closed s' = closed s"
    "current_task s' = current_task s" "pending_delivery_count s' = pending_delivery_count s"
    by (simp_all add: s1(2))
qed

lemma wait_end_inv: "sub_inv s \<Longrightarrow> sub_inv (fst (wait_end s))"
  by (auto simp: wait_end_def RecordDeliveredEvent_def sub_inv_def split: option.splits)

lemma wait_end_terminal_last: "terminal_last s \<Longrightarrow> terminal_last (fst (wait_end s))"
  by (cases "current_value s") (simp_all add: wait_end_def RecordDeliveredEvent_def terminal_last_def)

lemma wait_end_frame [simp]: "closed (fst (wait_end s)) = closed s" "current_task (fst (wait_end s)) = current_task s"
  by (auto simp: wait_end_def RecordDeliveredEvent_def split: option.splits)

lemma wait_end_event:
  assumes "sub_inv s" "wait_end s = (s', Returned (Some e))"
  shows "sub_stream s = e # sub_stream s'"
    "pending_delivery_count s' = pending_delivery_count s - (if has_status_update e then 1 else 0)"
proof -
  from assms(2) have e: "current_value s = Some e" by (auto simp: wait_end_def split: option.splits if_splits)
  then have "co_frame s \<noteq> NotStarted" using assms(1) by (auto simp: sub_inv_def)
  with e assms(2) show "sub_stream s = e # sub_stream s'"
    "pending_delivery_count s' = pending_delivery_count s - (if has_status_update e then 1 else 0)"
    by (auto simp: wait_end_def RecordDeliveredEvent_def sub_stream_def staged_def split: if_splits)
qed

lemma wait_end_nothing: "wait_end s = (s', Blocked) \<or> wait_end s = (s', Returned None) \<Longrightarrow> s' = s"
  by (auto simp: wait_end_def split: option.splits if_splits)

lemma sub_enqueue_inv: "sub_inv s \<Longrightarrow> sub_inv (sub_enqueue e c s)"
  by (auto simp: sub_enqueue_def sub_inv_def)

lemma sub_enqueue_stream:
  "\<not> closed s \<Longrightarrow> sub_stream (sub_enqueue e c s) = sub_stream s @ [e]"
  "closed s \<Longrightarrow> sub_enqueue e c s = s"
  by (auto simp: sub_enqueue_def sub_stream_def staged_def)

lemma sub_enqueue_terminal_last:
  "terminal_last s \<Longrightarrow> terminal_last (sub_enqueue e (is_terminal e) s)"
  by (cases "events s" rule: rev_cases) (auto simp: sub_enqueue_def terminal_last_def butlast_append)

lemma sub_close_inv:
  "sub_inv s \<Longrightarrow> sub_inv (sub_close s)" "terminal_last s \<Longrightarrow> terminal_last (sub_close s)"
  "sub_stream (sub_close s) = sub_stream s"
  by (auto simp: sub_close_def sub_inv_def terminal_last_def sub_stream_def staged_def)

lemma signal_take_inv:
  "sub_inv s \<Longrightarrow> sub_inv (signal_take s)" "terminal_last s \<Longrightarrow> terminal_last (signal_take s)"
  "sub_stream (signal_take s) = sub_stream s"
  by (auto simp: signal_take_def sub_inv_def terminal_last_def sub_stream_def staged_def)

definition pending_updates :: "StreamResponse list \<Rightarrow> 64 word" where
  "pending_updates es = of_nat (length (filter has_status_update es))"

lemma pending_updates_simps [simp]:
  "pending_updates [] = 0"
  "pending_updates (e # es) = (if has_status_update e then 1 else 0) + pending_updates es"
  "pending_updates (es @ fs) = pending_updates es + pending_updates fs"
  by (simp_all add: pending_updates_def)

lemma sub_run_inv:
  assumes "sub_run task q r s"
  shows "sub_inv s \<and> terminal_last s \<and> BuildCurrentTaskEvent task # q = r @ sub_stream s \<and>
    pending_delivery_count s = pending_updates (sub_stream s)"
  using assms
proof (induction rule: sub_run.induct)
  case fresh
  then show ?case using new_Subscriber_inv by (simp add: new_Subscriber_def BuildCurrentTaskEvent_def)
next
  case (enqueue q r s e)
  then show ?case
    using sub_enqueue_inv[of s e] sub_enqueue_terminal_last[of s e] sub_enqueue_stream(1)[of s e]
    by (simp add: sub_enqueue_def)
next
  case (enqueue_closed q r s e c)
  then show ?case by (simp add: sub_enqueue_stream)
next
  case (close q r s)
  then show ?case using sub_close_inv[of s] by (simp add: sub_close_def)
next
  case (take q r s)
  then show ?case using signal_take_inv[of s] by (simp add: signal_take_def)
next
  case (resume q r s s')
  then show ?case
    using signal_resume_inv[of s] signal_resume_stream[of s s'] by (metis option.inject)
next
  case (read_begin q r s s')
  then show ?case
    using wait_begin_inv[of s] wait_begin_stream[of s s'] by (metis option.inject)
next
  case (read_event q r s s' e)
  then show ?case
    using wait_end_inv[of s] wait_end_terminal_last[of s] wait_end_event[of s s' e] by auto
next
  case (read_nothing q r s s')
  then show ?case using wait_end_nothing[of s s'] by auto
qed



text \<open>The lock granularity matters: a signal that arrives after the reader has already taken the event it announces
  finds the coroutine waiting again with an empty queue, and ends the stream of an open subscription. The window is
  between queueing an event and signalling it in \<open>PublishTaskUpdated\<close>.\<close>

lemma late_signal_ends_open_stream:
  fixes t :: Task
  defines "t \<equiv> set_state TASK_STATE_WORKING default_Task"
  defines "e \<equiv> BuildStatusUpdateEvent t"
  shows "\<exists>s. sub_run default_Task [e] [BuildCurrentTaskEvent default_Task, e] s \<and>
    \<not> closed s \<and> \<not> is_terminal e \<and> wait_end s = (s, Returned None)"
proof -
  let ?run = "\<lambda>s. the (wait_begin s)" and ?take = "\<lambda>s. fst (wait_end s)"
  define s1 where "s1 = ?take (?run (new_Subscriber default_Task))"
  define s2 where "s2 = ?take (?run (sub_enqueue e (is_terminal e) s1))"
  define s3 where "s3 = signal_take (?run s2)"
  define s4 where "s4 = the (signal_resume s3)"
  note defs = s1_def s2_def s3_def s4_def e_def t_def
  have "sub_run default_Task [] [] (?run (new_Subscriber default_Task))"
    by (rule sub_run.read_begin[OF sub_run.fresh]) code_simp
  moreover have "wait_end (?run (new_Subscriber default_Task)) = (s1, Returned (Some (BuildCurrentTaskEvent default_Task)))"
    unfolding defs by code_simp
  ultimately have "sub_run default_Task [] ([] @ [BuildCurrentTaskEvent default_Task]) s1" by (rule sub_run.read_event)
  moreover have "\<not> closed s1" "has_status_update e" unfolding defs by code_simp+
  ultimately have run: "sub_run default_Task ([] @ [e]) ([] @ [BuildCurrentTaskEvent default_Task]) (sub_enqueue e (is_terminal e) s1)"
    by (rule sub_run.enqueue)
  have "wait_begin (sub_enqueue e (is_terminal e) s1) = Some (?run (sub_enqueue e (is_terminal e) s1))"
    unfolding defs by code_simp
  note run = sub_run.read_begin[OF run this]
  have "wait_end (?run (sub_enqueue e (is_terminal e) s1)) = (s2, Returned (Some e))" unfolding defs by code_simp
  note run = sub_run.read_event[OF run this]
  have "wait_begin s2 = Some (?run s2)" unfolding defs by code_simp
  note run = sub_run.take[OF sub_run.read_begin[OF run this], folded s3_def]
  have "active_resumes s3 \<noteq> 0" "signal_resume s3 = Some s4" unfolding defs by code_simp+
  note run = sub_run.resume[OF run this]
  have "\<not> closed s4 \<and> \<not> is_terminal e \<and> wait_end s4 = (s4, Returned None)" unfolding defs by code_simp
  with run show ?thesis by auto
qed

section \<open>Quiet subscribers\<close>

text \<open>Between whole operations no signal is in flight; then a waiting coroutine has nothing to read and a finished one
  belongs to a closed subscription.\<close>

definition quiet :: "Subscriber \<Rightarrow> bool" where
  "quiet s \<longleftrightarrow> sub_inv s \<and> terminal_last s \<and> active_resumes s = 0 \<and>
     (co_frame s = Awaiting \<longrightarrow> \<not> closed s \<and> events s = []) \<and>
     (co_frame s = Finished \<longrightarrow> closed s \<and> events s = [])"

lemma quiet_new: "quiet (new_Subscriber t)"
  using new_Subscriber_inv by (simp add: quiet_def new_Subscriber_def)

lemma quiet_waiting: "quiet s \<Longrightarrow> continuation s \<longleftrightarrow> co_frame s = Awaiting"
  by (auto simp: quiet_def sub_inv_def)

lemma SignalSubscriber_idle: "\<not> continuation s \<Longrightarrow> SignalSubscriber s = Some s"
  by (simp add: SignalSubscriber_def signal_take_def)

text \<open>Waking a waiting coroutine after its queue or its closed flag changed.\<close>

lemma SignalSubscriber_wakes:
  assumes "sub_inv s" "terminal_last s" "continuation s" "closed s \<or> events s \<noteq> []"
  shows "\<exists>s'. SignalSubscriber s = Some s' \<and> quiet s' \<and> sub_stream s' = sub_stream s \<and> closed s' = closed s \<and>
    sub_task_id s' = sub_task_id s \<and> cancelled s' = cancelled s"
proof -
  let ?s = "signal_take s"
  have take: "sub_inv ?s" "terminal_last ?s" "active_resumes ?s \<noteq> 0"
    using assms signal_take_inv(1,2)[of s] by (simp_all add: signal_take_def)
  obtain s' where s': "signal_resume ?s = Some s'" "sub_inv s'" "active_resumes s' = 0"
    using signal_resume_inv[OF take(1,3)] .
  note eqs = signal_resume_stream[OF take s'(1)]
  have "co_frame ?s = Awaiting" using sub_inv_frames(3)[OF take(1,3)] by simp
  with s'(1) have frame: "sub_task_id s' = sub_task_id s \<and> cancelled s' = cancelled s"
    and wake: "co_frame s' \<noteq> Awaiting \<and> (co_frame s' = Finished \<longrightarrow> events s' = [] \<and> events s = [])"
    by (auto simp: signal_resume_def co_resume_def await_resume_def signal_take_def split: list.splits if_splits)
  have closed: "closed s' = closed s" "sub_stream s' = sub_stream s"
    using eqs(1,3) signal_take_inv(3) by (simp_all add: signal_take_def split: if_splits)
  with assms(4) wake eqs(2) s' have "quiet s'" by (auto simp: quiet_def)
  with closed frame s'(1) assms(3) show ?thesis by (simp add: SignalSubscriber_def)
qed

lemma publish_quiet:
  assumes "quiet s"
  shows "\<exists>s'. SignalSubscriber (sub_enqueue e (is_terminal e) s) = Some s' \<and> quiet s' \<and>
    sub_stream s' = (if closed s then sub_stream s else sub_stream s @ [e]) \<and>
    closed s' = (closed s \<or> is_terminal e) \<and> sub_task_id s' = sub_task_id s \<and> cancelled s' = cancelled s"
proof (cases "closed s")
  case True
  then have "\<not> continuation s" using assms quiet_waiting[OF assms] by (auto simp: quiet_def)
  with True assms show ?thesis by (simp add: sub_enqueue_stream(2) SignalSubscriber_idle)
next
  case opened: False
  let ?s = "sub_enqueue e (is_terminal e) s"
  have s: "sub_inv ?s" "terminal_last ?s" "sub_stream ?s = sub_stream s @ [e]" "events ?s \<noteq> []"
    "closed ?s = is_terminal e" "sub_task_id ?s = sub_task_id s" "cancelled ?s = cancelled s" "continuation ?s = continuation s"
    using assms sub_enqueue_inv[of s] sub_enqueue_terminal_last[of s] sub_enqueue_stream(1)[OF opened]
    by (simp_all add: quiet_def) (simp_all add: sub_enqueue_def opened)
  show ?thesis
  proof (cases "continuation s")
    case True
    with SignalSubscriber_wakes[OF s(1,2)] s opened show ?thesis by auto
  next
    case False
    then have "co_frame s \<noteq> Awaiting" "co_frame s \<noteq> Finished"
      using assms opened quiet_waiting[OF assms] by (auto simp: quiet_def)
    with False assms s opened show ?thesis
      by (simp add: SignalSubscriber_idle quiet_def) (simp add: sub_enqueue_def)
  qed
qed

lemma close_quiet:
  assumes "quiet s"
  shows "\<exists>s'. SignalSubscriber (sub_close s) = Some s' \<and> quiet s' \<and> sub_stream s' = sub_stream s \<and>
    closed s' \<and> sub_task_id s' = sub_task_id s \<and> cancelled s' = cancelled s"
proof -
  have s: "sub_inv (sub_close s)" "terminal_last (sub_close s)" "sub_stream (sub_close s) = sub_stream s"
    "closed (sub_close s)" "continuation (sub_close s) = continuation s"
    "sub_task_id (sub_close s) = sub_task_id s" "cancelled (sub_close s) = cancelled s"
    using assms sub_close_inv by (auto simp: quiet_def) (simp_all add: sub_close_def)
  show ?thesis
  proof (cases "continuation s")
    case True
    with SignalSubscriber_wakes[OF s(1,2)] s show ?thesis by auto
  next
    case False
    with assms s quiet_waiting[OF assms] show ?thesis
      by (simp add: SignalSubscriber_idle quiet_def) (simp add: sub_close_def)
  qed
qed

text \<open>Reading: the head of the stream, the end of a closed stream, or nothing yet.\<close>

lemma co_await_quiet:
  "current_value s = None \<Longrightarrow> (co_frame (co_await s) = Awaiting \<longrightarrow> \<not> closed s \<and> events (co_await s) = []) \<and>
   (co_frame (co_await s) = Finished \<longrightarrow> closed s \<and> events (co_await s) = [])"
  by (cases rule: co_await_cases[of s]) simp_all

lemma co_resume_quiet:
  assumes "co_resume s = Some s'" "current_value s = None" "terminal_last s" "co_frame s \<noteq> Awaiting"
  shows "(co_frame s' = Awaiting \<longrightarrow> \<not> closed s' \<and> events s' = []) \<and> (co_frame s' = Finished \<longrightarrow> closed s' \<and> events s' = [])"
proof (cases "co_frame s")
  case (YieldedEvent b)
  with assms co_await_quiet[OF assms(2)] co_resume_stream(3)[OF assms(2,1,3)] show ?thesis
    by (cases b) (auto simp: co_resume_def terminal_last_def)
qed (use assms co_await_quiet[OF assms(2)] co_resume_stream(3)[OF assms(2,1,3)] in \<open>auto simp: co_resume_def\<close>)

lemma co_resume_frame:
  "co_resume s = Some s' \<Longrightarrow> sub_task_id s' = sub_task_id s \<and> cancelled s' = cancelled s \<and> active_resumes s' = active_resumes s"
  by (auto simp: co_defs split: frame.splits list.splits if_splits)

lemma wait_begin_quiet:
  assumes "quiet s" "wait_begin s = Some s1"
  shows "quiet s1 \<and> sub_task_id s1 = sub_task_id s \<and> cancelled s1 = cancelled s"
proof -
  have inv: "sub_inv s" "terminal_last s" using assms by (auto simp: quiet_def)
  have s1: "sub_inv s1" "terminal_last s1"
    using wait_begin_inv[OF inv(1)] wait_begin_stream[OF inv assms(2)] assms(2) by (metis option.inject, blast)
  show ?thesis
    using inv(1)
  proof (cases rule: wait_begin_cases)
    case start
    with co_resume_quiet[of "s\<lparr>started := True\<rparr>" s1] co_resume_frame[of "s\<lparr>started := True\<rparr>" s1] s1 assms inv
    show ?thesis by (simp add: quiet_def)
  next
    case resume
    with co_resume_quiet[of "s\<lparr>resume_after_yield := False\<rparr>" s1] co_resume_frame[of "s\<lparr>resume_after_yield := False\<rparr>" s1]
      s1 assms inv
    show ?thesis by (simp add: quiet_def)
  next
    case idle
    with assms show ?thesis by simp
  qed
qed

lemma next_quiet:
  assumes "quiet s"
  shows "\<exists>s'. WaitForNext s = Some (s', case sub_stream s of e # _ \<Rightarrow> Returned (Some e)
      | [] \<Rightarrow> if closed s then Returned None else Blocked) \<and>
    quiet s' \<and> sub_stream s' = tl (sub_stream s) \<and> closed s' = closed s \<and> sub_task_id s' = sub_task_id s \<and>
    cancelled s' = cancelled s"
proof -
  have inv: "sub_inv s" "terminal_last s" using assms by (auto simp: quiet_def)
  obtain s1 where s1: "wait_begin s = Some s1" "sub_inv s1" "started s1" "\<not> resume_after_yield s1"
    "current_value s1 = None \<longrightarrow> co_frame s1 = Awaiting \<or> co_frame s1 = Finished"
    using inv(1) by (rule wait_begin_inv)
  note eqs = wait_begin_stream[OF inv s1(1)] and quiet1 = wait_begin_quiet[OF assms s1(1)]
  show ?thesis
  proof (cases "current_value s1")
    case None
    with s1(2,5) quiet1 have "sub_stream s1 = []" "co_done s1 = closed s1"
      by (auto simp: quiet_def sub_stream_def staged_def sub_inv_def)
    with None s1(1) eqs quiet1 show ?thesis by (simp add: WaitForNext_def wait_end_def)
  next
    case (Some e)
    obtain s' where s': "wait_end s1 = (s', Returned (Some e))"
      "sub_task_id s' = sub_task_id s1 \<and> cancelled s' = cancelled s1 \<and> co_frame s' = co_frame s1 \<and> events s' = events s1 \<and>
       active_resumes s' = active_resumes s1"
      using Some by (auto simp: wait_end_def RecordDeliveredEvent_def)
    note stream = wait_end_event(1)[OF s1(2) s'(1)]
    have "quiet s'" "closed s' = closed s1"
      using quiet1 wait_end_inv[of s1] wait_end_terminal_last[of s1] wait_end_frame(1)[of s1] s'
      by (auto simp: quiet_def)
    with stream eqs quiet1 s' s1(1) show ?thesis by (auto simp: WaitForNext_def)
  qed
qed

section \<open>Streams as their readers see them\<close>

locale event_stream =
  fixes read :: "'s \<Rightarrow> ('s \<times> wait) option"
    and good :: "'s \<Rightarrow> bool"
    and stream :: "'s \<Rightarrow> StreamResponse list"
    and ended :: "'s \<Rightarrow> bool"
  assumes read_spec: "good s \<Longrightarrow> \<exists>s'. read s = Some (s', case stream s of e # _ \<Rightarrow> Returned (Some e)
      | [] \<Rightarrow> if ended s then Returned None else Blocked) \<and> good s' \<and> stream s' = tl (stream s) \<and> ended s' = ended s"

text \<open>Reading until there is nothing to read: the loop of every transport that serves a stream.\<close>

fun drain :: "nat \<Rightarrow> ('s \<Rightarrow> ('s \<times> wait) option) \<Rightarrow> 's \<Rightarrow> ('s \<times> StreamResponse list \<times> bool) option" where
  "drain 0 read s = None"
| "drain (Suc fuel) read s =
     (case read s of
        None \<Rightarrow> None
      | Some (s, Returned (Some e)) \<Rightarrow> map_option (\<lambda>(s, es, done). (s, e # es, done)) (drain fuel read s)
      | Some (s, Returned None) \<Rightarrow> Some (s, [], True)
      | Some (s, Blocked) \<Rightarrow> Some (s, [], False))"

context event_stream
begin

lemma drain_complete:
  "good s \<Longrightarrow> length (stream s) < fuel \<Longrightarrow>
   \<exists>s'. drain fuel read s = Some (s', stream s, ended s) \<and> good s' \<and> stream s' = []"
proof (induction fuel arbitrary: s)
  case (Suc fuel)
  show ?case
  proof (cases "stream s")
    case Nil
    with read_spec[OF Suc.prems(1)] show ?thesis by auto
  next
    case (Cons e es)
    with read_spec[OF Suc.prems(1)] obtain s1 where s1: "read s = Some (s1, Returned (Some e))" "good s1"
      "stream s1 = es" "ended s1 = ended s" by auto
    with Suc.IH[of s1] Suc.prems(2) Cons show ?thesis by auto
  qed
qed simp

end

interpretation sub: event_stream WaitForNext quiet sub_stream closed
  using next_quiet by unfold_locales blast

section \<open>The service\<close>

definition registered :: "(string \<times> address list) list \<Rightarrow> string \<Rightarrow> address list" where
  "registered entries k = (case map_of entries k of None \<Rightarrow> [] | Some as \<Rightarrow> as)"

definition open_subscribers :: "(address \<rightharpoonup> Subscriber) \<Rightarrow> string \<Rightarrow> address set" where
  "open_subscribers h k = {a. \<exists>s. h a = Some s \<and> sub_task_id s = k \<and> \<not> closed s}"

definition good_subscriber :: "Subscriber \<Rightarrow> bool" where
  "good_subscriber s \<longleftrightarrow> quiet s \<and> (cancelled s \<longrightarrow> closed s)"

text \<open>The subscribers registered for a task are exactly the live, open subscriptions to it.\<close>

definition svc_inv :: "SubscriptionService \<Rightarrow> bool" where
  "svc_inv svc \<longleftrightarrow>
     distinct (map fst (subscribers_by_task_id svc)) \<and>
     (\<forall>k. distinct (registered (subscribers_by_task_id svc) k) \<and>
        set (registered (subscribers_by_task_id svc) k) = open_subscribers (sub_heap svc) k) \<and>
     (\<forall>a s. sub_heap svc a = Some s \<longrightarrow> a < sub_next svc \<and> good_subscriber s) \<and>
     (svc_shutdown svc \<longrightarrow> subscribers_by_task_id svc = [])"

lemma for_subscribers_spec:
  assumes "distinct as" "\<forall>a\<in>set as. \<exists>s s'. h a = Some s \<and> f s = Some s'"
  shows "\<exists>h'. for_subscribers f as h = Some h' \<and> (\<forall>a. h' a = (if a \<in> set as then Option.bind (h a) f else h a))"
  using assms
proof (induction as arbitrary: h)
  case (Cons a as)
  then obtain s s' where s: "h a = Some s" "f s = Some s'" by auto
  have "\<exists>h'. for_subscribers f as (h(a \<mapsto> s')) = Some h' \<and>
      (\<forall>b. h' b = (if b \<in> set as then Option.bind ((h(a \<mapsto> s')) b) f else (h(a \<mapsto> s')) b))"
    using Cons.prems by (intro Cons.IH) auto
  with s Cons.prems(1) show ?case by auto
qed simp

lemma registered_simps [simp]:
  "registered [] k = []"
  "registered (AList.update k as entries) k' = (if k' = k then as else registered entries k')"
  "registered (AList.delete k entries) k' = (if k' = k then [] else registered entries k')"
  by (simp_all add: registered_def AList.delete_conv')

lemma svc_invD:
  assumes "svc_inv svc"
  shows "distinct (registered (subscribers_by_task_id svc) k)"
    and "set (registered (subscribers_by_task_id svc) k) = open_subscribers (sub_heap svc) k"
    and "sub_heap svc a = Some s \<Longrightarrow> a < sub_next svc \<and> good_subscriber s"
    and "distinct (map fst (subscribers_by_task_id svc))"
    and "svc_shutdown svc \<Longrightarrow> subscribers_by_task_id svc = []"
  using assms unfolding svc_inv_def by blast+

lemma new_service_inv: "svc_inv new_SubscriptionService"
  by (simp add: svc_inv_def new_SubscriptionService_def open_subscribers_def)

text \<open>Changing the subscribers of one task and its entry.\<close>

lemma svc_inv_update:
  assumes inv: "svc_inv svc" "\<not> svc_shutdown svc"
    and untouched: "\<And>a. a \<notin> A \<Longrightarrow> h a = sub_heap svc a"
    and touched: "\<And>a. a \<in> A \<Longrightarrow> \<exists>s'. h a = Some s' \<and> sub_task_id s' = k \<and> good_subscriber s' \<and> a < n"
    and before: "\<And>a s. a \<in> A \<Longrightarrow> sub_heap svc a = Some s \<Longrightarrow> sub_task_id s = k"
    and n: "sub_next svc \<le> n"
    and entries: "distinct (map fst entries)" "\<And>k'. k' \<noteq> k \<Longrightarrow> registered entries k' = registered (subscribers_by_task_id svc) k'"
    and new: "distinct (registered entries k)" "set (registered entries k) = open_subscribers h k"
  shows "svc_inv (svc\<lparr>sub_heap := h, subscribers_by_task_id := entries, sub_next := n\<rparr>)"
proof -
  have opens: "open_subscribers h k' = open_subscribers (sub_heap svc) k'" if "k' \<noteq> k" for k'
  proof (rule set_eqI)
    fix a
    show "a \<in> open_subscribers h k' \<longleftrightarrow> a \<in> open_subscribers (sub_heap svc) k'"
      using that touched[of a] before[of a] untouched[of a] by (cases "a \<in> A") (auto simp: open_subscribers_def)
  qed
  have "distinct (registered entries k') \<and> set (registered entries k') = open_subscribers h k'" for k'
  proof (cases "k' = k")
    case False
    with opens entries(2) svc_invD(1,2)[OF inv(1)] show ?thesis by simp
  qed (simp add: new)
  moreover have "a < n \<and> good_subscriber s" if "h a = Some s" for a s
  proof (cases "a \<in> A")
    case False
    with that untouched have "sub_heap svc a = Some s" by simp
    with svc_invD(3)[OF inv(1)] n show ?thesis by fastforce
  qed (use that touched[of a] in auto)
  ultimately show ?thesis using entries(1) inv(2) by (simp add: svc_inv_def)
qed

lemma quiet_cancelled [simp]: "quiet (s\<lparr>cancelled := b\<rparr>) = quiet s"
  by (simp add: quiet_def sub_inv_def)

lemma svc_record_same [simp]: "svc\<lparr>sub_heap := sub_heap svc\<rparr> = svc" "svc\<lparr>sub_next := sub_next svc\<rparr> = svc"
  by simp_all

lemma svc_inv_latest [simp]: "svc_inv (svc\<lparr>latest_task_states_by_id := l\<rparr>) = svc_inv svc"
  by (simp add: svc_inv_def)

lemma Subscribe_inv:
  assumes "svc_inv svc"
  shows "svc_inv (fst (Subscribe task svc))"
proof (cases "snd (Subscribe task svc)")
  case (Inl e)
  with assms show ?thesis by (auto simp: Subscribe_def Let_def split: if_splits)
next
  case (Inr address)
  let ?cur = "subscribed_task task svc" and ?n = "sub_next svc" and ?k = "Task_id task"
  let ?h = "(sub_heap svc)(?n \<mapsto> new_Subscriber ?cur)"
  have id: "Task_id ?cur = ?k" by (simp add: subscribed_task_def split: option.splits)
  have fresh: "sub_heap svc ?n = None" using svc_invD(3)[OF assms] by (cases "sub_heap svc ?n") auto
  from Inr have open_svc: "\<not> svc_shutdown svc"
    and eq: "fst (Subscribe task svc) = svc\<lparr>sub_heap := ?h,
      subscribers_by_task_id := AList.update ?k (registered (subscribers_by_task_id svc) ?k @ [?n]) (subscribers_by_task_id svc),
      sub_next := Suc ?n\<rparr>"
    by (auto simp: Subscribe_def Let_def registered_def split: if_splits)
  have opens: "open_subscribers ?h ?k = insert ?n (open_subscribers (sub_heap svc) ?k)"
    using fresh id by (auto simp: open_subscribers_def new_Subscriber_def)
  have "?n \<notin> open_subscribers (sub_heap svc) ?k" using fresh by (simp add: open_subscribers_def)
  then show ?thesis
    unfolding eq using svc_invD(1,2)[OF assms] opens fresh id quiet_new[of ?cur] svc_invD(4)[OF assms]
    by (intro svc_inv_update[OF assms open_svc, where A = "{?n}" and k = ?k])
       (auto simp: good_subscriber_def new_Subscriber_def AList.distinct_update)
qed

lemma is_terminal_BuildStatusUpdateEvent [simp]:
  "is_terminal (BuildStatusUpdateEvent t) = IsTerminalTaskState (task_state t)"
  by (simp add: BuildStatusUpdateEvent_def update_state_def task_state_def)

text \<open>Publishing: every open subscription to the task gets the event, all others stay as they are.\<close>

abbreviation publish_to :: "Task \<Rightarrow> Subscriber \<Rightarrow> Subscriber option" where
  "publish_to t s \<equiv> SignalSubscriber (sub_enqueue (BuildStatusUpdateEvent t) (IsTerminalTaskState (task_state t)) s)"

lemma publish_to_open:
  assumes "svc_inv svc" "a \<in> open_subscribers (sub_heap svc) k"
  shows "\<exists>s s'. sub_heap svc a = Some s \<and> sub_task_id s = k \<and> publish_to t s = Some s' \<and> good_subscriber s' \<and>
    sub_task_id s' = k \<and> sub_stream s' = sub_stream s @ [BuildStatusUpdateEvent t] \<and>
    closed s' = IsTerminalTaskState (task_state t)"
proof -
  from assms(2) obtain s where s: "sub_heap svc a = Some s" "sub_task_id s = k" "\<not> closed s"
    by (auto simp: open_subscribers_def)
  with svc_invD(3)[OF assms(1) s(1)] publish_quiet[of s "BuildStatusUpdateEvent t"] show ?thesis
    by (auto simp: good_subscriber_def)
qed

definition publish_latest :: "Task \<Rightarrow> SubscriptionService \<Rightarrow> SubscriptionService" where
  "publish_latest t svc = svc\<lparr>latest_task_states_by_id := (latest_task_states_by_id svc)(Task_id t \<mapsto>
    \<lparr>latest_context_id = Task_context_id t, latest_status = status t\<rparr>)\<rparr>"

lemma PublishTaskUpdated_eq:
  fixes t :: Task
  assumes "svc_inv svc" "\<not> svc_shutdown svc"
  defines "as \<equiv> registered (subscribers_by_task_id svc) (Task_id t)"
  shows "PublishTaskUpdated t svc = map_option (\<lambda>h. publish_latest t svc\<lparr>sub_heap := h,
      subscribers_by_task_id := (if as = [] \<or> IsTerminalTaskState (task_state t)
        then AList.delete (Task_id t) (subscribers_by_task_id svc)
        else AList.update (Task_id t) as (subscribers_by_task_id svc)), sub_next := sub_next svc\<rparr>)
    (for_subscribers (publish_to t) as (sub_heap svc))"
proof (cases "map_of (subscribers_by_task_id svc) (Task_id t)")
  case None
  then have "as = []" "AList.delete (Task_id t) (subscribers_by_task_id svc) = subscribers_by_task_id svc"
    by (simp add: as_def registered_def) (use None in \<open>simp add: map_of_eq_None_iff AList.delete_idem\<close>)
  with None assms(2) show ?thesis
    by (simp add: PublishTaskUpdated_def collect_subscribers_def publish_latest_def)
next
  case (Some bs)
  have "filter (\<lambda>a. sub_heap svc a \<noteq> None) as = as"
    using svc_invD(2)[OF assms(1)] by (intro filter_True) (auto simp: as_def open_subscribers_def)
  moreover from Some have "bs = as" by (simp add: as_def registered_def)
  ultimately show ?thesis using Some assms(2)
    by (cases svc) (simp add: PublishTaskUpdated_def collect_subscribers_def publish_latest_def Let_def)
qed

lemma publish_opens:
  assumes "svc_inv svc"
    and h': "\<And>a. h' a = (if a \<in> open_subscribers (sub_heap svc) k then Option.bind (sub_heap svc a) (publish_to t) else sub_heap svc a)"
  shows "open_subscribers h' k = (if IsTerminalTaskState (task_state t) then {} else open_subscribers (sub_heap svc) k)"
proof (rule set_eqI)
  fix a
  show "a \<in> open_subscribers h' k \<longleftrightarrow> a \<in> (if IsTerminalTaskState (task_state t) then {} else open_subscribers (sub_heap svc) k)"
    using h'[of a] publish_to_open[OF assms(1), of a k t]
    by (cases "a \<in> open_subscribers (sub_heap svc) k") (auto simp: open_subscribers_def)
qed

lemma PublishTaskUpdated_effect:
  assumes "svc_inv svc"
  shows "\<exists>svc'. PublishTaskUpdated t svc = Some svc' \<and> svc_inv svc' \<and>
    (\<forall>a. a \<notin> open_subscribers (sub_heap svc) (Task_id t) \<longrightarrow> sub_heap svc' a = sub_heap svc a) \<and>
    (\<forall>a s. sub_heap svc a = Some s \<and> a \<in> open_subscribers (sub_heap svc) (Task_id t) \<longrightarrow>
       (\<exists>s'. sub_heap svc' a = Some s' \<and> sub_stream s' = sub_stream s @ [BuildStatusUpdateEvent t] \<and>
          closed s' = IsTerminalTaskState (task_state t)))"
proof (cases "svc_shutdown svc")
  case True
  then have "open_subscribers (sub_heap svc) (Task_id t) = {}"
    using svc_invD(2)[OF assms, of "Task_id t"] svc_invD(5)[OF assms True] by simp
  with True assms show ?thesis by (simp add: PublishTaskUpdated_def collect_subscribers_def)
next
  case False
  let ?k = "Task_id t" and ?open = "open_subscribers (sub_heap svc) (Task_id t)"
  let ?as = "registered (subscribers_by_task_id svc) ?k"
  let ?svc = "publish_latest t svc"
  note step = publish_to_open[OF assms, of _ ?k t]
  have as: "distinct ?as" "set ?as = ?open" using svc_invD(1,2)[OF assms] by simp_all
  obtain h' where h': "for_subscribers (publish_to t) ?as (sub_heap svc) = Some h'"
    "\<And>a. h' a = (if a \<in> ?open then Option.bind (sub_heap svc a) (publish_to t) else sub_heap svc a)"
    using for_subscribers_spec[OF as(1), of "sub_heap svc" "publish_to t"] step unfolding as(2) by blast
  note eq = PublishTaskUpdated_eq[OF assms False, of t, unfolded h'(1) option.map(2)]
  have "svc_inv (the (PublishTaskUpdated t svc))"
    unfolding eq option.sel
  proof (rule svc_inv_update[where A = ?open and k = ?k])
    show "svc_inv ?svc" "\<not> svc_shutdown ?svc" "sub_next ?svc \<le> sub_next svc"
      using assms False by (simp_all add: publish_latest_def)
    show "h' a = sub_heap ?svc a" if "a \<notin> ?open" for a using that h'(2) by (simp add: publish_latest_def)
    show "\<exists>s'. h' a = Some s' \<and> sub_task_id s' = ?k \<and> good_subscriber s' \<and> a < sub_next svc" if "a \<in> ?open" for a
      using step[OF that] h'(2) that svc_invD(3)[OF assms] by fastforce
    show "sub_task_id s = ?k" if "a \<in> ?open" "sub_heap ?svc a = Some s" for a s
      using step[OF that(1)] that(2) by (auto simp: publish_latest_def)
  qed (use svc_invD(4)[OF assms] as publish_opens[OF assms h'(2)] in
      \<open>auto simp: publish_latest_def AList.distinct_update AList.distinct_delete\<close>)
  with h'(2) step show ?thesis
    unfolding eq by (fastforce simp: publish_latest_def)
qed

text \<open>Closing one subscription, cancelling its session and destroying it.\<close>

lemma RemoveSubscriber_effect:
  assumes "svc_inv svc" "sub_heap svc a = Some s"
  shows "\<exists>svc' s'. RemoveSubscriber a (svc\<lparr>sub_heap := (sub_heap svc)(a \<mapsto> s\<lparr>cancelled := b\<rparr>)\<rparr>) = Some svc' \<and> svc_inv svc' \<and>
    sub_heap svc' = (sub_heap svc)(a \<mapsto> s') \<and> closed s' \<and> sub_stream s' = sub_stream s \<and> active_resumes s' = 0"
proof -
  let ?k = "sub_task_id s" and ?subs = "subscribers_by_task_id svc"
  have "quiet (s\<lparr>cancelled := b\<rparr>)"
    using svc_invD(3)[OF assms] by (simp add: good_subscriber_def)
  from close_quiet[OF this] obtain s' where s': "SignalSubscriber (sub_close (s\<lparr>cancelled := b\<rparr>)) = Some s'" "quiet s'"
    "sub_stream s' = sub_stream s" "closed s'" "sub_task_id s' = ?k" by auto
  define h where "h = (sub_heap svc)(a \<mapsto> s')"
  define kept where "kept = filter (\<lambda>b. \<not> (h b = None \<or> b = a)) (registered ?subs ?k)"
  define entries where "entries = (if map_of ?subs ?k = None then ?subs
    else if kept = [] then AList.delete ?k ?subs else AList.update ?k kept ?subs)"
  have eq: "RemoveSubscriber a (svc\<lparr>sub_heap := (sub_heap svc)(a \<mapsto> s\<lparr>cancelled := b\<rparr>)\<rparr>) =
      Some (svc\<lparr>sub_heap := h, subscribers_by_task_id := entries, sub_next := sub_next svc\<rparr>)"
    using s'(1,5) by (cases svc) (auto simp: RemoveSubscriber_def h_def kept_def entries_def registered_def Let_def
        split: option.splits)
  have kept: "distinct kept" "set kept = open_subscribers h ?k"
    using svc_invD(1,2)[OF assms(1), of ?k] s'(4)
    by (auto simp: kept_def h_def open_subscribers_def)
  have reg: "registered entries ?k = kept"
    by (cases "map_of ?subs ?k") (simp_all add: entries_def, simp add: kept_def registered_def)
  show ?thesis
  proof (cases "svc_shutdown svc")
    case True
    with svc_invD(5)[OF assms(1)] have "entries = []" by (simp add: entries_def)
    moreover have "open_subscribers h k = {}" for k
      using svc_invD(2)[OF assms(1), of k] svc_invD(5)[OF assms(1) True] s'(4)
      by (auto simp: h_def open_subscribers_def)
    ultimately show ?thesis
      unfolding eq using True s' svc_invD(3)[OF assms(1)] assms(2)
      by (auto simp: svc_inv_def h_def good_subscriber_def quiet_def)
  next
    case False
    have "svc_inv (svc\<lparr>sub_heap := h, subscribers_by_task_id := entries, sub_next := sub_next svc\<rparr>)"
      using svc_invD(3)[OF assms] svc_invD(4)[OF assms(1)] s' kept reg assms(2)
      by (intro svc_inv_update[OF assms(1) False, where A = "{a}" and k = ?k])
         (auto simp: h_def good_subscriber_def entries_def AList.distinct_update AList.distinct_delete registered_def)
    with s' show ?thesis unfolding eq by (auto simp: h_def quiet_def)
  qed
qed

lemma Session_Cancel_effect:
  assumes "svc_inv svc" "sub_heap svc a = Some s"
  shows "\<exists>svc' s'. Session_Cancel a svc = Some svc' \<and> svc_inv svc' \<and>
    sub_heap svc' = (sub_heap svc)(a \<mapsto> s') \<and> closed s' \<and> sub_stream s' = sub_stream s"
proof (cases "cancelled s")
  case True
  with assms svc_invD(3)[OF assms] have "closed s" by (simp add: good_subscriber_def)
  with True assms show ?thesis
    by (intro exI[of _ svc] exI[of _ s]) (simp add: Session_Cancel_def fun_upd_idem)
next
  case False
  with RemoveSubscriber_effect[OF assms, of True] assms(2) show ?thesis
    by (auto simp: Session_Cancel_def WaitForResumes_def)
qed

lemma Session_destroy_effect:
  assumes "svc_inv svc" "sub_heap svc a = Some s"
  shows "\<exists>svc'. Session_destroy a svc = Some svc' \<and> svc_inv svc' \<and> sub_heap svc' = (sub_heap svc)(a := None)"
proof -
  obtain svc1 s' where svc1: "Session_Cancel a svc = Some svc1" "svc_inv svc1" "sub_heap svc1 = (sub_heap svc)(a \<mapsto> s')" "closed s'"
    using Session_Cancel_effect[OF assms] by blast
  have "open_subscribers ((sub_heap svc1)(a := None)) k = open_subscribers (sub_heap svc1) k" for k
    using svc1(3,4) by (auto simp: open_subscribers_def)
  with svc1 have "svc_inv (svc1\<lparr>sub_heap := (sub_heap svc1)(a := None)\<rparr>)"
    unfolding svc_inv_def by (auto simp del: fun_upd_apply) (auto split: if_splits)
  with svc1 show ?thesis by (simp add: Session_destroy_def)
qed

text \<open>Shutting the service down closes every subscription.\<close>

lemma close_all:
  assumes "\<forall>a\<in>set as. \<exists>s. h a = Some s \<and> good_subscriber s"
  shows "\<exists>h'. for_subscribers (\<lambda>s. SignalSubscriber (sub_close s)) as h = Some h' \<and> (\<forall>a. a \<notin> set as \<longrightarrow> h' a = h a) \<and>
    (\<forall>a\<in>set as. \<exists>s s'. h a = Some s \<and> h' a = Some s' \<and> good_subscriber s' \<and> closed s' \<and> sub_stream s' = sub_stream s)"
  using assms
proof (induction as arbitrary: h)
  case (Cons a as)
  then obtain s where "h a = Some s" "quiet s" by (auto simp: good_subscriber_def)
  with close_quiet[of s] obtain s' where s: "h a = Some s" "SignalSubscriber (sub_close s) = Some s'" "good_subscriber s'"
    "closed s'" "sub_stream s' = sub_stream s"
    by (auto simp: good_subscriber_def)
  have "\<forall>b\<in>set as. \<exists>t. (h(a \<mapsto> s')) b = Some t \<and> good_subscriber t" using Cons.prems s by auto
  from Cons.IH[OF this] obtain h' where h': "for_subscribers (\<lambda>s. SignalSubscriber (sub_close s)) as (h(a \<mapsto> s')) = Some h'"
    "\<And>b. b \<notin> set as \<Longrightarrow> h' b = (h(a \<mapsto> s')) b"
    "\<And>b. b \<in> set as \<Longrightarrow> \<exists>t t'. (h(a \<mapsto> s')) b = Some t \<and> h' b = Some t' \<and> good_subscriber t' \<and> closed t' \<and> sub_stream t' = sub_stream t"
    by blast
  have "\<exists>t t'. h b = Some t \<and> h' b = Some t' \<and> good_subscriber t' \<and> closed t' \<and> sub_stream t' = sub_stream t"
    if "b \<in> set (a # as)" for b
    using that h'(2)[of b] h'(3)[of b] s by (cases "b = a"; cases "b \<in> set as") auto
  moreover have "for_subscribers (\<lambda>s. SignalSubscriber (sub_close s)) (a # as) h = Some h'"
    "\<And>b. b \<notin> set (a # as) \<Longrightarrow> h' b = h b"
    using s h'(1,2) by simp_all
  ultimately show ?case by blast
qed simp

lemma Shutdown_effect:
  assumes "svc_inv svc"
  shows "\<exists>svc'. Shutdown svc = Some svc' \<and> svc_inv svc' \<and> svc_shutdown svc' \<and>
    (\<forall>a s. sub_heap svc a = Some s \<longrightarrow> (\<exists>s'. sub_heap svc' a = Some s' \<and> closed s' \<and> sub_stream s' = sub_stream s))"
proof (cases "svc_shutdown svc")
  case True
  have "closed s" if "sub_heap svc a = Some s" for a s
    using svc_invD(2)[OF assms, of "sub_task_id s"] svc_invD(5)[OF assms True] that
    by (auto simp: open_subscribers_def)
  with True assms show ?thesis by (auto simp: Shutdown_def)
next
  case False
  define as where "as = filter (\<lambda>a. sub_heap svc a \<noteq> None) (concat (map snd (subscribers_by_task_id svc)))"
  have "\<forall>a\<in>set as. \<exists>s. sub_heap svc a = Some s \<and> good_subscriber s"
    using svc_invD(3)[OF assms] by (auto simp: as_def)
  from close_all[OF this] obtain h' where h': "for_subscribers (\<lambda>s. SignalSubscriber (sub_close s)) as (sub_heap svc) = Some h'"
    "\<And>a. a \<notin> set as \<Longrightarrow> h' a = sub_heap svc a"
    "\<And>a. a \<in> set as \<Longrightarrow> \<exists>s s'. sub_heap svc a = Some s \<and> h' a = Some s' \<and> good_subscriber s' \<and> closed s' \<and> sub_stream s' = sub_stream s"
    by blast
  have closed_out: "closed s" if "a \<notin> set as" "sub_heap svc a = Some s" for a s
  proof (rule ccontr)
    assume "\<not> closed s"
    with that(2) have "a \<in> set (registered (subscribers_by_task_id svc) (sub_task_id s))"
      using svc_invD(2)[OF assms] by (simp add: open_subscribers_def)
    then obtain bs where "(sub_task_id s, bs) \<in> set (subscribers_by_task_id svc)" "a \<in> set bs"
      by (cases "map_of (subscribers_by_task_id svc) (sub_task_id s)") (auto simp: registered_def dest: map_of_SomeD)
    with that show False by (force simp: as_def)
  qed
  have "\<exists>s'. h' a = Some s' \<and> closed s' \<and> sub_stream s' = sub_stream s" if "sub_heap svc a = Some s" for a s
    using h'(2)[of a] h'(3)[of a] closed_out[of a s] that by (cases "a \<in> set as") auto
  moreover have good: "a < sub_next svc \<and> good_subscriber s \<and> closed s" if "h' a = Some s" for a s
    using h'(2)[of a] h'(3)[of a] closed_out[of a s] svc_invD(3)[OF assms, of a] that
    by (cases "a \<in> set as") (auto simp del: not_None_eq dest: sym)
  moreover have "open_subscribers h' k = {}" for k using good by (auto simp: open_subscribers_def)
  moreover have "Shutdown svc = Some (svc\<lparr>svc_shutdown := True, subscribers_by_task_id := [],
      latest_task_states_by_id := Map.empty, sub_heap := h'\<rparr>)"
    using False h'(1) by (simp add: Shutdown_def Let_def as_def)
  ultimately show ?thesis by (simp add: svc_inv_def)
qed

lemma Session_Next_effect:
  assumes "svc_inv svc" "sub_heap svc a = Some s"
  shows "\<exists>svc' s'. Session_Next a svc = Some (svc', case sub_stream s of e # _ \<Rightarrow> Returned (Some e)
      | [] \<Rightarrow> if closed s then Returned None else Blocked) \<and> svc_inv svc' \<and>
    sub_heap svc' = (sub_heap svc)(a \<mapsto> s') \<and> sub_stream s' = tl (sub_stream s) \<and> closed s' = closed s"
proof -
  have "quiet s" using svc_invD(3)[OF assms] by (simp add: good_subscriber_def)
  from next_quiet[OF this] obtain s' where s': "WaitForNext s = Some (s', case sub_stream s of e # _ \<Rightarrow> Returned (Some e)
      | [] \<Rightarrow> if closed s then Returned None else Blocked)" "quiet s'" "sub_stream s' = tl (sub_stream s)"
    "closed s' = closed s" "sub_task_id s' = sub_task_id s" "cancelled s' = cancelled s" by blast
  have "open_subscribers ((sub_heap svc)(a \<mapsto> s')) k = open_subscribers (sub_heap svc) k" for k
    using s' assms(2) by (auto simp: open_subscribers_def)
  with assms s' svc_invD(3)[OF assms] have "svc_inv (svc\<lparr>sub_heap := (sub_heap svc)(a \<mapsto> s')\<rparr>)"
    unfolding svc_inv_def by (auto simp del: fun_upd_apply) (auto simp: good_subscriber_def split: if_splits)
  with s' assms(2) show ?thesis
    by (intro exI[of _ "svc\<lparr>sub_heap := (sub_heap svc)(a \<mapsto> s')\<rparr>"] exI[of _ s']) (simp add: Session_Next_def)
qed

section \<open>Properties of the service\<close>

text \<open>The states of the service: a new one after any sequence of its operations.\<close>

inductive svc_reachable :: "SubscriptionService \<Rightarrow> bool" where
  created: "svc_reachable new_SubscriptionService"
| subscribed: "svc_reachable svc \<Longrightarrow> svc_reachable (fst (Subscribe task svc))"
| published: "svc_reachable svc \<Longrightarrow> PublishTaskUpdated task svc = Some svc' \<Longrightarrow> svc_reachable svc'"
| read: "svc_reachable svc \<Longrightarrow> Session_Next a svc = Some (svc', w) \<Longrightarrow> svc_reachable svc'"
| cancelled: "svc_reachable svc \<Longrightarrow> Session_Cancel a svc = Some svc' \<Longrightarrow> svc_reachable svc'"
| destroyed: "svc_reachable svc \<Longrightarrow> Session_destroy a svc = Some svc' \<Longrightarrow> svc_reachable svc'"
| stopped: "svc_reachable svc \<Longrightarrow> Shutdown svc = Some svc' \<Longrightarrow> svc_reachable svc'"

lemma dead_session:
  "sub_heap svc a = None \<Longrightarrow> Session_Next a svc = None \<and> Session_Cancel a svc = None \<and> Session_destroy a svc = None"
  by (simp add: Session_Next_def Session_Cancel_def Session_destroy_def)

lemma reachable_svc_inv: "svc_reachable svc \<Longrightarrow> svc_inv svc"
proof (induction rule: svc_reachable.induct)
  case created
  show ?case by (rule new_service_inv)
next
  case (subscribed svc task)
  then show ?case by (blast intro: Subscribe_inv)
next
  case (published svc task svc')
  with PublishTaskUpdated_effect[of svc task] show ?case by auto
next
  case (read svc a svc' w)
  with Session_Next_effect[of svc a] dead_session[of svc a] show ?case by (cases "sub_heap svc a") auto
next
  case (cancelled svc a svc')
  with Session_Cancel_effect[of svc a] dead_session[of svc a] show ?case by (cases "sub_heap svc a") auto
next
  case (destroyed svc a svc')
  with Session_destroy_effect[of svc a] dead_session[of svc a] show ?case by (cases "sub_heap svc a") auto
next
  case (stopped svc svc')
  with Shutdown_effect[of svc] show ?case by auto
qed

text \<open>C28: publishing an update appends exactly one status event to the stream of every open subscription to that
  task, closes those subscriptions when the new state is terminal, and touches no other subscription. It never resumes
  a finished coroutine or uses a destroyed session.\<close>

theorem PublishTaskUpdated_delivers:
  assumes "svc_reachable svc"
  shows "\<exists>svc'. PublishTaskUpdated t svc = Some svc' \<and>
    (\<forall>a. case sub_heap svc a of
       None \<Rightarrow> sub_heap svc' a = None
     | Some s \<Rightarrow>
         if sub_task_id s = Task_id t \<and> \<not> closed s
         then \<exists>s'. sub_heap svc' a = Some s' \<and> sub_stream s' = sub_stream s @ [BuildStatusUpdateEvent t] \<and>
           closed s' = IsTerminalTaskState (task_state t)
         else sub_heap svc' a = Some s)"
proof -
  obtain svc' where svc': "PublishTaskUpdated t svc = Some svc'"
    "\<And>a. a \<notin> open_subscribers (sub_heap svc) (Task_id t) \<Longrightarrow> sub_heap svc' a = sub_heap svc a"
    "\<And>a s. sub_heap svc a = Some s \<Longrightarrow> a \<in> open_subscribers (sub_heap svc) (Task_id t) \<Longrightarrow>
       \<exists>s'. sub_heap svc' a = Some s' \<and> sub_stream s' = sub_stream s @ [BuildStatusUpdateEvent t] \<and>
          closed s' = IsTerminalTaskState (task_state t)"
    using PublishTaskUpdated_effect[OF reachable_svc_inv[OF assms], of t] by blast
  then show ?thesis
    by (intro exI[of _ svc']) (auto simp: open_subscribers_def split: option.split)
qed

definition sample_svc :: SubscriptionService where
  "sample_svc = fst (Subscribe (set_state TASK_STATE_WORKING (default_Task\<lparr>Task_id := ''t''\<rparr>)) new_SubscriptionService)"

lemma sample_svc_reachable: "svc_reachable sample_svc"
  unfolding sample_svc_def by (intro svc_reachable.intros)

theorem PublishTaskUpdated_delivers_witness:
  "\<exists>svc' s'. PublishTaskUpdated (set_state TASK_STATE_COMPLETED (default_Task\<lparr>Task_id := ''t''\<rparr>)) sample_svc = Some svc' \<and>
     sub_heap svc' 0 = Some s' \<and> closed s' \<and> length (sub_stream s') = 2"
proof -
  let ?t = "set_state TASK_STATE_COMPLETED (default_Task\<lparr>Task_id := ''t''\<rparr>)"
  obtain s where "sub_heap sample_svc 0 = Some s" "sub_task_id s = Task_id ?t" "\<not> closed s" "length (sub_stream s) = 1"
  proof -
    have "map_option (\<lambda>s. (sub_task_id s, closed s, length (sub_stream s))) (sub_heap sample_svc 0) = Some (''t'', False, 1)"
      by code_simp
    then show ?thesis using that by auto
  qed
  with PublishTaskUpdated_delivers[OF sample_svc_reachable, of ?t] show ?thesis
    by (fastforce dest!: spec[of _ 0])
qed



text \<open>once a terminal update of a task was published, nobody can subscribe to it, however stale the snapshot the
  caller read from the store: the subscription is refused and nothing changes.\<close>

theorem Subscribe_after_terminal:
  assumes "PublishTaskUpdated t svc = Some svc'" "\<not> svc_shutdown svc" "IsTerminalTaskState (task_state t)"
    and "Task_id t' = Task_id t"
  shows "Subscribe t' svc' = (svc', Inl (UnsupportedOperation ''task is already terminal''))"
proof -
  from assms(1,2) have "latest_task_states_by_id svc' (Task_id t) = Some \<lparr>latest_context_id = Task_context_id t, latest_status = status t\<rparr>"
    "\<not> svc_shutdown svc'"
    by (auto simp: PublishTaskUpdated_def collect_subscribers_def Let_def split: option.splits if_splits prod.splits)
  with assms(3,4) show ?thesis
    by (simp add: Subscribe_def subscribed_task_def task_state_def)
qed

theorem Subscribe_after_terminal_witness:
  "let t = set_state TASK_STATE_FAILED (default_Task\<lparr>Task_id := ''t''\<rparr>);
       svc = the (PublishTaskUpdated t sample_svc)
   in Subscribe (default_Task\<lparr>Task_id := ''t''\<rparr>) svc = (svc, Inl (UnsupportedOperation ''task is already terminal''))"
proof -
  let ?t = "set_state TASK_STATE_FAILED (default_Task\<lparr>Task_id := ''t''\<rparr>)"
  obtain svc where svc: "PublishTaskUpdated ?t sample_svc = Some svc"
    using PublishTaskUpdated_effect[OF reachable_svc_inv[OF sample_svc_reachable], of ?t] by blast
  have "\<not> svc_shutdown sample_svc" by code_simp
  with Subscribe_after_terminal[OF svc] svc show ?thesis by (simp add: Let_def)
qed

end
