(* ===== verification/Server_Context.thy ===== *)
theory Server_Context
  imports Core_Text
begin

text \<open>
  The request context and the header validators of the server: \<open>src/server/request_context.cpp\<close>,
  \<open>src/server/version_header_validator.cpp\<close> and \<open>src/server/required_extensions_validator.cpp\<close>. Header maps are
  association lists in the iteration order of the unordered map.
\<close>

record RequestContext =
  ctx_request_id :: "string option"
  ctx_remote_address :: "string option"
  ctx_auth_metadata :: headers
  ctx_client_headers :: headers
  ctx_protocol_version :: string
  ctx_principal :: string

definition default_RequestContext :: RequestContext where
  "default_RequestContext = \<lparr>ctx_request_id = None, ctx_remote_address = None, ctx_auth_metadata = [],
     ctx_client_headers = [], ctx_protocol_version = [], ctx_principal = []\<rparr>"

section \<open>Authentication metadata\<close>

definition IsAuthSignalHeader :: "string \<Rightarrow> bool" where
  "IsAuthSignalHeader lowered_name \<longleftrightarrow>
     lowered_name = ''authorization'' \<or> lowered_name = ''proxy-authorization'' \<or>
     find_sub ''auth'' lowered_name \<noteq> None \<or> find_sub ''token'' lowered_name \<noteq> None \<or>
     find_sub ''api-key'' lowered_name \<noteq> None \<or> find_sub ''apikey'' lowered_name \<noteq> None"

definition kBearerPrefix :: string where "kBearerPrefix = ''bearer ''"

definition add_authorization :: "string \<Rightarrow> headers \<Rightarrow> headers" where
  "add_authorization value auth_metadata =
     (let trimmed_value = TrimAsciiWhitespace value;
          auth_metadata = AList.update ''authorization'' trimmed_value auth_metadata;
          lowered_value = ToLowerAscii trimmed_value
      in if prefix kBearerPrefix lowered_value \<and> length trimmed_value > length kBearerPrefix
         then AList.update ''bearer_token'' (TrimAsciiWhitespace (drop (length kBearerPrefix) trimmed_value)) auth_metadata
         else auth_metadata)"

definition add_auth_header :: "string \<times> string \<Rightarrow> headers \<Rightarrow> headers" where
  "add_auth_header header auth_metadata =
     (let value = snd header;
          lowered_name = ToLowerAscii (fst header);
          m = (if lowered_name = ''authorization'' then add_authorization value auth_metadata else auth_metadata);
          m = (if lowered_name = ''x-api-key'' then AList.update ''api_key'' value m else m);
          m = (if lowered_name = ''x-forwarded-client-cert'' then AList.update ''mtls_client_cert'' value m else m)
      in if IsAuthSignalHeader lowered_name then AList.update (''header.'' @ lowered_name) value m else m)"

definition ExtractAuthMetadata :: "headers \<Rightarrow> headers" where
  "ExtractAuthMetadata hs = fold add_auth_header hs []"

section \<open>Validators\<close>

definition kMissingRequiredVersionMessage :: string where
  "kMissingRequiredVersionMessage = ''Missing required A2A-Version header''"
definition kUnsupportedVersionMessage :: string where
  "kUnsupportedVersionMessage = ''Unsupported A2A-Version header value''"

definition VersionHeaderValidator_Validate :: "bool \<Rightarrow> headers \<Rightarrow> unit Result" where
  "VersionHeaderValidator_Validate require_version_header hs =
     (case FindHeaderValue hs kVersionHeaderName of
        Some version_header \<Rightarrow>
          if version_header = [] then
            (if require_version_header then Inl (VersionNotSupported kMissingRequiredVersionMessage)
             else Inl (VersionNotSupported kUnsupportedVersionMessage))
          else if \<not> IsSupported version_header then Inl (VersionNotSupported kUnsupportedVersionMessage)
          else Inr ()
      | None \<Rightarrow>
          (if require_version_header then Inl (VersionNotSupported kMissingRequiredVersionMessage)
           else Inl (VersionNotSupported kUnsupportedVersionMessage)))"

definition kMissingRequiredExtensionMessage :: string where
  "kMissingRequiredExtensionMessage = ''Missing required A2A extension support''"

definition RequiredExtensionsValidator_Validate :: "string list \<Rightarrow> headers \<Rightarrow> string list Result" where
  "RequiredExtensionsValidator_Validate required_extensions hs =
     (if required_extensions = [] then Inr []
      else case FindHeaderValue hs kExtensionsHeaderName of
        None \<Rightarrow> Inl (ExtensionSupportRequired kMissingRequiredExtensionMessage)
      | Some header \<Rightarrow>
          result_bind (Extensions_Parse header) (\<lambda>parsed.
            if \<exists>e\<in>set required_extensions. e \<notin> set parsed
            then Inl (ExtensionSupportRequired kMissingRequiredExtensionMessage)
            else Inr required_extensions))"

section \<open>Properties\<close>

text \<open>Entries of the metadata that a header does not concern stay as they are.\<close>

lemma map_of_add_auth_header:
  assumes "ToLowerAscii (fst h) \<noteq> ''authorization''"
  shows "map_of (add_auth_header h m) ''authorization'' = map_of m ''authorization''"
    "map_of (add_auth_header h m) ''bearer_token'' = map_of m ''bearer_token''"
  using assms by (simp_all add: add_auth_header_def Let_def)

lemma fold_add_auth_header:
  "\<forall>h\<in>set hs. ToLowerAscii (fst h) \<noteq> ''authorization'' \<Longrightarrow>
   map_of (fold add_auth_header hs m) ''authorization'' = map_of m ''authorization'' \<and>
   map_of (fold add_auth_header hs m) ''bearer_token'' = map_of m ''bearer_token''"
  by (induction hs arbitrary: m) (simp_all add: map_of_add_auth_header)

text \<open>a request with one \<open>Authorization\<close> header, in any letter case and anywhere among the headers, that carries
  a bearer credential yields exactly that credential as the bearer token, and the trimmed header value itself.\<close>

theorem ExtractAuthMetadata_bearer:
  assumes "hs = before @ (name, value) # after" "ToLowerAscii name = ''authorization''"
    and "\<forall>h\<in>set (before @ after). ToLowerAscii (fst h) \<noteq> ''authorization''"
    and "TrimAsciiWhitespace value = scheme @ '' '' @ token" "ToLowerAscii scheme = ''bearer''" "token \<noteq> []"
  shows "map_of (ExtractAuthMetadata hs) ''bearer_token'' = Some (TrimAsciiWhitespace token) \<and>
    map_of (ExtractAuthMetadata hs) ''authorization'' = Some (scheme @ '' '' @ token)"
proof -
  have len: "length scheme = 6" using arg_cong[OF assms(5), of length] by (simp add: ToLowerAscii_def)
  have low: "ToLowerAscii (scheme @ '' '' @ token) = ''bearer '' @ ToLowerAscii token"
    using assms(5) by (simp add: ToLowerAscii_def tolower_def)
  have add: "map_of (add_auth_header (name, value) m) ''bearer_token'' = Some (TrimAsciiWhitespace token) \<and>
      map_of (add_auth_header (name, value) m) ''authorization'' = Some (scheme @ '' '' @ token)" for m
    using assms(2,4,6) len low
    by (simp add: add_auth_header_def add_authorization_def Let_def kBearerPrefix_def IsAuthSignalHeader_def)
  have "\<forall>h\<in>set after. ToLowerAscii (fst h) \<noteq> ''authorization''" using assms(3) by simp
  then show ?thesis using add assms(1) by (simp add: ExtractAuthMetadata_def fold_add_auth_header)
qed

theorem ExtractAuthMetadata_bearer_witness:
  "map_of (ExtractAuthMetadata [(''Host'', ''x''), (''AUTHORIZATION'', '' Bearer abc ''), (''X-Api-Key'', ''k'')])
     ''bearer_token'' = Some ''abc''"
proof -
  have "TrimAsciiWhitespace '' Bearer abc '' = ''Bearer'' @ '' '' @ ''abc''"
    "ToLowerAscii ''AUTHORIZATION'' = ''authorization''" "ToLowerAscii ''Bearer'' = ''bearer''"
    "TrimAsciiWhitespace ''abc'' = ''abc''"
    "ToLowerAscii ''Host'' \<noteq> ''authorization''" "ToLowerAscii ''X-Api-Key'' \<noteq> ''authorization''"
    by code_simp+
  then show ?thesis
    using ExtractAuthMetadata_bearer[of "[(''Host'', ''x''), (''AUTHORIZATION'', '' Bearer abc ''), (''X-Api-Key'', ''k'')]"
        "[(''Host'', ''x'')]" "''AUTHORIZATION''" "'' Bearer abc ''" "[(''X-Api-Key'', ''k'')]" "''Bearer''" "''abc''"]
    by simp
qed

text \<open>the version check accepts exactly the requests whose \<open>A2A-Version\<close> header is \<open>1.0\<close> or \<open>1.0.\<close>
  followed by a decimal patch number without leading zeros, whether or not the header is configured as required; every
  refusal is a \<open>VersionNotSupported\<close> error.\<close>

theorem VersionHeaderValidator_accepts:
  "VersionHeaderValidator_Validate req hs =
     (if \<exists>v. FindHeaderValue hs kVersionHeaderName = Some v \<and>
           (v = ''1.0'' \<or> (\<exists>p. IsNumericComponent p \<and> v = ''1.0.'' @ p))
      then Inr ()
      else Inl (VersionNotSupported (if req \<and> FindHeaderValue hs kVersionHeaderName \<in> {None, Some []}
        then kMissingRequiredVersionMessage else kUnsupportedVersionMessage)))"
  unfolding IsSupported_iff[symmetric]
  using IsSupported_iff[of "[]"] by (auto simp: VersionHeaderValidator_Validate_def split: option.split)

text \<open>the extension check accepts exactly the requests that declare every required extension in a well-formed
  header, and then reports the required extensions.\<close>

theorem RequiredExtensionsValidator_accepts:
  "RequiredExtensionsValidator_Validate req hs = Inr exts \<longleftrightarrow>
     exts = req \<and> (req = [] \<or> (\<exists>header parsed. FindHeaderValue hs kExtensionsHeaderName = Some header \<and>
       Extensions_Parse header = Inr parsed \<and> set req \<subseteq> set parsed))"
  by (auto simp: RequiredExtensionsValidator_Validate_def result_bind_Inr split: option.splits)

end
