(* ===== verification/Task_Id.thy ===== *)
theory Task_Id
  imports List_Tasks
begin

text \<open>
  \<open>UuidV7TaskIdGenerator\<close> (\<open>src/server/task_id_generator.cpp\<close>): task ids are version 7 UUIDs with a millisecond
  timestamp and a 12-bit sequence number. The operating system's \<open>getrandom\<close> and the clock are inputs. The theory
  shows that ids are well formed and that consecutive ids are strictly increasing as strings.
\<close>

section \<open>Randomness\<close>

text \<open>The outcomes of \<open>getrandom\<close>: one byte or more, an interruption (\<open>-1\<close> with \<open>EINTR\<close>), or anything else, with
  the text of \<open>errno\<close>.\<close>

datatype getrandom = Got "8 word" "8 word list" | Interrupted | Failed string

text \<open>The Linux branch of \<open>FillSecureRandomBytes\<close> on a buffer of \<open>n\<close> bytes, as a function of the outcomes of its
  calls. A call never returns more bytes than asked for; \<open>None\<close> stands for running out of recorded outcomes while
  the loop still asks.\<close>

fun fill_loop :: "getrandom list \<Rightarrow> nat \<Rightarrow> 8 word list \<Rightarrow> 8 word list Result option" where
  "fill_loop calls n out =
     (if length out < n then
        (case calls of
           [] \<Rightarrow> None
         | Got byte bytes # calls \<Rightarrow> fill_loop calls n (out @ take (n - length out) (byte # bytes))
         | Interrupted # calls \<Rightarrow> fill_loop calls n out
         | Failed reason # calls \<Rightarrow>
             Some (Inl (Internal (''getrandom failed while generating UUIDv7 randomness: '' @ reason))))
      else Some (Inr out))"

declare fill_loop.simps [simp del]

definition FillSecureRandomBytes :: "getrandom list \<Rightarrow> nat \<Rightarrow> 8 word list Result option" where
  "FillSecureRandomBytes calls n = (if n = 0 then Some (Inr []) else fill_loop calls n [])"

section \<open>The generator\<close>

record UuidV7TaskIdGenerator =
  last_timestamp_ms :: "64 word"
  sequence :: "64 word"

definition new_UuidV7TaskIdGenerator :: UuidV7TaskIdGenerator where
  "new_UuidV7TaskIdGenerator = \<lparr>last_timestamp_ms = 0, sequence = 0\<rparr>"

definition kUuidByteCount :: nat where "kUuidByteCount = 16"
definition kTimestampMask :: "64 word" where "kTimestampMask = 0x0000FFFFFFFFFFFF"
definition kSequenceMask :: "64 word" where "kSequenceMask = 0x0FFF"
definition kInitialSequenceMask :: "64 word" where "kInitialSequenceMask = 0x03FF"

text \<open>The locked section: the timestamp never goes back, and the sequence number counts within a millisecond.\<close>

definition next_stamp ::
  "8 word list \<Rightarrow> 64 word \<Rightarrow> UuidV7TaskIdGenerator \<Rightarrow> UuidV7TaskIdGenerator \<times> (64 word \<times> 64 word) Result" where
  "next_stamp bytes current_ms g =
     (let effective_ms = max current_ms (last_timestamp_ms g) in
      if effective_ms > last_timestamp_ms g then
        let seq = ((push_bit 8 (ucast (bytes ! 6))) OR ucast (bytes ! 7)) AND kInitialSequenceMask
        in (g\<lparr>last_timestamp_ms := effective_ms, sequence := seq\<rparr>, Inr (effective_ms, seq))
      else
        let seq = (sequence g + 1) AND kSequenceMask;
            g = g\<lparr>sequence := seq\<rparr>
        in if seq = 0 then (g, Inl (Internal ''UUIDv7 sequence overflow within one millisecond''))
           else (g, Inr (effective_ms, seq)))"

definition uuid_bytes :: "8 word list \<Rightarrow> 64 word \<Rightarrow> 64 word \<Rightarrow> 8 word list" where
  "uuid_bytes bytes effective_ms sequence_value =
     (let ts = effective_ms AND kTimestampMask in
      bytes[0 := ucast (drop_bit 40 ts AND 0xFF), 1 := ucast (drop_bit 32 ts AND 0xFF),
            2 := ucast (drop_bit 24 ts AND 0xFF), 3 := ucast (drop_bit 16 ts AND 0xFF),
            4 := ucast (drop_bit 8 ts AND 0xFF), 5 := ucast (ts AND 0xFF),
            6 := ucast (0x70 OR (drop_bit 8 sequence_value AND 0x0F)),
            7 := ucast (sequence_value AND 0xFF),
            8 := (bytes ! 8 AND 0x3F) OR 0x80])"

definition hex02 :: "8 word \<Rightarrow> string" where
  "hex02 b = [kHexDigits ! unat (drop_bit 4 b), kHexDigits ! unat (b AND 0x0F)]"

definition format_uuid :: "8 word list \<Rightarrow> string" where
  "format_uuid b = hex02 (b ! 0) @ hex02 (b ! 1) @ hex02 (b ! 2) @ hex02 (b ! 3) @ ''-'' @
     hex02 (b ! 4) @ hex02 (b ! 5) @ ''-'' @ hex02 (b ! 6) @ hex02 (b ! 7) @ ''-'' @
     hex02 (b ! 8) @ hex02 (b ! 9) @ ''-'' @ hex02 (b ! 10) @ hex02 (b ! 11) @ hex02 (b ! 12) @
     hex02 (b ! 13) @ hex02 (b ! 14) @ hex02 (b ! 15)"

definition GenerateTaskId ::
  "getrandom list \<Rightarrow> 64 word \<Rightarrow> UuidV7TaskIdGenerator \<Rightarrow> (UuidV7TaskIdGenerator \<times> string Result) option" where
  "GenerateTaskId calls current_ms g = do {
     random \<leftarrow> FillSecureRandomBytes calls kUuidByteCount;
     case random of
       Inl e \<Rightarrow> Some (g, Inl e)
     | Inr bytes \<Rightarrow>
         (case next_stamp bytes current_ms g of
            (g, Inl e) \<Rightarrow> Some (g, Inl e)
          | (g, Inr (effective_ms, sequence_value)) \<Rightarrow>
              let uuid = format_uuid (uuid_bytes bytes effective_ms sequence_value)
              in if length uuid \<noteq> 36 then Some (g, Inl (Internal ''Failed to format UUIDv7''))
                 else Some (g, Inr (''task-'' @ uuid)))
   }"

section \<open>Filling the buffer\<close>

lemma fill_loop_length:
  "fill_loop calls n out = Some (Inr bytes) \<Longrightarrow> length out \<le> n \<Longrightarrow> length bytes = n"
proof (induction calls n out rule: fill_loop.induct)
  case (1 calls n out)
  show ?case
    using "1.prems" "1.IH" fill_loop.simps[of calls n out]
    by (auto split: if_splits list.splits getrandom.splits)
qed

text \<open>The loop ends: as soon as the successful calls have delivered enough bytes and none failed.\<close>

lemma fill_loop_ends:
  assumes "\<forall>c\<in>set calls. c = Interrupted \<or> (\<exists>b bs. c = Got b bs)"
    and "n \<le> length out + length (filter (\<lambda>c. c \<noteq> Interrupted) calls)" "length out \<le> n"
  shows "\<exists>bytes. fill_loop calls n out = Some (Inr bytes)"
  using assms
proof (induction calls arbitrary: out)
  case Nil
  then show ?case by (simp add: fill_loop.simps)
next
  case (Cons c calls)
  show ?case
  proof (cases "length out < n")
    case True
    from Cons.prems(1) consider "c = Interrupted" | b bs where "c = Got b bs" by auto
    then show ?thesis
    proof cases
      case 1
      with Cons True show ?thesis using fill_loop.simps[of "c # calls" n out] by simp
    next
      case (2 b bs)
      with Cons True have "\<exists>bytes. fill_loop calls n (out @ take (n - length out) (b # bs)) = Some (Inr bytes)"
        by (intro Cons.IH) (auto simp: min_def)
      with 2 True show ?thesis using fill_loop.simps[of "c # calls" n out] by simp
    qed
  qed (simp add: fill_loop.simps)
qed

section \<open>Hexadecimal order\<close>

lemma kHexDigits_less: "i < 16 \<Longrightarrow> j < 16 \<Longrightarrow> kHexDigits ! i < kHexDigits ! j \<longleftrightarrow> i < j"
proof -
  have "\<forall>i\<in>set [0..<16]. \<forall>j\<in>set [0..<16]. (kHexDigits ! i < kHexDigits ! j) = (i < (j::nat))" by code_simp
  then show "i < 16 \<Longrightarrow> j < 16 \<Longrightarrow> kHexDigits ! i < kHexDigits ! j \<longleftrightarrow> i < j" by simp
qed

lemma append_less_same_length:
  fixes xs ys :: "'a::linorder list"
  assumes "length xs = length ys"
  shows "xs @ us < ys @ vs \<longleftrightarrow> xs < ys \<or> (xs = ys \<and> us < vs)"
  using assms by (induction xs ys rule: list_induct2) auto

lemma nibbles:
  fixes b :: "8 word"
  shows "unat (drop_bit 4 b) = unat b div 16" "unat (b AND 0x0F) = unat b mod 16"
proof -
  show "unat (drop_bit 4 b) = unat b div 16" by (simp add: drop_bit_eq_div unat_div_distrib)
  have "b AND 0x0F = take_bit 4 b" by (simp add: take_bit_eq_mask mask_eq_exp_minus_1)
  then show "unat (b AND 0x0F) = unat b mod 16" by (simp add: take_bit_eq_mod unat_mod_distrib)
qed

lemma nibble_order: "x div 16 < y div 16 \<or> (x div 16 = y div 16 \<and> x mod 16 < y mod 16) \<longleftrightarrow> x < (y :: nat)"
proof -
  have "a < c \<or> (a = c \<and> b < d) \<longleftrightarrow> a * 16 + b < c * 16 + (d :: nat)" if "b < 16" "d < 16" for a b c d :: nat
    using that by linarith
  from this[of "x mod 16" "y mod 16" "x div 16" "y div 16"] show ?thesis by simp
qed

lemma hex02_less: "hex02 b < hex02 c \<longleftrightarrow> b < c"
proof -
  have "unat b < 256" "unat c < 256" using unsigned_less[of b, where 'a = nat] unsigned_less[of c, where 'a = nat] by simp_all
  then have "unat b div 16 < 16" "unat c div 16 < 16" by auto
  then have "hex02 b < hex02 c \<longleftrightarrow> unat b div 16 < unat c div 16 \<or> (unat b div 16 = unat c div 16 \<and> unat b mod 16 < unat c mod 16)"
    using kHexDigits_less by (auto simp: hex02_def nibbles nth_eq_iff_index_eq)
  also have "\<dots> \<longleftrightarrow> unat b < unat c" by (rule nibble_order)
  finally show ?thesis by (simp add: word_less_nat_alt)
qed

lemma hex02_inject: "hex02 b = hex02 c \<longleftrightarrow> b = c"
  using hex02_less[of b c] hex02_less[of c b] by (metis less_irrefl linorder_less_linear)

lemma length_hex02 [simp]: "length (hex02 b) = 2"
  by (simp add: hex02_def)

lemma length_format_uuid [simp]: "length (format_uuid b) = 36"
  by (simp add: format_uuid_def)

lemma format_uuid_less:
  assumes "[b ! 0, b ! 1, b ! 2, b ! 3, b ! 4, b ! 5, b ! 6, b ! 7] < [c ! 0, c ! 1, c ! 2, c ! 3, c ! 4, c ! 5, c ! 6, c ! 7]"
  shows "format_uuid b < format_uuid c"
  using assms
  by (simp add: format_uuid_def append_less_same_length hex02_less hex02_inject) blast

text \<open>Big-endian bytes of a number, and their order.\<close>

primrec big_endian :: "nat \<Rightarrow> nat \<Rightarrow> nat list" where
  "big_endian 0 n = []"
| "big_endian (Suc k) n = big_endian k (n div 256) @ [n mod 256]"

lemma big_endian_numeral: "big_endian (numeral v) n = big_endian (pred_numeral v) (n div 256) @ [n mod 256]"
  by (simp only: numeral_eq_Suc big_endian.simps)

lemma length_big_endian [simp]: "length (big_endian k n) = k"
  by (induction k arbitrary: n) simp_all

lemma big_endian_less: "n < m \<Longrightarrow> m < 256 ^ k \<Longrightarrow> big_endian k n < big_endian k m"
proof (induction k arbitrary: n m)
  case (Suc k)
  have "m div 256 < 256 ^ k" using Suc.prems(2) by (simp add: less_mult_imp_div_less mult.commute)
  moreover have "n div 256 \<le> m div 256" using Suc.prems(1) by (simp add: div_le_mono)
  moreover have "n mod 256 < m mod 256" if "n div 256 = m div 256"
    using that Suc.prems(1) div_mult_mod_eq[of n 256] div_mult_mod_eq[of m 256] by linarith
  ultimately show ?case using Suc.IH[of "n div 256" "m div 256"]
    by (cases "n div 256 = m div 256") (simp_all add: append_less_same_length)
qed simp

lemma map_unat_less: "map unat xs < map unat ys \<longleftrightarrow> xs < ys" if "length xs = length ys" for xs ys :: "8 word list"
  using that by (induction xs ys rule: list_induct2) (simp_all add: word_less_nat_alt word_unat_eq_iff)

lemma unat_low_byte: "unat (v AND 0xFF) = unat v mod 256" "unat (ucast v :: 8 word) = unat v mod 256" for v :: "64 word"
proof -
  have "v AND 0xFF = take_bit 8 v" by (simp add: take_bit_eq_mask mask_eq_exp_minus_1)
  also have "\<dots> = v mod 256" by (simp add: take_bit_eq_mod)
  finally show "unat (v AND 0xFF) = unat v mod 256" by (simp add: unat_mod_distrib)
  show "unat (ucast v :: 8 word) = unat v mod 256" by (simp add: unsigned_ucast_eq take_bit_eq_mod)
qed

lemma unat_drop: "unat (drop_bit k w) = unat w div 2 ^ k" for w :: "64 word"
  by (simp only: unat_drop_bit_eq) (simp only: drop_bit_eq_div)

lemma unat_byte:
  fixes w :: "64 word"
  shows "unat (ucast (drop_bit k w AND 0xFF) :: 8 word) = unat w div 2 ^ k mod 256"
    "unat (ucast (w AND 0xFF) :: 8 word) = unat w mod 256"
  by (simp_all only: unat_low_byte unat_drop mod_mod_trivial)

lemma unat_version_byte:
  fixes w :: "64 word"
  assumes "unat w < 4096"
  shows "unat (ucast (0x70 OR (drop_bit 8 w AND 0x0F)) :: 8 word) = 0x70 + unat w div 256"
proof -
  let ?n = "unat w div 256"
  have n: "?n < 16" using assms by simp
  have "drop_bit 8 w AND 0x0F = take_bit 4 (drop_bit 8 w)" by (simp add: take_bit_eq_mask mask_eq_exp_minus_1)
  then have "unat (drop_bit 8 w AND 0x0F) = ?n mod 16"
    by (simp add: take_bit_eq_mod unat_mod_distrib drop_bit_eq_div unat_div_distrib)
  with n have "drop_bit 8 w AND 0x0F = of_nat ?n" by (simp add: word_unat_eq_iff unat_of_nat)
  moreover have "\<forall>n\<in>set [0..<16]. unat (ucast ((0x70 :: 64 word) OR of_nat n) :: 8 word) = 0x70 + n" by code_simp
  ultimately show ?thesis using n by simp
qed

lemma uuid_stamp_bytes:
  assumes "length bytes = 16" "unat ms < 2 ^ 48" "unat seq < 4096"
  defines "u \<equiv> uuid_bytes bytes ms seq"
  shows "map unat [u ! 0, u ! 1, u ! 2, u ! 3, u ! 4, u ! 5, u ! 6, u ! 7] =
    big_endian 6 (unat ms) @ big_endian 2 (0x7000 + unat seq)"
proof -
  have mask: "ms AND kTimestampMask = ms"
  proof -
    have "ms AND kTimestampMask = take_bit 48 ms"
      by (simp add: kTimestampMask_def take_bit_eq_mask mask_eq_exp_minus_1)
    also have "\<dots> = ms"
      using assms(2) by (simp add: word_unat_eq_iff take_bit_eq_mod unat_mod_distrib)
    finally show ?thesis .
  qed
  have eq: "0x7000 + unat seq = unat seq + 0x70 * 256" by simp
  have "(0x7000 + unat seq) div 256 mod 256 = 0x70 + unat seq div 256" "(0x7000 + unat seq) mod 256 = unat seq mod 256"
    unfolding eq using assms(3) by (simp_all only: div_mult_self1 mod_mult_self1) simp
  then show ?thesis
    using assms(1,3) unat_version_byte[OF assms(3)]
    by (simp add: u_def uuid_bytes_def mask unat_byte unat_drop big_endian_numeral flip: div_mult2_eq)
qed

lemma format_uuid_stamp_less:
  assumes "length bytes1 = 16" "length bytes2 = 16" "unat ms1 < 2 ^ 48" "unat ms2 < 2 ^ 48" "unat seq1 < 4096" "unat seq2 < 4096"
    and "ms1 < ms2 \<or> (ms1 = ms2 \<and> seq1 < seq2)"
  shows "format_uuid (uuid_bytes bytes1 ms1 seq1) < format_uuid (uuid_bytes bytes2 ms2 seq2)"
proof (rule format_uuid_less)
  let ?u = "uuid_bytes bytes1 ms1 seq1" and ?v = "uuid_bytes bytes2 ms2 seq2"
  have "big_endian 6 (unat ms1) @ big_endian 2 (0x7000 + unat seq1) < big_endian 6 (unat ms2) @ big_endian 2 (0x7000 + unat seq2)"
    using assms big_endian_less[of "unat ms1" "unat ms2" 6] big_endian_less[of "0x7000 + unat seq1" "0x7000 + unat seq2" 2]
    by (auto simp: append_less_same_length word_less_nat_alt)
  then show "[?u ! 0, ?u ! 1, ?u ! 2, ?u ! 3, ?u ! 4, ?u ! 5, ?u ! 6, ?u ! 7] < [?v ! 0, ?v ! 1, ?v ! 2, ?v ! 3, ?v ! 4, ?v ! 5, ?v ! 6, ?v ! 7]"
    using assms by (subst map_unat_less[symmetric]) (simp_all only: uuid_stamp_bytes list.size)
qed

section \<open>Order and form of the ids\<close>

lemma mask_bounds: "unat (w AND kSequenceMask) < 4096" "unat (w AND kInitialSequenceMask) < 4096"
proof -
  have "w AND kSequenceMask = take_bit 12 w" "w AND kInitialSequenceMask = take_bit 10 w"
    by (simp_all add: kSequenceMask_def kInitialSequenceMask_def take_bit_eq_mask mask_eq_exp_minus_1)
  then show "unat (w AND kSequenceMask) < 4096" "unat (w AND kInitialSequenceMask) < 4096"
    by (simp_all add: take_bit_eq_mod unat_mod_distrib order.strict_trans[OF mod_less_divisor])
qed

lemma next_sequence:
  assumes "unat seq < 4096" "(seq + 1) AND kSequenceMask \<noteq> 0"
  shows "seq < (seq + 1) AND kSequenceMask"
proof -
  have suc: "unat (seq + 1) = unat seq + 1" using assms(1) by (simp add: unat_word_ariths)
  have "(seq + 1) AND kSequenceMask = take_bit 12 (seq + 1)"
    by (simp add: kSequenceMask_def take_bit_eq_mask mask_eq_exp_minus_1)
  then have eq: "unat ((seq + 1) AND kSequenceMask) = (unat seq + 1) mod 4096"
    using suc by (simp add: take_bit_eq_mod unat_mod_distrib)
  with assms(2) have "(unat seq + 1) mod 4096 \<noteq> 0" by (metis unat_eq_0)
  with assms(1) have "unat seq + 1 \<noteq> 4096" by auto
  with assms(1) eq show ?thesis by (simp add: word_less_nat_alt)
qed

lemma next_stamp_Inr:
  assumes "next_stamp bytes now g = (g', Inr (ms, seq))" "unat (sequence g) < 4096"
  shows "ms = last_timestamp_ms g' \<and> seq = sequence g' \<and> unat seq < 4096 \<and> ms \<in> {now, last_timestamp_ms g} \<and>
    (last_timestamp_ms g < ms \<or> (last_timestamp_ms g = ms \<and> sequence g < seq))"
  using assms next_sequence[of "sequence g"]
  by (auto simp: next_stamp_def Let_def mask_bounds max_def split: if_splits)

lemma FillSecureRandomBytes_length: "FillSecureRandomBytes calls n = Some (Inr bytes) \<Longrightarrow> length bytes = n"
  by (auto simp: FillSecureRandomBytes_def fill_loop_length split: if_splits)

lemma GenerateTaskId_Inr:
  assumes "GenerateTaskId calls now g = Some (g', Inr k)"
  obtains bytes ms seq where "length bytes = 16" "next_stamp bytes now g = (g', Inr (ms, seq))"
    "k = ''task-'' @ format_uuid (uuid_bytes bytes ms seq)"
proof -
  obtain bytes where fill: "FillSecureRandomBytes calls kUuidByteCount = Some (Inr bytes)"
  proof (cases "FillSecureRandomBytes calls kUuidByteCount")
    case (Some random)
    with assms that show ?thesis by (cases random) (simp_all add: GenerateTaskId_def)
  qed (use assms in \<open>simp add: GenerateTaskId_def\<close>)
  obtain g1 stamp where stamp: "next_stamp bytes now g = (g1, stamp)" by (cases "next_stamp bytes now g")
  have "\<exists>ms seq. stamp = Inr (ms, seq) \<and> g1 = g' \<and> k = ''task-'' @ format_uuid (uuid_bytes bytes ms seq)"
    using assms fill stamp by (cases stamp) (auto simp: GenerateTaskId_def Let_def)
  then show ?thesis
    using that stamp FillSecureRandomBytes_length[OF fill] by (auto simp: kUuidByteCount_def)
qed

text \<open>The ids of successive calls, as long as every call succeeds.\<close>

fun generate_ids :: "(getrandom list \<times> 64 word) list \<Rightarrow> UuidV7TaskIdGenerator \<Rightarrow> string list option" where
  "generate_ids [] g = Some []"
| "generate_ids ((calls, now) # rs) g =
     (case GenerateTaskId calls now g of
        Some (g', Inr k) \<Rightarrow> map_option ((#) k) (generate_ids rs g')
      | _ \<Rightarrow> None)"

definition stamp_ok :: "UuidV7TaskIdGenerator \<Rightarrow> bool" where
  "stamp_ok g \<longleftrightarrow> unat (last_timestamp_ms g) < 2 ^ 48 \<and> unat (sequence g) < 4096"

lemma generate_ids_above:
  assumes "generate_ids rs g = Some ids" "stamp_ok g" "\<forall>(calls, now)\<in>set rs. unat now < 2 ^ 48"
  shows "sorted_wrt (<) ids \<and> (\<forall>k\<in>set ids. \<forall>bytes. length bytes = 16 \<longrightarrow>
    ''task-'' @ format_uuid (uuid_bytes bytes (last_timestamp_ms g) (sequence g)) < k)"
  using assms
proof (induction rs g arbitrary: ids rule: generate_ids.induct)
  case (2 calls now rs g)
  from 2(2) obtain g' k ks where call: "GenerateTaskId calls now g = Some (g', Inr k)"
    and rest: "generate_ids rs g' = Some ks" and ids: "ids = k # ks"
    by (auto split: option.splits prod.splits sum.splits)
  obtain bytes ms seq where id: "length bytes = 16" "next_stamp bytes now g = (g', Inr (ms, seq))"
    "k = ''task-'' @ format_uuid (uuid_bytes bytes ms seq)"
    using call by (rule GenerateTaskId_Inr)
  have stamp: "ms = last_timestamp_ms g'" "seq = sequence g'" "unat seq < 4096" "unat ms < 2 ^ 48"
    "last_timestamp_ms g < ms \<or> (last_timestamp_ms g = ms \<and> sequence g < seq)"
  proof -
    have g: "unat (sequence g) < 4096" "unat (last_timestamp_ms g) < 2 ^ 48" "unat now < 2 ^ 48"
      using 2(3,4) by (simp_all add: stamp_ok_def)
    note facts = next_stamp_Inr[OF id(2) g(1)]
    from facts show "ms = last_timestamp_ms g'" "seq = sequence g'" "unat seq < 4096"
      "last_timestamp_ms g < ms \<or> (last_timestamp_ms g = ms \<and> sequence g < seq)" by blast+
    from facts have "ms = now \<or> ms = last_timestamp_ms g" by blast
    then show "unat ms < 2 ^ 48" using g(2,3) by (elim disjE) simp_all
  qed
  have first: "''task-'' @ format_uuid (uuid_bytes bs (last_timestamp_ms g) (sequence g)) < k" if "length bs = 16" for bs
    using format_uuid_stamp_less[OF that id(1) _ stamp(4) _ stamp(3,5)] 2(3) by (simp add: id(3) stamp_ok_def)
  have "stamp_ok g'" using stamp by (simp add: stamp_ok_def)
  with 2(1)[OF call refl refl, of ks] rest 2(4) id(1,3) stamp(1,2)
  have "sorted_wrt (<) ks" "\<forall>k'\<in>set ks. k < k'" by auto
  with first show ?case by (auto simp: ids intro: order.strict_trans)
qed simp


definition sample_random :: "getrandom list" where
  "sample_random = [Interrupted, Got 1 (replicate 15 0)]"


text \<open>A generator that ran out of sequence numbers starts over at 1 in the same millisecond: the id after the failed
  call is smaller than ids it handed out before.\<close>

lemma ids_after_overflow:
  fixes g :: UuidV7TaskIdGenerator
  defines "g \<equiv> \<lparr>last_timestamp_ms = 5, sequence = 0xFFE\<rparr>"
  shows "\<exists>g1 g2 k1 e k3. GenerateTaskId sample_random 5 g = Some (g1, Inr k1) \<and>
    GenerateTaskId sample_random 5 g1 = Some (g2, Inl e) \<and>
    map_option snd (GenerateTaskId sample_random 5 g2) = Some (Inr k3) \<and> k3 < k1"
proof -
  define g1 where "g1 = fst (the (GenerateTaskId sample_random 5 g))"
  define g2 where "g2 = fst (the (GenerateTaskId sample_random 5 g1))"
  have "GenerateTaskId sample_random 5 g = Some (g1, Inr ''task-00000000-0005-7fff-8000-000000000000'')"
    "GenerateTaskId sample_random 5 g1 = Some (g2, Inl (Internal ''UUIDv7 sequence overflow within one millisecond''))"
    "map_option snd (GenerateTaskId sample_random 5 g2) = Some (Inr ''task-00000000-0005-7001-8000-000000000000'')"
    unfolding g2_def g1_def g_def by code_simp+
  moreover have "''task-00000000-0005-7001-8000-000000000000'' < ''task-00000000-0005-7fff-8000-000000000000''" by code_simp
  ultimately show ?thesis by blast
qed

lemma variant_digit: "kHexDigits ! unat (drop_bit 4 ((b AND 0x3F) OR 0x80)) \<in> set ''89ab''" for b :: "8 word"
proof -
  have "b AND 0x3F = take_bit 6 b" by (simp add: take_bit_eq_mask mask_eq_exp_minus_1)
  then have "unat (b AND 0x3F) = unat b mod 64" by (simp add: take_bit_eq_mod unat_mod_distrib)
  then have "b AND 0x3F = of_nat (unat b mod 64)" by (metis of_nat_unat ucast_id)
  moreover have "\<forall>n\<in>set [0..<64]. kHexDigits ! unat (drop_bit 4 ((of_nat n :: 8 word) OR 0x80)) \<in> set ''89ab''"
    by code_simp
  ultimately show ?thesis by simp
qed





end
