(* ===== verification/Task_Lifecycle.thy ===== *)
theory Task_Lifecycle
  imports Task_Store_Props Server_Context Task_Id
begin

text \<open>
  \<open>TaskLifecycleService\<close> (\<open>src/server/tasks/task_lifecycle_service.cpp\<close>): the operations on tasks that executors
  share, over any task store. The store pointer may be null (\<open>None\<close>); the task id generator is the interface
  \<open>TaskIdGenerator\<close>, a function over its state.
\<close>

section \<open>Operations\<close>

type_synonym 'g TaskIdGenerator = "SendMessageRequest \<Rightarrow> RequestContext \<Rightarrow> 'g \<Rightarrow> ('g \<times> string Result) option"

definition uuid_generator :: "getrandom list \<Rightarrow> 64 word \<Rightarrow> UuidV7TaskIdGenerator TaskIdGenerator" where
  "uuid_generator calls now request context g = GenerateTaskId calls now g"

definition kTaskSnapshotIdMismatchMessage :: string where
  "kTaskSnapshotIdMismatchMessage = ''task snapshot does not match message.taskId''"

definition store_not_configured :: Error where
  "store_not_configured = Internal ''TaskLifecycleService store is not configured''"

definition CreateOrUpdateTask :: "'s TaskStore option \<Rightarrow> Task \<Rightarrow> ('s, Task) step" where
  "CreateOrUpdateTask store task s =
     (case store of
        None \<Rightarrow> Some (s, Inl store_not_configured)
      | Some ops \<Rightarrow> do {
          (s, upsert) \<leftarrow> TS_CreateOrUpdate ops task s;
          case upsert of
            Inl e \<Rightarrow> Some (s, Inl e)
          | Inr _ \<Rightarrow> do { r \<leftarrow> TS_Get ops (Task_id task) s; Some (s, r) }
        })"

definition ResolveTaskIdForSendRequest ::
  "'g TaskIdGenerator \<Rightarrow> SendMessageRequest \<Rightarrow> RequestContext \<Rightarrow> 'g \<Rightarrow> ('g \<times> string Result) option" where
  "ResolveTaskIdForSendRequest gen request context g =
     (if SMR_message request = None then Some (g, Inl (Validation ''message is required''))
      else let message = request_message request in
        if Message_task_id message \<noteq> [] then Some (g, Inr (Message_task_id message))
        else if Message_message_id message = []
        then Some (g, Inl (Validation ''message.messageId is required when message.taskId is absent''))
        else gen request context g)"

definition ValidateTaskForSendRequest :: "SendMessageRequest \<Rightarrow> Task \<Rightarrow> unit Result" where
  "ValidateTaskForSendRequest request task =
     (if SMR_message request = None then Inl (Validation ''message is required'')
      else let message = request_message request in
        if Message_task_id message \<noteq> [] \<and> Task_id task \<noteq> Message_task_id message
        then Inl (Validation kTaskSnapshotIdMismatchMessage)
        else if Message_context_id message \<noteq> [] \<and> Task_context_id task \<noteq> [] \<and>
                Message_context_id message \<noteq> Task_context_id task
        then Inl (UnsupportedOperation ''contextId does not match task'')
        else if IsTerminalTaskState (task_state task)
        then Inl (UnsupportedOperation ''task is already terminal'')
        else Inr ())"

definition TransitionTaskStatus :: "'s TaskStore option \<Rightarrow> string \<Rightarrow> TaskState \<Rightarrow> ('s, Task) step" where
  "TransitionTaskStatus store task_id next_state s =
     (case store of
        None \<Rightarrow> Some (s, Inl store_not_configured)
      | Some ops \<Rightarrow> do {
          current \<leftarrow> TS_Get ops task_id s;
          case current of
            Inl e \<Rightarrow> Some (s, Inl e)
          | Inr task \<Rightarrow>
              if IsTerminalTaskState (task_state task) then
                (if next_state = TASK_STATE_CANCELED
                 then Some (s, Inl (TaskNotCancelable ''task is already terminal''))
                 else Some (s, Inl (UnsupportedOperation ''task is already terminal'')))
              else do {
                let task = set_state next_state task;
                (s, upsert) \<leftarrow> TS_CreateOrUpdate ops task s;
                case upsert of Inl e \<Rightarrow> Some (s, Inl e) | Inr _ \<Rightarrow> Some (s, Inr task)
              }
        })"

definition AppendHistory ::
  "'s TaskStore option \<Rightarrow> string \<Rightarrow> Message \<Rightarrow> HistoryAppendPolicy \<Rightarrow> ('s, Task) step" where
  "AppendHistory store task_id message policy s =
     (case store of
        None \<Rightarrow> Some (s, Inl store_not_configured)
      | Some ops \<Rightarrow> TS_AppendTaskHistory ops task_id message policy s)"

text \<open>A sequence of status transitions.\<close>

primrec run_transitions :: "'s TaskStore \<Rightarrow> (string \<times> TaskState) list \<Rightarrow> 's \<Rightarrow> 's option" where
  "run_transitions ops [] s = Some s"
| "run_transitions ops (t # ts) s = do {
     (s, r) \<leftarrow> TransitionTaskStatus (Some ops) (fst t) (snd t) s;
     run_transitions ops ts s
   }"

section \<open>Over any task store\<close>

context task_store
begin

lemma upsert_cases:
  assumes "good s" "Task_id t \<noteq> []"
  obtains (ok) s' where "TS_CreateOrUpdate ops t s = Some (s', Inr ())" "good s'" "view s' = fst (a_put t (view s))"
      "snd (a_put t (view s)) = Inr ()"
  | (exhausted) s' where "TS_CreateOrUpdate ops t s = Some (s', Inl (Internal kUpdateTimeExhaustedMessage))" "good s'"
      "view s' = view s"
proof -
  from upsert_impl[of t] assms(1) obtain s' where s':
    "TS_CreateOrUpdate ops t s = Some (s', snd (spec_CreateOrUpdate t (view s)))"
    "good s'" "view s' = fst (spec_CreateOrUpdate t (view s))"
    by (rule implementsE)
  have eq: "spec_CreateOrUpdate t (view s) = a_put t (view s)" using assms(2) by (simp add: spec_CreateOrUpdate_def)
  show ?thesis
  proof (cases rule: a_put_result_cases[of t "view s"])
    case ok
    with s' eq that(1) show ?thesis by simp
  next
    case exhausted
    with s' eq that(2) show ?thesis by simp
  qed
qed

lemma get_stored:
  assumes "good s" "TS_Get ops k s = Some (Inr t)"
  shows "k \<noteq> []" "Task_id t = k" "\<exists>r u. a_map (view s) k = Some (t, r, u)"
proof -
  have "spec_Get k (view s) = Inr t" using assms get_impl by simp
  then show "k \<noteq> []" "\<exists>r u. a_map (view s) k = Some (t, r, u)" by (auto simp: spec_Get_Inr_iff)
  then show "Task_id t = k" using a_wf_id[OF wf[OF assms(1)]] by blast
qed

lemma get_after_put:
  assumes "good s'" "view s' = fst (a_put t (view s))" "snd (a_put t (view s)) = Inr ()" "Task_id t \<noteq> []"
  shows "TS_Get ops (Task_id t) s' = Some (Inr t)"
  using a_put_Inr_lookup[OF assms(3)] assms by (simp add: get_impl spec_Get_Inr_iff)

lemma get_same_view: "good s \<Longrightarrow> good s' \<Longrightarrow> a_map (view s') k = a_map (view s) k \<Longrightarrow> TS_Get ops k s' = TS_Get ops k s"
  by (simp add: get_impl spec_Get_def spec_lookup_def)

lemma transition_terminal:
  assumes "good s" "TS_Get ops k s = Some (Inr t)" "IsTerminalTaskState (task_state t)"
  shows "TransitionTaskStatus (Some ops) k st s = Some (s, Inl (if st = TASK_STATE_CANCELED
    then TaskNotCancelable ''task is already terminal'' else UnsupportedOperation ''task is already terminal''))"
  using assms by (simp add: TransitionTaskStatus_def)

lemma transition_cases:
  assumes "good s"
  obtains s' r where "TransitionTaskStatus (Some ops) k st s = Some (s', r)" "good s'"
    "\<And>k'. k' \<noteq> k \<Longrightarrow> TS_Get ops k' s' = TS_Get ops k' s"
    "\<And>t. r = Inr t \<Longrightarrow> task_state t = st \<and> TS_Get ops k s' = Some (Inr t) \<and>
      (\<exists>t0. TS_Get ops k s = Some (Inr t0) \<and> t = set_state st t0 \<and> \<not> IsTerminalTaskState (task_state t0))"
    "\<And>e. r = Inl e \<Longrightarrow> view s' = view s"
proof (cases "spec_Get k (view s)")
  case (Inl e)
  then have "TransitionTaskStatus (Some ops) k st s = Some (s, Inl e)"
    using assms by (simp add: TransitionTaskStatus_def get_impl)
  with that[of s "Inl e"] assms show ?thesis by simp
next
  case (Inr t0)
  then have get: "TS_Get ops k s = Some (Inr t0)" using assms by (simp add: get_impl)
  show ?thesis
  proof (cases "IsTerminalTaskState (task_state t0)")
    case True
    with transition_terminal[OF assms get, of st] that assms show ?thesis by blast
  next
    case False
    let ?t = "set_state st t0"
    have id: "Task_id ?t \<noteq> []" "Task_id ?t = k" using get_stored[OF assms get] by simp_all
    from assms id(1) show ?thesis
    proof (cases rule: upsert_cases)
      case (ok s')
      have "TransitionTaskStatus (Some ops) k st s = Some (s', Inr ?t)"
        using get False ok(1) by (simp add: TransitionTaskStatus_def Let_def)
      moreover have "TS_Get ops k s' = Some (Inr ?t)" using get_after_put[OF ok(2-4) id(1)] id(2) by simp
      moreover have "TS_Get ops k' s' = TS_Get ops k' s" if "k' \<noteq> k" for k'
        using get_same_view[OF assms ok(2)] ok(3) a_put_other[of k' ?t "view s"] that id(2) by simp
      ultimately show ?thesis using that[of s' "Inr ?t"] ok(2) False get by simp
    next
      case (exhausted s')
      have "TransitionTaskStatus (Some ops) k st s = Some (s', Inl (Internal kUpdateTimeExhaustedMessage))"
        using get False exhausted(1) by (simp add: TransitionTaskStatus_def Let_def)
      with that[of s'] exhausted(2,3) get_same_view[OF assms exhausted(2)] show ?thesis by simp
    qed
  qed
qed

lemma terminal_absorbing:
  assumes "good s" "TS_Get ops k s = Some (Inr t)" "IsTerminalTaskState (task_state t)"
  shows "\<exists>s'. run_transitions ops ts s = Some s' \<and> good s' \<and> TS_Get ops k s' = Some (Inr t)"
  using assms(1,2)
proof (induction ts arbitrary: s)
  case (Cons a ts)
  from Cons.prems(1) obtain s' r where s': "TransitionTaskStatus (Some ops) (fst a) (snd a) s = Some (s', r)" "good s'"
    "\<And>k'. k' \<noteq> fst a \<Longrightarrow> TS_Get ops k' s' = TS_Get ops k' s"
    by (rule transition_cases[of s "fst a" "snd a"]) blast
  have "TS_Get ops k s' = Some (Inr t)"
  proof (cases "k = fst a")
    case True
    with transition_terminal[of s k t "snd a"] Cons.prems assms(3) s'(1) show ?thesis by simp
  next
    case False
    with s'(3) Cons.prems(2) show ?thesis by simp
  qed
  with Cons.IH[OF s'(2)] s'(1) show ?case by simp
qed simp

end

section \<open>Over the in-memory store\<close>

lemma map_sum_Inr_E:
  assumes "map_sum f g x = Inr y"
  obtains z where "x = Inr z" "y = g z"
  using assms by (cases x) auto

text \<open>C25: terminal states are absorbing. Whatever sequence of status transitions is attempted, on this task or any
  other, a task in a terminal state keeps its state and its contents.\<close>

theorem terminal_states_absorbing:
  assumes "store_inv s" "InMemory_Get k s = Some (Inr t)" "IsTerminalTaskState (task_state t)"
  shows "\<exists>s'. run_transitions (in_memory_ops ser) ts s = Some s' \<and> InMemory_Get k s' = Some (Inr t)"
  using mem.terminal_absorbing[where ser = ser, unfolded in_memory_ops_sel, OF assms] by blast

theorem terminal_states_absorbing_witness:
  "\<exists>s'. run_transitions (in_memory_ops (\<lambda>_. [])) [(''b'', TASK_STATE_WORKING), (''a'', TASK_STATE_FAILED)] sample_store = Some s' \<and>
     InMemory_Get ''b'' s' = Some (Inr (sample_task ''b'' TASK_STATE_COMPLETED))"
proof -
  have "InMemory_Get ''b'' sample_store = Some (Inr (sample_task ''b'' TASK_STATE_COMPLETED))"
    "IsTerminalTaskState (task_state (sample_task ''b'' TASK_STATE_COMPLETED))" by code_simp+
  from terminal_states_absorbing[OF sample_inv this] show ?thesis .
qed

text \<open>a status transition succeeds only from a non-terminal state, returns and stores the task with exactly its
  state changed, affects no other task, and when it fails it changes no task at all.\<close>

theorem TransitionTaskStatus_spec:
  assumes "store_inv s"
  shows "\<exists>s' r. TransitionTaskStatus (Some (in_memory_ops ser)) k st s = Some (s', r) \<and>
    (k' = k \<or> InMemory_Get k' s' = InMemory_Get k' s) \<and>
    (case r of
       Inr t \<Rightarrow> InMemory_Get k s' = Some (Inr t) \<and>
         (\<exists>t0. InMemory_Get k s = Some (Inr t0) \<and> t = set_state st t0 \<and> \<not> IsTerminalTaskState (task_state t0))
     | Inl e \<Rightarrow> store_view s' = store_view s)"
proof -
  obtain s' r where "TransitionTaskStatus (Some (in_memory_ops ser)) k st s = Some (s', r)"
    "\<And>k'. k' \<noteq> k \<Longrightarrow> InMemory_Get k' s' = InMemory_Get k' s"
    "\<And>t. r = Inr t \<Longrightarrow> task_state t = st \<and> InMemory_Get k s' = Some (Inr t) \<and>
      (\<exists>t0. InMemory_Get k s = Some (Inr t0) \<and> t = set_state st t0 \<and> \<not> IsTerminalTaskState (task_state t0))"
    "\<And>e. r = Inl e \<Longrightarrow> store_view s' = store_view s"
    using assms by (rule mem.transition_cases[where ser = ser and k = k and st = st, unfolded in_memory_ops_sel]) blast
  then show ?thesis by (intro exI[of _ s'] exI[of _ r]) (auto split: sum.split)
qed

theorem TransitionTaskStatus_spec_witness:
  "\<exists>s' t. TransitionTaskStatus (Some (in_memory_ops (\<lambda>_. []))) ''a'' TASK_STATE_FAILED sample_store = Some (s', Inr t) \<and>
     InMemory_Get ''a'' s' = Some (Inr t) \<and> task_state t = TASK_STATE_FAILED"
proof -
  have "map_option (map_sum (\<lambda>_. ()) task_state \<circ> snd)
      (TransitionTaskStatus (Some (in_memory_ops (\<lambda>_. []))) ''a'' TASK_STATE_FAILED sample_store) = Some (Inr TASK_STATE_FAILED)"
    by code_simp
  then obtain s1 t where st: "TransitionTaskStatus (Some (in_memory_ops (\<lambda>_. []))) ''a'' TASK_STATE_FAILED sample_store = Some (s1, Inr t)"
    "task_state t = TASK_STATE_FAILED"
    by (auto elim!: map_sum_Inr_E)
  with TransitionTaskStatus_spec[OF sample_inv, of "\<lambda>_. []" "''a''" TASK_STATE_FAILED "''a''"] show ?thesis
    by simp
qed

end
