(* ===== verification/Task_Authorization.thy ===== *)
theory Task_Authorization
  imports Task_Lifecycle Task_Subscription_Props
begin

text \<open>
  \<open>TaskAuthorizationService\<close> (\<open>src/server/tasks/task_authorization_service.cpp\<close>): tasks that wait for a credential
  before they may run. The service composes a task store, the lifecycle service with its id generator and the
  subscription service; its public operations hold one mutex throughout, so each is one step on the combined state.
  The credential validator is a callback (absent: \<open>None\<close>).
\<close>

section \<open>Operations\<close>

record 's AuthorizationService =
  auth_store :: 's
  auth_generator :: UuidV7TaskIdGenerator
  auth_subscriptions :: SubscriptionService

type_synonym ('s, 'a) auth_step = "'s AuthorizationService \<Rightarrow> ('s AuthorizationService \<times> 'a Result) option"

type_synonym CredentialValidator = "Task \<Rightarrow> string \<Rightarrow> bool"

definition kMissingTaskStore :: string where "kMissingTaskStore = ''authorization task store is required''"
definition kAuthorizationTaskMarker :: string where "kAuthorizationTaskMarker = ''a2a.authorization''"
definition kInvalidAuthorizationExplanation :: string where
  "kInvalidAuthorizationExplanation = ''authorization requires an agent status message''"
definition kAuthorizationNotPending :: string where "kAuthorizationNotPending = ''task is not awaiting authorization''"
definition kTaskChanged :: string where
  "kTaskChanged = ''task changed while updating authorization; retry the operation''"
definition kAuthorizationNotGranted :: string where
  "kAuthorizationNotGranted = ''task authorization has not been granted''"
definition kNotAuthorizationTask :: string where
  "kNotAuthorizationTask = ''task does not belong to the authorization service''"

definition IsAuthorizationTask :: "Task \<Rightarrow> bool" where
  "IsAuthorizationTask task =
     (case map_of (metadata_fields task) kAuthorizationTaskMarker of None \<Rightarrow> False | Some v \<Rightarrow> bool_value v)"

definition Auth_Snapshot :: "'s TaskStore option \<Rightarrow> string \<Rightarrow> 's AuthorizationService \<Rightarrow> TaskSnapshot Result option" where
  "Auth_Snapshot store task_id a =
     (case store of
        None \<Rightarrow> Some (Inl (Internal kMissingTaskStore))
      | Some ops \<Rightarrow> TS_GetSnapshot ops task_id (auth_store a))"

text \<open>\<open>Persist\<close> does not test the store pointer: with a null store it has no defined outcome.\<close>

definition Persist :: "'s TaskStore option \<Rightarrow> TaskSnapshot \<Rightarrow> ('s, Task) auth_step" where
  "Persist store snapshot a = do {
     ops \<leftarrow> store;
     (s, stored) \<leftarrow> TS_CreateOrUpdateIfRevision ops (snapshot_task snapshot) (snapshot_revision snapshot) (auth_store a);
     let a = a\<lparr>auth_store := s\<rparr>;
     case stored of
       Inl e \<Rightarrow> Some (a, Inl e)
     | Inr kConflict \<Rightarrow> Some (a, Inl (UnsupportedOperation kTaskChanged))
     | Inr kUpdated \<Rightarrow> do {
         subscriptions \<leftarrow> PublishTaskUpdated (snapshot_task snapshot) (auth_subscriptions a);
         Some (a\<lparr>auth_subscriptions := subscriptions\<rparr>, Inr (snapshot_task snapshot))
       }
   }"

definition await_authorization :: "Message \<Rightarrow> Message \<Rightarrow> Task \<Rightarrow> Task" where
  "await_authorization message explanation task =
     (let task = task\<lparr>Task_metadata :=
            Some (AList.update kAuthorizationTaskMarker (BoolValue True) (metadata_fields task))\<rparr>;
          task = set_state TASK_STATE_AUTH_REQUIRED task;
          task = update_status (\<lambda>s. s\<lparr>TaskStatus_message := Some (explanation\<lparr>Message_task_id := Task_id task,
            Message_context_id := Task_context_id task\<rparr>)\<rparr>) task
      in task\<lparr>Task_history := Task_history task @ [message]\<rparr>)"

definition RequestAuthorization ::
  "'s TaskStore option \<Rightarrow> getrandom list \<Rightarrow> 64 word \<Rightarrow> SendMessageRequest \<Rightarrow> RequestContext \<Rightarrow> Message \<Rightarrow> ('s, Task) auth_step" where
  "RequestAuthorization store calls now request context explanation a =
     (if store = None then Some (a, Inl (Internal kMissingTaskStore))
      else if Message_role explanation \<noteq> ROLE_AGENT \<or> Message_message_id explanation = [] \<or> Message_parts explanation = []
      then Some (a, Inl (Validation kInvalidAuthorizationExplanation))
      else do {
        (g, id) \<leftarrow> ResolveTaskIdForSendRequest (uuid_generator calls now) request context (auth_generator a);
        let a = a\<lparr>auth_generator := g\<rparr>;
        case id of
          Inl e \<Rightarrow> Some (a, Inl e)
        | Inr task_id \<Rightarrow>
            let message = request_message request in
            if Message_task_id message \<noteq> [] then do {
              existing \<leftarrow> Auth_Snapshot store task_id a;
              case existing of
                Inl e \<Rightarrow> Some (a, Inl e)
              | Inr snapshot \<Rightarrow>
                  (case ValidateTaskForSendRequest request (snapshot_task snapshot) of
                     Inl e \<Rightarrow> Some (a, Inl e)
                   | Inr _ \<Rightarrow> Persist store
                       (snapshot\<lparr>snapshot_task := await_authorization message explanation (snapshot_task snapshot)\<rparr>) a)
            }
            else let task = default_Task\<lparr>Task_id := task_id, Task_context_id :=
                     (if Message_context_id message = [] then task_id else Message_context_id message)\<rparr>
              in Persist store \<lparr>snapshot_task = await_authorization message explanation task, snapshot_revision = 0\<rparr> a
      })"

definition ReceiveMessage :: "'s TaskStore option \<Rightarrow> (Part \<Rightarrow> string) \<Rightarrow> SendMessageRequest \<Rightarrow> ('s, Task) auth_step" where
  "ReceiveMessage store ser request a = do {
     let message = request_message request;
     snapshot \<leftarrow> Auth_Snapshot store (Message_task_id message) a;
     case snapshot of
       Inl e \<Rightarrow> Some (a, Inl e)
     | Inr snapshot \<Rightarrow>
         let task = snapshot_task snapshot in
         (case ValidateTaskForSendRequest request task of
            Inl e \<Rightarrow> Some (a, Inl e)
          | Inr _ \<Rightarrow>
              if \<not> IsAuthorizationTask task \<or> task_state task \<noteq> TASK_STATE_AUTH_REQUIRED
              then Some (a, Inl (UnsupportedOperation kAuthorizationNotPending))
              else if FindHistoryDedupeReason ser (Task_history task) message kDedupByMessageId \<noteq> None
              then Some (a, Inr task)
              else Persist store (snapshot\<lparr>snapshot_task := task\<lparr>Task_history := Task_history task @ [message]\<rparr>\<rparr>) a)
   }"

definition Transition :: "'s TaskStore option \<Rightarrow> TaskSnapshot \<Rightarrow> TaskState \<Rightarrow> ('s, Task) auth_step" where
  "Transition store snapshot state a =
     (let task = snapshot_task snapshot in
      if \<not> IsAuthorizationTask task then Some (a, Inl (UnsupportedOperation kNotAuthorizationTask))
      else if IsTerminalTaskState (task_state task)
      then Some (a, Inl (if state = TASK_STATE_CANCELED then TaskNotCancelable ''task is already terminal''
                         else UnsupportedOperation ''operation is not supported''))
      else Persist store (snapshot\<lparr>snapshot_task :=
        update_status (\<lambda>s. s\<lparr>TaskStatus_message := None\<rparr>) (set_state state task)\<rparr>) a)"

definition Auth_Authorize ::
  "'s TaskStore option \<Rightarrow> CredentialValidator option \<Rightarrow> string \<Rightarrow> string \<Rightarrow> ('s, Task) auth_step" where
  "Auth_Authorize store validator task_id credential a = do {
     snapshot \<leftarrow> Auth_Snapshot store task_id a;
     case snapshot of
       Inl e \<Rightarrow> Some (a, Inl e)
     | Inr snapshot \<Rightarrow>
         let task = snapshot_task snapshot in
         if \<not> IsAuthorizationTask task \<or> task_state task \<noteq> TASK_STATE_AUTH_REQUIRED
         then Some (a, Inl (UnsupportedOperation kAuthorizationNotPending))
         else if (case validator of None \<Rightarrow> True | Some valid \<Rightarrow> \<not> valid task credential)
         then Some (a, Inl (PermissionDenied ''access is denied''))
         else Transition store snapshot TASK_STATE_WORKING a
   }"

definition Auth_Complete :: "'s TaskStore option \<Rightarrow> string \<Rightarrow> ('s, Task) auth_step" where
  "Auth_Complete store task_id a = do {
     snapshot \<leftarrow> Auth_Snapshot store task_id a;
     case snapshot of
       Inl e \<Rightarrow> Some (a, Inl e)
     | Inr snapshot \<Rightarrow>
         if \<not> IsAuthorizationTask (snapshot_task snapshot) \<or> task_state (snapshot_task snapshot) \<noteq> TASK_STATE_WORKING
         then Some (a, Inl (UnsupportedOperation kAuthorizationNotGranted))
         else Transition store snapshot TASK_STATE_COMPLETED a
   }"

definition Auth_Cancel :: "'s TaskStore option \<Rightarrow> string \<Rightarrow> ('s, Task) auth_step" where
  "Auth_Cancel store task_id a = do {
     snapshot \<leftarrow> Auth_Snapshot store task_id a;
     case snapshot of
       Inl e \<Rightarrow> Some (a, Inl e)
     | Inr snapshot \<Rightarrow> Transition store snapshot TASK_STATE_CANCELED a
   }"

definition subscribe_task :: "Task \<Rightarrow> ('s, address) auth_step" where
  "subscribe_task task a =
     (let (subscriptions, r) = Subscribe task (auth_subscriptions a)
      in Some (a\<lparr>auth_subscriptions := subscriptions\<rparr>, r))"

definition Auth_Subscribe :: "'s TaskStore option \<Rightarrow> string \<Rightarrow> ('s, address) auth_step" where
  "Auth_Subscribe store task_id a =
     (case store of
        None \<Rightarrow> Some (a, Inl (Internal kMissingTaskStore))
      | Some ops \<Rightarrow> do {
          task \<leftarrow> TS_Get ops task_id (auth_store a);
          case task of Inl e \<Rightarrow> Some (a, Inl e) | Inr task \<Rightarrow> subscribe_task task a
        })"

definition Auth_SendStreamingMessage ::
  "'s TaskStore option \<Rightarrow> (Part \<Rightarrow> string) \<Rightarrow> getrandom list \<Rightarrow> 64 word \<Rightarrow> SendMessageRequest \<Rightarrow> RequestContext \<Rightarrow> Message \<Rightarrow>
    ('s, address) auth_step" where
  "Auth_SendStreamingMessage store ser calls now request context explanation a = do {
     (a, task) \<leftarrow> (if Message_task_id (request_message request) = []
                    then RequestAuthorization store calls now request context explanation a
                    else ReceiveMessage store ser request a);
     case task of Inl e \<Rightarrow> Some (a, Inl e) | Inr task \<Rightarrow> subscribe_task task a
   }"

definition Auth_Shutdown :: "'s AuthorizationService \<Rightarrow> 's AuthorizationService option" where
  "Auth_Shutdown a = map_option (\<lambda>subscriptions. a\<lparr>auth_subscriptions := subscriptions\<rparr>) (Shutdown (auth_subscriptions a))"

text \<open>What the sessions that the service handed out do to it.\<close>

definition with_subscriptions ::
  "(SubscriptionService \<Rightarrow> SubscriptionService option) \<Rightarrow> 's AuthorizationService \<Rightarrow> 's AuthorizationService option" where
  "with_subscriptions f a = map_option (\<lambda>subscriptions. a\<lparr>auth_subscriptions := subscriptions\<rparr>) (f (auth_subscriptions a))"

section \<open>Facts\<close>

lemma IsAuthorizationTask_simps [simp]:
  "IsAuthorizationTask (t\<lparr>Task_history := h\<rparr>) = IsAuthorizationTask t"
  "IsAuthorizationTask (update_status f t) = IsAuthorizationTask t"
  "IsAuthorizationTask (set_state st t) = IsAuthorizationTask t"
  by (simp_all add: IsAuthorizationTask_def metadata_fields_def)

lemma task_state_update_message [simp]:
  "task_state (update_status (\<lambda>s. s\<lparr>TaskStatus_message := m\<rparr>) t) = task_state t"
  "task_state (t\<lparr>Task_history := h\<rparr>) = task_state t"
  by (simp_all add: task_state_def)

lemma await_authorization_simps [simp]:
  "IsAuthorizationTask (await_authorization m e t)"
  "task_state (await_authorization m e t) = TASK_STATE_AUTH_REQUIRED"
  "Task_id (await_authorization m e t) = Task_id t"
  by (simp_all add: await_authorization_def Let_def) (simp add: IsAuthorizationTask_def metadata_fields_def update_conv')

text \<open>The outcome of an operation on the tasks: it stores exactly the task it returns, or changes nothing.\<close>

definition task_outcome :: "(string \<rightharpoonup> Task \<times> 64 word \<times> int) \<Rightarrow> (string \<rightharpoonup> Task \<times> 64 word \<times> int) \<Rightarrow> Task Result \<Rightarrow> bool" where
  "task_outcome m m' r \<longleftrightarrow>
     (case r of Inl e \<Rightarrow> m' = m | Inr t \<Rightarrow> \<exists>v u. m' = m(Task_id t \<mapsto> (t, v, u)))"

lemma task_outcome_Inl [simp]: "task_outcome m m' (Inl e) \<longleftrightarrow> m' = m"
  by (simp add: task_outcome_def)

lemma task_outcome_stored: "m (Task_id t) = Some (t, v, u) \<Longrightarrow> task_outcome m m (Inr t)"
  unfolding task_outcome_def sum.case by (intro exI[of _ v] exI[of _ u]) (simp add: fun_upd_idem)

lemma a_put_upd: "snd (a_put t a) = Inr () \<Longrightarrow> \<exists>v u. a_map (fst (a_put t a)) = (a_map a)(Task_id t \<mapsto> (t, v, u))"
  by (auto simp: a_put_def Let_def split: option.splits if_splits)

lemma spec_conditional_Inl: "snd (spec_CreateOrUpdateIfRevision t e a) = Inl err \<Longrightarrow> fst (spec_CreateOrUpdateIfRevision t e a) = a"
  by (cases "snd (a_put t a)") (simp_all add: spec_CreateOrUpdateIfRevision_def Let_def a_put_Inl split: if_splits)

lemma spec_conditional_conflict:
  "snd (spec_CreateOrUpdateIfRevision t e a) = Inr kConflict \<Longrightarrow> fst (spec_CreateOrUpdateIfRevision t e a) = a"
  by (cases "snd (a_put t a)") (simp_all add: spec_CreateOrUpdateIfRevision_def Let_def split: if_splits)

lemma spec_conditional_updated:
  "snd (spec_CreateOrUpdateIfRevision t e a) = Inr kUpdated \<Longrightarrow>
    \<exists>v u. a_map (fst (spec_CreateOrUpdateIfRevision t e a)) = (a_map a)(Task_id t \<mapsto> (t, v, u))"
  by (cases "snd (a_put t a)") (simp_all add: spec_CreateOrUpdateIfRevision_def Let_def a_put_upd split: if_splits)

text \<open>Published to the open subscribers of the task: its status event at the end of their streams.\<close>

definition published :: "SubscriptionService \<Rightarrow> SubscriptionService \<Rightarrow> Task \<Rightarrow> bool" where
  "published svc svc' t \<longleftrightarrow>
     (\<forall>a\<in>open_subscribers (sub_heap svc) (Task_id t). \<forall>s. sub_heap svc a = Some s \<longrightarrow>
        (\<exists>s'. sub_heap svc' a = Some s' \<and> sub_stream s' = sub_stream s @ [BuildStatusUpdateEvent t] \<and>
           closed s' = IsTerminalTaskState (task_state t)))"

definition auth_good :: "('s \<Rightarrow> bool) \<Rightarrow> 's AuthorizationService \<Rightarrow> bool" where
  "auth_good good a \<longleftrightarrow> good (auth_store a) \<and> svc_inv (auth_subscriptions a)"

context task_store
begin

abbreviation tasks_of :: "'s AuthorizationService \<Rightarrow> string \<rightharpoonup> Task \<times> 64 word \<times> int" where
  "tasks_of a \<equiv> a_map (view (auth_store a))"

lemma persist_effect:
  assumes "auth_good good a"
  shows "\<exists>a' r. Persist (Some ops) snap a = Some (a', r) \<and> auth_good good a' \<and> task_outcome (tasks_of a) (tasks_of a') r \<and>
    (\<forall>t. r = Inr t \<longrightarrow> t = snapshot_task snap \<and> published (auth_subscriptions a) (auth_subscriptions a') t)"
proof -
  let ?t = "snapshot_task snap" and ?e = "snapshot_revision snap"
  from assms have good: "good (auth_store a)" "svc_inv (auth_subscriptions a)" by (simp_all add: auth_good_def)
  from conditional_impl[of ?t ?e] good(1) obtain s' where s':
    "TS_CreateOrUpdateIfRevision ops ?t ?e (auth_store a) = Some (s', snd (spec_CreateOrUpdateIfRevision ?t ?e (view (auth_store a))))"
    "good s'" "view s' = fst (spec_CreateOrUpdateIfRevision ?t ?e (view (auth_store a)))"
    by (rule implementsE)
  show ?thesis
  proof (cases "snd (spec_CreateOrUpdateIfRevision ?t ?e (view (auth_store a)))")
    case (Inl err)
    have "a_map (view s') = tasks_of a"
      using spec_conditional_Inl[OF Inl] s'(3) by simp
    with Inl s' good show ?thesis by (simp add: Persist_def auth_good_def)
  next
    case (Inr w)
    show ?thesis
    proof (cases w)
      case kConflict
      have "a_map (view s') = tasks_of a" using spec_conditional_conflict Inr s'(3) kConflict by simp
      with Inr s' good kConflict show ?thesis by (simp add: Persist_def auth_good_def)
    next
      case kUpdated
      obtain svc where svc: "PublishTaskUpdated ?t (auth_subscriptions a) = Some svc" "svc_inv svc"
        "published (auth_subscriptions a) svc ?t"
        using PublishTaskUpdated_effect[OF good(2), of ?t] unfolding published_def by blast
      have "task_outcome (tasks_of a) (a_map (view s')) (Inr ?t)"
        using spec_conditional_updated Inr s'(3) kUpdated by (simp add: task_outcome_def)
      with Inr s' svc kUpdated show ?thesis by (simp add: Persist_def auth_good_def)
    qed
  qed
qed

abbreviation effect :: "'s AuthorizationService \<Rightarrow> ('s AuthorizationService \<times> Task Result) option \<Rightarrow>
    ('s AuthorizationService \<Rightarrow> Task \<Rightarrow> bool) \<Rightarrow> bool" where
  "effect a x P \<equiv> \<exists>a' r. x = Some (a', r) \<and> auth_good good a' \<and> task_outcome (tasks_of a) (tasks_of a') r \<and>
     (\<forall>t. r = Inr t \<longrightarrow> P a' t)"

lemma effect_error [simp]: "auth_good good a \<Longrightarrow> effect a (Some (a, Inl e)) P"
  by simp

lemma effect_persist:
  assumes "auth_good good a"
    and "\<And>a'. published (auth_subscriptions a) (auth_subscriptions a') (snapshot_task snap) \<Longrightarrow> P a' (snapshot_task snap)"
  shows "effect a (Persist (Some ops) snap a) P"
  using persist_effect[OF assms(1), of snap] assms(2) by blast

lemma snapshot_cases:
  assumes "auth_good good a"
  obtains (error) e where "Auth_Snapshot (Some ops) k a = Some (Inl e)"
  | (found) t v u where "Auth_Snapshot (Some ops) k a = Some (Inr \<lparr>snapshot_task = t, snapshot_revision = v\<rparr>)"
      "tasks_of a k = Some (t, v, u)" "Task_id t = k"
proof (cases "spec_lookup k (view (auth_store a))")
  case (Inl e)
  with assms show ?thesis
    by (intro error[of e]) (simp add: Auth_Snapshot_def auth_good_def snapshot_impl spec_GetSnapshot_def)
next
  case (Inr x)
  obtain t v u where x: "x = (t, v, u)" by (cases x)
  with Inr have "tasks_of a k = Some (t, v, u)" by (auto simp: spec_lookup_def split: if_splits option.splits)
  moreover from this have "Task_id t = k" using assms a_wf_id[OF wf] by (auto simp: auth_good_def)
  ultimately show ?thesis using assms Inr x
    by (intro found[of t v u]) (simp_all add: Auth_Snapshot_def auth_good_def snapshot_impl spec_GetSnapshot_def)
qed

lemma transition_effect:
  assumes "auth_good good a" "tasks_of a k = Some (t0, v, u)"
  shows "effect a (Transition (Some ops) \<lparr>snapshot_task = t0, snapshot_revision = v\<rparr> st a) (\<lambda>a' t.
    t = update_status (\<lambda>s. s\<lparr>TaskStatus_message := None\<rparr>) (set_state st t0) \<and> IsAuthorizationTask t0 \<and>
    \<not> IsTerminalTaskState (task_state t0) \<and> published (auth_subscriptions a) (auth_subscriptions a') t)"
  using assms(1) by (auto simp: Transition_def Let_def intro!: effect_persist)

lemma request_effect:
  assumes "auth_good good a"
    and "ResolveTaskIdForSendRequest (uuid_generator calls now) request context (auth_generator a) \<noteq> None"
  shows "effect a (RequestAuthorization (Some ops) calls now request context explanation a) (\<lambda>a' t.
    IsAuthorizationTask t \<and> task_state t = TASK_STATE_AUTH_REQUIRED \<and>
    published (auth_subscriptions a) (auth_subscriptions a') t)"
proof -
  obtain g r where id: "ResolveTaskIdForSendRequest (uuid_generator calls now) request context (auth_generator a) = Some (g, r)"
    using assms(2) by auto
  let ?a = "a\<lparr>auth_generator := g\<rparr>"
  have good: "auth_good good ?a" using assms(1) by (simp add: auth_good_def)
  have persist: "effect a (Persist (Some ops) (snap\<lparr>snapshot_task := await_authorization m explanation t\<rparr>) ?a) (\<lambda>a' t.
      IsAuthorizationTask t \<and> task_state t = TASK_STATE_AUTH_REQUIRED \<and>
      published (auth_subscriptions a) (auth_subscriptions a') t)" for snap m t
    using persist_effect[OF good, of "snap\<lparr>snapshot_task := await_authorization m explanation t\<rparr>"] by auto
  have fresh: "effect a (Persist (Some ops) \<lparr>snapshot_task = await_authorization m explanation t, snapshot_revision = 0\<rparr> ?a) (\<lambda>a' t.
      IsAuthorizationTask t \<and> task_state t = TASK_STATE_AUTH_REQUIRED \<and>
      published (auth_subscriptions a) (auth_subscriptions a') t)" for m t
    using persist[where snap = "\<lparr>snapshot_task = t, snapshot_revision = 0\<rparr>" and m = m and t = t] by simp
  let ?pre = "Message_role explanation \<noteq> ROLE_AGENT \<or> Message_message_id explanation = [] \<or> Message_parts explanation = []"
  show ?thesis
  proof (cases "?pre \<or> (\<exists>e. r = Inl e)")
    case True
    with id assms(1) good show ?thesis by (auto simp: RequestAuthorization_def)
  next
    case False
    then obtain k where r: "r = Inr k" and pre: "\<not> ?pre" by (cases r) auto
    show ?thesis
    proof (cases "Message_task_id (request_message request) = []")
      case True
      with id r pre fresh show ?thesis by (simp only: RequestAuthorization_def Let_def) simp
    next
      case existing: False
      from good show ?thesis
      proof (cases rule: snapshot_cases[of _ k])
        case (error e)
        with existing id r pre good show ?thesis by (simp add: RequestAuthorization_def Let_def)
      next
        case (found t v u)
        with existing id r pre good persist[where snap = "\<lparr>snapshot_task = t, snapshot_revision = v\<rparr>" and t = t] show ?thesis
          by (cases "ValidateTaskForSendRequest request t") (simp_all add: RequestAuthorization_def Let_def)
      qed
    qed
  qed
qed

lemma receive_effect:
  assumes "auth_good good a"
  shows "effect a (ReceiveMessage (Some ops) ser' request a) (\<lambda>a' t.
    IsAuthorizationTask t \<and> task_state t = TASK_STATE_AUTH_REQUIRED)"
  using assms
proof (cases rule: snapshot_cases[of _ "Message_task_id (request_message request)"])
  case (error e)
  with assms show ?thesis by (simp add: ReceiveMessage_def Let_def)
next
  case (found t v u)
  then have "task_outcome (tasks_of a) (tasks_of a) (Inr t)" using task_outcome_stored by simp
  with found assms show ?thesis
    by (cases "ValidateTaskForSendRequest request t")
       (auto simp: ReceiveMessage_def Let_def split: option.split intro!: effect_persist)
qed

lemma authorize_effect:
  assumes "auth_good good a"
  shows "effect a (Auth_Authorize (Some ops) validator k c a) (\<lambda>a' t.
    Task_id t = k \<and> task_state t = TASK_STATE_WORKING \<and> published (auth_subscriptions a) (auth_subscriptions a') t \<and>
    (\<exists>t0 v u valid. tasks_of a k = Some (t0, v, u) \<and> IsAuthorizationTask t0 \<and> task_state t0 = TASK_STATE_AUTH_REQUIRED \<and>
       validator = Some valid \<and> valid t0 c))"
  using assms
proof (cases rule: snapshot_cases[of _ k])
  case (error e)
  with assms show ?thesis by (simp add: Auth_Authorize_def)
next
  case (found t v u)
  show ?thesis
  proof (cases "IsAuthorizationTask t \<and> task_state t = TASK_STATE_AUTH_REQUIRED \<and> (\<exists>valid. validator = Some valid \<and> valid t c)")
    case True
    with transition_effect[OF assms found(2), of TASK_STATE_WORKING] found show ?thesis
      by (fastforce simp: Auth_Authorize_def Let_def)
  next
    case False
    with found(1) assms show ?thesis by (auto simp: Auth_Authorize_def Let_def split: option.split)
  qed
qed

lemma complete_effect:
  assumes "auth_good good a"
  shows "effect a (Auth_Complete (Some ops) k a) (\<lambda>a' t.
    Task_id t = k \<and> task_state t = TASK_STATE_COMPLETED \<and> published (auth_subscriptions a) (auth_subscriptions a') t \<and>
    (\<exists>t0 v u. tasks_of a k = Some (t0, v, u) \<and> IsAuthorizationTask t0 \<and> task_state t0 = TASK_STATE_WORKING))"
  using assms
proof (cases rule: snapshot_cases[of _ k])
  case (error e)
  with assms show ?thesis by (simp add: Auth_Complete_def)
next
  case (found t v u)
  with transition_effect[OF assms found(2), of TASK_STATE_COMPLETED] assms show ?thesis
    by (cases "IsAuthorizationTask t \<and> task_state t = TASK_STATE_WORKING") (fastforce simp: Auth_Complete_def)+
qed

lemma cancel_effect:
  assumes "auth_good good a"
  shows "effect a (Auth_Cancel (Some ops) k a) (\<lambda>a' t.
    Task_id t = k \<and> task_state t = TASK_STATE_CANCELED \<and> published (auth_subscriptions a) (auth_subscriptions a') t)"
  using assms
proof (cases rule: snapshot_cases[of _ k])
  case (error e)
  with assms show ?thesis by (simp add: Auth_Cancel_def)
next
  case (found t v u)
  with transition_effect[OF assms found(2), of TASK_STATE_CANCELED] show ?thesis by (fastforce simp: Auth_Cancel_def)
qed

end

end
