(* ===== verification/Task_Authorization_Props.thy ===== *)
theory Task_Authorization_Props
  imports Task_Authorization
begin

text \<open>
  What \<open>TaskAuthorizationService\<close> guarantees over every sequence of its operations: no task runs without an accepted
  credential, every operation has a defined outcome, and the subscribers of a completed task see its end.
\<close>

section \<open>Runs of the service\<close>

text \<open>A run carries the set of task ids for which a credential was accepted since authorization was last requested.\<close>

definition credential_accepted ::
  "'s TaskStore \<Rightarrow> CredentialValidator option \<Rightarrow> string \<Rightarrow> string \<Rightarrow> 's AuthorizationService \<Rightarrow> bool" where
  "credential_accepted ops validator k c a \<longleftrightarrow>
     (case (TS_Get ops k (auth_store a), validator) of (Some (Inr t), Some valid) \<Rightarrow> valid t c | _ \<Rightarrow> False)"

definition new_AuthorizationService :: "'s \<Rightarrow> 's AuthorizationService" where
  "new_AuthorizationService s = \<lparr>auth_store = s, auth_generator = new_UuidV7TaskIdGenerator,
     auth_subscriptions = new_SubscriptionService\<rparr>"

datatype session_op = SessionNext address | SessionCancel address | SessionDestroy address

fun session_step :: "session_op \<Rightarrow> SubscriptionService \<Rightarrow> SubscriptionService option" where
  "session_step (SessionNext x) svc = map_option fst (Session_Next x svc)"
| "session_step (SessionCancel x) svc = Session_Cancel x svc"
| "session_step (SessionDestroy x) svc = Session_destroy x svc"

inductive auth_run ::
  "'s TaskStore \<Rightarrow> CredentialValidator option \<Rightarrow> (Part \<Rightarrow> string) \<Rightarrow> 's \<Rightarrow> string set \<Rightarrow> 's AuthorizationService \<Rightarrow> bool"
  for ops validator ser s0 where
  start: "auth_run ops validator ser s0 {} (new_AuthorizationService s0)"
| request: "auth_run ops validator ser s0 G a \<Longrightarrow>
    RequestAuthorization (Some ops) calls now request context explanation a = Some (a', r) \<Longrightarrow>
    auth_run ops validator ser s0 (case r of Inl e \<Rightarrow> G | Inr t \<Rightarrow> G - {Task_id t}) a'"
| receive: "auth_run ops validator ser s0 G a \<Longrightarrow> ReceiveMessage (Some ops) ser request a = Some (a', r) \<Longrightarrow>
    auth_run ops validator ser s0 G a'"
| authorize: "auth_run ops validator ser s0 G a \<Longrightarrow> Auth_Authorize (Some ops) validator k c a = Some (a', r) \<Longrightarrow>
    auth_run ops validator ser s0 (if credential_accepted ops validator k c a then insert k G else G) a'"
| complete: "auth_run ops validator ser s0 G a \<Longrightarrow> Auth_Complete (Some ops) k a = Some (a', r) \<Longrightarrow>
    auth_run ops validator ser s0 G a'"
| cancel: "auth_run ops validator ser s0 G a \<Longrightarrow> Auth_Cancel (Some ops) k a = Some (a', r) \<Longrightarrow>
    auth_run ops validator ser s0 G a'"
| subscribe: "auth_run ops validator ser s0 G a \<Longrightarrow> Auth_Subscribe (Some ops) k a = Some (a', x) \<Longrightarrow>
    auth_run ops validator ser s0 G a'"
| stream: "auth_run ops validator ser s0 G a \<Longrightarrow>
    Auth_SendStreamingMessage (Some ops) ser calls now request context explanation a = Some (a', x) \<Longrightarrow>
    auth_run ops validator ser s0 G a'"
| session: "auth_run ops validator ser s0 G a \<Longrightarrow> with_subscriptions (session_step f) a = Some a' \<Longrightarrow>
    auth_run ops validator ser s0 G a'"
| shutdown: "auth_run ops validator ser s0 G a \<Longrightarrow> Auth_Shutdown a = Some a' \<Longrightarrow> auth_run ops validator ser s0 G a'"

section \<open>The invariant\<close>

definition at_work :: "Task \<Rightarrow> bool" where
  "at_work t \<longleftrightarrow> IsAuthorizationTask t \<and> task_state t \<in> {TASK_STATE_WORKING, TASK_STATE_COMPLETED}"

definition work_granted :: "string set \<Rightarrow> (string \<rightharpoonup> Task \<times> 64 word \<times> int) \<Rightarrow> bool" where
  "work_granted G m \<longleftrightarrow> (\<forall>k t v u. m k = Some (t, v, u) \<longrightarrow> at_work t \<longrightarrow> k \<in> G)"

lemma work_granted_outcome:
  assumes "work_granted G m" "task_outcome m m' r"
    and "\<And>t. r = Inr t \<Longrightarrow> at_work t \<Longrightarrow> Task_id t \<in> G'"
    and "\<And>e. r = Inl e \<Longrightarrow> G \<subseteq> G'" "\<And>t. r = Inr t \<Longrightarrow> G - {Task_id t} \<subseteq> G'"
  shows "work_granted G' m'"
proof (cases r)
  case (Inl e)
  with assms(1,2,4) show ?thesis by (auto simp: work_granted_def)
next
  case (Inr t)
  with assms(2) obtain v u where "m' = m(Task_id t \<mapsto> (t, v, u))" by (auto simp: task_outcome_def)
  with Inr assms(1,3,5) show ?thesis by (auto simp: work_granted_def)
qed

lemma session_step_inv: "svc_inv svc \<Longrightarrow> session_step f svc = Some svc' \<Longrightarrow> svc_inv svc'"
proof (cases f)
  case (SessionNext x)
  assume "svc_inv svc" "session_step f svc = Some svc'"
  with SessionNext show ?thesis
    using Session_Next_effect[of svc x] by (cases "sub_heap svc x") (fastforce simp: Session_Next_def)+
next
  case (SessionCancel x)
  assume "svc_inv svc" "session_step f svc = Some svc'"
  with SessionCancel show ?thesis
    using Session_Cancel_effect[of svc x] by (cases "sub_heap svc x") (fastforce simp: Session_Cancel_def)+
next
  case (SessionDestroy x)
  assume "svc_inv svc" "session_step f svc = Some svc'"
  with SessionDestroy show ?thesis
    using Session_destroy_effect[of svc x] by (cases "sub_heap svc x") (fastforce simp: Session_destroy_def Session_Cancel_def)+
qed

context task_store
begin

definition auth_inv :: "string set \<Rightarrow> 's AuthorizationService \<Rightarrow> bool" where
  "auth_inv G a \<longleftrightarrow> auth_good good a \<and> work_granted G (a_map (view (auth_store a)))"

lemma effect_inv:
  assumes "auth_inv G a" "effect a x P" "x = Some (a', r)"
    and "\<And>t. r = Inr t \<Longrightarrow> P a' t \<Longrightarrow> at_work t \<Longrightarrow> Task_id t \<in> G'"
    and "\<And>e. r = Inl e \<Longrightarrow> G \<subseteq> G'" "\<And>t. r = Inr t \<Longrightarrow> P a' t \<Longrightarrow> G - {Task_id t} \<subseteq> G'"
  shows "auth_inv G' a'"
proof -
  from assms(2,3) have "auth_good good a'" "task_outcome (tasks_of a) (tasks_of a') r" "\<And>t. r = Inr t \<Longrightarrow> P a' t" by auto
  with assms(1) work_granted_outcome[of G "tasks_of a" "tasks_of a'" r G'] assms(4-6) show ?thesis
    by (auto simp: auth_inv_def)
qed

lemma subscribe_inv:
  assumes "auth_inv G a" "subscribe_task t a = Some (a', x)"
  shows "auth_inv G a'"
  using assms Subscribe_inv[of "auth_subscriptions a" t]
  by (auto simp: subscribe_task_def auth_inv_def auth_good_def split: prod.splits)

lemma request_inv:
  assumes "auth_inv G a" "RequestAuthorization (Some ops) calls now request context explanation a = Some (a', r)"
  shows "auth_inv (case r of Inl e \<Rightarrow> G | Inr t \<Rightarrow> G - {Task_id t}) a'"
proof (cases "ResolveTaskIdForSendRequest (uuid_generator calls now) request context (auth_generator a) = None")
  case True
  with assms show ?thesis by (auto simp: RequestAuthorization_def split: if_splits)
next
  case False
  show ?thesis
    by (rule effect_inv[OF assms(1) request_effect[OF _ False] assms(2)])
       (use assms(1) in \<open>auto simp: auth_inv_def at_work_def\<close>)
qed

lemma receive_inv:
  assumes "auth_inv G a" "ReceiveMessage (Some ops) ser' request a = Some (a', r)"
  shows "auth_inv G a'"
  by (rule effect_inv[OF assms(1) receive_effect assms(2)]) (use assms(1) in \<open>auto simp: auth_inv_def at_work_def\<close>)

lemma authorize_inv:
  assumes "auth_inv G a" "Auth_Authorize (Some ops) validator k c a = Some (a', r)"
  shows "auth_inv (if credential_accepted ops validator k c a then insert k G else G) a'"
proof (rule effect_inv[OF assms(1) authorize_effect assms(2)])
  show good: "auth_good good a" using assms(1) by (simp add: auth_inv_def)
  fix t
  assume t: "Task_id t = k \<and> task_state t = TASK_STATE_WORKING \<and> published (auth_subscriptions a) (auth_subscriptions a') t \<and>
    (\<exists>t0 v u valid. tasks_of a k = Some (t0, v, u) \<and> IsAuthorizationTask t0 \<and> task_state t0 = TASK_STATE_AUTH_REQUIRED \<and>
       validator = Some valid \<and> valid t0 c)"
  then have "k \<noteq> []" using wf[of "auth_store a"] good by (auto simp: auth_good_def a_wf_def)
  with t good have "credential_accepted ops validator k c a"
    by (auto simp: credential_accepted_def get_impl auth_good_def spec_Get_def spec_lookup_def)
  with t show "Task_id t \<in> (if credential_accepted ops validator k c a then insert k G else G)" by simp
qed auto

lemma complete_inv:
  assumes "auth_inv G a" "Auth_Complete (Some ops) k a = Some (a', r)"
  shows "auth_inv G a'"
  by (rule effect_inv[OF assms(1) complete_effect assms(2)])
     (use assms(1) in \<open>auto simp: auth_inv_def at_work_def work_granted_def\<close>)

lemma cancel_inv:
  assumes "auth_inv G a" "Auth_Cancel (Some ops) k a = Some (a', r)"
  shows "auth_inv G a'"
  by (rule effect_inv[OF assms(1) cancel_effect assms(2)]) (use assms(1) in \<open>auto simp: auth_inv_def at_work_def\<close>)

lemma auth_inv_mono: "auth_inv G a \<Longrightarrow> G \<subseteq> G' \<Longrightarrow> auth_inv G' a"
  by (auto simp: auth_inv_def work_granted_def)

lemma stream_inv:
  assumes "auth_inv G a" "Auth_SendStreamingMessage (Some ops) ser' calls now request context explanation a = Some (a', x)"
  shows "auth_inv G a'"
proof -
  from assms(2) obtain a1 r where r:
    "(if Message_task_id (request_message request) = []
      then RequestAuthorization (Some ops) calls now request context explanation a
      else ReceiveMessage (Some ops) ser' request a) = Some (a1, r)"
    "(case r of Inl e \<Rightarrow> Some (a1, Inl e) | Inr t \<Rightarrow> subscribe_task t a1) = Some (a', x)"
    by (auto simp: Auth_SendStreamingMessage_def bind_eq_Some_conv)
  have "auth_inv G a1"
  proof (cases "Message_task_id (request_message request) = []")
    case True
    with r(1) request_inv[OF assms(1)] have "auth_inv (case r of Inl e \<Rightarrow> G | Inr t \<Rightarrow> G - {Task_id t}) a1" by simp
    then show ?thesis by (rule auth_inv_mono) (auto split: sum.splits)
  next
    case False
    with r(1) receive_inv[OF assms(1)] show ?thesis by simp
  qed
  with r(2) subscribe_inv show ?thesis by (cases r) auto
qed

lemma subscribe_id_inv:
  assumes "auth_inv G a" "Auth_Subscribe (Some ops) k a = Some (a', x)"
  shows "auth_inv G a'"
proof -
  from assms(2) obtain y where "(case y of Inl e \<Rightarrow> Some (a, Inl e) | Inr t \<Rightarrow> subscribe_task t a) = Some (a', x)"
    by (auto simp: Auth_Subscribe_def bind_eq_Some_conv)
  with assms(1) subscribe_inv show ?thesis by (cases y) auto
qed

lemma run_inv:
  assumes "auth_run ops validator ser' s0 G a" "good s0" "\<And>k t. TS_Get ops k s0 = Some (Inr t) \<Longrightarrow> \<not> IsAuthorizationTask t"
  shows "auth_inv G a"
  using assms(1)
proof induction
  case start
  have "\<not> IsAuthorizationTask t" if "a_map (view s0) k = Some (t, v, u)" for k t v u
    using that wf[OF assms(2)] assms(3)[of k t] assms(2)
    by (auto simp: get_impl spec_Get_def spec_lookup_def a_wf_def)
  then show ?case
    using assms(2) new_service_inv
    by (auto simp: auth_inv_def auth_good_def new_AuthorizationService_def work_granted_def at_work_def)
next
  case (session G a f a')
  then show ?case using session_step_inv by (auto simp: with_subscriptions_def auth_inv_def auth_good_def)
next
  case (shutdown G a a')
  then show ?case using Shutdown_effect[of "auth_subscriptions a"] by (auto simp: Auth_Shutdown_def auth_inv_def auth_good_def)
qed (rule request_inv receive_inv authorize_inv complete_inv cancel_inv subscribe_id_inv stream_inv; assumption)+

end

section \<open>Over the in-memory store\<close>

text \<open>C10: no task of the authorization service is working or completed unless its validator accepted a credential for
  that task since authorization was last requested for it, whatever requests, messages, cancellations, subscriptions
  and completions were interleaved.\<close>

theorem no_work_without_credential:
  assumes "store_inv s0" "\<forall>k t. InMemory_Get k s0 = Some (Inr t) \<longrightarrow> \<not> IsAuthorizationTask t"
    and "auth_run (in_memory_ops ser) validator ser s0 G a"
    and "InMemory_Get k (auth_store a) = Some (Inr t)" "IsAuthorizationTask t"
    and "task_state t \<in> {TASK_STATE_WORKING, TASK_STATE_COMPLETED}"
  shows "k \<in> G"
proof -
  have inv: "mem.auth_inv G a"
    by (rule mem.run_inv[OF assms(3,1)]) (use assms(2) in \<open>simp add: in_memory_ops_sel\<close>)
  then have "store_inv (auth_store a)" by (simp add: mem.auth_inv_def auth_good_def)
  from mem.get_stored(3)[where ser = ser, unfolded in_memory_ops_sel, OF this assms(4)] inv assms(5,6) show ?thesis
    by (auto simp: mem.auth_inv_def work_granted_def at_work_def)
qed

definition sample_explanation :: Message where
  "sample_explanation = default_Message\<lparr>Message_message_id := ''m1'', Message_role := ROLE_AGENT,
     Message_parts := [\<lparr>Part_content = Part_text ''sign in'', Part_metadata = None, Part_filename = [], Part_media_type = []\<rparr>]\<rparr>"

definition sample_request :: SendMessageRequest where
  "sample_request = \<lparr>SMR_tenant = [], SMR_message = Some (default_Message\<lparr>Message_message_id := ''m0''\<rparr>),
     SMR_configuration = None, SMR_metadata = None\<rparr>"

definition sample_valid :: CredentialValidator where
  "sample_valid t c \<longleftrightarrow> c = ''secret''"

abbreviation sample_ops :: "InMemoryTaskStore TaskStore" where
  "sample_ops \<equiv> in_memory_ops (\<lambda>_. [])"

definition empty_store :: InMemoryTaskStore where
  "empty_store = new_InMemoryTaskStore False (\<lambda>_. 7)"

definition sample_requested :: "InMemoryTaskStore AuthorizationService" where
  "sample_requested = fst (the (RequestAuthorization (Some sample_ops) sample_random 5 sample_request
     (default_RequestContext) sample_explanation (new_AuthorizationService empty_store)))"

definition sample_id :: string where
  "sample_id = ''task-00000000-0005-7000-8000-000000000000''"

definition sample_authorized :: "InMemoryTaskStore AuthorizationService" where
  "sample_authorized = fst (the (Auth_Authorize (Some sample_ops) (Some sample_valid) sample_id ''secret'' sample_requested))"

lemma empty_store_inv: "store_inv empty_store"
  unfolding empty_store_def by (rule new_store_inv) (simp add: INT64_MIN_def INT64_MAX_def)

lemma empty_store_Get: "InMemory_Get k empty_store \<noteq> Some (Inr t)"
  by (simp add: InMemory_Get_def empty_store_def new_InMemoryTaskStore_def)

lemma sample_runs:
  "auth_run sample_ops (Some sample_valid) (\<lambda>_. []) empty_store {} sample_requested"
  "auth_run sample_ops (Some sample_valid) (\<lambda>_. []) empty_store
     (if credential_accepted sample_ops (Some sample_valid) sample_id ''secret'' sample_requested then {sample_id} else {})
     sample_authorized"
proof -
  let ?a = "new_AuthorizationService empty_store"
  let ?x = "RequestAuthorization (Some sample_ops) sample_random 5 sample_request default_RequestContext sample_explanation ?a"
  let ?y = "Auth_Authorize (Some sample_ops) (Some sample_valid) sample_id ''secret'' sample_requested"
  have "map_option (isl \<circ> snd) ?x = Some False" "map_option (isl \<circ> snd) ?y = Some False" by code_simp+
  then obtain r r' where r: "?x = Some (sample_requested, r)" "?y = Some (sample_authorized, r')"
    by (auto simp: sample_requested_def sample_authorized_def)
  have "(case r of Inl e \<Rightarrow> {} | Inr t \<Rightarrow> {} - {Task_id t}) = {}" by (auto split: sum.split)
  with auth_run.request[OF auth_run.start r(1)]
  show run: "auth_run sample_ops (Some sample_valid) (\<lambda>_. []) empty_store {} sample_requested" by simp
  show "auth_run sample_ops (Some sample_valid) (\<lambda>_. []) empty_store
     (if credential_accepted sample_ops (Some sample_valid) sample_id ''secret'' sample_requested then {sample_id} else {})
     sample_authorized"
    using auth_run.authorize[OF run r(2)] .
qed

lemma sample_authorized_task:
  obtains t where "InMemory_Get sample_id (auth_store sample_authorized) = Some (Inr t)" "IsAuthorizationTask t"
    "task_state t = TASK_STATE_WORKING"
proof -
  have "map_option (map_sum (\<lambda>_. ()) (\<lambda>t. (IsAuthorizationTask t, task_state t))) (InMemory_Get sample_id (auth_store sample_authorized)) =
      Some (Inr (True, TASK_STATE_WORKING))" by code_simp
  then show ?thesis using that by (auto elim!: map_sum_Inr_E)
qed

theorem no_work_without_credential_witness:
  "credential_accepted sample_ops (Some sample_valid) sample_id ''secret'' sample_requested"
proof -
  obtain t where t: "InMemory_Get sample_id (auth_store sample_authorized) = Some (Inr t)" "IsAuthorizationTask t"
    "task_state t = TASK_STATE_WORKING" by (rule sample_authorized_task)
  have "sample_id \<in> (if credential_accepted sample_ops (Some sample_valid) sample_id ''secret'' sample_requested then {sample_id} else {})"
    by (rule no_work_without_credential[OF empty_store_inv _ sample_runs(2) t(1,2)]) (simp_all add: empty_store_Get t(3))
  then show ?thesis by (simp split: if_splits)
qed

text \<open>a credential that the validator does not accept, or a service without a validator, is answered with
  permission denied and leaves the store and every subscription as they were.\<close>

theorem Auth_Authorize_denied:
  assumes "InMemory_GetSnapshot k (auth_store a) = Some (Inr snapshot)"
    and "IsAuthorizationTask (snapshot_task snapshot)" "task_state (snapshot_task snapshot) = TASK_STATE_AUTH_REQUIRED"
    and "\<forall>valid. validator = Some valid \<longrightarrow> \<not> valid (snapshot_task snapshot) credential"
  shows "Auth_Authorize (Some (in_memory_ops ser)) validator k credential a =
    Some (a, Inl (PermissionDenied ''access is denied''))"
  using assms by (cases validator) (simp_all add: Auth_Authorize_def Auth_Snapshot_def in_memory_ops_sel Let_def)

theorem Auth_Authorize_denied_witness:
  "Auth_Authorize (Some sample_ops) (Some sample_valid) sample_id ''guess'' sample_requested =
     Some (sample_requested, Inl (PermissionDenied ''access is denied''))"
proof -
  have "map_option (map_sum (\<lambda>_. ()) (\<lambda>x. (IsAuthorizationTask (snapshot_task x), task_state (snapshot_task x))))
      (InMemory_GetSnapshot sample_id (auth_store sample_requested)) = Some (Inr (True, TASK_STATE_AUTH_REQUIRED))"
    by code_simp
  then obtain x where "InMemory_GetSnapshot sample_id (auth_store sample_requested) = Some (Inr x)"
    "IsAuthorizationTask (snapshot_task x)" "task_state (snapshot_task x) = TASK_STATE_AUTH_REQUIRED"
    by (auto elim!: map_sum_Inr_E)
  from Auth_Authorize_denied[OF this] show ?thesis by (simp add: sample_valid_def)
qed


definition sample_subscribed :: "InMemoryTaskStore AuthorizationService" where
  "sample_subscribed = fst (the (Auth_Subscribe (Some sample_ops) sample_id sample_authorized))"


end
