(* ===== verification/Http_Adapter.thy ===== *)
theory Http_Adapter
  imports Core_Text
begin

text \<open>
  \<open>HttpAdapter\<close> (\<open>src/server/transport/http_adapter.cpp\<close>): reading HTTP/1.1 requests from a byte transport that
  delivers them in pieces of any size, keeping the bytes beyond one request for the next, and writing responses, plain
  or chunked, to a transport that accepts them in pieces. A transport is the pair of its virtual operations over its
  state. The loops end because every read or write of no bytes is an error; they are total functions.
\<close>

section \<open>Constants and types\<close>

definition kLineTerminator :: string where "kLineTerminator = [CHR 0x0D, CHR 0x0A]"
definition kHeaderDelimiter :: string where "kHeaderDelimiter = [CHR 0x0D, CHR 0x0A, CHR 0x0D, CHR 0x0A]"
definition kHeaderNameValueSeparator :: string where "kHeaderNameValueSeparator = '': ''"
definition kHttpVersion11 :: string where "kHttpVersion11 = ''HTTP/1.1''"
definition kContentLengthHeader :: string where "kContentLengthHeader = ''content-length''"
definition kContentLengthHeaderName :: string where "kContentLengthHeaderName = ''Content-Length''"
definition kConnectionHeader :: string where "kConnectionHeader = ''connection''"
definition kConnectionHeaderName :: string where "kConnectionHeaderName = ''Connection''"
definition kConnectionCloseHeaderValue :: string where "kConnectionCloseHeaderValue = ''close''"
definition kTransferEncodingHeader :: string where "kTransferEncodingHeader = ''transfer-encoding''"
definition kTransferEncodingHeaderName :: string where "kTransferEncodingHeaderName = ''Transfer-Encoding''"
definition kTransferEncodingChunked :: string where "kTransferEncodingChunked = ''chunked''"
definition kFinalChunk :: string where "kFinalChunk = ''0'' @ kHeaderDelimiter"

record 't HttpByteTransport =
  tr_Read :: "nat \<Rightarrow> 't \<Rightarrow> 't \<times> string Result"
  tr_Write :: "string \<Rightarrow> 't \<Rightarrow> 't \<times> nat Result"

record HttpServerRequest =
  req_method :: string
  req_target :: string
  req_headers :: headers
  req_body :: string
  req_remote_address :: string

type_synonym 't stream_writer = "'t HttpByteTransport \<Rightarrow> 't \<Rightarrow> 't \<times> unit Result"

datatype HttpStreamKind = StreamKind_kNone | StreamKind_kFinite | StreamKind_kLive

record 'k HttpServerResponse =
  resp_status_code :: int
  resp_headers :: headers
  resp_body :: string
  resp_stream_writer :: "'k option"
  resp_stream_kind :: HttpStreamKind

definition default_HttpServerResponse :: "'k HttpServerResponse" where
  "default_HttpServerResponse = \<lparr>resp_status_code = 500, resp_headers = [], resp_body = [], resp_stream_writer = None,
     resp_stream_kind = StreamKind_kNone\<rparr>"

record HttpAdapter_Options =
  max_request_size :: nat
  read_buffer_size :: nat

definition default_Options :: HttpAdapter_Options where
  "default_Options = \<lparr>max_request_size = 1024 * 1024, read_buffer_size = 4096\<rparr>"

record RequestLine =
  line_method :: string
  line_target :: string

record BodyReadLimits =
  expected_body_size :: nat
  body_start :: nat
  limit_max_request_size :: nat

section \<open>Parsing\<close>

definition Trim :: "string \<Rightarrow> string" where
  "Trim value =
     (let start = trim_start_loop value 0;
          finish = trim_end_loop value start (length value)
      in substr start (finish - start) value)"

definition find_sub_from :: "string \<Rightarrow> nat \<Rightarrow> string \<Rightarrow> nat option" where
  "find_sub_from needle pos s = map_option (\<lambda>i. pos + i) (find_sub needle (drop pos s))"

definition NormalizeRequestTarget :: "string \<Rightarrow> string" where
  "NormalizeRequestTarget target =
     (if target = [] then ''/''
      else case find_sub ''://'' target of
        None \<Rightarrow> target
      | Some scheme_separator \<Rightarrow>
          (case find_from (\<lambda>c. c = CHR ''/'') (scheme_separator + 3) target of
             None \<Rightarrow> ''/''
           | Some path_start \<Rightarrow> drop path_start target))"

definition ParseContentLength :: "string \<Rightarrow> nat Result" where
  "ParseContentLength value =
     (let trimmed = Trim value in
      if trimmed = [] then Inl (Validation ''Content-Length header is empty'')
      else case from_chars_unsigned SIZE_MAX trimmed of
        Inl _ \<Rightarrow> Inl (Validation ''Content-Length header is not a valid unsigned integer'')
      | Inr (parsed, rest) \<Rightarrow>
          if rest \<noteq> [] then Inl (Validation ''Content-Length header is not a valid unsigned integer'')
          else if parsed > SIZE_MAX then Inl (Validation ''Content-Length value overflows platform size_t'')
          else Inr parsed)"

text \<open>\<open>stream >> word\<close>: skip white space, then take everything up to the next white space.\<close>

definition extract_word :: "string \<Rightarrow> string \<times> string" where
  "extract_word s = (let s = dropWhile isspace s in (takeWhile (\<lambda>c. \<not> isspace c) s, dropWhile (\<lambda>c. \<not> isspace c) s))"

definition ParseRequestLine :: "string \<Rightarrow> RequestLine Result" where
  "ParseRequestLine header_block =
     (case find_sub kLineTerminator header_block of
        None \<Rightarrow> Inl (Validation ''HTTP request line is missing'')
      | Some first_line_end \<Rightarrow>
          let (method, rest) = extract_word (take first_line_end header_block);
              (target, rest) = extract_word rest;
              (version, rest) = extract_word rest
          in if method = [] \<or> target = [] \<or> version = [] then Inl (Validation ''Malformed HTTP request line'')
             else if version \<noteq> kHttpVersion11 then Inl (Validation ''Unsupported HTTP version in request line'')
             else Inr \<lparr>line_method = method, line_target = NormalizeRequestTarget target\<rparr>)"

text \<open>The loop over the map that merges repeated \<open>Connection\<close> headers; \<open>None\<close> when there is none yet.\<close>

primrec append_connection :: "string \<Rightarrow> headers \<Rightarrow> headers option" where
  "append_connection value [] = None"
| "append_connection value (h # hs) =
     (if EqualsAsciiCaseInsensitive (fst h) kConnectionHeader
      then Some ((fst h, snd h @ '', '' @ value) # hs)
      else map_option ((#) h) (append_connection value hs))"

definition ParseHeaderLine :: "string \<Rightarrow> headers \<Rightarrow> nat option \<Rightarrow> (headers \<times> nat option) Result" where
  "ParseHeaderLine line headers content_length =
     (case index_of (\<lambda>c. c = CHR '':'') line of
        None \<Rightarrow> Inl (Validation ''Malformed HTTP header line'')
      | Some colon \<Rightarrow>
          if colon = 0 then Inl (Validation ''Malformed HTTP header line'')
          else let name = Trim (take colon line); value = Trim (drop (colon + 1) line) in
            if name = [] then Inl (Validation ''HTTP header name cannot be empty'')
            else if EqualsAsciiCaseInsensitive name kTransferEncodingHeader
            then Inl (Validation ''Transfer-Encoding is not supported'')
            else result_bind
              (if EqualsAsciiCaseInsensitive name kContentLengthHeader
               then result_bind (ParseContentLength value) (\<lambda>parsed_length.
                 if content_length \<noteq> None \<and> content_length \<noteq> Some parsed_length
                 then Inl (Validation ''Conflicting Content-Length header values'')
                 else Inr (Some parsed_length))
               else Inr content_length)
              (\<lambda>content_length.
                 case (if EqualsAsciiCaseInsensitive name kConnectionHeader then append_connection value headers else None) of
                   Some headers \<Rightarrow> Inr (headers, content_length)
                 | None \<Rightarrow> Inr (AList.update name value headers, content_length)))"

lemma find_sub_from_le: "find_sub_from needle pos s = Some n \<Longrightarrow> needle \<noteq> [] \<Longrightarrow> pos \<le> n \<and> n + length needle \<le> length s"
  by (cases "pos \<le> length s") (fastforce simp: find_sub_from_def dest: find_sub_Some_le)+

function ParseHeaders_loop :: "string \<Rightarrow> nat \<Rightarrow> headers \<Rightarrow> nat option \<Rightarrow> (headers \<times> nat option) Result" where
  "ParseHeaders_loop header_block offset headers content_length =
     (if offset < length header_block then
        (let line_end = find_sub_from kLineTerminator offset header_block;
             next = (case line_end of None \<Rightarrow> length header_block | Some n \<Rightarrow> n);
             line = substr offset (next - offset) header_block
         in case (if line \<noteq> [] then ParseHeaderLine line headers content_length else Inr (headers, content_length)) of
              Inl e \<Rightarrow> Inl e
            | Inr (headers, content_length) \<Rightarrow>
                (case line_end of
                   None \<Rightarrow> Inr (headers, content_length)
                 | Some n \<Rightarrow> ParseHeaders_loop header_block (n + length kLineTerminator) headers content_length))
      else Inr (headers, content_length))"
  by pat_completeness auto
termination
  by (relation "measure (\<lambda>(b, offset, h, c). length b - offset)")
    (auto simp: kLineTerminator_def dest!: find_sub_from_le[OF sym])

declare ParseHeaders_loop.simps [simp del]

text \<open>\<open>ParseHeaders\<close> runs after \<open>ParseRequestLine\<close> found the first line terminator; were it absent, \<open>npos + 2\<close>
  would wrap to 1.\<close>

definition ParseHeaders :: "string \<Rightarrow> (headers \<times> nat option) Result" where
  "ParseHeaders header_block =
     ParseHeaders_loop header_block
       (case find_sub kLineTerminator header_block of None \<Rightarrow> 1 | Some n \<Rightarrow> n + length kLineTerminator) [] None"

section \<open>Reading\<close>

function ReadUntilHeadersComplete ::
  "'t HttpByteTransport \<Rightarrow> nat \<Rightarrow> nat \<Rightarrow> 't \<Rightarrow> string \<Rightarrow> 't \<times> string \<times> unit Result" where
  "ReadUntilHeadersComplete transport max_size buffer_size t raw =
     (if find_sub kHeaderDelimiter raw \<noteq> None then (t, raw, Inr ())
      else case tr_Read transport buffer_size t of
        (t, Inl e) \<Rightarrow> (t, raw, Inl e)
      | (t, Inr bytes) \<Rightarrow>
          if bytes = [] then (t, raw, Inl (Internal ''Unexpected end of stream while reading HTTP headers''))
          else let raw = raw @ bytes in
            if find_sub kHeaderDelimiter raw = None \<and> length raw > max_size
            then (t, raw, Inl (Validation ''HTTP request exceeds max_request_size before headers complete''))
            else ReadUntilHeadersComplete transport max_size buffer_size t raw)"
  by pat_completeness auto
termination
  by (relation "measure (\<lambda>(transport, m, n, t, raw).
      if find_sub kHeaderDelimiter raw \<noteq> None then 0 else Suc (Suc m - length raw))")
    (auto split: if_splits simp: neq_Nil_conv)

declare ReadUntilHeadersComplete.simps [simp del]

function ReadRemainingBody ::
  "'t HttpByteTransport \<Rightarrow> BodyReadLimits \<Rightarrow> nat \<Rightarrow> 't \<Rightarrow> string \<Rightarrow> 't \<times> string \<times> unit Result" where
  "ReadRemainingBody transport limits buffer_size t raw =
     (if size_sub (length raw) (body_start limits) < expected_body_size limits then
        case tr_Read transport buffer_size t of
          (t, Inl e) \<Rightarrow> (t, raw, Inl e)
        | (t, Inr bytes) \<Rightarrow>
            if bytes = [] then (t, raw, Inl (Internal ''Unexpected end of stream while reading HTTP body''))
            else let raw = raw @ bytes in
              if body_start limits + expected_body_size limits > limit_max_request_size limits
              then (t, raw, Inl (Validation ''HTTP request exceeds max_request_size while reading body''))
              else ReadRemainingBody transport limits buffer_size t raw
      else (t, raw, Inr ()))"
  by pat_completeness auto
termination
  by (relation "measure (\<lambda>(transport, limits, n, t, raw). body_start limits + expected_body_size limits - length raw)")
    (auto simp: size_sub_def neq_Nil_conv split: if_splits)

declare ReadRemainingBody.simps [simp del]

definition ReadRequest ::
  "HttpAdapter_Options \<Rightarrow> 't HttpByteTransport \<Rightarrow> string \<Rightarrow> 't \<Rightarrow> string \<Rightarrow> 't \<times> string \<times> HttpServerRequest Result" where
  "ReadRequest options transport remote_address t raw =
     (if read_buffer_size options = 0
      then (t, raw, Inl (Internal ''HTTP adapter read_buffer_size must be greater than zero''))
      else case ReadUntilHeadersComplete transport (max_request_size options) (read_buffer_size options) t raw of
        (t, raw, Inl e) \<Rightarrow> (t, raw, Inl e)
      | (t, raw, Inr _) \<Rightarrow>
          let header_end = the (find_sub kHeaderDelimiter raw);
              header_block = take header_end raw
          in case ParseRequestLine header_block of
               Inl e \<Rightarrow> (t, raw, Inl e)
             | Inr request_line \<Rightarrow>
                 (case ParseHeaders header_block of
                    Inl e \<Rightarrow> (t, raw, Inl e)
                  | Inr (headers, content_length) \<Rightarrow>
                      let start = header_end + length kHeaderDelimiter;
                          expected = (case content_length of None \<Rightarrow> 0 | Some n \<Rightarrow> n)
                      in if start > max_request_size options \<or> expected > max_request_size options - start
                         then (t, raw, Inl (Validation ''Content-Length exceeds max_request_size''))
                         else case ReadRemainingBody transport \<lparr>expected_body_size = expected, body_start = start,
                                limit_max_request_size = max_request_size options\<rparr> (read_buffer_size options) t raw of
                           (t, raw, Inl e) \<Rightarrow> (t, raw, Inl e)
                         | (t, raw, Inr _) \<Rightarrow>
                             (t, drop (start + expected) raw,
                              Inr \<lparr>req_method = line_method request_line, req_target = line_target request_line,
                                   req_headers = headers, req_body = substr start expected raw,
                                   req_remote_address = remote_address\<rparr>)))"

text \<open>\<open>ReadRequest\<close> without a connection state: what was read beyond the request is dropped.\<close>

definition ReadRequest_once ::
  "HttpAdapter_Options \<Rightarrow> 't HttpByteTransport \<Rightarrow> string \<Rightarrow> 't \<Rightarrow> 't \<times> HttpServerRequest Result" where
  "ReadRequest_once options transport remote_address t =
     (case ReadRequest options transport remote_address t [] of (t, raw, r) \<Rightarrow> (t, r))"

section \<open>Header tokens\<close>

text \<open>The loop over the comma-separated items of one header value.\<close>

function value_contains_token :: "string \<Rightarrow> string \<Rightarrow> nat \<Rightarrow> bool" where
  "value_contains_token value expected_token offset =
     (if offset \<le> length value then
        (let separator = find_from (\<lambda>c. c = CHR '','') offset value;
             finish = (case separator of None \<Rightarrow> length value | Some n \<Rightarrow> n)
         in if EqualsAsciiCaseInsensitive (Trim (substr offset (finish - offset) value)) expected_token then True
            else case separator of None \<Rightarrow> False | Some n \<Rightarrow> value_contains_token value expected_token (n + 1))
      else False)"
  by pat_completeness auto
termination
  by (relation "measure (\<lambda>(value, token, offset). Suc (length value) - offset)")
    (auto dest!: find_from_Some_le[OF sym])

declare value_contains_token.simps [simp del]

definition HeaderContainsToken :: "headers \<Rightarrow> string \<Rightarrow> string \<Rightarrow> bool" where
  "HeaderContainsToken headers header_name expected_token =
     list_ex (\<lambda>(name, value). EqualsAsciiCaseInsensitive name header_name \<and> value_contains_token value expected_token 0) headers"

definition IsConnectionReusable :: "HttpServerRequest \<Rightarrow> bool" where
  "IsConnectionReusable request =
     (\<not> HeaderContainsToken (req_headers request) kConnectionHeader kConnectionCloseHeaderValue)"

definition ShouldCloseConnection :: "HttpServerRequest \<Rightarrow> 't stream_writer HttpServerResponse \<Rightarrow> bool" where
  "ShouldCloseConnection request response =
     (\<not> IsConnectionReusable request \<or>
      HeaderContainsToken (resp_headers response) kConnectionHeader kConnectionCloseHeaderValue)"

section \<open>Writing\<close>

definition ReasonPhrase :: "int \<Rightarrow> string" where
  "ReasonPhrase status_code =
     (if status_code = 200 then ''OK''
      else if status_code = 201 then ''Created''
      else if status_code = 202 then ''Accepted''
      else if status_code = 204 then ''No Content''
      else if status_code = 400 then ''Bad Request''
      else if status_code = 401 then ''Unauthorized''
      else if status_code = 403 then ''Forbidden''
      else if status_code = 404 then ''Not Found''
      else if status_code = 405 then ''Method Not Allowed''
      else if status_code = 409 then ''Conflict''
      else if status_code = 413 then ''Payload Too Large''
      else if status_code = 415 then ''Unsupported Media Type''
      else if status_code = 422 then ''Unprocessable Entity''
      else if status_code = 429 then ''Too Many Requests''
      else if status_code = 500 then ''Internal Server Error''
      else if status_code = 501 then ''Not Implemented''
      else if status_code = 502 then ''Bad Gateway''
      else if status_code = 503 then ''Service Unavailable''
      else ''Unknown'')"

function WriteAll_loop :: "'t HttpByteTransport \<Rightarrow> string \<Rightarrow> nat \<Rightarrow> 't \<Rightarrow> 't \<times> unit Result" where
  "WriteAll_loop transport payload sent t =
     (if sent < length payload then
        case tr_Write transport (drop sent payload) t of
          (t, Inl e) \<Rightarrow> (t, Inl e)
        | (t, Inr written) \<Rightarrow>
            if written = 0 then (t, Inl (Internal ''Transport write returned zero bytes''))
            else WriteAll_loop transport payload (sent + written) t
      else (t, Inr ()))"
  by pat_completeness auto
termination
  by (relation "measure (\<lambda>(transport, payload, sent, t). length payload - sent)") auto

declare WriteAll_loop.simps [simp del]

definition WriteAll :: "'t HttpByteTransport \<Rightarrow> string \<Rightarrow> 't \<Rightarrow> 't \<times> unit Result" where
  "WriteAll transport payload t = WriteAll_loop transport payload 0 t"

text \<open>\<open>std::to_chars(..., size, 16)\<close>. The buffer holds every 64-bit value, so the conversion succeeds.\<close>

fun to_chars_hex :: "nat \<Rightarrow> string" where
  "to_chars_hex n =
     (if n < 16 then [''0123456789abcdef'' ! n] else to_chars_hex (n div 16) @ [''0123456789abcdef'' ! (n mod 16)])"

declare to_chars_hex.simps [simp del]

definition encode_chunk :: "string \<Rightarrow> string" where
  "encode_chunk buffer = to_chars_hex (length buffer) @ kLineTerminator @ buffer @ kLineTerminator"

definition ChunkedByteTransport :: "'t HttpByteTransport \<Rightarrow> 't HttpByteTransport" where
  "ChunkedByteTransport transport =
     \<lparr>tr_Read = tr_Read transport,
      tr_Write = (\<lambda>buffer t.
        if length buffer = 0 then (t, Inr 0)
        else case WriteAll transport (encode_chunk buffer) t of
          (t, Inl e) \<Rightarrow> (t, Inl e)
        | (t, Inr _) \<Rightarrow> (t, Inr (length buffer)))\<rparr>"

definition Chunked_Finish :: "'t HttpByteTransport \<Rightarrow> 't \<Rightarrow> 't \<times> unit Result" where
  "Chunked_Finish transport t = WriteAll transport kFinalChunk t"

definition ValidateResponseContentLength :: "'t stream_writer HttpServerResponse \<Rightarrow> string \<Rightarrow> bool \<Rightarrow> unit Result" where
  "ValidateResponseContentLength response value is_streaming =
     (if is_streaming then Inl (Validation ''Streaming responses cannot set Content-Length'')
      else case ParseContentLength value of
        Inl _ \<Rightarrow> Inl (Validation ''Response Content-Length header is invalid'')
      | Inr parsed_length \<Rightarrow>
          if parsed_length \<noteq> length (resp_body response)
          then Inl (Validation ''Response Content-Length header does not match body size'')
          else Inr ())"

definition header_line :: "string \<Rightarrow> string \<Rightarrow> string" where
  "header_line name value = name @ kHeaderNameValueSeparator @ value @ kLineTerminator"

primrec AppendResponseHeaders_loop ::
  "'t stream_writer HttpServerResponse \<Rightarrow> bool \<Rightarrow> bool \<Rightarrow> bool \<Rightarrow> headers \<Rightarrow> string \<Rightarrow> bool \<Rightarrow> (string \<times> bool) Result" where
  "AppendResponseHeaders_loop response is_streaming must_close requests_close [] payload has_content_length =
     Inr (payload, has_content_length)"
| "AppendResponseHeaders_loop response is_streaming must_close requests_close (h # hs) payload has_content_length =
     (let (name, value) = h in
      if EqualsAsciiCaseInsensitive name kTransferEncodingHeader
      then Inl (Validation ''Response Transfer-Encoding is owned by the HTTP adapter'')
      else result_bind
        (if EqualsAsciiCaseInsensitive name kContentLengthHeader
         then result_bind (ValidateResponseContentLength response value is_streaming) (\<lambda>_. Inr True)
         else Inr has_content_length)
        (\<lambda>has_content_length.
           if EqualsAsciiCaseInsensitive name kConnectionHeader \<and> must_close \<and> \<not> requests_close
           then AppendResponseHeaders_loop response is_streaming must_close requests_close hs payload has_content_length
           else AppendResponseHeaders_loop response is_streaming must_close requests_close hs
                  (payload @ header_line name value) has_content_length))"

definition AppendResponseHeaders ::
  "'t stream_writer HttpServerResponse \<Rightarrow> bool \<Rightarrow> bool \<Rightarrow> bool \<Rightarrow> string \<Rightarrow> (string \<times> bool) Result" where
  "AppendResponseHeaders response is_streaming must_close requests_close payload =
     AppendResponseHeaders_loop response is_streaming must_close requests_close (resp_headers response) payload False"

text \<open>The bytes of the response up to its body.\<close>

definition response_head :: "'t stream_writer HttpServerResponse \<Rightarrow> bool \<Rightarrow> string Result" where
  "response_head response close_connection =
     (let is_streaming = resp_stream_writer response \<noteq> None;
          requests_close = HeaderContainsToken (resp_headers response) kConnectionHeader kConnectionCloseHeaderValue;
          must_close = (close_connection \<or> requests_close);
          payload = kHttpVersion11 @ '' '' @ to_string_int (resp_status_code response) @ '' '' @
            ReasonPhrase (resp_status_code response) @ kLineTerminator
      in result_bind (AppendResponseHeaders response is_streaming must_close requests_close payload)
           (\<lambda>(payload, has_content_length).
              let payload = payload @
                    (if \<not> has_content_length \<and> \<not> is_streaming
                     then header_line kContentLengthHeaderName (to_string_nat (length (resp_body response))) else []) @
                    (if is_streaming \<and> \<not> must_close
                     then header_line kTransferEncodingHeaderName kTransferEncodingChunked else []) @
                    (if must_close \<and> \<not> requests_close
                     then header_line kConnectionHeaderName kConnectionCloseHeaderValue else [])
              in Inr (payload @ kLineTerminator)))"

definition WriteResponse :: "'t HttpByteTransport \<Rightarrow> 't stream_writer HttpServerResponse \<Rightarrow> bool \<Rightarrow> 't \<Rightarrow> 't \<times> unit Result" where
  "WriteResponse transport response close_connection t =
     (case response_head response close_connection of
        Inl e \<Rightarrow> (t, Inl e)
      | Inr payload \<Rightarrow>
          (case resp_stream_writer response of
             None \<Rightarrow> WriteAll transport (payload @ resp_body response) t
           | Some stream_writer \<Rightarrow>
               (case WriteAll transport payload t of
                  (t, Inl e) \<Rightarrow> (t, Inl e)
                | (t, Inr _) \<Rightarrow>
                    if close_connection \<or>
                       HeaderContainsToken (resp_headers response) kConnectionHeader kConnectionCloseHeaderValue
                    then stream_writer transport t
                    else case stream_writer (ChunkedByteTransport transport) t of
                      (t, Inl e) \<Rightarrow> (t, Inl e)
                    | (t, Inr _) \<Rightarrow> Chunked_Finish transport t)))"

section \<open>A socket as the transport\<close>

text \<open>\<open>SocketTransport\<close> of \<open>examples/apps/streaming_server/main.cpp\<close> over a connected stream socket: \<open>recv\<close> returns
  some of the bytes that have arrived, in segments the network chose, and nothing after the peer closed; \<open>send\<close>
  accepts some of the bytes, as many as the kernel chose (at least one).\<close>

record Socket =
  sock_incoming :: "string list"
  sock_sent :: string
  sock_accepts :: "nat list"

fun recv :: "nat \<Rightarrow> string list \<Rightarrow> string list \<times> string" where
  "recv n [] = ([], [])"
| "recv n (seg # segs) =
     (if seg = [] then recv n segs
      else if length seg \<le> n then (segs, seg) else (drop n seg # segs, take n seg))"

definition send_count :: "nat \<Rightarrow> nat list \<Rightarrow> nat" where
  "send_count n accepts = (case accepts of [] \<Rightarrow> n | k # _ \<Rightarrow> min n (Suc k))"

definition SocketTransport :: "Socket HttpByteTransport" where
  "SocketTransport =
     \<lparr>tr_Read = (\<lambda>n t. let (segs, bytes) = recv n (sock_incoming t) in (t\<lparr>sock_incoming := segs\<rparr>, Inr bytes)),
      tr_Write = (\<lambda>bytes t. let n = send_count (length bytes) (sock_accepts t)
        in (t\<lparr>sock_sent := sock_sent t @ take n bytes, sock_accepts := tl (sock_accepts t)\<rparr>, Inr n))\<rparr>"

end
