(* ===== verification/Http_Adapter_Props.thy ===== *)
theory Http_Adapter_Props
  imports Http_Adapter
begin

text \<open>
  Properties of the HTTP adapter: how a request is read does not depend on how the network cut it into pieces, memory
  is bounded by the configured sizes, and what a client reads from a written response is what the server meant to send.
  The transports are interfaces (\<open>byte_source\<close>, \<open>byte_sink\<close>), instantiated by the socket transport and, for writing,
  by the chunked transport on top of any other.
\<close>

section \<open>Searching\<close>

lemma find_sub_hit: "prefix needle (drop i s) \<Longrightarrow> i \<le> length s \<Longrightarrow> \<exists>n\<le>i. find_sub needle s = Some n"
proof (induction s arbitrary: i)
  case (Cons x xs)
  show ?case
  proof (cases "prefix needle (x # xs)")
    case False
    with Cons.prems obtain j where j: "i = Suc j" by (cases i) auto
    with Cons obtain n where "n \<le> j" "find_sub needle xs = Some n" by auto
    with False j show ?thesis by simp
  qed simp
qed simp

lemma find_sub_within:
  assumes "find_sub needle (s @ t) = Some n" "n + length needle \<le> length s"
  shows "find_sub needle s = Some n"
proof -
  have "prefix needle (drop n s @ t)" using find_sub_Some_prefix[OF assms(1)] assms(2) by simp
  with assms(2) have "prefix needle (drop n s)"
    using prefix_length_prefix[of needle "drop n s @ t" "drop n s"] by simp
  then obtain m where "find_sub needle s = Some m" using find_sub_hit[of needle n s] assms(2) by auto
  with find_sub_append[OF this, of t] assms(1) show ?thesis by simp
qed

lemma length_delimiters [simp]: "length kHeaderDelimiter = 4" "length kLineTerminator = 2"
  by (simp_all add: kHeaderDelimiter_def kLineTerminator_def)

section \<open>Reading from a byte stream\<close>

locale byte_source =
  fixes transport :: "'t HttpByteTransport"
    and good :: "'t \<Rightarrow> bool"
    and pending :: "'t \<Rightarrow> string"
  assumes read_spec: "good t \<Longrightarrow> 0 < n \<Longrightarrow> \<exists>t' bytes. tr_Read transport n t = (t', Inr bytes) \<and> good t' \<and>
      pending t = bytes @ pending t' \<and> length bytes \<le> n \<and> (bytes = [] \<longrightarrow> pending t = [])"

text \<open>What there is to read: the reference parser on the whole input.\<close>

definition request_of :: "nat \<Rightarrow> string \<Rightarrow> string \<Rightarrow> (HttpServerRequest \<times> string) option" where
  "request_of max_size remote_address input =
     (case find_sub kHeaderDelimiter input of
        None \<Rightarrow> None
      | Some header_end \<Rightarrow>
          (case (ParseRequestLine (take header_end input), ParseHeaders (take header_end input)) of
             (Inr line, Inr (headers, content_length)) \<Rightarrow>
               let start = header_end + 4; n = (case content_length of None \<Rightarrow> 0 | Some n \<Rightarrow> n)
               in if start + n \<le> max_size \<and> start + n \<le> length input
                  then Some (\<lparr>req_method = line_method line, req_target = line_target line, req_headers = headers,
                              req_body = substr start n input, req_remote_address = remote_address\<rparr>,
                             drop (start + n) input)
                  else None
           | _ \<Rightarrow> None))"

context byte_source
begin

lemma headers_read:
  assumes "good t" "0 < n" "ReadUntilHeadersComplete transport m n t raw = (t', raw', r)"
  shows "good t' \<and> raw' @ pending t' = raw @ pending t \<and> 
    (case r of Inr _ \<Rightarrow> \<exists>h. find_sub kHeaderDelimiter raw' = Some h \<and> length raw' \<le> max (length raw) (h + 4 + n)
     | Inl _ \<Rightarrow> \<forall>h. find_sub kHeaderDelimiter (raw @ pending t) = Some h \<longrightarrow> m < h + 4)"
  using assms
proof (induction tr\<equiv>transport m n t raw rule: ReadUntilHeadersComplete.induct)
  case (1 m n t raw)
  show ?case
  proof (cases "find_sub kHeaderDelimiter raw")
    case (Some h)
    with 1(2-4) show ?thesis by (auto simp: ReadUntilHeadersComplete.simps[of _ m n t raw])
  next
    case None
    from read_spec[OF 1(2,3)] obtain t1 bytes where read: "tr_Read transport n t = (t1, Inr bytes)" "good t1"
      "pending t = bytes @ pending t1" "length bytes \<le> n" "bytes = [] \<longrightarrow> pending t = []" by blast
    show ?thesis
    proof (cases "bytes = []")
      case True
      with None read 1(2,4) show ?thesis by (auto simp: ReadUntilHeadersComplete.simps[of _ m n t raw])
    next
      case nonempty: False
      let ?raw = "raw @ bytes"
      show ?thesis
      proof (cases "find_sub kHeaderDelimiter ?raw = None \<and> length ?raw > m")
        case True
        have "m < h + 4" if "find_sub kHeaderDelimiter (?raw @ pending t1) = Some h" for h
          using find_sub_within[OF that] True by (cases "h + 4 \<le> length ?raw") auto
        with True None nonempty read 1(4) show ?thesis
          by (auto simp: ReadUntilHeadersComplete.simps[of _ m n t raw] Let_def)
      next
        case False
        have eq: "ReadUntilHeadersComplete transport m n t1 ?raw = (t', raw', r)"
          using 1(4) None nonempty read(1) False
          by (auto simp: ReadUntilHeadersComplete.simps[of _ m n t raw] Let_def split: if_splits)
        note IH = 1(1)[OF _ read(1)[symmetric] refl nonempty refl False read(2) 1(3) eq, simplified None, simplified]
        have "length ?raw \<le> h + 4 + n" if "find_sub kHeaderDelimiter raw' = Some h" for h
        proof -
          have "find_sub kHeaderDelimiter (raw @ pending t) = Some h"
            using find_sub_append[OF that, of "pending t'"] IH read(3) by simp
          with find_sub_within[of kHeaderDelimiter raw "pending t" h] None have "length raw < h + 4"
            by (cases "h + 4 \<le> length raw") auto
          with read(4) show ?thesis by simp
        qed
        with IH read(3) show ?thesis by (auto split: sum.splits)
      qed
    qed
  qed
qed

lemma body_read:
  assumes "good t" "0 < n" "ReadRemainingBody transport limits n t raw = (t', raw', r)"
    and "body_start limits \<le> length raw"
    and "body_start limits + expected_body_size limits \<le> limit_max_request_size limits"
  shows "good t' \<and> raw' @ pending t' = raw @ pending t \<and>
    length raw' \<le> max (length raw) (body_start limits + expected_body_size limits + n) \<and>
    (case r of Inr _ \<Rightarrow> body_start limits + expected_body_size limits \<le> length raw'
     | Inl _ \<Rightarrow> length (raw @ pending t) < body_start limits + expected_body_size limits)"
  using assms
proof (induction tr\<equiv>transport limits n t raw rule: ReadRemainingBody.induct)
  case (1 limits n t raw)
  show ?case
  proof (cases "size_sub (length raw) (body_start limits) < expected_body_size limits")
    case False
    with 1(2,4,5) show ?thesis by (auto simp: ReadRemainingBody.simps[of _ limits n t raw])
  next
    case more: True
    with 1(5) have len: "length raw < body_start limits + expected_body_size limits" by simp
    from read_spec[OF 1(2,3)] obtain t1 bytes where read: "tr_Read transport n t = (t1, Inr bytes)" "good t1"
      "pending t = bytes @ pending t1" "length bytes \<le> n" "bytes = [] \<longrightarrow> pending t = []" by blast
    show ?thesis
    proof (cases "bytes = []")
      case True
      with more len read 1(4) show ?thesis by (auto simp: ReadRemainingBody.simps[of _ limits n t raw])
    next
      case nonempty: False
      have limit: "\<not> limit_max_request_size limits < body_start limits + expected_body_size limits" using 1(6) by simp
      have eq: "ReadRemainingBody transport limits n t1 (raw @ bytes) = (t', raw', r)"
        using 1(4) more nonempty read(1) limit by (simp add: ReadRemainingBody.simps[of _ limits n t raw] Let_def)
      have "body_start limits \<le> length (raw @ bytes)" using 1(5) by simp
      from 1(1)[OF more read(1)[symmetric] refl nonempty refl limit read(2) 1(3) eq this 1(6)] read(3,4) len
      show ?thesis by (auto split: sum.splits)
    qed
  qed
qed

text \<open>A request is read as if the whole input were there at once, and what is left over is what follows it.\<close>

lemma read_request:
  assumes "good t" "0 < read_buffer_size opts"
    and "ReadRequest opts transport addr t raw = (t', raw', r)"
  shows "good t' \<and>
    (case r of
       Inr req \<Rightarrow> request_of (max_request_size opts) addr (raw @ pending t) = Some (req, raw' @ pending t') \<and>
         length raw' \<le> max (length raw) (max_request_size opts + read_buffer_size opts)
     | Inl _ \<Rightarrow> request_of (max_request_size opts) addr (raw @ pending t) = None)"
proof -
  define inp where inp: "inp = raw @ pending t"
  let ?m = "max_request_size opts" and ?n = "read_buffer_size opts"
  obtain t1 raw1 r1 where h: "ReadUntilHeadersComplete transport ?m ?n t raw = (t1, raw1, r1)" by (cases rule: prod_cases3)
  note hs = headers_read[OF assms(1,2) h, folded inp]
  have "good t' \<and>
    (case r of
       Inr req \<Rightarrow> request_of ?m addr inp = Some (req, raw' @ pending t') \<and> length raw' \<le> max (length raw) (?m + ?n)
     | Inl _ \<Rightarrow> request_of ?m addr inp = None)"
  proof (cases r1)
    case (Inl e)
    have "request_of ?m addr inp = None"
    proof (cases "find_sub kHeaderDelimiter inp")
      case (Some k)
      with hs Inl have "\<not> k + 4 + l \<le> ?m" for l by auto
      with Some show ?thesis by (auto simp: request_of_def Let_def split: sum.split prod.split)
    qed (simp add: request_of_def)
    with assms(2,3) h Inl hs show ?thesis by (auto simp: ReadRequest_def)
  next
    case (Inr u)
    with hs obtain k where k: "find_sub kHeaderDelimiter raw1 = Some k" "length raw1 \<le> max (length raw) (k + 4 + ?n)"
      and good: "good t1" and input: "inp = raw1 @ pending t1" by (auto simp: inp)
    have k': "find_sub kHeaderDelimiter inp = Some k" using find_sub_append[OF k(1)] input by simp
    have len: "k + 4 \<le> length raw1" using find_sub_Some_le[OF k(1)] by simp
    then have block: "take k inp = take k raw1" using input by simp
    note eqs = ReadRequest_def h Inr k(1) request_of_def k' block
    show ?thesis
    proof (cases "(\<exists>e. ParseRequestLine (take k raw1) = Inl e) \<or> (\<exists>e. ParseHeaders (take k raw1) = Inl e)")
      case True
      with assms(2,3) good show ?thesis by (auto simp: eqs Let_def split: sum.splits)
    next
      case False
      then obtain line hdrs cl where parsed: "ParseRequestLine (take k raw1) = Inr line" "ParseHeaders (take k raw1) = Inr (hdrs, cl)"
        by (metis surj_pair sum.exhaust)
      define size where "size = (case cl of None \<Rightarrow> 0 | Some n \<Rightarrow> n)"
      let ?limits = "\<lparr>expected_body_size = size, body_start = k + 4, limit_max_request_size = ?m\<rparr>"
      show ?thesis
      proof (cases "k + 4 + size \<le> ?m")
        case False
        then have "k + 4 > ?m \<or> size > ?m - (k + 4)" by linarith
        with False assms(2,3) good parsed show ?thesis by (auto simp: eqs Let_def size_def[symmetric])
      next
        case fits: True
        obtain t2 raw2 r2 where b: "ReadRemainingBody transport ?limits ?n t1 raw1 = (t2, raw2, r2)" by (cases rule: prod_cases3)
        from body_read[OF good assms(2) b] len fits have bs: "good t2" "raw2 @ pending t2 = inp"
          "length raw2 \<le> max (length raw1) (k + 4 + size + ?n)"
          "case r2 of Inr _ \<Rightarrow> k + 4 + size \<le> length raw2 | Inl _ \<Rightarrow> length inp < k + 4 + size"
          by (simp_all add: input split: sum.splits)
        have pre: "\<not> (k + length kHeaderDelimiter > ?m \<or> size > ?m - (k + length kHeaderDelimiter))" using fits by simp
        show ?thesis
        proof (cases r2)
          case (Inl e)
          with assms(2,3) b bs(1,4) parsed pre show ?thesis by (auto simp: eqs Let_def size_def[symmetric])
        next
          case ok: (Inr u2)
          have total: "k + 4 + size \<le> length raw2" "k + 4 + size \<le> length inp"
            using bs(2,4) ok arg_cong[OF bs(2), of length] by auto
          have sub: "substr (k + 4) size inp = substr (k + 4) size raw2"
            "drop (k + 4 + size) inp = drop (k + 4 + size) raw2 @ pending t2"
            using total(1) by (simp_all add: substr_def flip: bs(2))
          from assms(2,3) b ok parsed pre
          have res: "t' = t2" "raw' = drop (k + 4 + size) raw2" "r = Inr \<lparr>req_method = line_method line,
            req_target = line_target line, req_headers = hdrs, req_body = substr (k + 4) size raw2, req_remote_address = addr\<rparr>"
            by (simp_all add: ReadRequest_def h Inr k(1) Let_def size_def[symmetric])
          have "length raw' \<le> max (length raw) (?m + ?n)" using res(2) bs(3) k(2) fits by auto
          with res bs(1) parsed total fits show ?thesis
            by (simp add: request_of_def k' block Let_def size_def[symmetric] sub)
        qed
      qed
    qed
  qed
  then show ?thesis unfolding inp .
qed

end

section \<open>Writing to a byte sink\<close>

locale byte_sink =
  fixes transport :: "'t HttpByteTransport"
    and written :: "'t \<Rightarrow> string"
  assumes write_spec: "bytes \<noteq> [] \<Longrightarrow> \<exists>t' n. tr_Write transport bytes t = (t', Inr n) \<and> 0 < n \<and> n \<le> length bytes \<and>
      written t' = written t @ take n bytes"

context byte_sink
begin

lemma write_loop:
  "sent \<le> length payload \<Longrightarrow>
    \<exists>t'. WriteAll_loop transport payload sent t = (t', Inr ()) \<and> written t' = written t @ drop sent payload"
proof (induction "length payload - sent" arbitrary: sent t rule: less_induct)
  case less
  show ?case
  proof (cases "sent < length payload")
    case False
    then show ?thesis by (simp add: WriteAll_loop.simps)
  next
    case True
    then obtain t1 n where w: "tr_Write transport (drop sent payload) t = (t1, Inr n)" "0 < n" "n \<le> length payload - sent"
      "written t1 = written t @ take n (drop sent payload)" using write_spec[of "drop sent payload" t] by auto
    have "length payload - (sent + n) < length payload - sent" "sent + n \<le> length payload" using w(2,3) True by linarith+
    from less.hyps[OF this, of t1] obtain t' where t': "WriteAll_loop transport payload (sent + n) t1 = (t', Inr ())"
      "written t' = written t1 @ drop (sent + n) payload" by blast
    have "take n (drop sent payload) @ drop (sent + n) payload = drop sent payload"
      by (metis add.commute append_take_drop_id drop_drop)
    with True w t' show ?thesis by (simp add: WriteAll_loop.simps[of _ payload sent t])
  qed
qed

lemma write_all: "\<exists>t'. WriteAll transport payload t = (t', Inr ()) \<and> written t' = written t @ payload"
  using write_loop[of 0 payload t] by (simp add: WriteAll_def)

end

text \<open>Writing a list of pieces through whatever transport the adapter passes: what the stream writers do.\<close>

primrec write_pieces :: "string list \<Rightarrow> 't stream_writer" where
  "write_pieces [] transport t = (t, Inr ())"
| "write_pieces (p # ps) transport t =
     (case WriteAll transport p t of (t, Inl e) \<Rightarrow> (t, Inl e) | (t, Inr _) \<Rightarrow> write_pieces ps transport t)"

context byte_sink
begin

lemma write_list: "\<exists>t'. write_pieces ps transport t = (t', Inr ()) \<and> written t' = written t @ concat ps"
proof (induction ps arbitrary: t)
  case (Cons p ps)
  obtain t1 where "WriteAll transport p t = (t1, Inr ())" "written t1 = written t @ p" using write_all by blast
  with Cons[of t1] show ?case by auto
qed simp

lemma chunked_write:
  "bytes \<noteq> [] \<Longrightarrow> \<exists>t'. tr_Write (ChunkedByteTransport transport) bytes t = (t', Inr (length bytes)) \<and>
     written t' = written t @ encode_chunk bytes"
  using write_all[of "encode_chunk bytes" t] by (auto simp: ChunkedByteTransport_def)

lemma chunked_write_all:
  "\<exists>t'. WriteAll (ChunkedByteTransport transport) p t = (t', Inr ()) \<and>
     written t' = written t @ (if p = [] then [] else encode_chunk p)"
proof (cases "p = []")
  case False
  with chunked_write[OF False, of t] show ?thesis
    by (auto simp: WriteAll_def WriteAll_loop.simps[of _ p 0] WriteAll_loop.simps[of _ p "length p"])
qed (simp add: WriteAll_def WriteAll_loop.simps)

lemma chunked_write_list:
  "\<exists>t'. write_pieces ps (ChunkedByteTransport transport) t = (t', Inr ()) \<and>
     written t' = written t @ concat (map encode_chunk (filter (\<lambda>p. p \<noteq> []) ps))"
proof (induction ps arbitrary: t)
  case (Cons p ps)
  obtain t1 where "WriteAll (ChunkedByteTransport transport) p t = (t1, Inr ())"
    "written t1 = written t @ (if p = [] then [] else encode_chunk p)" using chunked_write_all by blast
  with Cons[of t1] show ?case by auto
qed simp

end

section \<open>Decoding the chunked encoding\<close>

definition hex_digit_val :: "char \<Rightarrow> nat" where
  "hex_digit_val c = (case index_of (\<lambda>d. d = c) ''0123456789abcdef'' of None \<Rightarrow> 0 | Some n \<Rightarrow> n)"

definition hex_val :: "string \<Rightarrow> nat" where
  "hex_val s = foldl (\<lambda>a c. 16 * a + hex_digit_val c) 0 s"

text \<open>A chunked body as a client decodes it (RFC 9112, without extensions and trailers): the payload and the rest.\<close>

function dechunk :: "string \<Rightarrow> (string \<times> string) option" where
  "dechunk input =
     (case find_sub kLineTerminator input of
        None \<Rightarrow> None
      | Some k \<Rightarrow>
          let n = hex_val (take k input); rest = drop (k + 2) input in
          if take 2 (drop n rest) \<noteq> kLineTerminator then None
          else if n = 0 then Some ([], drop 2 rest)
          else map_option (apfst ((@) (take n rest))) (dechunk (drop (n + 2) rest)))"
  by pat_completeness auto
termination
proof (relation "measure length")
  fix input :: string and k n rest
  assume "find_sub kLineTerminator input = Some k" "rest = drop (k + 2) input"
  then show "(drop (n + 2) rest, input) \<in> measure length" using find_sub_Some_le[of kLineTerminator input k] by simp
qed simp

declare dechunk.simps [simp del]

lemma hex_digit_nth: "n < 16 \<Longrightarrow> hex_digit_val (''0123456789abcdef'' ! n) = n"
proof -
  have "\<forall>n\<in>set [0..<16]. hex_digit_val (''0123456789abcdef'' ! n) = n" by code_simp
  then show "n < 16 \<Longrightarrow> hex_digit_val (''0123456789abcdef'' ! n) = n" by simp
qed

lemma hex_val_to_chars [simp]: "hex_val (to_chars_hex n) = n"
proof (induction n rule: to_chars_hex.induct)
  case (1 n)
  then show ?case
    by (cases "n < 16") (simp_all add: to_chars_hex.simps[of n] hex_val_def hex_digit_nth)
qed

lemma to_chars_hex_clean: "CHR 0x0D \<notin> set (to_chars_hex n)"
proof (induction n rule: to_chars_hex.induct)
  case (1 n)
  have "CHR 0x0D \<noteq> ''0123456789abcdef'' ! k" if "k < 16" for k
    using nth_mem[of k "''0123456789abcdef''"] that by auto
  then have "CHR 0x0D \<noteq> ''0123456789abcdef'' ! (n mod 16)" "n < 16 \<Longrightarrow> CHR 0x0D \<noteq> ''0123456789abcdef'' ! n" by simp_all
  with 1 show ?case by (cases "n < 16") (simp_all add: to_chars_hex.simps[of n])
qed

lemma find_line_end: "CHR 0x0D \<notin> set s \<Longrightarrow> find_sub kLineTerminator (s @ kLineTerminator @ t) = Some (length s)"
  by (induction s) (auto simp: kLineTerminator_def)

lemma dechunk_chunk:
  assumes "p \<noteq> []"
  shows "dechunk (encode_chunk p @ t) = map_option (apfst ((@) p)) (dechunk t)"
proof -
  have "encode_chunk p @ t = to_chars_hex (length p) @ kLineTerminator @ (p @ kLineTerminator @ t)"
    by (simp add: encode_chunk_def)
  then show ?thesis
    using assms by (simp only:) (subst dechunk.simps, simp add: find_line_end[OF to_chars_hex_clean] Let_def)
qed

lemma dechunk_final: "dechunk (kFinalChunk @ t) = Some ([], t)"
proof -
  have "find_sub kLineTerminator (kFinalChunk @ t) = Some 1"
    using find_line_end[of "''0''" "kLineTerminator @ t"] by (simp add: kFinalChunk_def kHeaderDelimiter_def kLineTerminator_def)
  moreover have "hex_val ''0'' = 0" by code_simp
  ultimately show ?thesis
    by (simp add: dechunk.simps[of "kFinalChunk @ t"]) (simp add: kFinalChunk_def kHeaderDelimiter_def kLineTerminator_def)
qed

lemma dechunk_pieces:
  "dechunk (concat (map encode_chunk (filter (\<lambda>p. p \<noteq> []) ps)) @ kFinalChunk @ t) = Some (concat ps, t)"
  by (induction ps) (simp_all add: dechunk_final dechunk_chunk)

section \<open>The socket transport\<close>

lemma recv_spec:
  "0 < n \<Longrightarrow> recv n segs = (segs', bytes) \<Longrightarrow>
    concat segs = bytes @ concat segs' \<and> length bytes \<le> n \<and> (bytes = [] \<longrightarrow> concat segs = [])"
  by (induction n segs rule: recv.induct) (auto split: if_splits)

interpretation socket_in: byte_source SocketTransport "\<lambda>_. True" "\<lambda>t. concat (sock_incoming t)"
proof
  fix t :: Socket and n :: nat
  assume "0 < n"
  obtain segs bytes where r: "recv n (sock_incoming t) = (segs, bytes)" by fastforce
  from recv_spec[OF \<open>0 < n\<close> r] r show "\<exists>t' bytes. tr_Read SocketTransport n t = (t', Inr bytes) \<and> True \<and>
      concat (sock_incoming t) = bytes @ concat (sock_incoming t') \<and> length bytes \<le> n \<and>
      (bytes = [] \<longrightarrow> concat (sock_incoming t) = [])"
    by (intro exI[of _ "t\<lparr>sock_incoming := segs\<rparr>"] exI[of _ bytes]) (simp add: SocketTransport_def, metis append_Nil concat_eq_Nil_conv)
qed

interpretation socket_out: byte_sink SocketTransport sock_sent
proof
  fix bytes :: string and t :: Socket
  assume "bytes \<noteq> []"
  then have "0 < send_count (length bytes) (sock_accepts t)" "send_count (length bytes) (sock_accepts t) \<le> length bytes"
    by (simp_all add: send_count_def split: list.split)
  then show "\<exists>t' n. tr_Write SocketTransport bytes t = (t', Inr n) \<and> 0 < n \<and> n \<le> length bytes \<and>
      sock_sent t' = sock_sent t @ take n bytes"
    by (simp add: SocketTransport_def Let_def)
qed

section \<open>Header blocks as lines\<close>

fun crlf_join :: "string list \<Rightarrow> string" where
  "crlf_join [] = []"
| "crlf_join [l] = l"
| "crlf_join (l # m # ls) = l @ kLineTerminator @ crlf_join (m # ls)"

fun parse_lines :: "string list \<Rightarrow> headers \<Rightarrow> nat option \<Rightarrow> (headers \<times> nat option) Result" where
  "parse_lines [] hs cl = Inr (hs, cl)"
| "parse_lines (l # ls) hs cl = result_bind (ParseHeaderLine l hs cl) (\<lambda>(hs, cl). parse_lines ls hs cl)"

definition clean_line :: "string \<Rightarrow> bool" where
  "clean_line l \<longleftrightarrow> l \<noteq> [] \<and> CHR 0x0D \<notin> set l"

lemma crlf_lines: "ls \<noteq> [] \<Longrightarrow> concat (map (\<lambda>l. l @ kLineTerminator) ls) = crlf_join ls @ kLineTerminator"
  by (induction ls rule: crlf_join.induct) auto

lemma find_sub_skip:
  assumes "needle = CHR 0x0D # ns" "CHR 0x0D \<notin> set l"
  shows "find_sub needle (l @ s) = map_option ((+) (length l)) (find_sub needle s)"
  using assms(2)
proof (induction l)
  case Nil
  then show ?case by (simp add: option.map_ident)
next
  case (Cons c l)
  then show ?case by (auto simp: assms(1) option.map_comp comp_def)
qed

lemma delimiter_starts: "kHeaderDelimiter = CHR 0x0D # tl kHeaderDelimiter"
  by (simp add: kHeaderDelimiter_def)

lemma find_delimiter_skip:
  assumes "CHR 0x0D \<notin> set l" "c \<noteq> CHR 0x0D"
  shows "find_sub kHeaderDelimiter (l @ kLineTerminator @ c # s) = map_option (\<lambda>n. Suc (Suc (length l + n))) (find_sub kHeaderDelimiter (c # s))"
proof -
  have "find_sub kHeaderDelimiter (kLineTerminator @ c # s) = map_option (\<lambda>n. Suc (Suc n)) (find_sub kHeaderDelimiter (c # s))"
    using assms(2) by (simp add: kLineTerminator_def kHeaderDelimiter_def option.map_comp comp_def)
  then show ?thesis
    by (simp add: find_sub_skip[OF delimiter_starts assms(1)] option.map_comp comp_def del: find_sub.simps)
qed

lemma find_delimiter_block:
  assumes "\<forall>l\<in>set ls. clean_line l"
  shows "find_sub kHeaderDelimiter (crlf_join ls @ kHeaderDelimiter @ s) = Some (length (crlf_join ls))"
  using assms
proof (induction ls rule: crlf_join.induct)
  case 1
  then show ?case by (simp add: kHeaderDelimiter_def)
next
  case (2 l)
  have "find_sub kHeaderDelimiter (kHeaderDelimiter @ s) = Some 0" by (simp add: kHeaderDelimiter_def)
  with 2 find_sub_skip[OF delimiter_starts, of l "kHeaderDelimiter @ s"] show ?case by (simp add: clean_line_def)
next
  case (3 l m ls)
  obtain c x where c: "crlf_join (m # ls) @ kHeaderDelimiter @ s = c # x" "c \<noteq> CHR 0x0D"
  proof -
    from 3(2) have "clean_line m" by simp
    then obtain c m' where "m = c # m'" "c \<noteq> CHR 0x0D" by (cases m) (auto simp: clean_line_def)
    then show ?thesis using that by (cases ls) auto
  qed
  with 3 find_delimiter_skip[of l c x] show ?case by (simp add: clean_line_def)
qed

lemma headers_loop_line:
  assumes "clean_line l"
  shows "ParseHeaders_loop (p @ l @ kLineTerminator @ s) (length p) hs cl =
    result_bind (ParseHeaderLine l hs cl)
      (\<lambda>(hs, cl). ParseHeaders_loop (p @ l @ kLineTerminator @ s) (length p + length l + 2) hs cl)"
proof -
  have "find_sub_from kLineTerminator (length p) (p @ l @ kLineTerminator @ s) = Some (length p + length l)"
    using find_line_end assms by (simp add: find_sub_from_def clean_line_def)
  with assms show ?thesis
    by (simp add: ParseHeaders_loop.simps[of "p @ l @ kLineTerminator @ s" "length p"] clean_line_def Let_def substr_def
      result_bind_def split: sum.split)
qed

lemma headers_loop_last:
  assumes "clean_line l"
  shows "ParseHeaders_loop (p @ l) (length p) hs cl = ParseHeaderLine l hs cl"
proof -
  have "find_sub kLineTerminator l = None"
    using find_sub_skip[of kLineTerminator "[CHR 0x0A]" l "[]"] assms by (simp add: kLineTerminator_def clean_line_def)
  then have "find_sub_from kLineTerminator (length p) (p @ l) = None" by (simp add: find_sub_from_def)
  with assms show ?thesis
    by (simp add: ParseHeaders_loop.simps[of "p @ l" "length p"] clean_line_def substr_def split: sum.split)
qed

lemma headers_loop_lines:
  assumes "\<forall>l\<in>set ls. clean_line l" "ls \<noteq> []"
  shows "ParseHeaders_loop (p @ crlf_join ls) (length p) hs cl = parse_lines ls hs cl"
  using assms
proof (induction ls arbitrary: p hs cl rule: crlf_join.induct)
  case (2 l)
  then show ?case by (cases "ParseHeaderLine l hs cl") (auto simp: headers_loop_last)
next
  case (3 l m ls)
  have "ParseHeaders_loop (p @ l @ kLineTerminator @ crlf_join (m # ls)) (length p + length l + 2) hs' cl' = parse_lines (m # ls) hs' cl'"
    for hs' cl' using 3(1)[of "p @ l @ kLineTerminator" hs' cl'] 3(2) by (simp add: add.assoc)
  with 3(2) show ?case by (cases "ParseHeaderLine l hs cl") (auto simp: headers_loop_line)
qed simp

lemma ParseHeaders_lines:
  assumes "\<forall>l\<in>set (first # ls). clean_line l" "ls \<noteq> []"
  shows "ParseHeaders (crlf_join (first # ls)) = parse_lines ls [] None"
proof -
  obtain m ms where ls: "ls = m # ms" using assms(2) by (cases ls) auto
  then have "find_sub kLineTerminator (crlf_join (first # ls)) = Some (length first)"
    using find_line_end[of first "crlf_join ls"] assms(1) by (simp add: clean_line_def)
  with headers_loop_lines[of ls "first @ kLineTerminator"] assms ls show ?thesis by (simp add: ParseHeaders_def)
qed

section \<open>The head of a response\<close>

text \<open>Header fields that fit on a line: nothing in them can be taken for a separator.\<close>

definition clean_header :: "string \<times> string \<Rightarrow> bool" where
  "clean_header h \<longleftrightarrow> fst h \<noteq> [] \<and> Trim (fst h) = fst h \<and> CHR '':'' \<notin> set (fst h) \<and> CHR 0x0D \<notin> set (fst h) \<and> CHR 0x0D \<notin> set (snd h)"

definition line_of :: "string \<times> string \<Rightarrow> string" where
  "line_of h = fst h @ kHeaderNameValueSeparator @ snd h"

lemma header_line_eq: "header_line (fst h) (snd h) = line_of h @ kLineTerminator"
  by (simp add: header_line_def line_of_def)

lemma Trim_eq: "Trim s = trim s"
  using TrimAsciiWhitespace_trim[of s] by (simp add: Trim_def TrimAsciiWhitespace_def)

lemma trim_Nil [simp]: "trim [] = []"
  by (simp add: trim_def)

lemma trim_trim [simp]: "trim (trim s) = trim s"
proof -
  let ?u = "dropWhile isspace s"
  obtain w where u: "?u = trim s @ w"
    unfolding trim_def by (metis rev_append rev_rev_ident takeWhile_dropWhile_id)
  have "dropWhile isspace (trim s) = trim s"
  proof (cases "trim s")
    case (Cons c v)
    with u have "?u = c # v @ w" by simp
    then have "\<not> isspace c" by (metis hd_dropWhile list.distinct(1) list.sel(1))
    with Cons show ?thesis by simp
  qed simp
  moreover have "dropWhile isspace (rev (trim s)) = rev (trim s)" by (simp add: trim_def)
  ultimately show ?thesis by (simp add: trim_def[of "trim s"])
qed

lemma trim_space [simp]: "isspace c \<Longrightarrow> trim (c # s) = trim s"
  by (simp add: trim_def)

lemma ParseContentLength_trim [simp]: "ParseContentLength (trim s) = ParseContentLength s"
  by (simp add: ParseContentLength_def Trim_eq)

lemma ParseContentLength_to_string: "n \<le> SIZE_MAX \<Longrightarrow> ParseContentLength (to_string_nat n) = Inr n"
proof -
  have "list_all (\<lambda>c. \<not> isspace c) (to_string_nat n)"
    using to_string_nat_digits[of n] by (auto simp: list_all_iff isdigit_def isspace_def Let_def)
  then have "trim (to_string_nat n) = to_string_nat n" by (rule trim_clean)
  then show "n \<le> SIZE_MAX \<Longrightarrow> ParseContentLength (to_string_nat n) = Inr n"
    by (simp add: ParseContentLength_def Trim_eq from_chars_unsigned_to_string)
qed

text \<open>A line that the adapter writes parses back to its field; a length field sets the length.\<close>

lemma parse_line_of:
  assumes "clean_header h" "\<not> EqualsAsciiCaseInsensitive (fst h) kTransferEncodingHeader"
    and "EqualsAsciiCaseInsensitive (fst h) kContentLengthHeader \<Longrightarrow>
      ParseContentLength (snd h) = Inr n \<and> (cl = None \<or> cl = Some n)"
  shows "\<exists>hs'. ParseHeaderLine (line_of h) hs cl =
    Inr (hs', if EqualsAsciiCaseInsensitive (fst h) kContentLengthHeader then Some n else cl)"
proof -
  have "fst h \<noteq> []" "trim (fst h) = fst h" using assms(1) by (auto simp: clean_header_def Trim_eq)
  moreover have "index_of (\<lambda>c. c = CHR '':'') (line_of h) = Some (length (fst h))"
    using index_of_append_hit[of "fst h" "\<lambda>c. c = CHR '':''" "CHR '':''" "CHR '' '' # snd h"] assms(1)
    by (auto simp: line_of_def kHeaderNameValueSeparator_def clean_header_def)
  moreover have "isspace (CHR '' '')" by (simp add: isspace_def)
  ultimately show ?thesis using assms
    by (auto simp: ParseHeaderLine_def line_of_def kHeaderNameValueSeparator_def Trim_eq Let_def split: option.split)
qed

lemma connection_not_length:
  "EqualsAsciiCaseInsensitive name kConnectionHeader \<Longrightarrow> \<not> EqualsAsciiCaseInsensitive name kContentLengthHeader"
proof -
  have "ToLowerAscii kConnectionHeader \<noteq> ToLowerAscii kContentLengthHeader" by code_simp
  then show "EqualsAsciiCaseInsensitive name kConnectionHeader \<Longrightarrow> \<not> EqualsAsciiCaseInsensitive name kContentLengthHeader"
    by (simp add: EqualsAsciiCaseInsensitive_iff)
qed

lemma clean_line_of: "clean_header h \<Longrightarrow> clean_line (line_of h)"
  by (auto simp: clean_header_def clean_line_def line_of_def kHeaderNameValueSeparator_def)

definition lines_set_length :: "string list \<Rightarrow> nat option \<Rightarrow> nat option \<Rightarrow> bool" where
  "lines_set_length ls cl cl' \<longleftrightarrow> (\<forall>hs. \<exists>hs'. parse_lines ls hs cl = Inr (hs', cl'))"

lemma lines_set_length_Cons:
  assumes "\<And>hs. \<exists>hs'. ParseHeaderLine l hs cl = Inr (hs', cl1)" "lines_set_length ls cl1 cl2"
  shows "lines_set_length (l # ls) cl cl2"
  unfolding lines_set_length_def
proof
  fix hs
  obtain hs1 where "ParseHeaderLine l hs cl = Inr (hs1, cl1)" using assms(1) by blast
  with assms(2) show "\<exists>hs'. parse_lines (l # ls) hs cl = Inr (hs', cl2)" by (simp add: lines_set_length_def)
qed

lemma append_headers_lines:
  assumes "AppendResponseHeaders_loop response False mc rc hs payload has = Inr (payload', has')"
    and "\<forall>h\<in>set hs. clean_header h" "n = length (resp_body response)"
  shows "\<exists>ls. payload' = payload @ concat (map (\<lambda>l. l @ kLineTerminator) ls) \<and> (\<forall>l\<in>set ls. clean_line l) \<and>
    lines_set_length ls (if has then Some n else None) (if has' then Some n else None)"
  using assms(1,2)
proof (induction hs arbitrary: payload has)
  case Nil
  then show ?case by (intro exI[of _ "[]"]) (simp add: lines_set_length_def)
next
  case (Cons h hs)
  let ?is_length = "EqualsAsciiCaseInsensitive (fst h) kContentLengthHeader"
  let ?skip = "EqualsAsciiCaseInsensitive (fst h) kConnectionHeader \<and> mc \<and> \<not> rc"
  define has1 where "has1 = (has \<or> ?is_length)"
  from Cons.prems(1) have te: "\<not> EqualsAsciiCaseInsensitive (fst h) kTransferEncodingHeader"
    and len: "?is_length \<Longrightarrow> ParseContentLength (snd h) = Inr n"
    and rest: "AppendResponseHeaders_loop response False mc rc hs (if ?skip then payload else payload @ header_line (fst h) (snd h)) has1 =
      Inr (payload', has')"
    by (auto simp: ValidateResponseContentLength_def has1_def assms(3) split: prod.splits if_splits sum.splits)
  obtain ls where ls: "payload' = (if ?skip then payload else payload @ header_line (fst h) (snd h)) @ concat (map (\<lambda>l. l @ kLineTerminator) ls)"
    "\<forall>l\<in>set ls. clean_line l" "lines_set_length ls (if has1 then Some n else None) (if has' then Some n else None)"
    using Cons.IH[OF rest] Cons.prems(2) by auto
  show ?case
  proof (cases ?skip)
    case True
    then have "has1 = has" using connection_not_length by (auto simp: has1_def)
    with True ls show ?thesis by auto
  next
    case False
    have "\<exists>hs'. ParseHeaderLine (line_of h) acc (if has then Some n else None) = Inr (hs', if has1 then Some n else None)" for acc
      using parse_line_of[of h n "if has then Some n else None" acc] Cons.prems(2) te len by (auto simp: has1_def)
    from lines_set_length_Cons[OF this ls(3)] False ls(1,2) Cons.prems(2) show ?thesis
      by (intro exI[of _ "line_of h # ls"]) (auto simp: header_line_eq clean_line_of)
  qed
qed

lemma lines_set_length_append:
  assumes "lines_set_length ls a b" "lines_set_length ms b c"
  shows "lines_set_length (ls @ ms) a c"
proof -
  have "parse_lines (ls @ ms) hs cl = result_bind (parse_lines ls hs cl) (\<lambda>(hs, cl). parse_lines ms hs cl)" for hs cl
    by (induction ls arbitrary: hs cl) (auto simp: result_bind_def split: sum.split)
  moreover have "\<exists>hs2. result_bind (parse_lines ls hs a) (\<lambda>(hs, cl). parse_lines ms hs cl) = Inr (hs2, c)" for hs
  proof -
    obtain hs1 where "parse_lines ls hs a = Inr (hs1, b)" using assms(1) by (auto simp: lines_set_length_def)
    with assms(2) show ?thesis by (simp add: lines_set_length_def)
  qed
  ultimately show ?thesis by (simp add: lines_set_length_def)
qed

lemma length_line:
  assumes "n \<le> SIZE_MAX"
  shows "clean_header (kContentLengthHeaderName, to_string_nat n)"
    "lines_set_length [line_of (kContentLengthHeaderName, to_string_nat n)] None (Some n)"
proof -
  have "CHR 0x0D \<notin> set (to_string_nat n)" using to_string_nat_digits[of n] by (auto simp: isdigit_def)
  moreover have "Trim kContentLengthHeaderName = kContentLengthHeaderName" by code_simp
  ultimately show c: "clean_header (kContentLengthHeaderName, to_string_nat n)"
    by (simp add: clean_header_def) (simp add: kContentLengthHeaderName_def)
  have "EqualsAsciiCaseInsensitive kContentLengthHeaderName kContentLengthHeader"
    "\<not> EqualsAsciiCaseInsensitive kContentLengthHeaderName kTransferEncodingHeader" by code_simp+
  with parse_line_of[OF c, of n None] assms show
    "lines_set_length [line_of (kContentLengthHeaderName, to_string_nat n)] None (Some n)"
    by (intro lines_set_length_Cons[of _ None "Some n"]) (simp_all add: ParseContentLength_to_string lines_set_length_def)
qed

lemma close_line:
  "clean_header (kConnectionHeaderName, kConnectionCloseHeaderValue)"
  "lines_set_length [line_of (kConnectionHeaderName, kConnectionCloseHeaderValue)] cl cl"
proof -
  have "Trim kConnectionHeaderName = kConnectionHeaderName" by code_simp
  then show c: "clean_header (kConnectionHeaderName, kConnectionCloseHeaderValue)"
    by (simp add: clean_header_def) (simp add: kConnectionHeaderName_def kConnectionCloseHeaderValue_def)
  have "\<not> EqualsAsciiCaseInsensitive kConnectionHeaderName kContentLengthHeader"
    "\<not> EqualsAsciiCaseInsensitive kConnectionHeaderName kTransferEncodingHeader" by code_simp+
  with parse_line_of[OF c, of _ cl] show
    "lines_set_length [line_of (kConnectionHeaderName, kConnectionCloseHeaderValue)] cl cl"
    by (intro lines_set_length_Cons[of _ cl cl]) (simp_all add: lines_set_length_def)
qed

definition status_line :: "int \<Rightarrow> string" where
  "status_line code = kHttpVersion11 @ '' '' @ to_string_int code @ '' '' @ ReasonPhrase code"

lemma clean_status_line: "clean_line (status_line code)"
proof -
  have "CHR 0x0D \<notin> set (to_string_int code)"
    using to_string_nat_digits[of "nat code"] to_string_nat_digits[of "nat (- code)"]
    by (auto simp: to_string_int_def isdigit_def)
  moreover have "CHR 0x0D \<notin> set (ReasonPhrase code)" by (simp add: ReasonPhrase_def)
  ultimately show ?thesis by (simp add: clean_line_def status_line_def kHttpVersion11_def)
qed

lemma response_head_frames:
  assumes "response_head response close = Inr head" "resp_stream_writer response = None"
    and "\<forall>h\<in>set (resp_headers response). clean_header h" "length (resp_body response) \<le> SIZE_MAX"
  shows "\<exists>block hs. head = block @ kHeaderDelimiter \<and> find_sub kHeaderDelimiter (head @ s) = Some (length block) \<and>
    ParseHeaders block = Inr (hs, Some (length (resp_body response)))"
proof -
  let ?n = "length (resp_body response)"
  let ?rc = "HeaderContainsToken (resp_headers response) kConnectionHeader kConnectionCloseHeaderValue"
  let ?mc = "close \<or> ?rc"
  let ?status = "status_line (resp_status_code response)"
  let ?length_line = "line_of (kContentLengthHeaderName, to_string_nat ?n)"
  let ?close_line = "line_of (kConnectionHeaderName, kConnectionCloseHeaderValue)"
  obtain payload has where p: "AppendResponseHeaders_loop response False ?mc ?rc (resp_headers response) (?status @ kLineTerminator) False =
      Inr (payload, has)" and head: "head = payload @ (if has then [] else ?length_line @ kLineTerminator) @
      (if ?mc \<and> \<not> ?rc then ?close_line @ kLineTerminator else []) @ kLineTerminator"
    using assms(1,2) header_line_eq[of "(kContentLengthHeaderName, to_string_nat ?n)"]
      header_line_eq[of "(kConnectionHeaderName, kConnectionCloseHeaderValue)"]
    by (cases "AppendResponseHeaders_loop response False ?mc ?rc (resp_headers response) (?status @ kLineTerminator) False")
       (auto simp: response_head_def AppendResponseHeaders_def status_line_def Let_def split: if_splits)
  obtain ls where ls: "payload = ?status @ kLineTerminator @ concat (map (\<lambda>l. l @ kLineTerminator) ls)"
    "\<forall>l\<in>set ls. clean_line l" "lines_set_length ls None (if has then Some ?n else None)"
    using append_headers_lines[OF p assms(3) refl] by auto
  define ms where "ms = ls @ (if has then [] else [?length_line]) @ (if ?mc \<and> \<not> ?rc then [?close_line] else [])"
  have set_length: "lines_set_length ms None (Some ?n)"
  proof -
    have "lines_set_length (if has then [] else [?length_line]) (if has then Some ?n else None) (Some ?n)"
      using length_line(2)[OF assms(4)] by (simp add: lines_set_length_def)
    moreover have "lines_set_length (if ?mc \<and> \<not> ?rc then [?close_line] else []) (Some ?n) (Some ?n)"
      using close_line(2)[of "Some ?n"] by (simp add: lines_set_length_def)
    ultimately show ?thesis using ls(3) unfolding ms_def by (blast intro: lines_set_length_append)
  qed
  have clean: "\<forall>l\<in>set ms. clean_line l"
    using ls(2) clean_line_of[OF length_line(1)[OF assms(4)]] clean_line_of[OF close_line(1)] by (auto simp: ms_def)
  have "ms \<noteq> []" using set_length by (auto simp: lines_set_length_def)
  let ?block = "crlf_join (?status # ms)"
  have eq: "head = ?block @ kHeaderDelimiter"
  proof -
    have "head = ?status @ kLineTerminator @ concat (map (\<lambda>l. l @ kLineTerminator) ms) @ kLineTerminator"
      by (simp add: head ls(1) ms_def)
    also have "\<dots> = ?block @ kLineTerminator @ kLineTerminator"
      using crlf_lines[OF \<open>ms \<noteq> []\<close>] \<open>ms \<noteq> []\<close> by (cases ms) auto
    finally show ?thesis by (simp add: kHeaderDelimiter_def kLineTerminator_def)
  qed
  have "find_sub kHeaderDelimiter (head @ s) = Some (length ?block)"
    using find_delimiter_block[of "?status # ms" s] clean clean_status_line eq by simp
  moreover obtain hs where "parse_lines ms [] None = Inr (hs, Some ?n)"
    using set_length unfolding lines_set_length_def by blast
  then have "ParseHeaders ?block = Inr (hs, Some ?n)"
    using ParseHeaders_lines[of ?status ms] clean clean_status_line \<open>ms \<noteq> []\<close> by simp
  ultimately show ?thesis using eq by blast
qed

section \<open>Properties of the adapter\<close>


definition sample_http :: string where
  "sample_http = ''GET /a HTTP/1.1'' @ kLineTerminator @ ''Host: b'' @ kHeaderDelimiter @ ''POST''"

definition sample_socket :: Socket where
  "sample_socket = \<lparr>sock_incoming = [take 20 sample_http, drop 20 sample_http], sock_sent = [], sock_accepts = [0, 2, 1]\<rparr>"


lemma request_of_size:
  "request_of m addr input = Some (req, rest) \<Longrightarrow> length (req_body req) \<le> m \<and> length input - length rest \<le> m"
  by (auto simp: request_of_def Let_def substr_def split: option.splits sum.splits if_splits)

text \<open>C30: memory is bounded. An accepted request, head and body together, has at most \<open>max_request_size\<close> bytes, and
  a connection that starts with an empty buffer never holds more than \<open>max_request_size + read_buffer_size\<close> bytes
  between requests.\<close>

theorem ReadRequest_bounds:
  assumes "0 < read_buffer_size opts" "ReadRequest opts SocketTransport addr t raw = (t', raw', Inr req)"
    and "length raw \<le> max_request_size opts + read_buffer_size opts"
  shows "length raw' \<le> max_request_size opts + read_buffer_size opts \<and> length (req_body req) \<le> max_request_size opts \<and>
    length (raw @ concat (sock_incoming t)) - length (raw' @ concat (sock_incoming t')) \<le> max_request_size opts"
proof -
  from socket_in.read_request[OF _ assms(1,2)]
  have "request_of (max_request_size opts) addr (raw @ concat (sock_incoming t)) = Some (req, raw' @ concat (sock_incoming t'))"
    "length raw' \<le> max (length raw) (max_request_size opts + read_buffer_size opts)" by simp_all
  with assms(3) request_of_size[OF this(1)] show ?thesis by simp
qed

theorem ReadRequest_bounds_witness:
  "\<exists>t' raw' req. ReadRequest \<lparr>max_request_size = 64, read_buffer_size = 7\<rparr> SocketTransport [] sample_socket [] = (t', raw', Inr req) \<and>
     length raw' \<le> 71"
proof -
  let ?opts = "\<lparr>max_request_size = 64, read_buffer_size = 7\<rparr>"
  have "isl (snd (snd (ReadRequest ?opts SocketTransport [] sample_socket []))) = False" by code_simp
  then obtain t' raw' req where r: "ReadRequest ?opts SocketTransport [] sample_socket [] = (t', raw', Inr req)"
    by (metis isl_def prod.collapse sum.exhaust)
  from ReadRequest_bounds[OF _ r] r show ?thesis by simp
qed

text \<open>a response that is not streamed frames itself. The bytes on the wire are a head, ending at the first empty
  line, whose \<open>Content-Length\<close> is the size of the body, and then the body, however the socket splits the writes.\<close>

theorem WriteResponse_framing:
  assumes "response_head response close = Inr head" "resp_stream_writer response = None"
    and "\<forall>h\<in>set (resp_headers response). clean_header h" "length (resp_body response) \<le> SIZE_MAX"
  shows "\<exists>t' block hs. WriteResponse SocketTransport response close t = (t', Inr ()) \<and>
    sock_sent t' = sock_sent t @ block @ kHeaderDelimiter @ resp_body response \<and>
    find_sub kHeaderDelimiter (block @ kHeaderDelimiter @ resp_body response) = Some (length block) \<and>
    ParseHeaders block = Inr (hs, Some (length (resp_body response)))"
proof -
  obtain block hs where b: "head = block @ kHeaderDelimiter"
    "find_sub kHeaderDelimiter (head @ resp_body response) = Some (length block)"
    "ParseHeaders block = Inr (hs, Some (length (resp_body response)))"
    using response_head_frames[OF assms] by blast
  obtain t' where "WriteAll SocketTransport (head @ resp_body response) t = (t', Inr ())"
    "sock_sent t' = sock_sent t @ head @ resp_body response" using socket_out.write_all by blast
  with b assms(1,2) show ?thesis by (auto simp: WriteResponse_def)
qed

theorem WriteResponse_framing_witness:
  "\<exists>t'. WriteResponse SocketTransport \<lparr>resp_status_code = 200, resp_headers = [(''Content-Type'', ''text/plain'')],
       resp_body = ''hi'', resp_stream_writer = None, resp_stream_kind = StreamKind_kNone\<rparr> True sample_socket = (t', Inr ()) \<and>
     suffix (kHeaderDelimiter @ ''hi'') (sock_sent t')"
proof -
  let ?r = "\<lparr>resp_status_code = 200, resp_headers = [(''Content-Type'', ''text/plain'')], resp_body = ''hi'',
    resp_stream_writer = None, resp_stream_kind = StreamKind_kNone\<rparr> :: Socket stream_writer HttpServerResponse"
  have "isl (response_head ?r True) = False" "list_all clean_header (resp_headers ?r)" by code_simp+
  then obtain head where head: "response_head ?r True = Inr head" and clean: "\<forall>h\<in>set (resp_headers ?r). clean_header h"
    by (cases "response_head ?r True") (auto simp: list_all_iff)
  from WriteResponse_framing[OF head _ clean, of sample_socket] show ?thesis
    by (auto simp: SIZE_MAX_def suffix_def)
qed



end
