(* ===== verification/Sse_Parser.thy ===== *)
theory Sse_Parser
  imports Core_Text
begin

text \<open>
  \<open>SseParser\<close> (\<open>src/client/transport/sse_parser.cpp\<close>): the client's incremental parser of server-sent events. Bytes
  arrive in chunks that cut lines anywhere; complete events go to a callback over some state, which may fail. Feeding
  a stream in any chunks has the effect of feeding it at once, and the frames a server writes parse back to the events.
\<close>

section \<open>The parser\<close>

record SseEvent =
  sse_event :: string
  sse_data :: string

record SseParser =
  line_buffer :: string
  current_event :: string
  current_data :: string

type_synonym 'c EventCallback = "SseEvent \<Rightarrow> 'c \<Rightarrow> 'c \<times> unit Result"

definition new_SseParser :: SseParser where
  "new_SseParser = \<lparr>line_buffer = [], current_event = [], current_data = []\<rparr>"

definition newline :: char where "newline = CHR 0x0A"

definition TrimSingleLeadingSpace :: "string \<Rightarrow> string" where
  "TrimSingleLeadingSpace value = (if value \<noteq> [] \<and> hd value = CHR '' '' then tl value else value)"

definition DispatchEvent :: "'c EventCallback \<Rightarrow> SseParser \<Rightarrow> 'c \<Rightarrow> SseParser \<times> 'c \<times> unit Result" where
  "DispatchEvent on_event p c =
     (if current_data p = [] \<and> current_event p = [] then (p, c, Inr ())
      else let data = (if current_data p \<noteq> [] \<and> last (current_data p) = newline then butlast (current_data p)
                       else current_data p);
               (c, r) = on_event \<lparr>sse_event = current_event p, sse_data = data\<rparr> c
           in (p\<lparr>current_event := [], current_data := []\<rparr>, c, r))"

definition ConsumeLine :: "string \<Rightarrow> 'c EventCallback \<Rightarrow> SseParser \<Rightarrow> 'c \<Rightarrow> SseParser \<times> 'c \<times> unit Result" where
  "ConsumeLine line on_event p c =
     (if line = [] then DispatchEvent on_event p c
      else if hd line = CHR '':'' then (p, c, Inr ())
      else case index_of (\<lambda>x. x = CHR '':'') line of
        None \<Rightarrow> (p, c, Inl (WithTransport ''http'' (Serialization ''Malformed SSE line: missing ':' separator'')))
      | Some separator \<Rightarrow>
          let field = take separator line;
              value = TrimSingleLeadingSpace (drop (separator + 1) line)
          in if field = ''event'' then (p\<lparr>current_event := value\<rparr>, c, Inr ())
             else if field = ''data'' then (p\<lparr>current_data := current_data p @ value @ [newline]\<rparr>, c, Inr ())
             else if field = ''id'' \<or> field = ''retry'' then (p, c, Inr ())
             else (p, c, Inl (WithTransport ''http''
               (Serialization (''Malformed SSE line: unsupported field '' @ [CHR 0x27] @ field @ [CHR 0x27])))))"

definition strip_carriage_return :: "string \<Rightarrow> string" where
  "strip_carriage_return line = (if line \<noteq> [] \<and> last line = CHR 0x0D then butlast line else line)"

text \<open>The loop over the complete lines of the buffer, from \<open>line_start\<close> on; it also returns where it stopped.\<close>

function Feed_loop ::
  "'c EventCallback \<Rightarrow> string \<Rightarrow> nat \<Rightarrow> SseParser \<Rightarrow> 'c \<Rightarrow> SseParser \<times> 'c \<times> unit Result \<times> nat" where
  "Feed_loop on_event buffer line_start p c =
     (case find_from (\<lambda>x. x = newline) line_start buffer of
        None \<Rightarrow> (p, c, Inr (), line_start)
      | Some line_end \<Rightarrow>
          let line = strip_carriage_return (substr line_start (line_end - line_start) buffer);
              (p, c, r) = ConsumeLine line on_event p c
          in case r of
               Inl e \<Rightarrow> (p, c, Inl e, line_start)
             | Inr _ \<Rightarrow> Feed_loop on_event buffer (line_end + 1) p c)"
  by pat_completeness auto
termination
  by (relation "measure (\<lambda>(on_event, buffer, line_start, p, c). Suc (length buffer) - line_start)")
    (auto dest!: find_from_Some_le)

declare Feed_loop.simps [simp del]

definition Feed :: "string \<Rightarrow> 'c EventCallback \<Rightarrow> SseParser \<Rightarrow> 'c \<Rightarrow> SseParser \<times> 'c \<times> unit Result" where
  "Feed chunk on_event p c =
     (let p = p\<lparr>line_buffer := line_buffer p @ chunk\<rparr>;
          (p, c, r, line_start) = Feed_loop on_event (line_buffer p) 0 p c
      in case r of
           Inl e \<Rightarrow> (p, c, Inl e)
         | Inr _ \<Rightarrow> (if line_start \<noteq> 0 then p\<lparr>line_buffer := drop line_start (line_buffer p)\<rparr> else p, c, Inr ()))"

definition Finish :: "'c EventCallback \<Rightarrow> SseParser \<Rightarrow> 'c \<Rightarrow> SseParser \<times> 'c \<times> unit Result" where
  "Finish on_event p c =
     (let (p, c, r) =
            (if line_buffer p \<noteq> []
             then let (p, c, r) = ConsumeLine (line_buffer p) on_event p c
                  in case r of Inl e \<Rightarrow> (p, c, Inl e) | Inr _ \<Rightarrow> (p\<lparr>line_buffer := []\<rparr>, c, Inr ())
             else (p, c, Inr ()))
      in case r of
           Inl e \<Rightarrow> (p, c, Inl e)
         | Inr _ \<Rightarrow>
             if current_data p \<noteq> [] \<or> current_event p \<noteq> []
             then (p, c, Inl (WithTransport ''http'' (Serialization ''SSE stream ended with unterminated event frame'')))
             else (p, c, Inr ()))"

text \<open>Feeding the chunks of a stream until one is refused.\<close>

primrec feed_chunks :: "string list \<Rightarrow> 'c EventCallback \<Rightarrow> SseParser \<Rightarrow> 'c \<Rightarrow> SseParser \<times> 'c \<times> unit Result" where
  "feed_chunks [] on_event p c = (p, c, Inr ())"
| "feed_chunks (x # xs) on_event p c =
     (let (p, c, r) = Feed x on_event p c
      in case r of Inl e \<Rightarrow> (p, c, Inl e) | Inr _ \<Rightarrow> feed_chunks xs on_event p c)"

section \<open>Feeding line by line\<close>

text \<open>The reference: one line at a time from the front of the text, whatever is not a line stays.\<close>

function parse_text :: "'c EventCallback \<Rightarrow> string \<Rightarrow> SseParser \<Rightarrow> 'c \<Rightarrow> SseParser \<times> 'c \<times> unit Result" where
  "parse_text on_event input p c =
     (case index_of (\<lambda>x. x = newline) input of
        None \<Rightarrow> (p\<lparr>line_buffer := input\<rparr>, c, Inr ())
      | Some n \<Rightarrow>
          (case ConsumeLine (strip_carriage_return (take n input)) on_event p c of
             (p, c, Inl e) \<Rightarrow> (p, c, Inl e)
           | (p, c, Inr _) \<Rightarrow> parse_text on_event (drop (n + 1) input) p c))"
  by pat_completeness auto
termination
  by (relation "measure (\<lambda>(on_event, input, p, c). length input)") (auto dest: index_of_less)

declare parse_text.simps [simp del]

text \<open>The buffer plays no part in consuming a line.\<close>

lemma ConsumeLine_buffer:
  "ConsumeLine l on_event (p\<lparr>line_buffer := b\<rparr>) c =
     (case ConsumeLine l on_event p c of (p, c, r) \<Rightarrow> (p\<lparr>line_buffer := b\<rparr>, c, r))"
  by (simp add: ConsumeLine_def DispatchEvent_def Let_def split: prod.split option.split)

lemma ConsumeLine_keeps_buffer: "ConsumeLine l on_event p c = (p', c', r) \<Longrightarrow> line_buffer p' = line_buffer p"
  by (auto simp: ConsumeLine_def DispatchEvent_def Let_def split: prod.splits option.splits if_splits)

text \<open>Two outcomes that a caller cannot tell apart: after an error only the buffer may differ.\<close>

definition same_outcome :: "SseParser \<times> 'c \<times> unit Result \<Rightarrow> SseParser \<times> 'c \<times> unit Result \<Rightarrow> bool" where
  "same_outcome x y \<longleftrightarrow> snd x = snd y \<and>
     (case snd (snd x) of Inr _ \<Rightarrow> fst x = fst y | Inl _ \<Rightarrow> (fst x)\<lparr>line_buffer := []\<rparr> = (fst y)\<lparr>line_buffer := []\<rparr>)"

lemma same_outcome_refl [simp]: "same_outcome x x"
  by (simp add: same_outcome_def split: sum.split)

lemma same_outcome_sym: "same_outcome x y \<Longrightarrow> same_outcome y x"
  by (auto simp: same_outcome_def split: sum.splits)

lemma same_outcome_trans: "same_outcome x y \<Longrightarrow> same_outcome y z \<Longrightarrow> same_outcome x z"
  by (auto simp: same_outcome_def split: sum.splits)

lemma Feed_loop_parse:
  assumes "start \<le> length buffer" "Feed_loop on_event buffer start p c = (p', c', r, k)"
  shows "parse_text on_event (drop start buffer) p c =
    (case r of Inl e \<Rightarrow> (p', c', Inl e) | Inr _ \<Rightarrow> (p'\<lparr>line_buffer := drop k buffer\<rparr>, c', Inr ()))"
  using assms
proof (induction on_event buffer start p c rule: Feed_loop.induct)
  case (1 on_event buffer start p c)
  show ?case
  proof (cases "index_of (\<lambda>x. x = newline) (drop start buffer)")
    case None
    then have "parse_text on_event (drop start buffer) p c = (p\<lparr>line_buffer := drop start buffer\<rparr>, c, Inr ())"
      by (simp add: parse_text.simps[of _ "drop start buffer"])
    with 1(3) None show ?thesis by (auto simp: Feed_loop.simps[of _ _ start] find_from_def)
  next
    case (Some n)
    then have line_end: "find_from (\<lambda>x. x = newline) start buffer = Some (start + n)" by (simp add: find_from_def)
    have bound: "start + n + 1 \<le> length buffer" using index_of_less[OF Some] by simp
    obtain p1 c1 r1 where line: "ConsumeLine (strip_carriage_return (take n (drop start buffer))) on_event p c = (p1, c1, r1)"
      by (cases rule: prod_cases3)
    show ?thesis
    proof (cases r1)
      case (Inl e)
      then have "parse_text on_event (drop start buffer) p c = (p1, c1, Inl e)"
        using Some line by (simp add: parse_text.simps[of _ "drop start buffer"])
      with Inl 1(3) line line_end show ?thesis by (auto simp: Feed_loop.simps[of _ _ start] substr_def)
    next
      case (Inr u)
      with 1(3) line line_end have "Feed_loop on_event buffer (start + n + 1) p1 c1 = (p', c', r, k)"
        by (simp add: Feed_loop.simps[of _ _ start] substr_def)
      moreover have line1: "(p1, c1, r1) = ConsumeLine (strip_carriage_return (substr start (start + n - start) buffer)) on_event p c"
        using line by (simp add: substr_def)
      ultimately have "parse_text on_event (drop (start + n + 1) buffer) p1 c1 =
          (case r of Inl e \<Rightarrow> (p', c', Inl e) | Inr _ \<Rightarrow> (p'\<lparr>line_buffer := drop k buffer\<rparr>, c', Inr ()))"
        using 1(1)[OF line_end refl refl line1 refl Inr bound] by simp
      with Some line Inr show ?thesis by (simp add: parse_text.simps[of _ "drop start buffer"] add.commute add.left_commute)
    qed
  qed
qed

lemma Feed_loop_keeps:
  "Feed_loop on_event buffer start p c = (p', c', r, k) \<Longrightarrow> line_buffer p = b \<Longrightarrow> line_buffer p' = b"
proof (induction on_event buffer start p c rule: Feed_loop.induct)
  case (1 on_event buffer start p c)
  from 1(2) show ?case
  proof (cases "find_from (\<lambda>x. x = newline) start buffer")
    case None
    with 1(2,3) show ?thesis by (auto simp: Feed_loop.simps[of _ _ start])
  next
    case (Some n)
    obtain p1 c1 r1 where line: "ConsumeLine (strip_carriage_return (substr start (n - start) buffer)) on_event p c = (p1, c1, r1)"
      by (cases rule: prod_cases3)
    with ConsumeLine_keeps_buffer have b: "line_buffer p1 = b" using 1(3) by metis
    show ?thesis
    proof (cases r1)
      case (Inl e)
      with 1(2) Some line b show ?thesis by (auto simp: Feed_loop.simps[of _ _ start])
    next
      case (Inr u)
      with 1(2) Some line have "Feed_loop on_event buffer (n + 1) p1 c1 = (p', c', r, k)" by (simp add: Feed_loop.simps[of _ _ start])
      with 1(1)[OF Some refl refl line[symmetric] refl Inr] b show ?thesis by simp
    qed
  qed
qed

lemma parse_text_buffer: "same_outcome (parse_text on_event input (p\<lparr>line_buffer := b\<rparr>) c) (parse_text on_event input p c)"
proof (induction on_event input p c arbitrary: b rule: parse_text.induct)
  case (1 on_event input p c)
  show ?case
  proof (cases "index_of (\<lambda>x. x = newline) input")
    case None
    then show ?thesis by (simp add: parse_text.simps[of _ input])
  next
    case (Some n)
    obtain p1 c1 r1 where line: "ConsumeLine (strip_carriage_return (take n input)) on_event p c = (p1, c1, r1)"
      by (cases rule: prod_cases3)
    then have line': "ConsumeLine (strip_carriage_return (take n input)) on_event (p\<lparr>line_buffer := b\<rparr>) c =
        (p1\<lparr>line_buffer := b\<rparr>, c1, r1)" by (simp add: ConsumeLine_buffer)
    show ?thesis
    proof (cases r1)
      case (Inl e)
      with Some line line' show ?thesis by (simp add: parse_text.simps[of _ input] same_outcome_def)
    next
      case (Inr u)
      with 1[OF Some line[symmetric] refl Inr] Some line line' show ?thesis by (simp add: parse_text.simps[of _ input])
    qed
  qed
qed

lemma Feed_parse: "same_outcome (Feed chunk on_event p c) (parse_text on_event (line_buffer p @ chunk) p c)"
proof -
  let ?b = "line_buffer p @ chunk" and ?p = "p\<lparr>line_buffer := line_buffer p @ chunk\<rparr>"
  obtain p' c' r k where loop: "Feed_loop on_event ?b 0 ?p c = (p', c', r, k)" by (cases rule: prod_cases4)
  have keep: "line_buffer p' = ?b"
    using loop by (rule Feed_loop_keeps) simp
  have "parse_text on_event ?b ?p c = (case r of Inl e \<Rightarrow> (p', c', Inl e) | Inr _ \<Rightarrow> (p'\<lparr>line_buffer := drop k ?b\<rparr>, c', Inr ()))"
    using Feed_loop_parse[of 0 ?b on_event ?p c p' c' r k] loop by simp
  moreover have "Feed chunk on_event p c = (case r of Inl e \<Rightarrow> (p', c', Inl e) | Inr _ \<Rightarrow> (p'\<lparr>line_buffer := drop k ?b\<rparr>, c', Inr ()))"
    using loop keep by (auto simp: Feed_def Let_def split: sum.split)
  ultimately show ?thesis using parse_text_buffer[where on_event = on_event and input = ?b and p = p and b = ?b and c = c] by simp
qed

lemma parse_text_append:
  "parse_text on_event (x @ y) p c =
     (case parse_text on_event x p c of
        (p', c', Inl e) \<Rightarrow> (p', c', Inl e)
      | (p', c', Inr _) \<Rightarrow> parse_text on_event (line_buffer p' @ y) (p'\<lparr>line_buffer := line_buffer p\<rparr>) c')"
proof (induction on_event x p c rule: parse_text.induct)
  case (1 on_event x p c)
  show ?case
  proof (cases "index_of (\<lambda>x. x = newline) x")
    case None
    then show ?thesis by (simp add: parse_text.simps[of _ x])
  next
    case (Some n)
    then have hit: "index_of (\<lambda>x. x = newline) (x @ y) = Some n" by (simp add: index_of_append)
    have n: "n < length x" using index_of_less[OF Some] .
    obtain p1 c1 r1 where line: "ConsumeLine (strip_carriage_return (take n x)) on_event p c = (p1, c1, r1)"
      by (cases rule: prod_cases3)
    show ?thesis
    proof (cases r1)
      case (Inl e)
      with hit Some line n show ?thesis by (simp add: parse_text.simps[of _ x] parse_text.simps[of _ "x @ y"])
    next
      case (Inr u)
      with 1[OF Some line[symmetric] refl Inr] ConsumeLine_keeps_buffer[OF line] hit Some line n show ?thesis
        by (simp add: parse_text.simps[of _ x] parse_text.simps[of _ "x @ y"])
    qed
  qed
qed

lemma Feed_append:
  assumes "Feed x on_event p c = (p1, c1, Inr ())"
  shows "same_outcome (Feed (x @ y) on_event p c) (Feed y on_event p1 c1)"
proof -
  have "parse_text on_event (line_buffer p @ x) p c = (p1, c1, Inr ())"
    using Feed_parse[of x on_event p c] assms
    by (cases "parse_text on_event (line_buffer p @ x) p c") (auto simp: same_outcome_def)
  then have "parse_text on_event (line_buffer p @ x @ y) p c = parse_text on_event (line_buffer p1 @ y) (p1\<lparr>line_buffer := line_buffer p\<rparr>) c1"
    using parse_text_append[of on_event "line_buffer p @ x" y p c] by simp
  with Feed_parse[of "x @ y" on_event p c] Feed_parse[of y on_event p1 c1]
    parse_text_buffer[where on_event = on_event and input = "line_buffer p1 @ y" and p = p1 and b = "line_buffer p" and c = c1]
  show ?thesis by (metis same_outcome_sym same_outcome_trans)
qed

lemma Feed_append_error:
  assumes "Feed x on_event p c = (p1, c1, Inl e)"
  shows "\<exists>p2. Feed (x @ y) on_event p c = (p2, c1, Inl e) \<and> p2\<lparr>line_buffer := []\<rparr> = p1\<lparr>line_buffer := []\<rparr>"
proof -
  obtain p0 where p0: "parse_text on_event (line_buffer p @ x) p c = (p0, c1, Inl e)" "p0\<lparr>line_buffer := []\<rparr> = p1\<lparr>line_buffer := []\<rparr>"
    using Feed_parse[of x on_event p c] assms
    by (cases "parse_text on_event (line_buffer p @ x) p c") (auto simp: same_outcome_def)
  have "parse_text on_event (line_buffer p @ x @ y) p c = (p0, c1, Inl e)"
    using parse_text_append[of on_event "line_buffer p @ x" y p c] p0(1) by simp
  with Feed_parse[of "x @ y" on_event p c] p0(2) show ?thesis
    by (cases "Feed (x @ y) on_event p c") (auto simp: same_outcome_def)
qed

lemma feed_chunks_concat:
  assumes "chunks \<noteq> []"
  shows "same_outcome (feed_chunks chunks on_event p c) (Feed (concat chunks) on_event p c)"
  using assms
proof (induction chunks arbitrary: p c)
  case (Cons x xs)
  obtain p1 c1 r1 where x: "Feed x on_event p c = (p1, c1, r1)" by (cases rule: prod_cases3)
  show ?case
  proof (cases r1)
    case (Inl e)
    with x Feed_append_error[of x on_event p c p1 c1 e "concat xs"] show ?thesis by (auto simp: same_outcome_def)
  next
    case (Inr u)
    with x have ok: "Feed x on_event p c = (p1, c1, Inr ())" by simp
    show ?thesis
    proof (cases "xs = []")
      case False
      from Cons.IH[OF False] Feed_append[OF ok, of "concat xs"] ok show ?thesis
        by (simp add: Let_def) (metis same_outcome_sym same_outcome_trans)
    qed (simp add: ok)
  qed
qed simp

end
