(* ===== verification/Dispatch_Types.thy ===== *)
theory Dispatch_Types
  imports Task_Store_Spec Server_Context
begin

text \<open>
  What the transports and the dispatcher exchange: \<open>include/a2a/server/dispatch_types.h\<close>,
  \<open>server_stream_session.h\<close>, \<open>security_policy.h\<close>, \<open>agent_executor.h\<close> and \<open>server_interceptor.h\<close>. The virtual
  classes are records of functions over the state \<open>'w\<close> that the server's objects share; a request context passed by
  reference is part of the state of the call. The stream of a response is an object of its own: the session that the
  executor made, or that session behind the access checks of \<open>AuthorizedStream\<close>. Agent cards are a parameter type.
\<close>

section \<open>Stream sessions\<close>

record 's ServerStreamSession =
  ss_Next :: "'s \<Rightarrow> ('s \<times> StreamResponse option Result) option"
  ss_NextFor :: "'s \<Rightarrow> ('s \<times> StreamResponse option Result) option"
  ss_SupportsTimedNext :: bool
  ss_IsLive :: "'s \<Rightarrow> bool"
  ss_Cancel :: "'s \<Rightarrow> 's option"

section \<open>Requests\<close>

datatype DispatcherOperation =
    kSendMessage | kSendStreamingMessage | kGetTask | kSubscribeTask | kListTasks | kCancelTask
  | kCreateTaskPushNotificationConfig | kGetTaskPushNotificationConfig | kListTaskPushNotificationConfigs
  | kDeleteTaskPushNotificationConfig | kGetExtendedAgentCard

datatype RequestPayload =
    Req_SendMessage SendMessageRequest
  | Req_GetTask GetTaskRequest
  | Req_ListTasks ListTasksRequest
  | Req_CancelTask CancelTaskRequest
  | Req_PushConfig TaskPushNotificationConfig
  | Req_GetPushConfig GetTaskPushNotificationConfigRequest
  | Req_ListPushConfigs ListTaskPushNotificationConfigsRequest
  | Req_DeletePushConfig DeleteTaskPushNotificationConfigRequest
  | Req_GetExtendedAgentCard GetExtendedAgentCardRequest

record DispatchRequest =
  req_operation :: DispatcherOperation
  req_payload :: RequestPayload

section \<open>The security policy and protected streams\<close>

record SecurityPolicy =
  Authenticate :: "RequestContext \<Rightarrow> string Result"
  AuthorizeOperation :: "DispatchRequest \<Rightarrow> RequestContext \<Rightarrow> bool"
  CanAccessTask :: "Task \<Rightarrow> RequestContext \<Rightarrow> bool"
  ScopeTaskList :: "ListTasksRequest \<Rightarrow> RequestContext \<Rightarrow> ListTasksRequest option"

definition SecurityPolicy_base_ScopeTaskList ::
  "ListTasksRequest \<Rightarrow> RequestContext \<Rightarrow> ListTasksRequest option" where
  "SecurityPolicy_base_ScopeTaskList query context = Some query"

datatype 'w StreamObject =
    ExecutorStream "'w ServerStreamSession"
  | AuthorizedStream "'w StreamObject" SecurityPolicy "'w TaskStore" RequestContext string

section \<open>Responses\<close>

datatype ('w, 'card) DispatchResponse =
    Resp_SendMessage SendMessageResponse
  | Resp_Stream "'w StreamObject option"
  | Resp_Task Task
  | Resp_ListTasks ListTasksResponse
  | Resp_PushConfig TaskPushNotificationConfig
  | Resp_ListPushConfigs ListTaskPushNotificationConfigsResponse
  | Resp_AgentCard 'card
  | Resp_monostate

section \<open>The executor, the card provider and the interceptors\<close>

record 'w AgentExecutor =
  ae_SendMessage :: "SendMessageRequest \<Rightarrow> ('w \<times> RequestContext, SendMessageResponse) step"
  ae_SendStreamingMessage :: "SendMessageRequest \<Rightarrow> ('w \<times> RequestContext, 'w ServerStreamSession option) step"
  ae_GetTask :: "GetTaskRequest \<Rightarrow> ('w \<times> RequestContext, Task) step"
  ae_SubscribeTask :: "GetTaskRequest \<Rightarrow> ('w \<times> RequestContext, 'w ServerStreamSession option) step"
  ae_ListTasks :: "ListTasksRequest \<Rightarrow> ('w \<times> RequestContext, ListTasksResponse) step"
  ae_CancelTask :: "CancelTaskRequest \<Rightarrow> ('w \<times> RequestContext, Task) step"
  ae_CreatePushConfig :: "TaskPushNotificationConfig \<Rightarrow> ('w \<times> RequestContext, TaskPushNotificationConfig) step"
  ae_GetPushConfig ::
    "GetTaskPushNotificationConfigRequest \<Rightarrow> ('w \<times> RequestContext, TaskPushNotificationConfig) step"
  ae_ListPushConfigs ::
    "ListTaskPushNotificationConfigsRequest \<Rightarrow>
       ('w \<times> RequestContext, ListTaskPushNotificationConfigsResponse) step"
  ae_DeletePushConfig :: "DeleteTaskPushNotificationConfigRequest \<Rightarrow> ('w \<times> RequestContext, unit) step"

text \<open>The push operations of the base class refuse.\<close>

definition AgentExecutor_base_push :: "'r \<Rightarrow> ('w \<times> RequestContext, 'a) step" where
  "AgentExecutor_base_push request s =
     Some (s, Inl (PushNotificationNotSupported ''push notifications are not supported''))"

text \<open>The base class's \<open>SubscribeTask\<close> yields the current task once, without artifacts and history. Its session
  holds its own \<open>sent_\<close> flag, a boolean of the shared state read and written by \<open>sent\<close> and \<open>set_sent\<close>.\<close>

definition CurrentTaskStreamSession ::
  "('w \<Rightarrow> bool) \<Rightarrow> ('w \<Rightarrow> 'w) \<Rightarrow> Task \<Rightarrow> 'w ServerStreamSession" where
  "CurrentTaskStreamSession sent set_sent task =
     (let read = (\<lambda>w. if sent w then Some (w, Inr None)
                      else Some (set_sent w, Inr (Some (StreamResponse_task
                             (task\<lparr>Task_artifacts := [], Task_history := []\<rparr>)))))
      in \<lparr>ss_Next = read, ss_NextFor = read, ss_SupportsTimedNext = False, ss_IsLive = (\<lambda>w. False),
          ss_Cancel = Some\<rparr>)"

definition AgentExecutor_base_SubscribeTask ::
  "(GetTaskRequest \<Rightarrow> ('w \<times> RequestContext, Task) step) \<Rightarrow> ('w \<Rightarrow> bool) \<Rightarrow> ('w \<Rightarrow> 'w) \<Rightarrow>
   GetTaskRequest \<Rightarrow> ('w \<times> RequestContext, 'w ServerStreamSession option) step" where
  "AgentExecutor_base_SubscribeTask get_task sent set_sent request s =
     map_option (\<lambda>(s, task). (s, result_bind task (\<lambda>task.
         if IsTerminalTaskState (task_state task) then Inl (UnsupportedOperation ''task is already terminal'')
         else Inr (Some (CurrentTaskStreamSession sent set_sent task)))))
       (get_task request s)"

record AgentCardRequestContext =
  acr_tenant :: "string option"
  acr_remote_address :: "string option"
  acr_client_headers :: headers
  acr_auth_metadata :: headers

type_synonym ('w, 'card) AgentCardProvider = "AgentCardRequestContext \<Rightarrow> ('w, 'card) step"

record ('w, 'card) ServerInterceptor =
  BeforeDispatch :: "DispatchRequest \<Rightarrow> ('w \<times> RequestContext, unit) step"
  AfterDispatch ::
    "DispatchRequest \<Rightarrow> ('w, 'card) DispatchResponse Result \<Rightarrow> 'w \<times> RequestContext \<Rightarrow> ('w \<times> RequestContext) option"

definition ServerInterceptor_base :: "('w, 'card) ServerInterceptor" where
  "ServerInterceptor_base =
     \<lparr>BeforeDispatch = (\<lambda>request s. Some (s, Inr ())), AfterDispatch = (\<lambda>request result s. Some s)\<rparr>"

end
