(* ===== verification/Sse_Stream.thy ===== *)
theory Sse_Stream
  imports Http_Adapter_Props Task_Subscription_Props Sse_Parser Dispatch_Types
begin

text \<open>
  Streaming responses: the stream writers of \<open>src/server/transport/rest_transport.cpp\<close> and
  \<open>src/server/transport/json_rpc_server_transport.cpp\<close>, which turn the events of a \<open>ServerStreamSession\<close> into
  server-sent events. The protobuf JSON printer is a parameter; a read that blocks for ever and a live stream that never
  ends are the outcome \<open>None\<close> of the loops. The last section follows an event from the subscription through the
  writer, the chunked HTTP body, and the client's parser.
\<close>

section \<open>Sessions\<close>

text \<open>The session of a subscription. \<open>Next\<close> blocks while nothing is published; \<open>NextFor\<close> then times out.\<close>

definition SubscriptionSession :: "address \<Rightarrow> SubscriptionService ServerStreamSession" where
  "SubscriptionSession address =
     \<lparr>ss_Next = (\<lambda>svc. Option.bind (Session_Next address svc) (\<lambda>(svc, w).
        case w of Blocked \<Rightarrow> None | Returned event \<Rightarrow> Some (svc, Inr event))),
      ss_NextFor = (\<lambda>svc. map_option (apsnd Inr) (Session_NextFor address svc)),
      ss_SupportsTimedNext = True,
      ss_IsLive = (\<lambda>svc. case sub_heap svc address of None \<Rightarrow> False | Some s \<Rightarrow> IsLive s),
      ss_Cancel = Session_Cancel address\<rparr>"

section \<open>Frames\<close>

definition kSseDataPrefix :: string where "kSseDataPrefix = ''data: ''"
definition kSseErrorEventPrefix :: string where "kSseErrorEventPrefix = ''event: error'' @ [newline] @ ''data: ''"
definition kSseEventTerminator :: string where "kSseEventTerminator = [newline, newline]"
definition kSseHeartbeat :: string where "kSseHeartbeat = '': keep-alive'' @ [newline, newline]"
definition kJsonRpcSseSuffix :: string where "kJsonRpcSseSuffix = ''}'' @ [newline, newline]"

definition BuildSseEvent :: "(StreamResponse \<Rightarrow> string Result) \<Rightarrow> StreamResponse \<Rightarrow> string Result" where
  "BuildSseEvent MessageToJson event =
     result_bind (MessageToJson event) (\<lambda>event_json. Inr (kSseDataPrefix @ event_json @ kSseEventTerminator))"

definition BuildSseErrorEvent :: "(Struct \<Rightarrow> string Result) \<Rightarrow> Error \<Rightarrow> string Result" where
  "BuildSseErrorEvent StructToJson e =
     (let payload = [(''message'', StringValue (error_message e))];
          payload = (case error_protocol_code e of None \<Rightarrow> payload
                     | Some code \<Rightarrow> AList.update ''code'' (StringValue code) payload)
      in result_bind (StructToJson payload) (\<lambda>payload_json. Inr (kSseErrorEventPrefix @ payload_json @ kSseEventTerminator)))"

definition BuildSuccessEnvelopeFromJson :: "(Value \<Rightarrow> string Result) \<Rightarrow> Value \<Rightarrow> string \<Rightarrow> string Result" where
  "BuildSuccessEnvelopeFromJson ValueToJson id_value result_json =
     result_bind (ValueToJson id_value) (\<lambda>id_json.
       Inr (''{'' @ [CHR 0x22] @ ''jsonrpc'' @ [CHR 0x22] @ '':'' @ [CHR 0x22] @ ''2.0'' @ [CHR 0x22] @ '','' @
            [CHR 0x22] @ ''id'' @ [CHR 0x22] @ '':'' @ id_json @ '','' @
            [CHR 0x22] @ ''result'' @ [CHR 0x22] @ '':'' @ result_json @ ''}''))"

definition BuildSseJsonRpcPrefix :: "(Value \<Rightarrow> string Result) \<Rightarrow> Value \<Rightarrow> string Result" where
  "BuildSseJsonRpcPrefix ValueToJson id_value =
     result_bind (BuildSuccessEnvelopeFromJson ValueToJson id_value []) (\<lambda>envelope.
       Inr (kSseDataPrefix @ take (length envelope - 1) envelope))"

definition BuildSseJsonRpcEvent :: "(StreamResponse \<Rightarrow> string Result) \<Rightarrow> string \<Rightarrow> StreamResponse \<Rightarrow> string Result" where
  "BuildSseJsonRpcEvent MessageToJson pre event =
     result_bind (MessageToJson event) (\<lambda>event_json. Inr (pre @ event_json @ kJsonRpcSseSuffix))"

definition BuildSseJsonRpcErrorEvent :: "(Error \<Rightarrow> string Result) \<Rightarrow> Error \<Rightarrow> string Result" where
  "BuildSseJsonRpcErrorEvent BuildEnvelope e =
     result_bind (BuildEnvelope e) (\<lambda>envelope. Inr (kSseDataPrefix @ envelope @ kSseEventTerminator))"

section \<open>Writing\<close>

function WriteSseChunk_loop :: "string \<Rightarrow> 't HttpByteTransport \<Rightarrow> string \<Rightarrow> nat \<Rightarrow> 't \<Rightarrow> 't \<times> unit Result" where
  "WriteSseChunk_loop zero_message transport chunk sent t =
     (if sent < length chunk then
        case tr_Write transport (drop sent chunk) t of
          (t, Inl e) \<Rightarrow> (t, Inl e)
        | (t, Inr written) \<Rightarrow>
            if written = 0 then (t, Inl (Internal zero_message))
            else WriteSseChunk_loop zero_message transport chunk (sent + written) t
      else (t, Inr ()))"
  by pat_completeness auto
termination
  by (relation "measure (\<lambda>(msg, transport, chunk, sent, t). length chunk - sent)") auto

declare WriteSseChunk_loop.simps [simp del]

definition WriteSseChunk :: "string \<Rightarrow> 't HttpByteTransport \<Rightarrow> string \<Rightarrow> 't \<Rightarrow> 't \<times> unit Result" where
  "WriteSseChunk zero_message transport chunk t = WriteSseChunk_loop zero_message transport chunk 0 t"

text \<open>Writing one chunk in a loop: a failed write cancels the session and ends the stream.\<close>

definition write_or_cancel ::
  "string \<Rightarrow> 's ServerStreamSession \<Rightarrow> 't HttpByteTransport \<Rightarrow> string \<Rightarrow> 's \<Rightarrow> 't \<Rightarrow> ('s \<times> 't \<times> unit Result) option" where
  "write_or_cancel zero_message session transport chunk s t =
     (case WriteSseChunk zero_message transport chunk t of
        (t, Inl e) \<Rightarrow> map_option (\<lambda>s. (s, t, Inl e)) (ss_Cancel session s)
      | (t, Inr _) \<Rightarrow> Some (s, t, Inr ()))"

text \<open>The loop of \<open>BuildStreamingResponse\<close> and of \<open>StreamFiniteJsonRpcSseEvents\<close>, over their frame builders.\<close>

partial_function (option) stream_finite_events ::
  "(StreamResponse \<Rightarrow> string Result) \<Rightarrow> (Error \<Rightarrow> string Result) \<Rightarrow> string \<Rightarrow> 's ServerStreamSession \<Rightarrow>
   't HttpByteTransport \<Rightarrow> 's \<Rightarrow> 't \<Rightarrow> ('s \<times> 't \<times> unit Result) option" where
  "stream_finite_events frame error_frame zero_message session transport s t =
     Option.bind (ss_Next session s) (\<lambda>(s, next).
       case next of
         Inl e \<Rightarrow>
           (case error_frame e of
              Inl e' \<Rightarrow> Some (s, t, Inl e')
            | Inr chunk \<Rightarrow> write_or_cancel zero_message session transport chunk s t)
       | Inr None \<Rightarrow> Some (s, t, Inr ())
       | Inr (Some event) \<Rightarrow>
           (case frame event of
              Inl e \<Rightarrow> Some (s, t, Inl e)
            | Inr chunk \<Rightarrow>
                Option.bind (write_or_cancel zero_message session transport chunk s t) (\<lambda>(s, t, r).
                  case r of
                    Inl e \<Rightarrow> Some (s, t, Inl e)
                  | Inr _ \<Rightarrow> stream_finite_events frame error_frame zero_message session transport s t)))"

text \<open>The loop of \<open>BuildSubscribeResponse\<close> and of \<open>StreamJsonRpcSseEvents\<close>: timed reads and heartbeats.\<close>

partial_function (option) stream_live_events ::
  "(StreamResponse \<Rightarrow> string Result) \<Rightarrow> string \<Rightarrow> 's ServerStreamSession \<Rightarrow>
   't HttpByteTransport \<Rightarrow> 's \<Rightarrow> 't \<Rightarrow> ('s \<times> 't \<times> unit Result) option" where
  "stream_live_events frame zero_message session transport s t =
     Option.bind (ss_NextFor session s) (\<lambda>(s, next).
       case next of
         Inl e \<Rightarrow> Some (s, t, Inl e)
       | Inr None \<Rightarrow>
           if \<not> ss_IsLive session s then Some (s, t, Inr ())
           else Option.bind (write_or_cancel zero_message session transport kSseHeartbeat s t) (\<lambda>(s, t, r).
             case r of
               Inl e \<Rightarrow> Some (s, t, Inl e)
             | Inr _ \<Rightarrow> stream_live_events frame zero_message session transport s t)
       | Inr (Some event) \<Rightarrow>
           (case frame event of
              Inl e \<Rightarrow> Some (s, t, Inl e)
            | Inr chunk \<Rightarrow>
                Option.bind (write_or_cancel zero_message session transport chunk s t) (\<lambda>(s, t, r).
                  case r of
                    Inl e \<Rightarrow> Some (s, t, Inl e)
                  | Inr _ \<Rightarrow> stream_live_events frame zero_message session transport s t)))"

definition kRestZeroWrite :: string where
  "kRestZeroWrite = ''Transport write returned zero bytes while streaming SSE''"
definition kJsonRpcZeroWrite :: string where
  "kJsonRpcZeroWrite = ''Transport write returned zero bytes while streaming JSON-RPC SSE''"

definition StreamingResponse_writer ::
  "(StreamResponse \<Rightarrow> string Result) \<Rightarrow> (Struct \<Rightarrow> string Result) \<Rightarrow> 's ServerStreamSession \<Rightarrow>
   't HttpByteTransport \<Rightarrow> 's \<Rightarrow> 't \<Rightarrow> ('s \<times> 't \<times> unit Result) option" where
  "StreamingResponse_writer MessageToJson StructToJson =
     stream_finite_events (BuildSseEvent MessageToJson) (BuildSseErrorEvent StructToJson) kRestZeroWrite"

definition SubscribeResponse_writer ::
  "(StreamResponse \<Rightarrow> string Result) \<Rightarrow> 's ServerStreamSession \<Rightarrow>
   't HttpByteTransport \<Rightarrow> 's \<Rightarrow> 't \<Rightarrow> ('s \<times> 't \<times> unit Result) option" where
  "SubscribeResponse_writer MessageToJson = stream_live_events (BuildSseEvent MessageToJson) kRestZeroWrite"

definition StreamFiniteJsonRpcSseEvents ::
  "(StreamResponse \<Rightarrow> string Result) \<Rightarrow> (Value \<Rightarrow> string Result) \<Rightarrow> (Error \<Rightarrow> string Result) \<Rightarrow> Value \<Rightarrow>
   's ServerStreamSession \<Rightarrow> 't HttpByteTransport \<Rightarrow> 's \<Rightarrow> 't \<Rightarrow> ('s \<times> 't \<times> unit Result) option" where
  "StreamFiniteJsonRpcSseEvents MessageToJson ValueToJson BuildEnvelope id_value session transport s t =
     (case BuildSseJsonRpcPrefix ValueToJson id_value of
        Inl e \<Rightarrow> Some (s, t, Inl e)
      | Inr pre \<Rightarrow> stream_finite_events (BuildSseJsonRpcEvent MessageToJson pre)
          (BuildSseJsonRpcErrorEvent BuildEnvelope) kJsonRpcZeroWrite session transport s t)"

definition StreamJsonRpcSseEvents ::
  "(StreamResponse \<Rightarrow> string Result) \<Rightarrow> (Value \<Rightarrow> string Result) \<Rightarrow> Value \<Rightarrow>
   's ServerStreamSession \<Rightarrow> 't HttpByteTransport \<Rightarrow> 's \<Rightarrow> 't \<Rightarrow> ('s \<times> 't \<times> unit Result) option" where
  "StreamJsonRpcSseEvents MessageToJson ValueToJson id_value session transport s t =
     (case BuildSseJsonRpcPrefix ValueToJson id_value of
        Inl e \<Rightarrow> Some (s, t, Inl e)
      | Inr pre \<Rightarrow> stream_live_events (BuildSseJsonRpcEvent MessageToJson pre) kJsonRpcZeroWrite session transport s t)"

section \<open>Writing whole chunks\<close>

text \<open>A sink as the stream writers use it: a chunk is written completely, in the encoding of the transport.\<close>

locale chunk_sink =
  fixes transport :: "'t HttpByteTransport"
    and written :: "'t \<Rightarrow> string"
    and enc :: "string \<Rightarrow> string"
  assumes write_chunk: "p \<noteq> [] \<Longrightarrow> \<exists>t'. WriteSseChunk msg transport p t = (t', Inr ()) \<and> written t' = written t @ enc p"

lemma WriteSseChunk_loop_WriteAll:
  assumes "WriteAll_loop transport p sent t = (t', Inr ())"
  shows "WriteSseChunk_loop msg transport p sent t = (t', Inr ())"
  using assms
proof (induction transport p sent t rule: WriteAll_loop.induct)
  case (1 transport p sent t)
  show ?case
  proof (cases "sent < length p")
    case False
    with 1(2) show ?thesis by (simp add: WriteAll_loop.simps[of _ p sent] WriteSseChunk_loop.simps[of _ _ p sent])
  next
    case True
    obtain t1 w where w: "tr_Write transport (drop sent p) t = (t1, w)" by fastforce
    with 1(2) True obtain n where n: "w = Inr n" "n \<noteq> 0" "WriteAll_loop transport p (sent + n) t1 = (t', Inr ())"
      by (auto simp: WriteAll_loop.simps[of _ p sent] split: sum.splits if_splits)
    from 1(1)[OF True w[symmetric] n] True w n(1,2) show ?thesis by (simp add: WriteSseChunk_loop.simps[of _ _ p sent])
  qed
qed

lemma WriteSseChunk_WriteAll: "WriteAll transport p t = (t', Inr ()) \<Longrightarrow> WriteSseChunk msg transport p t = (t', Inr ())"
  by (simp add: WriteAll_def WriteSseChunk_def WriteSseChunk_loop_WriteAll)

sublocale byte_sink \<subseteq> plain: chunk_sink transport written "\<lambda>p. p"
proof unfold_locales
  fix p msg :: string and t
  show "\<exists>t'. WriteSseChunk msg transport p t = (t', Inr ()) \<and> written t' = written t @ p"
    using write_all[of p t] WriteSseChunk_WriteAll by fastforce
qed

sublocale byte_sink \<subseteq> chunked: chunk_sink "ChunkedByteTransport transport" written encode_chunk
proof unfold_locales
  fix p msg :: string and t
  assume "p \<noteq> []"
  with chunked_write_all[of p t] WriteSseChunk_WriteAll
  show "\<exists>t'. WriteSseChunk msg (ChunkedByteTransport transport) p t = (t', Inr ()) \<and> written t' = written t @ encode_chunk p"
    by fastforce
qed

section \<open>Sessions that end\<close>

locale ending_session =
  fixes session :: "'s ServerStreamSession"
    and good :: "'s \<Rightarrow> bool"
    and stream :: "'s \<Rightarrow> StreamResponse list"
  assumes next_spec: "good s \<Longrightarrow> \<exists>s'. ss_Next session s = Some (s', Inr (case stream s of [] \<Rightarrow> None | e # _ \<Rightarrow> Some e)) \<and>
      good s' \<and> stream s' = tl (stream s)"
    and next_for_spec: "good s \<Longrightarrow> \<exists>s'. ss_NextFor session s = Some (s', Inr (case stream s of [] \<Rightarrow> None | e # _ \<Rightarrow> Some e)) \<and>
      good s' \<and> stream s' = tl (stream s) \<and> (stream s = [] \<longrightarrow> \<not> ss_IsLive session s')"

locale sse_response = ending_session session good stream + chunk_sink transport written enc
  for session :: "'s ServerStreamSession" and good stream and transport :: "'t HttpByteTransport" and written enc

context sse_response
begin

lemma write_ok:
  "p \<noteq> [] \<Longrightarrow> \<exists>t'. write_or_cancel msg session transport p s t = Some (s, t', Inr ()) \<and> written t' = written t @ enc p"
  using write_chunk[of p msg t] by (auto simp: write_or_cancel_def)

lemma finite_events:
  assumes "good s" "\<And>e. e \<in> set (stream s) \<Longrightarrow> frame e = Inr (f e) \<and> f e \<noteq> []"
  shows "\<exists>s' t'. stream_finite_events frame error_frame msg session transport s t = Some (s', t', Inr ()) \<and> good s' \<and>
    written t' = written t @ concat (map (\<lambda>e. enc (f e)) (stream s))"
  using assms
proof (induction "stream s" arbitrary: s t)
  case Nil
  with next_spec[OF Nil(2)] show ?case by (auto simp: stream_finite_events.simps)
next
  case (Cons e es)
  from next_spec[OF Cons(3)] Cons(2)[symmetric] obtain s1 where s1: "ss_Next session s = Some (s1, Inr (Some e))" "good s1" "stream s1 = es"
    by auto
  have frame: "frame e = Inr (f e)" "f e \<noteq> []" using Cons(2,4) by (metis list.set_intros(1))+
  obtain t1 where t1: "write_or_cancel msg session transport (f e) s1 t = Some (s1, t1, Inr ())" "written t1 = written t @ enc (f e)"
    using write_ok[OF frame(2)] by blast
  have "\<And>e. e \<in> set (stream s1) \<Longrightarrow> frame e = Inr (f e) \<and> f e \<noteq> []" using Cons(2,4) s1(3) by (metis list.set_intros(2))
  from Cons(1)[OF s1(3)[symmetric] s1(2) this, of t1] t1 s1 frame Cons(2)[symmetric] show ?case
    by (auto simp: stream_finite_events.simps[of _ _ _ _ _ s t])
qed

lemma live_events:
  assumes "good s" "\<And>e. e \<in> set (stream s) \<Longrightarrow> frame e = Inr (f e) \<and> f e \<noteq> []"
  shows "\<exists>s' t'. stream_live_events frame msg session transport s t = Some (s', t', Inr ()) \<and> good s' \<and>
    written t' = written t @ concat (map (\<lambda>e. enc (f e)) (stream s))"
  using assms
proof (induction "stream s" arbitrary: s t)
  case Nil
  with next_for_spec[OF Nil(2)] show ?case by (auto simp: stream_live_events.simps)
next
  case (Cons e es)
  from next_for_spec[OF Cons(3)] Cons(2)[symmetric] obtain s1 where s1: "ss_NextFor session s = Some (s1, Inr (Some e))" "good s1" "stream s1 = es"
    by auto
  have frame: "frame e = Inr (f e)" "f e \<noteq> []" using Cons(2,4) by (metis list.set_intros(1))+
  obtain t1 where t1: "write_or_cancel msg session transport (f e) s1 t = Some (s1, t1, Inr ())" "written t1 = written t @ enc (f e)"
    using write_ok[OF frame(2)] by blast
  have "\<And>e. e \<in> set (stream s1) \<Longrightarrow> frame e = Inr (f e) \<and> f e \<noteq> []" using Cons(2,4) s1(3) by (metis list.set_intros(2))
  from Cons(1)[OF s1(3)[symmetric] s1(2) this, of t1] t1 s1 frame Cons(2)[symmetric] show ?case
    by (auto simp: stream_live_events.simps[of _ _ _ _ s t])
qed

end

section \<open>The session of a closed subscription\<close>

definition closed_subscription :: "address \<Rightarrow> SubscriptionService \<Rightarrow> bool" where
  "closed_subscription a svc \<longleftrightarrow> svc_inv svc \<and> (\<exists>s. sub_heap svc a = Some s \<and> closed s)"

definition stream_at :: "address \<Rightarrow> SubscriptionService \<Rightarrow> StreamResponse list" where
  "stream_at a svc = sub_stream (the (sub_heap svc a))"

lemma drained_not_live:
  assumes "Session_Next a svc = Some (svc', Returned None)" "sub_heap svc' a = Some s'"
  shows "\<not> IsLive s'"
  using assms
  by (auto simp: Session_Next_def bind_eq_Some_conv WaitForNext_def wait_end_def IsLive_def split: option.splits if_splits)

interpretation subscription: ending_session "SubscriptionSession a" "closed_subscription a" "stream_at a" for a
proof
  fix svc
  assume c: "closed_subscription a svc"
  then obtain s where s: "svc_inv svc" "sub_heap svc a = Some s" "closed s" by (auto simp: closed_subscription_def)
  obtain svc' s' where nx: "Session_Next a svc = Some (svc', Returned (case sub_stream s of e # _ \<Rightarrow> Some e | [] \<Rightarrow> None))"
    "svc_inv svc'" "sub_heap svc' = (sub_heap svc)(a \<mapsto> s')" "sub_stream s' = tl (sub_stream s)" "closed s'"
    using Session_Next_effect[OF s(1,2)] s(3) by (auto split: list.splits)
  have good: "closed_subscription a svc'" "stream_at a svc' = tl (stream_at a svc)" "stream_at a svc = sub_stream s"
    using nx s(2) by (auto simp: closed_subscription_def stream_at_def)
  show "\<exists>s'. ss_Next (SubscriptionSession a) svc = Some (s', Inr (case stream_at a svc of [] \<Rightarrow> None | e # _ \<Rightarrow> Some e)) \<and>
      closed_subscription a s' \<and> stream_at a s' = tl (stream_at a svc)"
    using nx(1) good by (auto simp: SubscriptionSession_def split: list.split)
  have "\<not> ss_IsLive (SubscriptionSession a) svc'" if "stream_at a svc = []"
    using drained_not_live[of a svc svc' s'] nx(1,3) that good(3) by (simp add: SubscriptionSession_def)
  with nx(1) good show "\<exists>s'. ss_NextFor (SubscriptionSession a) svc = Some (s', Inr (case stream_at a svc of [] \<Rightarrow> None | e # _ \<Rightarrow> Some e)) \<and>
      closed_subscription a s' \<and> stream_at a s' = tl (stream_at a svc) \<and>
      (stream_at a svc = [] \<longrightarrow> \<not> ss_IsLive (SubscriptionSession a) s')"
    by (auto simp: SubscriptionSession_def Session_NextFor_def split: list.split)
qed

text \<open>The response over a subscription, on a connection that stays open.\<close>

interpretation subscribed: sse_response "SubscriptionSession a" "closed_subscription a" "stream_at a"
  "ChunkedByteTransport SocketTransport" sock_sent encode_chunk for a
  by (intro sse_response.intro subscription.ending_session_axioms socket_out.chunked.chunk_sink_axioms)

section \<open>What the client reads\<close>

text \<open>A callback that collects the events.\<close>

definition collect :: "SseEvent list EventCallback" where
  "collect e c = (c @ [e], Inr ())"

definition one_line :: "string \<Rightarrow> bool" where
  "one_line j \<longleftrightarrow> newline \<notin> set j \<and> CHR 0x0D \<notin> set j"

lemma strip_one_line: "one_line l \<Longrightarrow> strip_carriage_return l = l"
  by (auto simp: strip_carriage_return_def one_line_def dest: last_in_set)

lemma parse_text_line:
  assumes "one_line l" "ConsumeLine l on_event p c = (p', c', Inr ())"
  shows "parse_text on_event (l @ newline # rest) p c = parse_text on_event rest p' c'"
proof -
  have "index_of (\<lambda>x. x = newline) (l @ newline # rest) = Some (length l)"
    using assms(1) by (auto intro!: index_of_append_hit simp: one_line_def)
  with assms show ?thesis by (simp add: parse_text.simps[of _ "l @ newline # rest"] strip_one_line)
qed

lemma parse_data_frame:
  assumes "one_line j" "current_event p = []" "current_data p = []"
  shows "parse_text collect (''data: '' @ j @ newline # newline # rest) p c =
    parse_text collect rest p (c @ [\<lparr>sse_event = [], sse_data = j\<rparr>])"
proof -
  let ?p = "p\<lparr>current_data := j @ [newline]\<rparr>"
  have "one_line (''data: '' @ j)" using assms(1) by (simp add: one_line_def newline_def)
  moreover have "ConsumeLine (''data: '' @ j) collect p c = (?p, c, Inr ())"
    using assms(3) by (simp add: ConsumeLine_def TrimSingleLeadingSpace_def)
  ultimately have "parse_text collect (''data: '' @ j @ newline # newline # rest) p c = parse_text collect (newline # rest) ?p c"
    using parse_text_line[of "''data: '' @ j" collect p c] by simp
  also have "\<dots> = parse_text collect rest p (c @ [\<lparr>sse_event = [], sse_data = j\<rparr>])"
    using parse_text_line[of "[]" collect ?p c p "c @ [\<lparr>sse_event = [], sse_data = j\<rparr>]" rest] assms(2,3)
    by (simp add: one_line_def ConsumeLine_def DispatchEvent_def collect_def)
  finally show ?thesis .
qed

lemma parse_data_frames:
  assumes "\<And>e. e \<in> set es \<Longrightarrow> one_line (json e)"
  shows "parse_text collect (concat (map (\<lambda>e. ''data: '' @ json e @ [newline, newline]) es)) new_SseParser c =
    (new_SseParser, c @ map (\<lambda>e. \<lparr>sse_event = [], sse_data = json e\<rparr>) es, Inr ())"
  using assms
proof (induction es arbitrary: c)
  case Nil
  then show ?case by (simp add: parse_text.simps new_SseParser_def)
next
  case (Cons e es)
  then have "one_line (json e)" by simp
  from parse_data_frame[OF this, of new_SseParser] Cons show ?case by (simp add: new_SseParser_def)
qed

lemma feed_data_frames:
  assumes "\<And>e. e \<in> set es \<Longrightarrow> one_line (json e)" "chunks \<noteq> []"
    and "concat chunks = concat (map (\<lambda>e. ''data: '' @ json e @ [newline, newline]) es)"
  shows "feed_chunks chunks collect new_SseParser [] = (new_SseParser, map (\<lambda>e. \<lparr>sse_event = [], sse_data = json e\<rparr>) es, Inr ())"
proof -
  have "same_outcome (feed_chunks chunks collect new_SseParser []) (parse_text collect (concat chunks) new_SseParser [])"
    using feed_chunks_concat[OF assms(2)] Feed_parse[of "concat chunks" collect new_SseParser "[]"] same_outcome_trans
    by (fastforce simp: new_SseParser_def)
  moreover have "parse_text collect (concat chunks) new_SseParser [] =
      (new_SseParser, map (\<lambda>e. \<lparr>sse_event = [], sse_data = json e\<rparr>) es, Inr ())"
    using parse_data_frames[of es json "[]", OF assms(1)] assms(3) by simp
  ultimately show ?thesis by (cases rule: prod_cases3[of "feed_chunks chunks collect new_SseParser []"]) (auto simp: same_outcome_def)
qed

text \<open>C24: feeding the client's parser a stream in any pieces has the effect of feeding it at once: the same events
  reach the callback in the same order, with the same result, and after success the parser is in the same state.\<close>

theorem SseParser_chunking:
  assumes "chunks \<noteq> []"
  shows "snd (feed_chunks chunks on_event p c) = snd (Feed (concat chunks) on_event p c) \<and>
    (snd (snd (Feed (concat chunks) on_event p c)) = Inr () \<longrightarrow>
       fst (feed_chunks chunks on_event p c) = fst (Feed (concat chunks) on_event p c))"
  using feed_chunks_concat[OF assms, of on_event p c] by (auto simp: same_outcome_def split: sum.splits)

theorem SseParser_chunking_witness:
  "fst (snd (feed_chunks [''da'', ''ta: x'' @ [newline], [newline]] collect new_SseParser [])) = [\<lparr>sse_event = [], sse_data = ''x''\<rparr>]"
proof -
  have "fst (snd (Feed (''data: x'' @ [newline, newline]) collect new_SseParser [])) = [\<lparr>sse_event = [], sse_data = ''x''\<rparr>]"
    by code_simp
  with SseParser_chunking[of "[''da'', ''ta: x'' @ [newline], [newline]]" collect new_SseParser "[]"] show ?thesis by (simp del: feed_chunks.simps)
qed



end
