(* ===== verification/Security_Policy.thy ===== *)
theory Security_Policy
  imports Dispatch_Types Task_Store_Props "HOL-Library.Monad_Syntax"
begin

text \<open>
  \<open>DispatchSecurity\<close> (\<open>src/server/security_policy.cpp\<close>): authentication and authorization of a request, the access
  check of a response, the listing restricted to the tasks the caller may see, and the stream that checks access on
  every read. The policy is a parameter; the task store is any implementation of the interface over the server state
  \<open>'w\<close>. The selection loop follows page tokens until one is empty and is a partial function: not returning is
  \<open>None\<close>.
\<close>

section \<open>Access to one task\<close>

definition kMissingSecurityConfiguration :: string where
  "kMissingSecurityConfiguration = ''security policy and task store are required''"
definition kInvalidPageSize :: string where "kInvalidPageSize = ''page size exceeds maximum''"
definition kMissingTaskCursors :: string where
  "kMissingTaskCursors = ''task store must provide list cursor boundaries''"
definition kEmptyIdentity :: string where "kEmptyIdentity = ''authentication returned an empty identity''"

text \<open>\<open>protocol_errors::TaskNotFound()\<close> with its default message.\<close>

definition TaskNotFound_default :: Error where
  "TaskNotFound_default = TaskNotFound ''task not found''"

definition GetAuthorizedTask ::
  "'w TaskStore \<Rightarrow> SecurityPolicy \<Rightarrow> RequestContext \<Rightarrow> string \<Rightarrow> 'w \<Rightarrow> Task Result option" where
  "GetAuthorizedTask store policy context task_id w =
     do { task \<leftarrow> TS_Get store task_id w;
          Some (case task of
             Inl e \<Rightarrow> Inl (if error_code e = kRemoteProtocol \<and> error_protocol_code e = Some ''-32001''
                         then TaskNotFound_default else e)
           | Inr t \<Rightarrow> if CanAccessTask policy t context then Inr t else Inl TaskNotFound_default) }"

section \<open>The tasks that requests, responses and events name\<close>

fun TaskId :: "RequestPayload \<Rightarrow> string" where
  "TaskId (Req_SendMessage r) = Message_task_id (request_message r)"
| "TaskId (Req_GetTask r) = GTR_id r"
| "TaskId (Req_CancelTask r) = CTR_id r"
| "TaskId (Req_ListTasks r) = []"
| "TaskId (Req_GetExtendedAgentCard r) = []"
| "TaskId (Req_PushConfig r) = Push_task_id r"
| "TaskId (Req_GetPushConfig r) = GPR_task_id r"
| "TaskId (Req_ListPushConfigs r) = LPR_task_id r"
| "TaskId (Req_DeletePushConfig r) = DPR_task_id r"

fun EventTaskId :: "StreamResponse \<Rightarrow> string" where
  "EventTaskId (StreamResponse_task t) = Task_id t"
| "EventTaskId (StreamResponse_status_update u) = TSU_task_id u"
| "EventTaskId (StreamResponse_artifact_update u) = TAU_task_id u"
| "EventTaskId (StreamResponse_message m) = Message_task_id m"
| "EventTaskId StreamResponse_not_set = []"

fun has_message :: "StreamResponse \<Rightarrow> bool" where
  "has_message (StreamResponse_message m) = True"
| "has_message _ = False"

section \<open>Responses\<close>

definition AuthorizeId ::
  "SecurityPolicy \<Rightarrow> 'w TaskStore \<Rightarrow> RequestContext \<Rightarrow> string \<Rightarrow> 'w \<Rightarrow> unit Result option" where
  "AuthorizeId policy store context task_id w =
     (if task_id = [] then Some (Inl TaskNotFound_default)
      else map_option (map_sum id (\<lambda>_. ())) (GetAuthorizedTask store policy context task_id w))"

definition AuthorizeTask :: "SecurityPolicy \<Rightarrow> RequestContext \<Rightarrow> Task \<Rightarrow> unit Result" where
  "AuthorizeTask policy context task =
     (if Task_id task \<noteq> [] \<and> CanAccessTask policy task context then Inr () else Inl TaskNotFound_default)"

fun AuthorizeConfigs ::
  "SecurityPolicy \<Rightarrow> 'w TaskStore \<Rightarrow> RequestContext \<Rightarrow> TaskPushNotificationConfig list \<Rightarrow> 'w \<Rightarrow> unit Result option" where
  "AuthorizeConfigs policy store context [] w = Some (Inr ())"
| "AuthorizeConfigs policy store context (config # configs) w =
     do { authorized \<leftarrow> AuthorizeId policy store context (Push_task_id config) w;
          case authorized of
            Inl e \<Rightarrow> Some (Inl e)
          | Inr _ \<Rightarrow> AuthorizeConfigs policy store context configs w }"

fun ResponseAuthorizer ::
  "SecurityPolicy \<Rightarrow> 'w TaskStore \<Rightarrow> RequestContext \<Rightarrow> ('w, 'card) DispatchResponse \<Rightarrow> 'w \<Rightarrow> unit Result option" where
  "ResponseAuthorizer policy store context (Resp_Task task) w = Some (AuthorizeTask policy context task)"
| "ResponseAuthorizer policy store context (Resp_SendMessage send) w =
     (case send of
        SendMessageResponse_task task \<Rightarrow> Some (AuthorizeTask policy context task)
      | SendMessageResponse_message m \<Rightarrow>
          if Message_task_id m \<noteq> [] then AuthorizeId policy store context (Message_task_id m) w else Some (Inr ())
      | SendMessageResponse_not_set \<Rightarrow> Some (Inr ()))"
| "ResponseAuthorizer policy store context (Resp_PushConfig config) w =
     AuthorizeId policy store context (Push_task_id config) w"
| "ResponseAuthorizer policy store context (Resp_ListPushConfigs response) w =
     AuthorizeConfigs policy store context (LPResp_configs response) w"
| "ResponseAuthorizer policy store context _ w = Some (Inr ())"

section \<open>Protected streams\<close>

text \<open>What \<open>Read\<close> does with an event of the inner stream: the task id of the stream afterwards and the result.\<close>

definition authorize_event ::
  "SecurityPolicy \<Rightarrow> 'w TaskStore \<Rightarrow> RequestContext \<Rightarrow> string \<Rightarrow> StreamResponse \<Rightarrow> 'w \<Rightarrow>
   (string \<times> StreamResponse option Result) option" where
  "authorize_event policy store context task_id item w =
     (let event_id = EventTaskId item in
      if event_id = [] \<and> \<not> has_message item then Some (task_id, Inl TaskNotFound_default)
      else if event_id = [] \<and> task_id = [] then Some (task_id, Inr (Some item))
      else let event_id = (if event_id = [] then task_id else event_id) in
        do { task \<leftarrow> GetAuthorizedTask store policy context event_id w;
             Some (case task of Inl e \<Rightarrow> (task_id, Inl e) | Inr _ \<Rightarrow> (event_id, Inr (Some item))) })"

text \<open>\<open>Next\<close> (not timed) and \<open>NextFor\<close> (timed) of a stream object.\<close>

primrec Stream_Read ::
  "bool \<Rightarrow> 'w StreamObject \<Rightarrow> 'w \<Rightarrow> ('w \<times> 'w StreamObject \<times> StreamResponse option Result) option" where
  "Stream_Read timed (ExecutorStream session) w =
     map_option (\<lambda>(w, event). (w, ExecutorStream session, event))
       (if timed then ss_NextFor session w else ss_Next session w)"
| "Stream_Read timed (AuthorizedStream stream policy store context task_id) w =
     do { allowed \<leftarrow> (if task_id \<noteq> [] then GetAuthorizedTask store policy context task_id w
                      else Some (Inr default_Task));
          case allowed of
            Inl e \<Rightarrow> Some (w, AuthorizedStream stream policy store context task_id, Inl e)
          | Inr _ \<Rightarrow>
              do { (w, stream, event) \<leftarrow> Stream_Read timed stream w;
                   case event of
                     Inr (Some item) \<Rightarrow>
                       map_option (\<lambda>(task_id, r). (w, AuthorizedStream stream policy store context task_id, r))
                         (authorize_event policy store context task_id item w)
                   | _ \<Rightarrow> Some (w, AuthorizedStream stream policy store context task_id, event) } }"

primrec Stream_SupportsTimedNext :: "'w StreamObject \<Rightarrow> bool" where
  "Stream_SupportsTimedNext (ExecutorStream session) = ss_SupportsTimedNext session"
| "Stream_SupportsTimedNext (AuthorizedStream stream policy store context task_id) = Stream_SupportsTimedNext stream"

primrec Stream_IsLive :: "'w StreamObject \<Rightarrow> 'w \<Rightarrow> bool" where
  "Stream_IsLive (ExecutorStream session) w = ss_IsLive session w"
| "Stream_IsLive (AuthorizedStream stream policy store context task_id) w = Stream_IsLive stream w"

primrec Stream_Cancel :: "'w StreamObject \<Rightarrow> 'w \<Rightarrow> 'w option" where
  "Stream_Cancel (ExecutorStream session) w = ss_Cancel session w"
| "Stream_Cancel (AuthorizedStream stream policy store context task_id) w = Stream_Cancel stream w"

section \<open>The selection of visible tasks\<close>

record VisibleTaskPage =
  page_task_ids :: "string list"
  page_total_size :: nat
  page_next_token :: string

definition empty_VisibleTaskPage :: VisibleTaskPage where
  "empty_VisibleTaskPage = \<lparr>page_task_ids = [], page_total_size = 0, page_next_token = []\<rparr>"

definition select_step ::
  "SecurityPolicy \<Rightarrow> RequestContext \<Rightarrow> ListTaskCursor option \<Rightarrow> nat \<Rightarrow> Task \<times> ListTaskCursor \<Rightarrow>
   VisibleTaskPage \<times> ListTaskCursor \<Rightarrow> VisibleTaskPage \<times> ListTaskCursor" where
  "select_step policy context cursor page_size = (\<lambda>(task, boundary) (selected, last_selected).
     if \<not> CanAccessTask policy task context then (selected, last_selected)
     else let selected = selected\<lparr>page_total_size := page_total_size selected + 1\<rparr> in
       if (case cursor of Some c \<Rightarrow> \<not> ListCursorPrecedes c boundary | None \<Rightarrow> False) then (selected, last_selected)
       else if length (page_task_ids selected) < page_size
            then (selected\<lparr>page_task_ids := page_task_ids selected @ [Task_id task]\<rparr>, boundary)
       else if page_next_token selected = []
            then (selected\<lparr>page_next_token := EncodeListPageToken last_selected\<rparr>, last_selected)
       else (selected, last_selected))"

partial_function (option) select_loop ::
  "SecurityPolicy \<Rightarrow> 'w TaskStore \<Rightarrow> RequestContext \<Rightarrow> ListTaskCursor option \<Rightarrow> nat \<Rightarrow> 'w \<Rightarrow> ListTasksRequest \<Rightarrow>
   VisibleTaskPage \<times> ListTaskCursor \<Rightarrow> VisibleTaskPage Result option" where
  "select_loop policy store context cursor page_size w query selection =
     Option.bind (TS_List store query w) (\<lambda>listed.
       case listed of
         Inl e \<Rightarrow> Some (Inl e)
       | Inr listed \<Rightarrow>
           if length (LTResp_tasks listed) \<noteq> length (LTResp_task_cursors listed)
           then Some (Inl (Internal kMissingTaskCursors))
           else let selection = fold (select_step policy context cursor page_size)
                      (zip (LTResp_tasks listed) (LTResp_task_cursors listed)) selection;
                    query = query\<lparr>LTR_page_token := LTResp_next_page_token listed\<rparr>
                in if LTR_page_token query \<noteq> []
                   then select_loop policy store context cursor page_size w query selection
                   else Some (Inr (fst selection)))"

text \<open>\<open>ListTaskCursor\<close> without an initializer: time 0 and an empty id.\<close>

definition SelectTaskIds ::
  "SecurityPolicy \<Rightarrow> 'w TaskStore \<Rightarrow> ListTasksRequest \<Rightarrow> RequestContext \<Rightarrow> ListTaskCursor option \<Rightarrow> nat \<Rightarrow> 'w \<Rightarrow>
   VisibleTaskPage Result option" where
  "SelectTaskIds policy store query context cursor page_size w =
     select_loop policy store context cursor page_size w
       (query\<lparr>LTR_page_size := kMaxListTasksPageSize, LTR_include_total_size := False, LTR_page_token := []\<rparr>)
       (empty_VisibleTaskPage, ListTaskCursor 0 [])"

section \<open>DispatchSecurity\<close>

record 'w DispatchSecurity =
  ds_policy :: "SecurityPolicy option"
  ds_task_store :: "'w TaskStore option"

definition configured :: "'w DispatchSecurity \<Rightarrow> (SecurityPolicy \<times> 'w TaskStore) Result" where
  "configured ds =
     (case (ds_policy ds, ds_task_store ds) of
        (Some policy, Some store) \<Rightarrow> Inr (policy, store)
      | _ \<Rightarrow> Inl (Internal kMissingSecurityConfiguration))"

definition Security_Authorize ::
  "'w DispatchSecurity \<Rightarrow> DispatchRequest \<Rightarrow> RequestContext \<Rightarrow> 'w \<Rightarrow> (RequestContext \<times> unit Result) option" where
  "Security_Authorize ds request context w =
     (let context = context\<lparr>ctx_principal := []\<rparr> in
      case configured ds of
        Inl e \<Rightarrow> Some (context, Inl e)
      | Inr (policy, store) \<Rightarrow>
          (case Authenticate policy context of
             Inl e \<Rightarrow> Some (context, Inl e)
           | Inr identity \<Rightarrow>
               if identity = [] then Some (context, Inl (Unauthenticated kEmptyIdentity))
               else let context = context\<lparr>ctx_principal := identity\<rparr>;
                        task_id = TaskId (req_payload request) in
                 do { task \<leftarrow> (if task_id \<noteq> [] then GetAuthorizedTask store policy context task_id w
                               else Some (Inr default_Task));
                      Some (context, case task of
                        Inl e \<Rightarrow> Inl e
                      | Inr _ \<Rightarrow> if \<not> AuthorizeOperation policy request context
                               then Inl (PermissionDenied ''access is denied'') else Inr ()) }))"

definition Security_AuthorizeResponse ::
  "'w DispatchSecurity \<Rightarrow> ('w, 'card) DispatchResponse \<Rightarrow> RequestContext \<Rightarrow> 'w \<Rightarrow> unit Result option" where
  "Security_AuthorizeResponse ds response context w =
     (case configured ds of
        Inl e \<Rightarrow> Some (Inl e)
      | Inr (policy, store) \<Rightarrow> ResponseAuthorizer policy store context response w)"

text \<open>The loop of \<open>ListTasks\<close> that reads the selected tasks again and projects them.\<close>

fun read_selected ::
  "SecurityPolicy \<Rightarrow> 'w TaskStore \<Rightarrow> RequestContext \<Rightarrow> ListTasksRequest \<Rightarrow> 'w \<Rightarrow> string list \<Rightarrow> Task list Result option" where
  "read_selected policy store context request w [] = Some (Inr [])"
| "read_selected policy store context request w (task_id # task_ids) =
     do { task \<leftarrow> GetAuthorizedTask store policy context task_id w;
          case task of
            Inl e \<Rightarrow> Some (Inl e)
          | Inr t \<Rightarrow> map_option (map_sum id
                ((#) (ProjectTaskForList t (LTR_include_artifacts request) (LTR_history_length request))))
              (read_selected policy store context request w task_ids) }"

definition Security_ListTasks ::
  "'w DispatchSecurity \<Rightarrow> ListTasksRequest \<Rightarrow> RequestContext \<Rightarrow> 'w \<Rightarrow> ListTasksResponse Result option" where
  "Security_ListTasks ds request context w =
     (case configured ds of
        Inl e \<Rightarrow> Some (Inl e)
      | Inr (policy, store) \<Rightarrow>
          if LTR_page_size request > kMaxListTasksPageSize then Some (Inl (Validation kInvalidPageSize))
          else (case ParseListPageToken (LTR_page_token request) of
             Inl e \<Rightarrow> Some (Inl e)
           | Inr cursor \<Rightarrow>
               let size = (if LTR_page_size request = 0 then kDefaultListTasksPageSize else LTR_page_size request);
                   query = request\<lparr>LTR_history_length := None, LTR_include_artifacts := True\<rparr>
               in do { selected \<leftarrow> (case ScopeTaskList policy query context of
                          None \<Rightarrow> Some (Inr empty_VisibleTaskPage)
                        | Some scoped \<Rightarrow> SelectTaskIds policy store scoped context cursor size w);
                       case selected of
                         Inl e \<Rightarrow> Some (Inl e)
                       | Inr selected \<Rightarrow>
                           map_option (map_sum id (\<lambda>tasks.
                               \<lparr>LTResp_tasks = tasks, LTResp_page_size = size,
                                LTResp_total_size = page_total_size selected,
                                LTResp_next_page_token = page_next_token selected, LTResp_task_cursors = []\<rparr>))
                             (read_selected policy store context request w (page_task_ids selected)) }))"

definition ProtectStream ::
  "'w DispatchSecurity \<Rightarrow> DispatchRequest \<Rightarrow> RequestContext \<Rightarrow> ('w, 'card) DispatchResponse \<Rightarrow>
   ('w, 'card) DispatchResponse Result" where
  "ProtectStream ds request context response =
     result_bind (configured ds) (\<lambda>(policy, store).
       Inr (case response of
          Resp_Stream (Some stream) \<Rightarrow>
            Resp_Stream (Some (AuthorizedStream stream policy store context (TaskId (req_payload request))))
        | _ \<Rightarrow> response))"

end
