(* ===== verification/Dispatcher.thy ===== *)
theory Dispatcher
  imports Security_Policy
begin

text \<open>
  The dispatcher (\<open>src/server/dispatcher.cpp\<close>): routing of a request to the executor by its operation, the
  interceptors before and after, the security checks around both, and the projection of the response. A dispatcher
  without security has \<open>None\<close> for \<open>security_\<close>; a null interceptor is \<open>None\<close>. The call \<open>std::get\<close> on a variant that
  holds another alternative throws, which is an execution without an outcome here.
\<close>

section \<open>Routing to the executor\<close>

definition RestorePrincipal :: "string option \<Rightarrow> RequestContext \<Rightarrow> RequestContext" where
  "RestorePrincipal authenticated_principal context =
     (case authenticated_principal of None \<Rightarrow> context | Some p \<Rightarrow> context\<lparr>ctx_principal := p\<rparr>)"

definition DispatchPayloadTypeMismatchError :: "string \<Rightarrow> Error" where
  "DispatchPayloadTypeMismatchError operation = Validation (''Dispatch payload type mismatch for '' @ operation)"

definition IsPushNotificationOperation :: "DispatcherOperation \<Rightarrow> bool" where
  "IsPushNotificationOperation operation \<longleftrightarrow>
     operation = kCreateTaskPushNotificationConfig \<or> operation = kGetTaskPushNotificationConfig \<or>
     operation = kListTaskPushNotificationConfigs \<or> operation = kDeleteTaskPushNotificationConfig"

definition ToAgentCardRequestContext :: "RequestContext \<Rightarrow> string \<Rightarrow> AgentCardRequestContext" where
  "ToAgentCardRequestContext context tenant =
     \<lparr>acr_tenant = (if tenant = [] then None else Some tenant), acr_remote_address = ctx_remote_address context,
      acr_client_headers = ctx_client_headers context, acr_auth_metadata = ctx_auth_metadata context\<rparr>"

text \<open>\<open>if (!response.ok()) return response.error(); return DispatchResponse(response.value());\<close>\<close>

definition respond ::
  "('a \<Rightarrow> ('w, 'card) DispatchResponse) \<Rightarrow> ('s \<times> 'a Result) option \<Rightarrow>
   ('s \<times> ('w, 'card) DispatchResponse Result) option" where
  "respond f = map_option (apsnd (map_sum id f))"

definition DispatchPushToExecutor ::
  "'w AgentExecutor \<Rightarrow> DispatchRequest \<Rightarrow> ('w \<times> RequestContext, ('w, 'card) DispatchResponse) step" where
  "DispatchPushToExecutor executor request s =
     (case req_operation request of
        kCreateTaskPushNotificationConfig \<Rightarrow>
          (case req_payload request of
             Req_PushConfig payload \<Rightarrow> respond Resp_PushConfig (ae_CreatePushConfig executor payload s)
           | _ \<Rightarrow> Some (s, Inl (DispatchPayloadTypeMismatchError ''CreateTaskPushNotificationConfig'')))
      | kGetTaskPushNotificationConfig \<Rightarrow>
          (case req_payload request of
             Req_GetPushConfig payload \<Rightarrow> respond Resp_PushConfig (ae_GetPushConfig executor payload s)
           | _ \<Rightarrow> Some (s, Inl (DispatchPayloadTypeMismatchError ''GetTaskPushNotificationConfig'')))
      | kListTaskPushNotificationConfigs \<Rightarrow>
          (case req_payload request of
             Req_ListPushConfigs payload \<Rightarrow> respond Resp_ListPushConfigs (ae_ListPushConfigs executor payload s)
           | _ \<Rightarrow> Some (s, Inl (DispatchPayloadTypeMismatchError ''ListTaskPushNotificationConfigs'')))
      | kDeleteTaskPushNotificationConfig \<Rightarrow>
          (case req_payload request of
             Req_DeletePushConfig payload \<Rightarrow> respond (\<lambda>_. Resp_monostate) (ae_DeletePushConfig executor payload s)
           | _ \<Rightarrow> Some (s, Inl (DispatchPayloadTypeMismatchError ''DeleteTaskPushNotificationConfig'')))
      | _ \<Rightarrow> Some (s, Inl (Validation ''Dispatch operation is not a push notification operation'')))"

definition DispatchSubscribeToExecutor ::
  "'w AgentExecutor \<Rightarrow> DispatchRequest \<Rightarrow> ('w \<times> RequestContext, ('w, 'card) DispatchResponse) step" where
  "DispatchSubscribeToExecutor executor request s =
     (case req_payload request of
        Req_GetTask payload \<Rightarrow> respond (Resp_Stream \<circ> map_option ExecutorStream) (ae_SubscribeTask executor payload s)
      | _ \<Rightarrow> Some (s, Inl (DispatchPayloadTypeMismatchError ''GetTask'')))"

text \<open>The configuration's \<open>history_length\<close> and \<open>clear_history_length\<close>.\<close>

definition request_history_length :: "SendMessageRequest \<Rightarrow> int option" where
  "request_history_length r = (case SMR_configuration r of None \<Rightarrow> None | Some c \<Rightarrow> SMC_history_length c)"

definition clear_history_length :: "SendMessageRequest \<Rightarrow> SendMessageRequest" where
  "clear_history_length r =
     r\<lparr>SMR_configuration := map_option (\<lambda>c. c\<lparr>SMC_history_length := None\<rparr>) (SMR_configuration r)\<rparr>"

definition DispatchSendMessageToExecutor ::
  "'w AgentExecutor \<Rightarrow> DispatchRequest \<Rightarrow> bool \<Rightarrow> ('w \<times> RequestContext, ('w, 'card) DispatchResponse) step" where
  "DispatchSendMessageToExecutor executor request require_full_task s =
     (case req_payload request of
        Req_SendMessage payload \<Rightarrow>
          let query = (if require_full_task \<and> request_history_length payload \<noteq> None
                       then clear_history_length payload else payload)
          in respond Resp_SendMessage (ae_SendMessage executor query s)
      | _ \<Rightarrow> Some (s, Inl (DispatchPayloadTypeMismatchError ''SendMessage'')))"

definition DispatchSendStreamingMessageToExecutor ::
  "'w AgentExecutor \<Rightarrow> DispatchRequest \<Rightarrow> ('w \<times> RequestContext, ('w, 'card) DispatchResponse) step" where
  "DispatchSendStreamingMessageToExecutor executor request s =
     (case req_payload request of
        Req_SendMessage payload \<Rightarrow>
          respond (Resp_Stream \<circ> map_option ExecutorStream) (ae_SendStreamingMessage executor payload s)
      | _ \<Rightarrow> Some (s, Inl (DispatchPayloadTypeMismatchError ''SendStreamingMessage'')))"

definition DispatchGetTaskToExecutor ::
  "'w AgentExecutor \<Rightarrow> DispatchRequest \<Rightarrow> bool \<Rightarrow> ('w \<times> RequestContext, ('w, 'card) DispatchResponse) step" where
  "DispatchGetTaskToExecutor executor request require_full_task s =
     (case req_payload request of
        Req_GetTask payload \<Rightarrow>
          let query = (if require_full_task \<and> GTR_history_length payload \<noteq> None
                       then payload\<lparr>GTR_history_length := None\<rparr> else payload)
          in respond Resp_Task (ae_GetTask executor query s)
      | _ \<Rightarrow> Some (s, Inl (DispatchPayloadTypeMismatchError ''GetTask'')))"

definition DispatchListTasksToExecutor ::
  "'w AgentExecutor \<Rightarrow> DispatchRequest \<Rightarrow> ('w \<times> RequestContext, ('w, 'card) DispatchResponse) step" where
  "DispatchListTasksToExecutor executor request s =
     (case req_payload request of
        Req_ListTasks payload \<Rightarrow> respond Resp_ListTasks (ae_ListTasks executor payload s)
      | _ \<Rightarrow> Some (s, Inl (DispatchPayloadTypeMismatchError ''ListTasks'')))"

definition DispatchCancelTaskToExecutor ::
  "'w AgentExecutor \<Rightarrow> DispatchRequest \<Rightarrow> ('w \<times> RequestContext, ('w, 'card) DispatchResponse) step" where
  "DispatchCancelTaskToExecutor executor request s =
     (case req_payload request of
        Req_CancelTask payload \<Rightarrow> respond Resp_Task (ae_CancelTask executor payload s)
      | _ \<Rightarrow> Some (s, Inl (DispatchPayloadTypeMismatchError ''CancelTask'')))"

definition DispatchExtendedAgentCard ::
  "('w, 'card) AgentCardProvider option \<Rightarrow> DispatchRequest \<Rightarrow>
   ('w \<times> RequestContext, ('w, 'card) DispatchResponse) step" where
  "DispatchExtendedAgentCard provider request = (\<lambda>(w, context).
     case req_payload request of
        Req_GetExtendedAgentCard payload \<Rightarrow>
          (case provider of
             None \<Rightarrow> Some ((w, context), Inl (ExtendedAgentCardNotConfigured ''extended agent card is not configured''))
           | Some get_card \<Rightarrow>
               respond Resp_AgentCard (map_option (\<lambda>(w, card). ((w, context), card))
                 (get_card (ToAgentCardRequestContext context (GEC_tenant payload)) w)))
      | _ \<Rightarrow> Some ((w, context), Inl (Validation ''Dispatch payload type mismatch for GetExtendedAgentCard'')))"

definition DispatchToExecutor ::
  "'w AgentExecutor \<Rightarrow> DispatchRequest \<Rightarrow> ('w, 'card) AgentCardProvider option \<Rightarrow> bool \<Rightarrow>
   ('w \<times> RequestContext, ('w, 'card) DispatchResponse) step" where
  "DispatchToExecutor executor request provider require_full_task s =
     (if IsPushNotificationOperation (req_operation request) then DispatchPushToExecutor executor request s
      else case req_operation request of
          kSendMessage \<Rightarrow> DispatchSendMessageToExecutor executor request require_full_task s
        | kSendStreamingMessage \<Rightarrow> DispatchSendStreamingMessageToExecutor executor request s
        | kGetTask \<Rightarrow> DispatchGetTaskToExecutor executor request require_full_task s
        | kSubscribeTask \<Rightarrow> DispatchSubscribeToExecutor executor request s
        | kListTasks \<Rightarrow> DispatchListTasksToExecutor executor request s
        | kCancelTask \<Rightarrow> DispatchCancelTaskToExecutor executor request s
        | kGetExtendedAgentCard \<Rightarrow> DispatchExtendedAgentCard provider request s
        | _ \<Rightarrow> Some (s, Inl (Validation ''Push notification dispatch was not handled by push dispatcher'')))"

section \<open>Projection of the response\<close>

definition history_limit :: "int \<Rightarrow> nat" where
  "history_limit n = (if n \<le> 0 then 0 else nat n)"

definition ProjectTaskResponse ::
  "DispatchRequest \<Rightarrow> ('w, 'card) DispatchResponse \<Rightarrow> ('w, 'card) DispatchResponse option" where
  "ProjectTaskResponse request response =
     (if req_operation request = kGetTask then
        (case req_payload request of
           Req_GetTask query \<Rightarrow>
             (case GTR_history_length query of
                None \<Rightarrow> Some response
              | Some n \<Rightarrow>
                  (case response of
                     Resp_Task task \<Rightarrow> Some (Resp_Task (ApplyHistoryRetention task (Some (history_limit n))))
                   | _ \<Rightarrow> None))
         | _ \<Rightarrow> None)
      else if req_operation request = kSendMessage then
        (case (req_payload request, response) of
           (Req_SendMessage query, Resp_SendMessage send) \<Rightarrow>
             (case (request_history_length query, send) of
                (Some n, SendMessageResponse_task task) \<Rightarrow>
                  Some (Resp_SendMessage (SendMessageResponse_task
                    (ApplyHistoryRetention task (Some (history_limit n)))))
              | _ \<Rightarrow> Some response)
         | _ \<Rightarrow> None)
      else Some response)"

section \<open>Dispatch\<close>

record ('w, 'card) Dispatcher =
  d_executor :: "'w AgentExecutor option"
  d_security :: "'w DispatchSecurity option"
  d_agent_card_provider :: "('w, 'card) AgentCardProvider option"
  d_interceptors :: "('w, 'card) ServerInterceptor option list"

definition SetSecurityPolicy ::
  "SecurityPolicy option \<Rightarrow> 'w TaskStore option \<Rightarrow> ('w, 'card) Dispatcher \<Rightarrow> ('w, 'card) Dispatcher" where
  "SetSecurityPolicy policy store d =
     d\<lparr>d_security := Some \<lparr>ds_policy = policy, ds_task_store = store\<rparr>\<rparr>"

definition AddInterceptor ::
  "('w, 'card) ServerInterceptor option \<Rightarrow> ('w, 'card) Dispatcher \<Rightarrow> ('w, 'card) Dispatcher" where
  "AddInterceptor interceptor d =
     (if interceptor = None then d else d\<lparr>d_interceptors := d_interceptors d @ [interceptor]\<rparr>)"

text \<open>The calls of \<open>AfterDispatch\<close> in the order of the list given, which is the reversed list of interceptors.\<close>

fun run_after ::
  "DispatchRequest \<Rightarrow> ('w, 'card) DispatchResponse Result \<Rightarrow> string option \<Rightarrow>
   ('w, 'card) ServerInterceptor option list \<Rightarrow> 'w \<times> RequestContext \<Rightarrow> ('w \<times> RequestContext) option" where
  "run_after request result authenticated_principal [] s = Some s"
| "run_after request result authenticated_principal (None # interceptors) s = run_after request result authenticated_principal interceptors s"
| "run_after request result authenticated_principal (Some interceptor # interceptors) s =
     do { (w, context) \<leftarrow> AfterDispatch interceptor request result s;
          run_after request result authenticated_principal interceptors (w, RestorePrincipal authenticated_principal context) }"

definition RunAfterInterceptors ::
  "('w, 'card) Dispatcher \<Rightarrow> DispatchRequest \<Rightarrow> ('w, 'card) DispatchResponse Result \<Rightarrow> string option \<Rightarrow>
   'w \<times> RequestContext \<Rightarrow> ('w \<times> RequestContext) option" where
  "RunAfterInterceptors d request result authenticated_principal s =
     run_after request result authenticated_principal (rev (d_interceptors d)) s"

fun run_before ::
  "DispatchRequest \<Rightarrow> string option \<Rightarrow> ('w, 'card) ServerInterceptor option list \<Rightarrow> ('w \<times> RequestContext, unit) step" where
  "run_before request authenticated_principal [] s = Some (s, Inr ())"
| "run_before request authenticated_principal (None # interceptors) s = run_before request authenticated_principal interceptors s"
| "run_before request authenticated_principal (Some interceptor # interceptors) s =
     do { ((w, context), before_result) \<leftarrow> BeforeDispatch interceptor request s;
          let s = (w, RestorePrincipal authenticated_principal context) in
          case before_result of
            Inl e \<Rightarrow> Some (s, Inl e)
          | Inr _ \<Rightarrow> run_before request authenticated_principal interceptors s }"

text \<open>The work between the two rounds of interceptors.\<close>

definition perform ::
  "('w, 'card) Dispatcher \<Rightarrow> 'w AgentExecutor \<Rightarrow> DispatchRequest \<Rightarrow>
   ('w \<times> RequestContext, ('w, 'card) DispatchResponse) step" where
  "perform d executor request = (\<lambda>(w, context).
     case (d_security d, req_operation request, req_payload request) of
       (Some security, kListTasks, Req_ListTasks list) \<Rightarrow>
         map_option (\<lambda>r. ((w, context), map_sum id Resp_ListTasks r)) (Security_ListTasks security list context w)
     | _ \<Rightarrow> DispatchToExecutor executor request (d_agent_card_provider d) (d_security d \<noteq> None) (w, context))"

definition check_response ::
  "('w, 'card) Dispatcher \<Rightarrow> DispatchRequest \<Rightarrow> RequestContext \<Rightarrow> 'w \<Rightarrow> ('w, 'card) DispatchResponse Result \<Rightarrow>
   ('w, 'card) DispatchResponse Result option" where
  "check_response d request context w result =
     (case (d_security d, result) of
        (Some security, Inr response) \<Rightarrow>
          do { authorized \<leftarrow> Security_AuthorizeResponse security response context w;
               Some (result_bind authorized (\<lambda>_. ProtectStream security request context response)) }
      | _ \<Rightarrow> Some result)"

definition project_result ::
  "DispatchRequest \<Rightarrow> ('w, 'card) DispatchResponse Result \<Rightarrow> ('w, 'card) DispatchResponse Result option" where
  "project_result request result =
     (case result of Inl e \<Rightarrow> Some (Inl e) | Inr response \<Rightarrow> map_option Inr (ProjectTaskResponse request response))"

text \<open>A result handed to the interceptors and then to the caller.\<close>

definition finish ::
  "('w, 'card) Dispatcher \<Rightarrow> DispatchRequest \<Rightarrow> string option \<Rightarrow> ('w, 'card) DispatchResponse Result \<Rightarrow>
   'w \<times> RequestContext \<Rightarrow> (('w \<times> RequestContext) \<times> ('w, 'card) DispatchResponse Result) option" where
  "finish d request authenticated_principal result s =
     map_option (\<lambda>s. (s, result)) (RunAfterInterceptors d request result authenticated_principal s)"

definition Dispatch ::
  "('w, 'card) Dispatcher \<Rightarrow> DispatchRequest \<Rightarrow> ('w \<times> RequestContext, ('w, 'card) DispatchResponse) step" where
  "Dispatch d request = (\<lambda>(w, context).
     case d_executor d of
       None \<Rightarrow> Some ((w, context), Inl (Internal ''Server dispatcher executor is not configured''))
     | Some executor \<Rightarrow>
         do { (context, authorized) \<leftarrow> (case d_security d of
                  Some security \<Rightarrow> Security_Authorize security request context w
                | None \<Rightarrow> Some (context, Inr ()));
              let authenticated_principal = (if d_security d \<noteq> None then Some (ctx_principal context) else None);
              case authorized of
                Inl e \<Rightarrow> finish d request authenticated_principal (Inl e) (w, context)
              | Inr _ \<Rightarrow>
                  do { (s, before_result) \<leftarrow> run_before request authenticated_principal (d_interceptors d) (w, context);
                       case before_result of
                         Inl e \<Rightarrow> finish d request authenticated_principal (Inl e) s
                       | Inr _ \<Rightarrow>
                           do { ((w, context), result) \<leftarrow> perform d executor request s;
                                let context = RestorePrincipal authenticated_principal context;
                                result \<leftarrow> check_response d request context w result;
                                result \<leftarrow> project_result request result;
                                finish d request authenticated_principal result (w, context) } } })"

end
