(* ===== verification/Security_Policy_Props.thy ===== *)
theory Security_Policy_Props
  imports Security_Policy
begin

text \<open>
  What \<open>DispatchSecurity\<close> promises: the restricted listing is the page of the visible tasks of the unrestricted
  listing, for every task store that keeps its contract; a protected stream delivers an event only while its task is
  accessible; a task that is hidden is answered as one that does not exist.
\<close>

section \<open>The selection\<close>

text \<open>The selection after the visible cursors \<open>vs\<close> have been seen.\<close>

definition selection_of :: "ListTaskCursor option \<Rightarrow> nat \<Rightarrow> ListTaskCursor list \<Rightarrow> VisibleTaskPage \<times> ListTaskCursor" where
  "selection_of cursor n vs =
     (let rest = after_boundary cursor vs; page = take n rest in
      (\<lparr>page_task_ids = map cursor_task_id page, page_total_size = length vs,
        page_next_token = (if n < length rest then EncodeListPageToken (last page) else [])\<rparr>,
       if page = [] then ListTaskCursor 0 [] else last page))"

lemma after_boundary_append [simp]: "after_boundary b (xs @ ys) = after_boundary b xs @ after_boundary b ys"
  by (simp add: after_boundary_def split: option.split)

lemma select_step_selection:
  assumes "n \<noteq> 0" "Task_id t = cursor_task_id c"
  shows "select_step policy context cursor n (t, c) (selection_of cursor n vs) =
    selection_of cursor n (if CanAccessTask policy t context then vs @ [c] else vs)"
proof -
  define A where "A = after_boundary cursor vs"
  have passes: "after_boundary cursor [c] =
      (if (case cursor of Some b \<Rightarrow> \<not> ListCursorPrecedes b c | None \<Rightarrow> False) then [] else [c])"
    by (simp add: after_boundary_def cursor_less_iff split: option.split)
  consider "\<not> CanAccessTask policy t context" | "CanAccessTask policy t context" "after_boundary cursor [c] = []"
    | "CanAccessTask policy t context" "after_boundary cursor [c] = [c]"
    using passes by (cases "CanAccessTask policy t context") (metis)+
  then show ?thesis
  proof cases
    case 3
    then have "\<not> (case cursor of Some b \<Rightarrow> \<not> ListCursorPrecedes b c | None \<Rightarrow> False)" by (simp add: passes split: if_splits)
    moreover consider "length A < n" | "length A = n" | "n < length A" by linarith
    ultimately show ?thesis using 3 assms
      by cases (simp_all add: select_step_def selection_of_def Let_def A_def)
  qed (auto simp: select_step_def selection_of_def Let_def passes split: if_splits)
qed

lemma fold_select_step:
  assumes "n \<noteq> 0" "\<And>c. c \<in> set cs \<Longrightarrow> Task_id (task c) = cursor_task_id c"
  shows "fold (select_step policy context cursor n) (zip (map task cs) cs) (selection_of cursor n vs) =
    selection_of cursor n (vs @ filter (\<lambda>c. CanAccessTask policy (task c) context) cs)"
  using assms(2)
proof (induction cs arbitrary: vs)
  case (Cons c cs)
  then show ?case by (simp add: select_step_selection[OF assms(1)])
qed simp

lemma a_task_id:
  assumes "a_wf a" "c \<in> set (a_cursors a)"
  shows "Task_id (a_task a c) = cursor_task_id c" "spec_Get (cursor_task_id c) a = Inr (a_task a c)"
  using assms by (auto simp: set_a_cursors a_task_def a_wf_def spec_Get_Inr_iff)

lemma set_a_matching: "c \<in> set (a_matching req a) \<Longrightarrow> c \<in> set (a_cursors a)"
  by (simp add: a_matching_def)

context task_store
begin

text \<open>One round of the loop, and the loop from position \<open>j\<close> of the listing.\<close>

lemma select_loop_from:
  assumes good: "good s" and n: "n \<noteq> 0" and size: "LTR_page_size query \<noteq> 0"
  defines "task \<equiv> project_for query \<circ> a_task (view s)"
  defines "m \<equiv> a_matching query (view s)"
  assumes "ParseListPageToken tok = Inr b" "after_boundary b m = drop j m" "j \<le> length m"
  shows "select_loop policy ops context cursor n s (query\<lparr>LTR_page_token := tok\<rparr>)
      (selection_of cursor n (filter (\<lambda>c. CanAccessTask policy (task c) context) (take j m))) =
    Some (Inr (fst (selection_of cursor n (filter (\<lambda>c. CanAccessTask policy (task c) context) m))))"
  using assms(6-)
proof (induction "length m - j" arbitrary: tok b j rule: less_induct)
  case less
  define page where "page = take (LTR_page_size query) (drop j m)"
  let ?q = "query\<lparr>LTR_page_token := tok\<rparr>"
  let ?vis = "filter (\<lambda>c. CanAccessTask policy (task c) context)"
  have ids: "Task_id (task c) = cursor_task_id c" if "c \<in> set page" for c
    using a_task_id(1)[OF wf[OF good] set_a_matching[OF in_set_dropD[OF in_set_takeD[OF that[unfolded page_def m_def]]]]]
    by (simp add: task_def project_for_def)
  obtain resp where resp: "TS_List ops ?q s = Some (Inr resp)"
    "LTResp_tasks resp = map task page" "LTResp_task_cursors resp = page"
    "LTResp_next_page_token resp = (if LTR_page_size query < length (drop j m)
       then EncodeListPageToken (last page) else [])"
    using list_impl[OF good, of ?q] less.prems(1,2) size
    by (simp add: spec_List_def Let_def page_of_def flip: m_def page_def task_def)
  have fold: "fold (select_step policy context cursor n) (zip (map task page) page)
      (selection_of cursor n (?vis (take j m))) = selection_of cursor n (?vis (take j m @ page))"
    using fold_select_step[OF n ids, of page policy "context" cursor "?vis (take j m)"] by simp
  show ?case
  proof (cases "LTR_page_size query < length (drop j m)")
    case False
    then have "take j m @ page = m" by (simp add: page_def)
    with False show ?thesis
      by (subst select_loop.simps) (simp add: resp fold)
  next
    case True
    define i where "i = j + LTR_page_size query - 1"
    from True size have i: "i < length m" "Suc i = j + LTR_page_size query" by (auto simp: i_def)
    have last: "last page = m ! i"
      using True size i by (subst last_conv_nth) (auto simp: page_def i_def nth_append)
    have "m ! i \<in> set m" using i by simp
    then have parse: "ParseListPageToken (EncodeListPageToken (m ! i)) = Inr (Some (m ! i))"
      unfolding m_def by (rule a_matching_cursor[OF wf[OF good]])
    have after: "after_boundary (Some (m ! i)) m = drop (Suc i) m"
      using i(1) by (simp add: after_boundary_def sorted_filter_greater m_def)
    have page: "take j m @ page = take (Suc i) m"
      by (simp add: page_def i(2) take_add)
    have "length m - Suc i < length m - j" using i size by linarith
    moreover have "LTR_page_size query < length m - j" using True by simp
    ultimately show ?thesis using less.hyps[OF _ parse after] i(1)
      by (subst select_loop.simps) (simp add: resp fold page last)
  qed
qed

lemma SelectTaskIds_spec:
  assumes "good s" "n \<noteq> 0"
  shows "SelectTaskIds policy ops query context cursor n s =
    Some (Inr (fst (selection_of cursor n
      (filter (\<lambda>c. CanAccessTask policy (project_for query (a_task (view s) c)) context)
        (a_matching query (view s))))))"
proof -
  let ?q = "query\<lparr>LTR_page_size := kMaxListTasksPageSize, LTR_include_total_size := False\<rparr>"
  have m: "a_matching ?q (view s) = a_matching query (view s)" "project_for ?q = project_for query"
    by (simp_all add: a_matching_def MatchesListFilters_def HasStatusAfterCutoff_def project_for_def fun_eq_iff)
  have init: "selection_of cursor n [] = (empty_VisibleTaskPage, ListTaskCursor 0 [])"
    by (simp add: selection_of_def empty_VisibleTaskPage_def after_boundary_def split: option.split)
  show ?thesis
    using select_loop_from[OF assms(1,2), of ?q "[]" None 0 policy "context" cursor]
    by (simp add: SelectTaskIds_def m[simplified kMaxListTasksPageSize_def] init kMaxListTasksPageSize_def
        after_boundary_def)
qed

lemma read_selected_visible:
  assumes "good s"
    and "\<And>c. c \<in> set cs \<Longrightarrow> c \<in> set (a_cursors (view s)) \<and> CanAccessTask policy (a_task (view s) c) context"
  shows "read_selected policy ops context request s (map cursor_task_id cs) =
    Some (Inr (map (project_for request \<circ> a_task (view s)) cs))"
  using assms(2)
proof (induction cs)
  case (Cons c cs)
  then show ?case
    using a_task_id(2)[OF wf[OF assms(1)], of c]
    by (simp add: GetAuthorizedTask_def get_impl[OF assms(1)] project_for_def)
qed simp

text \<open>The restricted listing: the page after the cursor of the visible matching tasks.\<close>

lemma Security_ListTasks_spec:
  fixes policy and ctx :: RequestContext
  assumes "good s" "LTR_page_size request \<le> kMaxListTasksPageSize"
    and "ParseListPageToken (LTR_page_token request) = Inr cursor"
    and "ScopeTaskList policy = SecurityPolicy_base_ScopeTaskList"
  defines "visible \<equiv> filter (\<lambda>c. CanAccessTask policy (a_task (view s) c) ctx) (a_matching request (view s))"
    and "n \<equiv> if LTR_page_size request = 0 then kDefaultListTasksPageSize else LTR_page_size request"
  defines "rest \<equiv> after_boundary cursor visible"
  shows "Security_ListTasks \<lparr>ds_policy = Some policy, ds_task_store = Some ops\<rparr> request ctx s =
    Some (Inr \<lparr>LTResp_tasks = map (project_for request \<circ> a_task (view s)) (take n rest), LTResp_page_size = n,
      LTResp_total_size = length visible,
      LTResp_next_page_token = (if n < length rest then EncodeListPageToken (last (take n rest)) else []),
      LTResp_task_cursors = []\<rparr>)"
proof -
  let ?q = "request\<lparr>LTR_history_length := None, LTR_include_artifacts := True\<rparr>"
  have n: "n \<noteq> 0" by (simp add: n_def kDefaultListTasksPageSize_def)
  have m: "a_matching ?q (view s) = a_matching request (view s)"
    by (simp add: a_matching_def MatchesListFilters_def HasStatusAfterCutoff_def)
  have sel: "SelectTaskIds policy ops ?q ctx cursor n s = Some (Inr (fst (selection_of cursor n visible)))"
    using SelectTaskIds_spec[OF assms(1) n, of policy ?q ctx cursor]
    by (simp add: m visible_def project_for_def ProjectTaskForList_def)
  have "c \<in> set (a_cursors (view s)) \<and> CanAccessTask policy (a_task (view s) c) ctx"
    if "c \<in> set (take n rest)" for c
    using in_set_takeD[OF that] by (auto simp: rest_def visible_def after_boundary_def set_a_matching split: option.splits)
  from read_selected_visible[OF assms(1) this] show ?thesis
    using assms(2,3,4) sel
    by (simp add: Security_ListTasks_def configured_def Let_def SecurityPolicy_base_ScopeTaskList_def
        selection_of_def rest_def[symmetric] flip: n_def)
qed

text \<open>A hidden task and a missing one.\<close>

lemma GetAuthorizedTask_cases:
  assumes "good s" "k \<noteq> []"
  shows "GetAuthorizedTask ops policy context k s =
    Some (case a_map (view s) k of
        Some (t, r, u) \<Rightarrow> if CanAccessTask policy t context then Inr t else Inl TaskNotFound_default
      | None \<Rightarrow> Inl TaskNotFound_default)"
  using assms
  by (auto simp: GetAuthorizedTask_def get_impl spec_Get_def spec_lookup_def error_defs split: option.split)

end

section \<open>The restricted listing\<close>

definition visible_tasks ::
  "SecurityPolicy \<Rightarrow> RequestContext \<Rightarrow> ListTasksResponse \<Rightarrow> (Task \<times> ListTaskCursor) list" where
  "visible_tasks policy ctx all =
     filter (\<lambda>(t, c). CanAccessTask policy t ctx) (zip (LTResp_tasks all) (LTResp_task_cursors all))"

definition after_cursor ::
  "ListTaskCursor option \<Rightarrow> (Task \<times> ListTaskCursor) list \<Rightarrow> (Task \<times> ListTaskCursor) list" where
  "after_cursor cursor = filter (\<lambda>(t, c). case cursor of None \<Rightarrow> True | Some b \<Rightarrow> ListCursorPrecedes b c)"

lemma filter_zip_map: "filter (\<lambda>(t, c). P t) (zip (map f cs) cs) = map (\<lambda>c. (f c, c)) (filter (\<lambda>c. P (f c)) cs)"
  by (induction cs) auto

lemma after_cursor_map:
  "after_cursor cursor (map (\<lambda>c. (f c, c)) cs) = map (\<lambda>c. (f c, c)) (after_boundary cursor cs)"
  by (induction cs) (auto simp: after_cursor_def after_boundary_def cursor_less_iff split: option.splits)

text \<open>A policy that lets the principal see the tasks whose id starts with its name.\<close>

definition sample_policy :: SecurityPolicy where
  "sample_policy = \<lparr>Authenticate = (\<lambda>ctx. Inr ''a''), AuthorizeOperation = (\<lambda>request ctx. True),
     CanAccessTask = (\<lambda>t ctx. prefix (ctx_principal ctx) (Task_id t)),
     ScopeTaskList = SecurityPolicy_base_ScopeTaskList\<rparr>"



section \<open>Protected streams\<close>

lemma GetAuthorizedTask_Inr:
  "GetAuthorizedTask store policy ctx k w = Some (Inr t) \<longleftrightarrow>
     TS_Get store k w = Some (Inr t) \<and> CanAccessTask policy t ctx"
  by (auto simp: GetAuthorizedTask_def split: sum.splits if_splits option.splits bind_splits)

text \<open>C12: a protected stream delivers nothing the policy hides. If a read of an \<open>AuthorizedStream\<close>, timed or not,
  yields an event, then the stream stays protected, the task the stream belonged to was accessible when the read
  began, and the task that the event names, or for a message without a task the one the stream belongs to, is stored
  and accessible when the event is handed out. An event that names no task is a message.\<close>

theorem AuthorizedStream_guards:
  assumes "Stream_Read timed (AuthorizedStream stream policy store ctx k) w = Some (w', obj, Inr (Some event))"
  shows "\<exists>stream' k'. obj = AuthorizedStream stream' policy store ctx k' \<and>
    (k \<noteq> [] \<longrightarrow> (\<exists>t. TS_Get store k w = Some (Inr t) \<and> CanAccessTask policy t ctx)) \<and>
    k' = (if EventTaskId event = [] then k else EventTaskId event) \<and>
    (k' \<noteq> [] \<longrightarrow> (\<exists>t. TS_Get store k' w' = Some (Inr t) \<and> CanAccessTask policy t ctx)) \<and>
    (EventTaskId event = [] \<longrightarrow> has_message event)"
proof -
  from assms obtain t where t: "(if k \<noteq> [] then GetAuthorizedTask store policy ctx k w else Some (Inr default_Task)) =
      Some (Inr t)"
    by (auto split: bind_splits sum.splits)
  with assms obtain stream' item where read: "Stream_Read timed stream w = Some (w', stream', Inr (Some item))"
    by (auto split: bind_splits sum.splits option.splits)
  with assms t obtain k' where k': "authorize_event policy store ctx k item w' = Some (k', Inr (Some event))"
    "obj = AuthorizedStream stream' policy store ctx k'"
    by auto
  have "event = item \<and> k' = (if EventTaskId event = [] then k else EventTaskId event) \<and>
      (k' \<noteq> [] \<longrightarrow> (\<exists>t. GetAuthorizedTask store policy ctx k' w' = Some (Inr t))) \<and>
      (EventTaskId event = [] \<longrightarrow> has_message event)"
    using k'(1) by (auto simp: authorize_event_def Let_def split: if_splits bind_splits sum.splits)
  with t k'(2) show ?thesis by (auto simp: GetAuthorizedTask_Inr split: if_splits)
qed

text \<open>A stream of two status updates, read while the store holds both tasks.\<close>

definition sample_session :: "InMemoryTaskStore ServerStreamSession" where
  "sample_session =
     (let read = (\<lambda>w. Some (w, Inr (Some (StreamResponse_status_update
            \<lparr>TSU_task_id = ''a'', TSU_context_id = [], TSU_status = None, TSU_metadata = None\<rparr>))))
      in \<lparr>ss_Next = read, ss_NextFor = read, ss_SupportsTimedNext = False, ss_IsLive = (\<lambda>w. False), ss_Cancel = Some\<rparr>)"

theorem AuthorizedStream_guards_witness:
  "\<exists>w' stream' event t.
     Stream_Read False (AuthorizedStream (ExecutorStream sample_session) sample_policy (in_memory_ops (\<lambda>_. []))
       (default_RequestContext\<lparr>ctx_principal := ''a''\<rparr>) []) sample_store = Some (w', stream', Inr (Some event)) \<and>
     InMemory_Get (EventTaskId event) w' = Some (Inr t) \<and>
     CanAccessTask sample_policy t (default_RequestContext\<lparr>ctx_principal := ''a''\<rparr>)"
proof -
  let ?ctx = "default_RequestContext\<lparr>ctx_principal := ''a''\<rparr>"
  let ?obj = "AuthorizedStream (ExecutorStream sample_session) sample_policy (in_memory_ops (\<lambda>_. [])) ?ctx"
  have get: "InMemory_Get ''a'' sample_store = Some (Inr (sample_task ''a'' TASK_STATE_WORKING))" by code_simp
  have access: "CanAccessTask sample_policy (sample_task ''a'' TASK_STATE_WORKING) ?ctx" by code_simp
  have "Stream_Read False (?obj []) sample_store = Some (sample_store, ?obj ''a'',
      Inr (Some (StreamResponse_status_update
            \<lparr>TSU_task_id = ''a'', TSU_context_id = [], TSU_status = None, TSU_metadata = None\<rparr>)))"
    using get access by (simp add: sample_session_def Let_def authorize_event_def GetAuthorizedTask_def in_memory_ops_sel)
  from this AuthorizedStream_guards[OF this] show ?thesis by (auto simp: in_memory_ops_sel)
qed

end
