(* ===== verification/Dispatcher_Props.thy ===== *)
theory Dispatcher_Props
  imports Dispatcher Security_Policy_Props
begin

text \<open>
  What the dispatcher promises when a security policy is set: nothing leaves it that the policy hides from the
  authenticated caller, whatever the executor and the interceptors do; a request for a hidden task is answered like
  one for a missing task, before the executor and the interceptors see it; and a request always gets an answer when
  the components it calls answer.
\<close>

section \<open>The principal\<close>

lemma RestorePrincipal_simps [simp]:
  "RestorePrincipal None c = c" "ctx_principal (RestorePrincipal (Some p) c) = p"
  by (simp_all add: RestorePrincipal_def)

lemma RestorePrincipal_same [simp]: "ctx_principal c = p \<Longrightarrow> RestorePrincipal (Some p) c = c"
  by (auto simp: RestorePrincipal_def)

lemma run_after_principal:
  "run_after request result (Some p) is s = Some s' \<Longrightarrow> ctx_principal (snd s) = p \<Longrightarrow> ctx_principal (snd s') = p"
proof (induction request result "Some p" "is" s rule: run_after.induct)
  case (3 request result i is_tail s)
  from 3(2) obtain w c where "AfterDispatch i request result s = Some (w, c)"
    "run_after request result (Some p) is_tail (w, RestorePrincipal (Some p) c) = Some s'"
    by (auto split: bind_splits)
  with 3(1) show ?case by fastforce
qed simp_all

lemma run_before_principal:
  "run_before request (Some p) is s = Some (s', r) \<Longrightarrow> ctx_principal (snd s) = p \<Longrightarrow> ctx_principal (snd s') = p"
proof (induction request "Some p" "is" s rule: run_before.induct)
  case (3 request i is_tail s)
  from 3(2) obtain w c b where b: "BeforeDispatch i request s = Some ((w, c), b)"
    by (auto split: bind_splits)
  show ?case
  proof (cases b)
    case (Inl e)
    with b 3(2) show ?thesis by (auto simp: Let_def)
  next
    case (Inr u)
    with b 3(2) have "run_before request (Some p) is_tail (w, RestorePrincipal (Some p) c) = Some (s', r)"
      by (simp add: Let_def)
    with 3(1)[OF b refl refl refl Inr] show ?thesis by simp
  qed
qed simp_all

lemma finish_cases:
  assumes "finish d request p result s = Some (s', result')"
  shows "result' = result \<and> RunAfterInterceptors d request result p s = Some s'"
  using assms by (auto simp: finish_def)

section \<open>Confidentiality\<close>

text \<open>What a response may carry under a policy, in a state and a context: only tasks the context may access, reduced
  by a projection, only identifiers of such tasks, and only protected streams.\<close>

definition id_allowed :: "SecurityPolicy \<Rightarrow> 'w TaskStore \<Rightarrow> RequestContext \<Rightarrow> 'w \<Rightarrow> string \<Rightarrow> bool" where
  "id_allowed policy store ctx w k \<longleftrightarrow> (\<exists>t. TS_Get store k w = Some (Inr t) \<and> CanAccessTask policy t ctx)"

definition task_allowed :: "SecurityPolicy \<Rightarrow> RequestContext \<Rightarrow> Task \<Rightarrow> bool" where
  "task_allowed policy ctx t \<longleftrightarrow>
     (\<exists>full limit. CanAccessTask policy full ctx \<and> t = ApplyHistoryRetention full limit)"

fun response_allowed ::
  "SecurityPolicy \<Rightarrow> 'w TaskStore \<Rightarrow> RequestContext \<Rightarrow> 'w \<Rightarrow> ('w, 'card) DispatchResponse \<Rightarrow> bool" where
  "response_allowed policy store ctx w (Resp_Task t) = task_allowed policy ctx t"
| "response_allowed policy store ctx w (Resp_SendMessage send) =
     (case send of
        SendMessageResponse_task t \<Rightarrow> task_allowed policy ctx t
      | SendMessageResponse_message m \<Rightarrow> Message_task_id m = [] \<or> id_allowed policy store ctx w (Message_task_id m)
      | SendMessageResponse_not_set \<Rightarrow> True)"
| "response_allowed policy store ctx w (Resp_Stream stream) =
     (case stream of None \<Rightarrow> True | Some obj \<Rightarrow> \<exists>inner k. obj = AuthorizedStream inner policy store ctx k)"
| "response_allowed policy store ctx w (Resp_ListTasks r) =
     (\<forall>t\<in>set (LTResp_tasks r). \<exists>k full inc h. TS_Get store k w = Some (Inr full) \<and>
        CanAccessTask policy full ctx \<and> t = ProjectTaskForList full inc h)"
| "response_allowed policy store ctx w (Resp_PushConfig c) = id_allowed policy store ctx w (Push_task_id c)"
| "response_allowed policy store ctx w (Resp_ListPushConfigs r) =
     (\<forall>c\<in>set (LPResp_configs r). id_allowed policy store ctx w (Push_task_id c))"
| "response_allowed policy store ctx w (Resp_AgentCard _) = True"
| "response_allowed policy store ctx w Resp_monostate = True"

lemma AuthorizeId_ok: "AuthorizeId policy store ctx k w = Some (Inr u) \<Longrightarrow> id_allowed policy store ctx w k"
  by (auto simp: AuthorizeId_def id_allowed_def GetAuthorizedTask_def split: if_splits bind_splits sum.splits)

lemma AuthorizeConfigs_ok:
  "AuthorizeConfigs policy store ctx cs w = Some (Inr u) \<Longrightarrow> c \<in> set cs \<Longrightarrow>
     id_allowed policy store ctx w (Push_task_id c)"
  by (induction cs) (auto split: bind_splits sum.splits dest: AuthorizeId_ok)

lemma task_allowed_full: "CanAccessTask policy t ctx \<Longrightarrow> task_allowed policy ctx t"
  unfolding task_allowed_def by (intro exI[of _ t] exI[of _ None]) (simp add: ApplyHistoryRetention_def)

text \<open>A response that passed both checks. Lists are restricted before.\<close>

lemma checked_response:
  assumes "check_response d request ctx w (Inr response) = Some (Inr response')"
    and "d_security d = Some \<lparr>ds_policy = Some policy, ds_task_store = Some store\<rparr>"
    and "\<And>r. response = Resp_ListTasks r \<Longrightarrow> response_allowed policy store ctx w (Resp_ListTasks r)"
  shows "response_allowed policy store ctx w response'"
proof -
  from assms(1,2) have ok: "ResponseAuthorizer policy store ctx response w = Some (Inr ())"
    and protected: "response' = (case response of
          Resp_Stream (Some stream) \<Rightarrow> Resp_Stream (Some (AuthorizedStream stream policy store ctx (TaskId (req_payload request))))
        | _ \<Rightarrow> response)"
    by (auto simp: check_response_def Security_AuthorizeResponse_def configured_def ProtectStream_def result_bind_Inr
        split: bind_splits)
  show ?thesis
  proof (cases response)
    case (Resp_Stream stream)
    with protected show ?thesis by (cases stream) auto
  next
    case (Resp_SendMessage send)
    with ok protected show ?thesis
      by (cases send) (auto simp: AuthorizeTask_def task_allowed_full split: if_splits dest: AuthorizeId_ok)
  qed (use ok protected assms(3) in \<open>auto simp: AuthorizeTask_def task_allowed_full split: if_splits
         dest: AuthorizeId_ok AuthorizeConfigs_ok\<close>)
qed

lemma ApplyHistoryRetention_twice:
  "\<exists>limit. ApplyHistoryRetention (ApplyHistoryRetention t l1) l2 = ApplyHistoryRetention t limit"
proof (cases "l1 = None \<or> l2 = None")
  case True
  then show ?thesis by (intro exI[of _ "if l1 = None then l2 else l1"]) (auto simp: ApplyHistoryRetention_def split: option.split)
next
  case False
  then obtain a b where "l1 = Some a" "l2 = Some b" by auto
  then have "ApplyHistoryRetention (ApplyHistoryRetention t l1) l2 = ApplyHistoryRetention t (Some (min a b))"
    by (cases t) (auto simp: ApplyHistoryRetention_def ApplyHistoryLimit_def min_def)
  then show ?thesis ..
qed

lemma task_allowed_retention: "task_allowed policy ctx t \<Longrightarrow> task_allowed policy ctx (ApplyHistoryRetention t l)"
  unfolding task_allowed_def using ApplyHistoryRetention_twice by blast

lemma projected_response:
  assumes "ProjectTaskResponse request response = Some response'" "response_allowed policy store ctx w response"
  shows "response_allowed policy store ctx w response'"
  using assms
  by (auto simp: ProjectTaskResponse_def task_allowed_retention
      split: if_splits RequestPayload.splits option.splits DispatchResponse.splits SendMessageResponse.splits)

text \<open>Where a list of tasks can come from.\<close>

lemma map_sum_Inr_iff: "map_sum f g r = Inr v \<longleftrightarrow> (\<exists>u. r = Inr u \<and> v = g u)"
  by (cases r) auto

lemma respond_Inr: "respond f r = Some (s, Inr x) \<longleftrightarrow> (\<exists>v. r = Some (s, Inr v) \<and> x = f v)"
  by (cases r) (auto simp: respond_def map_sum_Inr_iff)

lemma executor_lists:
  assumes "DispatchToExecutor executor request provider b s = Some (s', Inr (Resp_ListTasks r))"
  shows "req_operation request = kListTasks \<and> (\<exists>q. req_payload request = Req_ListTasks q)"
  using assms
  by (cases "req_operation request"; cases "req_payload request"; cases s)
    (auto simp: DispatchToExecutor_def IsPushNotificationOperation_def DispatchPushToExecutor_def
      DispatchSendMessageToExecutor_def DispatchSendStreamingMessageToExecutor_def DispatchGetTaskToExecutor_def
      DispatchSubscribeToExecutor_def DispatchListTasksToExecutor_def DispatchCancelTaskToExecutor_def
      DispatchExtendedAgentCard_def Let_def respond_Inr split: option.splits)

lemma read_selected_allowed:
  "read_selected policy store ctx request w ks = Some (Inr ts) \<Longrightarrow> t \<in> set ts \<Longrightarrow>
     \<exists>k full inc h. TS_Get store k w = Some (Inr full) \<and> CanAccessTask policy full ctx \<and>
       t = ProjectTaskForList full inc h"
proof (induction ks arbitrary: ts)
  case (Cons k ks)
  from Cons.prems(1) obtain full ts' where
    "TS_Get store k w = Some (Inr full)" "CanAccessTask policy full ctx"
    "read_selected policy store ctx request w ks = Some (Inr ts')"
    "ts = ProjectTaskForList full (LTR_include_artifacts request) (LTR_history_length request) # ts'"
    by (auto simp: GetAuthorizedTask_Inr map_sum_Inr_iff split: bind_splits sum.splits)
  with Cons show ?case by (metis set_ConsD)
qed simp

lemma secured_list_allowed:
  assumes "Security_ListTasks \<lparr>ds_policy = Some policy, ds_task_store = Some store\<rparr> q ctx w = Some (Inr r)"
  shows "response_allowed policy store ctx w (Resp_ListTasks r)"
proof -
  from assms obtain ks where "read_selected policy store ctx q w ks = Some (Inr (LTResp_tasks r))"
    by (auto simp: Security_ListTasks_def configured_def Let_def map_sum_Inr_iff split: if_splits sum.splits bind_splits)
  from read_selected_allowed[OF this] show ?thesis by simp
qed

lemma perform_lists:
  assumes "perform d executor request (w, ctx) = Some ((w', ctx'), Inr (Resp_ListTasks r))"
    and "d_security d = Some \<lparr>ds_policy = Some policy, ds_task_store = Some store\<rparr>"
  shows "w' = w \<and> ctx' = ctx \<and> response_allowed policy store ctx w (Resp_ListTasks r)"
proof (cases "req_operation request = kListTasks \<and> (\<exists>q. req_payload request = Req_ListTasks q)")
  case True
  with assms show ?thesis by (auto simp: perform_def map_sum_Inr_iff simp del: response_allowed.simps dest: secured_list_allowed)
next
  case False
  then have "perform d executor request (w, ctx) =
      DispatchToExecutor executor request (d_agent_card_provider d) (d_security d \<noteq> None) (w, ctx)"
    using assms(2) by (cases "req_operation request"; cases "req_payload request") (auto simp: perform_def)
  with assms(1) have "DispatchToExecutor executor request (d_agent_card_provider d) (d_security d \<noteq> None) (w, ctx) =
      Some ((w', ctx'), Inr (Resp_ListTasks r))" by simp
  from executor_lists[OF this] False show ?thesis by blast
qed

lemma Authorize_ok:
  assumes "Security_Authorize \<lparr>ds_policy = Some policy, ds_task_store = Some store\<rparr> request ctx w = Some (ctx0, Inr u)"
  shows "\<exists>identity. Authenticate policy (ctx\<lparr>ctx_principal := []\<rparr>) = Inr identity \<and> identity \<noteq> [] \<and>
    ctx0 = ctx\<lparr>ctx_principal := identity\<rparr> \<and> AuthorizeOperation policy request ctx0 \<and>
    (TaskId (req_payload request) \<noteq> [] \<longrightarrow> id_allowed policy store ctx0 w (TaskId (req_payload request)))"
proof -
  from assms obtain identity where i: "Authenticate policy (ctx\<lparr>ctx_principal := []\<rparr>) = Inr identity" "identity \<noteq> []"
    by (cases "Authenticate policy (ctx\<lparr>ctx_principal := []\<rparr>)")
      (auto simp: Security_Authorize_def configured_def Let_def split: if_splits)
  define c0 where "c0 = ctx\<lparr>ctx_principal := identity\<rparr>"
  let ?k = "TaskId (req_payload request)"
  from assms i obtain t where "(if ?k \<noteq> [] then GetAuthorizedTask store policy c0 ?k w else Some (Inr default_Task)) =
      Some (Inr t)" "ctx0 = c0" "AuthorizeOperation policy request c0"
    by (auto simp: Security_Authorize_def configured_def Let_def simp flip: c0_def
        split: sum.splits if_splits bind_splits)
  with i show ?thesis
    by (intro exI[of _ identity]) (auto simp: id_allowed_def GetAuthorizedTask_Inr c0_def split: if_splits)
qed

text \<open>The stages of a dispatch that ends in a response.\<close>

lemma Dispatch_stages:
  assumes "Dispatch d request (w, ctx) = Some (s', Inr response)"
    and "d_security d = Some security"
  obtains executor ctx0 w1 ctx1 w2 ctx2 result checked where
    "d_executor d = Some executor"
    "Security_Authorize security request ctx w = Some (ctx0, Inr ())"
    "run_before request (Some (ctx_principal ctx0)) (d_interceptors d) (w, ctx0) = Some ((w1, ctx1), Inr ())"
    "perform d executor request (w1, ctx1) = Some ((w2, ctx2), Inr result)"
    "check_response d request (RestorePrincipal (Some (ctx_principal ctx0)) ctx2) w2 (Inr result) = Some (Inr checked)"
    "ProjectTaskResponse request checked = Some response"
    "RunAfterInterceptors d request (Inr response) (Some (ctx_principal ctx0))
       (w2, RestorePrincipal (Some (ctx_principal ctx0)) ctx2) = Some s'"
proof -
  from assms obtain executor where e: "d_executor d = Some executor"
    by (cases "d_executor d") (auto simp: Dispatch_def)
  with assms obtain ctx0 where a: "Security_Authorize security request ctx w = Some (ctx0, Inr ())"
    by (auto simp: Dispatch_def Let_def split: bind_splits sum.splits dest: finish_cases)
  let ?p = "Some (ctx_principal ctx0)"
  from assms e a obtain w1 ctx1 where b:
    "run_before request ?p (d_interceptors d) (w, ctx0) = Some ((w1, ctx1), Inr ())"
    by (auto simp: Dispatch_def Let_def split: bind_splits sum.splits dest: finish_cases)
  from assms e a b obtain w2 ctx2 result where p: "perform d executor request (w1, ctx1) = Some ((w2, ctx2), result)"
    by (auto simp: Dispatch_def Let_def split: bind_splits)
  from assms e a b p obtain checked projected where c:
    "check_response d request (RestorePrincipal ?p ctx2) w2 result = Some checked"
    "project_result request checked = Some projected"
    "finish d request ?p projected (w2, RestorePrincipal ?p ctx2) = Some (s', Inr response)"
    by (auto simp: Dispatch_def Let_def split: bind_splits)
  from finish_cases[OF c(3)] have f: "projected = Inr response"
    "RunAfterInterceptors d request (Inr response) ?p (w2, RestorePrincipal ?p ctx2) = Some s'" by auto
  with c(2) obtain ch where ch: "checked = Inr ch" "ProjectTaskResponse request ch = Some response"
    by (auto simp: project_result_def split: sum.splits)
  with c(1) obtain r where r: "result = Inr r"
    by (cases result) (auto simp: check_response_def assms(2))
  show ?thesis by (rule that[OF e a b p[unfolded r] c(1)[unfolded r ch(1)] ch(2) f(2)])
qed

text \<open>C1: nothing that the policy hides leaves the dispatcher. With a security policy and a task store set, a request
  that gets a response was authenticated under a non-empty identity and its operation authorized; the context that
  comes back carries that identity, whatever the interceptors and the executor wrote into it; and every task in the
  response was accessible under that identity before it was reduced to the requested history, every task id of a
  message or a push configuration belongs to a stored task accessible under it, and every stream is protected.\<close>

theorem Dispatch_confidential:
  assumes "d_security d = Some \<lparr>ds_policy = Some policy, ds_task_store = Some store\<rparr>"
    and "Dispatch d request (w, ctx) = Some ((w', ctx'), Inr response)"
  shows "\<exists>identity w1 ctx1.
    Authenticate policy (ctx\<lparr>ctx_principal := []\<rparr>) = Inr identity \<and> identity \<noteq> [] \<and>
    AuthorizeOperation policy request (ctx\<lparr>ctx_principal := identity\<rparr>) \<and>
    ctx_principal ctx' = identity \<and> ctx_principal ctx1 = identity \<and> response_allowed policy store ctx1 w1 response"
proof -
  from assms(2,1) obtain executor ctx0 w1 ctx1 w2 ctx2 result checked where
    a: "Security_Authorize \<lparr>ds_policy = Some policy, ds_task_store = Some store\<rparr> request ctx w = Some (ctx0, Inr ())"
    and b: "run_before request (Some (ctx_principal ctx0)) (d_interceptors d) (w, ctx0) = Some ((w1, ctx1), Inr ())"
    and p: "perform d executor request (w1, ctx1) = Some ((w2, ctx2), Inr result)"
    and c: "check_response d request (RestorePrincipal (Some (ctx_principal ctx0)) ctx2) w2 (Inr result) =
      Some (Inr checked)"
    and j: "ProjectTaskResponse request checked = Some response"
    and f: "RunAfterInterceptors d request (Inr response) (Some (ctx_principal ctx0))
       (w2, RestorePrincipal (Some (ctx_principal ctx0)) ctx2) = Some (w', ctx')"
    by (rule Dispatch_stages)
  from Authorize_ok[OF a] obtain identity where i: "Authenticate policy (ctx\<lparr>ctx_principal := []\<rparr>) = Inr identity"
    "identity \<noteq> []" "ctx0 = ctx\<lparr>ctx_principal := identity\<rparr>" "AuthorizeOperation policy request ctx0" by blast
  let ?ctx = "RestorePrincipal (Some (ctx_principal ctx0)) ctx2"
  have "ctx_principal ctx1 = ctx_principal ctx0" using run_before_principal[OF b] by simp
  then have "response_allowed policy store ?ctx w2 (Resp_ListTasks r)" if "result = Resp_ListTasks r" for r
    using perform_lists[OF p[unfolded that] assms(1)] by simp
  then have "response_allowed policy store ?ctx w2 response"
    using projected_response[OF j checked_response[OF c assms(1)]] by blast
  moreover have "ctx_principal ctx' = ctx_principal ctx0"
    using run_after_principal[OF f[unfolded RunAfterInterceptors_def]] by simp
  ultimately show ?thesis using i by (intro exI[of _ identity] exI[of _ w2] exI[of _ ?ctx]) auto
qed

text \<open>A server that reads tasks from its store, and an interceptor that tries to change the principal.\<close>

definition sample_executor :: "InMemoryTaskStore AgentExecutor" where
  "sample_executor =
     \<lparr>ae_SendMessage = (\<lambda>r s. Some (s, Inl (UnsupportedOperation ''SendMessage''))),
      ae_SendStreamingMessage = (\<lambda>r s. Some (s, Inl (UnsupportedOperation ''SendStreamingMessage''))),
      ae_GetTask = (\<lambda>r (s, c). map_option (\<lambda>t. ((s, c), t)) (InMemory_Get (GTR_id r) s)),
      ae_SubscribeTask = (\<lambda>r s. Some (s, Inr None)),
      ae_ListTasks = (\<lambda>r s. Some (s, Inr empty_ListTasksResponse)),
      ae_CancelTask = (\<lambda>r s. Some (s, Inl (UnsupportedOperation ''CancelTask''))),
      ae_CreatePushConfig = AgentExecutor_base_push, ae_GetPushConfig = AgentExecutor_base_push,
      ae_ListPushConfigs = AgentExecutor_base_push, ae_DeletePushConfig = AgentExecutor_base_push\<rparr>"

definition sample_dispatcher :: "(InMemoryTaskStore, unit) Dispatcher" where
  "sample_dispatcher =
     SetSecurityPolicy (Some sample_policy) (Some (in_memory_ops (\<lambda>_. [])))
       (AddInterceptor (Some (ServerInterceptor_base\<lparr>AfterDispatch := \<lambda>request result (s, c).
            Some (s, c\<lparr>ctx_principal := ''root''\<rparr>)\<rparr>))
         \<lparr>d_executor = Some sample_executor, d_security = None, d_agent_card_provider = None, d_interceptors = []\<rparr>)"

definition sample_get :: "string \<Rightarrow> DispatchRequest" where
  "sample_get k = \<lparr>req_operation = kGetTask,
     req_payload = Req_GetTask \<lparr>GTR_tenant = [], GTR_id = k, GTR_history_length = Some 1\<rparr>\<rparr>"

lemma sample_dispatcher_sel:
  "d_security sample_dispatcher = Some \<lparr>ds_policy = Some sample_policy, ds_task_store = Some (in_memory_ops (\<lambda>_. []))\<rparr>"
  "d_executor sample_dispatcher = Some sample_executor"
  by (simp_all add: sample_dispatcher_def SetSecurityPolicy_def AddInterceptor_def)

theorem Dispatch_confidential_witness:
  "\<exists>s' ctx' t. Dispatch sample_dispatcher (sample_get ''a'') (sample_store, default_RequestContext) =
     Some ((s', ctx'), Inr (Resp_Task t)) \<and> Task_id t = ''a'' \<and> ctx_principal ctx' = ''a''"
proof -
  have "map_option (\<lambda>((s, c), r). map_sum (\<lambda>_. ()) (\<lambda>resp. case resp of Resp_Task t \<Rightarrow> Some (Task_id t) | _ \<Rightarrow> None) r)
      (Dispatch sample_dispatcher (sample_get ''a'') (sample_store, default_RequestContext)) = Some (Inr (Some ''a''))"
    by code_simp
  then obtain s' ctx' resp where resp: "Dispatch sample_dispatcher (sample_get ''a'') (sample_store, default_RequestContext) =
     Some ((s', ctx'), Inr resp)" "(case resp of Resp_Task t \<Rightarrow> Some (Task_id t) | _ \<Rightarrow> None) = Some ''a''"
    by (auto simp: map_sum_Inr_iff)
  from resp(2) obtain t where "resp = Resp_Task t" "Task_id t = ''a''" by (cases resp) auto
  with resp(1) have t: "Dispatch sample_dispatcher (sample_get ''a'') (sample_store, default_RequestContext) =
     Some ((s', ctx'), Inr (Resp_Task t))" "Task_id t = ''a''" by auto
  from Dispatch_confidential[OF sample_dispatcher_sel(1) t(1)] t show ?thesis by (auto simp: sample_policy_def)
qed

section \<open>Hidden and missing tasks\<close>

text \<open>a hidden task cannot be told from a missing one. When an authenticated caller names a task that is not
  stored or that the policy hides from it, the dispatcher answers with the same not-found error, having run neither
  the executor nor the interceptors before it, in the state and with the identity it had.\<close>

theorem Dispatch_hidden_task:
  assumes "d_security d = Some \<lparr>ds_policy = Some policy, ds_task_store = Some (in_memory_ops ser)\<rparr>"
    and "d_executor d = Some executor" "store_inv s"
    and "Authenticate policy (ctx\<lparr>ctx_principal := []\<rparr>) = Inr identity" "identity \<noteq> []"
    and "TaskId (req_payload request) = k" "k \<noteq> []"
    and "\<And>t. InMemory_Get k s = Some (Inr t) \<Longrightarrow> \<not> CanAccessTask policy t (ctx\<lparr>ctx_principal := identity\<rparr>)"
  shows "Dispatch d request (s, ctx) =
    finish d request (Some identity) (Inl (TaskNotFound ''task not found'')) (s, ctx\<lparr>ctx_principal := identity\<rparr>)"
proof -
  have "GetAuthorizedTask (in_memory_ops ser) policy (ctx\<lparr>ctx_principal := identity\<rparr>) k s = Some (Inl TaskNotFound_default)"
    using mem.GetAuthorizedTask_cases[OF assms(3,7)] assms(8) get_implements[OF assms(3), of k] assms(7)
    by (auto simp: spec_Get_Inr_iff split: option.split)
  then show ?thesis
    using assms(1,2,4-7)
    by (simp add: Dispatch_def Security_Authorize_def configured_def Let_def TaskNotFound_default_def)
qed

theorem Dispatch_hidden_task_witness:
  "Dispatch sample_dispatcher (sample_get ''b'') (sample_store, default_RequestContext) =
     Some ((sample_store, default_RequestContext\<lparr>ctx_principal := ''a''\<rparr>), Inl (TaskNotFound ''task not found'')) \<and>
   Dispatch sample_dispatcher (sample_get ''missing'') (sample_store, default_RequestContext) =
     Some ((sample_store, default_RequestContext\<lparr>ctx_principal := ''a''\<rparr>), Inl (TaskNotFound ''task not found'')) \<and>
   InMemory_Get ''b'' sample_store \<noteq> InMemory_Get ''missing'' sample_store"
proof -
  have get: "InMemory_Get ''b'' sample_store = Some (Inr (sample_task ''b'' TASK_STATE_COMPLETED))"
    "InMemory_Get ''missing'' sample_store = Some (Inl (TaskNotFound ''Task not found''))"
    by code_simp+
  have hidden: "\<not> CanAccessTask sample_policy (sample_task ''b'' TASK_STATE_COMPLETED)
      (default_RequestContext\<lparr>ctx_principal := ''a''\<rparr>)"
    by code_simp
  have req: "Authenticate sample_policy (default_RequestContext\<lparr>ctx_principal := []\<rparr>) = Inr ''a''"
    "TaskId (req_payload (sample_get k)) = k" for k
    by (simp_all add: sample_policy_def sample_get_def)
  have "Dispatch sample_dispatcher (sample_get k) (sample_store, default_RequestContext) =
      finish sample_dispatcher (sample_get k) (Some ''a'') (Inl (TaskNotFound ''task not found''))
        (sample_store, default_RequestContext\<lparr>ctx_principal := ''a''\<rparr>)" if "k = ''b'' \<or> k = ''missing''" for k
    using that get hidden by (intro Dispatch_hidden_task[OF sample_dispatcher_sel sample_inv req(1) _ req(2)]) auto
  then show ?thesis
    by (simp add: get finish_def RunAfterInterceptors_def sample_dispatcher_def SetSecurityPolicy_def AddInterceptor_def
        RestorePrincipal_def)
qed

section \<open>Every request is answered\<close>

text \<open>A call that, from a good state, returns and leaves a good state.\<close>

definition answered :: "('w \<Rightarrow> bool) \<Rightarrow> (('w \<times> RequestContext) \<times> 'a) option \<Rightarrow> bool" where
  "answered good outcome \<longleftrightarrow> (\<exists>w c r. outcome = Some ((w, c), r) \<and> good w)"

definition answers :: "('w \<Rightarrow> bool) \<Rightarrow> ('w \<times> RequestContext, 'a) step \<Rightarrow> bool" where
  "answers good f \<longleftrightarrow> (\<forall>w c. good w \<longrightarrow> answered good (f (w, c)))"

definition executor_answers :: "('w \<Rightarrow> bool) \<Rightarrow> 'w AgentExecutor \<Rightarrow> bool" where
  "executor_answers good e \<longleftrightarrow>
     (\<forall>r. answers good (ae_SendMessage e r)) \<and> (\<forall>r. answers good (ae_SendStreamingMessage e r)) \<and>
     (\<forall>r. answers good (ae_GetTask e r)) \<and> (\<forall>r. answers good (ae_SubscribeTask e r)) \<and>
     (\<forall>r. answers good (ae_ListTasks e r)) \<and> (\<forall>r. answers good (ae_CancelTask e r)) \<and>
     (\<forall>r. answers good (ae_CreatePushConfig e r)) \<and> (\<forall>r. answers good (ae_GetPushConfig e r)) \<and>
     (\<forall>r. answers good (ae_ListPushConfigs e r)) \<and> (\<forall>r. answers good (ae_DeletePushConfig e r))"

definition interceptor_answers :: "('w \<Rightarrow> bool) \<Rightarrow> ('w, 'card) ServerInterceptor \<Rightarrow> bool" where
  "interceptor_answers good i \<longleftrightarrow> (\<forall>request. answers good (BeforeDispatch i request)) \<and>
     (\<forall>request result w c. good w \<longrightarrow> (\<exists>w' c'. AfterDispatch i request result (w, c) = Some (w', c') \<and> good w'))"

definition provider_answers :: "('w \<Rightarrow> bool) \<Rightarrow> ('w, 'card) AgentCardProvider \<Rightarrow> bool" where
  "provider_answers good p \<longleftrightarrow> (\<forall>c w. good w \<longrightarrow> (\<exists>w' r. p c w = Some (w', r) \<and> good w'))"

lemma answered_Some [simp]: "answered good (Some ((w, c), r)) = good w"
  by (auto simp: answered_def)

lemma answersE:
  assumes "answers good f" "good w"
  obtains w' c' r where "f (w, c) = Some ((w', c'), r)" "good w'"
  using assms unfolding answers_def answered_def by blast

lemma answered_respond:
  assumes "answers good f" "good w"
  shows "answered good (respond g (f (w, c)))"
  using assms by (auto simp: respond_def elim: answersE[where c = c])

lemma executor_route_answers:
  assumes e: "executor_answers good executor" and p: "\<And>p. provider = Some p \<Longrightarrow> provider_answers good p"
  shows "answers good (DispatchToExecutor executor request provider b)"
proof -
  note e = e[unfolded executor_answers_def]
  have card: "answered good (DispatchExtendedAgentCard provider request (w, c))" if w: "good w" for w c
  proof (cases "\<exists>q payload. provider = Some q \<and> req_payload request = Req_GetExtendedAgentCard payload")
    case True
    then obtain q payload where q: "provider = Some q" "req_payload request = Req_GetExtendedAgentCard payload" by blast
    with p w obtain w' r where "q (ToAgentCardRequestContext c (GEC_tenant payload)) w = Some (w', r)" "good w'"
      unfolding provider_answers_def by blast
    with q show ?thesis by (auto simp: DispatchExtendedAgentCard_def respond_def)
  next
    case False
    with w show ?thesis
      by (auto simp: DispatchExtendedAgentCard_def split: RequestPayload.split option.split)
  qed
  show ?thesis
    unfolding answers_def
    by (intro allI impI; cases "req_operation request"; cases "req_payload request")
      (simp_all add: DispatchToExecutor_def IsPushNotificationOperation_def DispatchPushToExecutor_def
        DispatchSendMessageToExecutor_def DispatchSendStreamingMessageToExecutor_def DispatchGetTaskToExecutor_def
        DispatchSubscribeToExecutor_def DispatchListTasksToExecutor_def DispatchCancelTaskToExecutor_def
        Let_def answered_respond e card)
qed

lemma run_before_answers:
  assumes "\<And>i. Some i \<in> set is \<Longrightarrow> interceptor_answers good i"
  shows "answers good (run_before request p is)"
  using assms
proof (induction "is")
  case Nil
  then show ?case by (simp add: answers_def)
next
  case (Cons i "is")
  then have IH: "answers good (run_before request p is)" by simp
  show ?case
  proof (cases i)
    case None
    with IH show ?thesis by (simp add: answers_def)
  next
    case (Some j)
    with Cons.prems have j: "answers good (BeforeDispatch j request)" by (simp add: interceptor_answers_def)
    show ?thesis unfolding answers_def
    proof (intro allI impI)
      fix w c assume "good w"
      with j obtain w' c' r where b: "BeforeDispatch j request (w, c) = Some ((w', c'), r)" "good w'"
        by (rule answersE)
      with Some IH show "answered good (run_before request p (i # is) (w, c))"
        by (cases r) (auto simp: answers_def)
    qed
  qed
qed

lemma run_after_answers:
  assumes "\<And>i. Some i \<in> set is \<Longrightarrow> interceptor_answers good i" "good w"
  shows "\<exists>w' c'. run_after request result p is (w, c) = Some (w', c') \<and> good w'"
  using assms
proof (induction "is" arbitrary: w c)
  case (Cons i "is")
  show ?case
  proof (cases i)
    case None
    with Cons show ?thesis by simp
  next
    case (Some j)
    with Cons.prems(1) have "interceptor_answers good j" by simp
    with Cons.prems(2) obtain w' c' where a: "AfterDispatch j request result (w, c) = Some (w', c')" "good w'"
      unfolding interceptor_answers_def by blast
    have "\<exists>w2 c2. run_after request result p is (w', RestorePrincipal p c') = Some (w2, c2) \<and> good w2"
      using Cons.prems(1) a(2) by (intro Cons.IH) auto
    with Some a(1) show ?thesis by simp
  qed
qed simp

text \<open>The alternatives that the projection of a response reads are there.\<close>

lemma executor_shape:
  assumes "DispatchToExecutor executor request provider b s = Some (s', Inr response)"
  shows "(req_operation request = kGetTask \<longrightarrow> (\<exists>q t. req_payload request = Req_GetTask q \<and> response = Resp_Task t)) \<and>
    (req_operation request = kSendMessage \<longrightarrow>
       (\<exists>q r. req_payload request = Req_SendMessage q \<and> response = Resp_SendMessage r))"
  using assms
  by (cases "req_payload request")
    (auto simp: DispatchToExecutor_def IsPushNotificationOperation_def DispatchSendMessageToExecutor_def
      DispatchGetTaskToExecutor_def Let_def respond_Inr)

lemma ProtectStream_cases:
  assumes "ProtectStream ds request ctx response = Inr response'"
  shows "response' = response \<or> (\<exists>st st'. response = Resp_Stream st \<and> response' = Resp_Stream st')"
proof (cases response)
  case (Resp_Stream st)
  with assms show ?thesis by (cases st) (auto simp: ProtectStream_def result_bind_Inr)
qed (use assms in \<open>auto simp: ProtectStream_def result_bind_Inr\<close>)

lemma perform_projects:
  assumes "perform d executor request s = Some (s', result)"
    and "check_response d request ctx w result = Some checked"
  shows "\<exists>projected. project_result request checked = Some projected"
proof (cases checked)
  case (Inr response')
  with assms(2) obtain response where r: "result = Inr response"
    "response' = response \<or> (\<exists>st st'. response = Resp_Stream st \<and> response' = Resp_Stream st')"
    by (cases result; cases "d_security d")
      (auto simp: check_response_def result_bind_Inr split: bind_splits dest: ProtectStream_cases)
  have "(req_operation request = kGetTask \<longrightarrow> (\<exists>q t. req_payload request = Req_GetTask q \<and> response = Resp_Task t)) \<and>
    (req_operation request = kSendMessage \<longrightarrow>
       (\<exists>q r. req_payload request = Req_SendMessage q \<and> response = Resp_SendMessage r))"
  proof (cases "req_operation request = kListTasks")
    case False
    then have "perform d executor request s =
      DispatchToExecutor executor request (d_agent_card_provider d) (d_security d \<noteq> None) s"
      by (cases "req_operation request"; cases s) (auto simp: perform_def split: option.splits)
    with assms(1) r(1) show ?thesis by (intro executor_shape) simp
  qed simp
  with r(2) Inr show ?thesis
    by (auto simp: project_result_def ProjectTaskResponse_def split: option.splits SendMessageResponse.splits)
qed (simp add: project_result_def)

text \<open>The operations of \<open>DispatchSecurity\<close> return when the task store keeps its contract.\<close>

context task_store
begin

lemma GetAuthorizedTask_defined: "good w \<Longrightarrow> \<exists>r. GetAuthorizedTask ops policy ctx k w = Some r"
  by (simp add: GetAuthorizedTask_def get_impl)

lemma AuthorizeId_defined: "good w \<Longrightarrow> \<exists>r. AuthorizeId policy ops ctx k w = Some r"
  using GetAuthorizedTask_defined[of w policy ctx k] by (auto simp: AuthorizeId_def)

lemma AuthorizeConfigs_defined: "good w \<Longrightarrow> \<exists>r. AuthorizeConfigs policy ops ctx cs w = Some r"
proof (induction cs)
  case (Cons config cs)
  from AuthorizeId_defined[OF Cons.prems] obtain r where "AuthorizeId policy ops ctx (Push_task_id config) w = Some r"
    by blast
  with Cons show ?case by (cases r) auto
qed simp

lemma ResponseAuthorizer_defined: "good w \<Longrightarrow> \<exists>r. ResponseAuthorizer policy ops ctx response w = Some r"
  by (cases response) (auto simp: AuthorizeId_defined AuthorizeConfigs_defined split: SendMessageResponse.split)

lemma read_selected_defined: "good w \<Longrightarrow> \<exists>r. read_selected policy ops ctx request w ks = Some r"
proof (induction ks)
  case (Cons k ks)
  from GetAuthorizedTask_defined[OF Cons.prems] obtain r where "GetAuthorizedTask ops policy ctx k w = Some r" by blast
  with Cons show ?case by (cases r) auto
qed simp

lemma Security_Authorize_defined:
  assumes "good w" "ds_task_store ds = None \<or> ds_task_store ds = Some ops"
  shows "\<exists>c r. Security_Authorize ds request ctx w = Some (c, r)"
proof (cases "configured ds")
  case (Inr ps)
  with assms(2) obtain policy where ps: "ps = (policy, ops)" by (auto simp: configured_def split: option.splits)
  show ?thesis
    using GetAuthorizedTask_defined[OF assms(1), of policy]
    by (auto simp: Security_Authorize_def Inr ps Let_def get_impl[OF assms(1)] GetAuthorizedTask_def split: sum.split)
qed (simp add: Security_Authorize_def)

lemma Security_ListTasks_defined:
  assumes "good w" "ds_task_store ds = None \<or> ds_task_store ds = Some ops"
  shows "\<exists>r. Security_ListTasks ds request ctx w = Some r"
proof (cases "configured ds")
  case (Inr ps)
  with assms(2) obtain policy where ps: "ps = (policy, ops)" by (auto simp: configured_def split: option.splits)
  have "\<exists>r. SelectTaskIds policy ops q ctx cursor n w = Some r" if "n \<noteq> 0" for q cursor n
    using SelectTaskIds_spec[OF assms(1) that] by blast
  then have sel: "\<exists>r. (case ScopeTaskList policy q ctx of None \<Rightarrow> Some (Inr empty_VisibleTaskPage)
      | Some scoped \<Rightarrow> SelectTaskIds policy ops scoped ctx cursor n w) = Some r" if "n \<noteq> 0" for q cursor n
    using that by (auto split: option.split)
  show ?thesis
  proof (cases "LTR_page_size request > kMaxListTasksPageSize \<or> (\<exists>e. ParseListPageToken (LTR_page_token request) = Inl e)")
    case False
    then obtain cursor where cursor: "ParseListPageToken (LTR_page_token request) = Inr cursor"
      by (cases "ParseListPageToken (LTR_page_token request)") auto
    define n where "n = (if LTR_page_size request = 0 then kDefaultListTasksPageSize else LTR_page_size request)"
    have "n \<noteq> 0" by (simp add: n_def kDefaultListTasksPageSize_def)
    from sel[OF this] obtain selected where "(case ScopeTaskList policy
        (request\<lparr>LTR_history_length := None, LTR_include_artifacts := True\<rparr>) ctx of
        None \<Rightarrow> Some (Inr empty_VisibleTaskPage)
      | Some scoped \<Rightarrow> SelectTaskIds policy ops scoped ctx cursor n w) = Some selected" by blast
    with False cursor read_selected_defined[OF assms(1), of policy ctx request] show ?thesis
      by (cases selected) (auto simp: Security_ListTasks_def Inr ps Let_def simp flip: n_def)
  qed (auto simp: Security_ListTasks_def Inr ps)
qed (simp add: Security_ListTasks_def)

lemma check_response_defined:
  assumes "good w" "\<And>ds. d_security d = Some ds \<Longrightarrow> ds_task_store ds = None \<or> ds_task_store ds = Some ops"
  shows "\<exists>r. check_response d request ctx w result = Some r"
proof (cases "d_security d")
  case (Some ds)
  with assms(2) have "ds_task_store ds = None \<or> ds_task_store ds = Some ops" by blast
  then have "\<exists>r. Security_AuthorizeResponse ds response ctx w = Some r" for response
    by (auto simp: Security_AuthorizeResponse_def configured_def ResponseAuthorizer_defined[OF assms(1)] split: option.split)
  with Some show ?thesis
    by (cases result) (auto simp: check_response_def Option.bind_eq_Some_conv)
qed (simp add: check_response_def)

lemma perform_answers:
  assumes "executor_answers good executor" "\<And>p. d_agent_card_provider d = Some p \<Longrightarrow> provider_answers good p"
    and "\<And>ds. d_security d = Some ds \<Longrightarrow> ds_task_store ds = None \<or> ds_task_store ds = Some ops"
  shows "answers good (perform d executor request)"
  unfolding answers_def
proof (intro allI impI)
  fix w c assume w: "good w"
  show "answered good (perform d executor request (w, c))"
  proof (cases "\<exists>ds q. d_security d = Some ds \<and> req_operation request = kListTasks \<and> req_payload request = Req_ListTasks q")
    case True
    then obtain ds q where q: "d_security d = Some ds" "req_operation request = kListTasks"
      "req_payload request = Req_ListTasks q" by blast
    with Security_ListTasks_defined[OF w assms(3)[OF q(1)]] w show ?thesis by (auto simp: perform_def answered_def)
  next
    case False
    then have "perform d executor request (w, c) =
        DispatchToExecutor executor request (d_agent_card_provider d) (d_security d \<noteq> None) (w, c)"
      by (auto simp: perform_def split: option.split DispatcherOperation.split RequestPayload.split)
    with executor_route_answers[OF assms(1,2)] w show ?thesis by (simp add: answers_def)
  qed
qed

lemma Dispatch_answered:
  assumes good: "good w" and store: "\<And>ds. d_security d = Some ds \<Longrightarrow> ds_task_store ds = None \<or> ds_task_store ds = Some ops"
    and exec: "\<And>e. d_executor d = Some e \<Longrightarrow> executor_answers good e"
    and card: "\<And>p. d_agent_card_provider d = Some p \<Longrightarrow> provider_answers good p"
    and ints: "\<And>i. Some i \<in> set (d_interceptors d) \<Longrightarrow> interceptor_answers good i"
  shows "answered good (Dispatch d request (w, ctx))"
proof (cases "d_executor d")
  case (Some executor)
  have rev_ints: "interceptor_answers good i" if "Some i \<in> set (rev (d_interceptors d))" for i
    using ints that by simp
  have finish: "answered good (finish d request p result (w, c))" if "good w" for p result w c
  proof -
    have "\<exists>w' c'. run_after request result p (rev (d_interceptors d)) (w, c) = Some (w', c') \<and> good w'"
      by (rule run_after_answers[OF rev_ints that])
    then show ?thesis by (auto simp: finish_def RunAfterInterceptors_def)
  qed
  have perform: "answers good (perform d executor request)"
    using perform_answers[OF exec[OF Some] card store] .
  have authorize: "\<exists>c r. (case d_security d of Some security \<Rightarrow> Security_Authorize security request ctx w
      | None \<Rightarrow> Some (ctx, Inr ())) = Some (c, r)"
    using Security_Authorize_defined[OF good store] by (auto split: option.split)
  then obtain c0 r0 where a: "(case d_security d of Some security \<Rightarrow> Security_Authorize security request ctx w
      | None \<Rightarrow> Some (ctx, Inr ())) = Some (c0, r0)" by blast
  define p where "p = (if d_security d \<noteq> None then Some (ctx_principal c0) else None)"
  obtain w1 c1 r1 where b: "run_before request p (d_interceptors d) (w, c0) = Some ((w1, c1), r1)" "good w1"
    using run_before_answers[OF ints] good by (rule answersE)
  obtain w2 c2 r2 where e: "perform d executor request (w1, c1) = Some ((w2, c2), r2)" "good w2"
    using perform b(2) by (rule answersE)
  obtain r3 where c: "check_response d request (RestorePrincipal p c2) w2 r2 = Some r3"
    using check_response_defined[OF e(2) store] by blast
  obtain r4 where "project_result request r3 = Some r4" using perform_projects[OF e(1) c] by blast
  with Some a b e c show ?thesis
    by (cases r0; cases r1; cases "d_security d") (simp_all add: Dispatch_def Let_def good finish p_def)
qed (simp add: Dispatch_def good)

end

text \<open>C8: a dispatcher over an in-memory task store answers every request, with or without a security policy, for any
  policy, when the executor, the card provider and the interceptors return and leave the store consistent: the
  selection of visible tasks terminates, and the alternatives of the response that the projection reads are there. The
  store is consistent afterwards.\<close>

theorem Dispatch_terminates:
  assumes "store_inv s"
    and "\<And>ds. d_security d = Some ds \<Longrightarrow> ds_task_store ds = None \<or> ds_task_store ds = Some (in_memory_ops ser)"
    and "\<And>e. d_executor d = Some e \<Longrightarrow> executor_answers store_inv e"
    and "\<And>p. d_agent_card_provider d = Some p \<Longrightarrow> provider_answers store_inv p"
    and "\<And>i. Some i \<in> set (d_interceptors d) \<Longrightarrow> interceptor_answers store_inv i"
  shows "\<exists>s' ctx' r. Dispatch d request (s, ctx) = Some ((s', ctx'), r) \<and> store_inv s'"
  using mem.Dispatch_answered[OF assms] by (simp add: answered_def)

lemma sample_executor_answers: "executor_answers store_inv sample_executor"
  using get_implements
  by (auto simp: executor_answers_def sample_executor_def answers_def AgentExecutor_base_push_def)

theorem Dispatch_terminates_witness:
  "\<exists>s' ctx' r. Dispatch sample_dispatcher
     \<lparr>req_operation = kListTasks, req_payload = Req_ListTasks default_ListTasksRequest\<rparr>
     (sample_store, default_RequestContext) = Some ((s', ctx'), r) \<and> store_inv s'"
  by (rule Dispatch_terminates[where ser = "\<lambda>_. []", OF sample_inv])
    (auto simp: sample_dispatcher_def SetSecurityPolicy_def AddInterceptor_def sample_executor_answers
      interceptor_answers_def ServerInterceptor_base_def answers_def)

end
