(* ===== verification/Proto_Number.thy ===== *)
theory Proto_Number
  imports Proto
begin

text \<open>
  The numbers of a \<open>google.protobuf.Value\<close>. A number is a double, kept as its 64-bit pattern; this theory has the
  conversions and comparisons that the code applies to such numbers, on the IEEE 754 fields of the pattern.
\<close>

unbundle bit_operations_syntax

function leading_bit :: "int \<Rightarrow> nat" where
  "leading_bit n = (if n < 2 then 0 else Suc (leading_bit (n div 2)))"
  by pat_completeness auto
termination
  by (relation "measure nat") auto

declare leading_bit.simps [simp del]

text \<open>The conversion of an integer to a double, to nearest with ties to even: sign, biased exponent and the fraction
  below the leading bit. A fraction that rounds up to a power of two carries into the exponent.\<close>

definition round_even :: "nat \<Rightarrow> int \<Rightarrow> int" where
  "round_even k m =
     (let q = m div 2 ^ k; r = m mod 2 ^ k in
      if k = 0 then m else if r > 2 ^ (k - 1) \<or> (r = 2 ^ (k - 1) \<and> odd q) then q + 1 else q)"

definition double_of_int :: "int \<Rightarrow> 64 word" where
  "double_of_int n =
     (if n = 0 then 0
      else let m = \<bar>n\<bar>; e = leading_bit m;
               f = (if e \<le> 52 then m * 2 ^ (52 - e) else round_even (e - 52) m) - 2 ^ 52
           in word_of_int ((if n < 0 then 2 ^ 63 else 0) + (1023 + int e) * 2 ^ 52 + f))"

definition dbl_negative :: "64 word \<Rightarrow> bool" where
  "dbl_negative d \<longleftrightarrow> bit d 63"

definition dbl_exponent :: "64 word \<Rightarrow> nat" where
  "dbl_exponent d = unat (take_bit 11 (drop_bit 52 d))"

definition dbl_fraction :: "64 word \<Rightarrow> int" where
  "dbl_fraction d = uint (take_bit 52 d)"

definition dbl_mantissa :: "64 word \<Rightarrow> int" where
  "dbl_mantissa d = (if dbl_exponent d = 0 then dbl_fraction d else 2 ^ 52 + dbl_fraction d)"

text \<open>\<open>std::isfinite\<close>, \<open>std::trunc(d) == d\<close> and the conversion to an integer, which truncates towards zero.\<close>

definition dbl_finite :: "64 word \<Rightarrow> bool" where
  "dbl_finite d \<longleftrightarrow> dbl_exponent d \<noteq> 2047"

definition dbl_integral :: "64 word \<Rightarrow> bool" where
  "dbl_integral d \<longleftrightarrow> dbl_exponent d \<ge> 1075 \<or> dbl_mantissa d mod 2 ^ (1075 - max 1 (dbl_exponent d)) = 0"

definition dbl_trunc :: "64 word \<Rightarrow> int" where
  "dbl_trunc d =
     (let e = max 1 (dbl_exponent d); m = dbl_mantissa d;
          v = (if e \<ge> 1075 then m * 2 ^ (e - 1075) else m div 2 ^ (1075 - e))
      in if dbl_negative d then - v else v)"

text \<open>\<open>d < 0\<close>: false for both zeros and for a NaN.\<close>

definition dbl_less_zero :: "64 word \<Rightarrow> bool" where
  "dbl_less_zero d \<longleftrightarrow>
     dbl_negative d \<and> (dbl_exponent d \<noteq> 0 \<or> dbl_fraction d \<noteq> 0) \<and> (dbl_finite d \<or> dbl_fraction d = 0)"

section \<open>Integers survive\<close>

lemma leading_bit_bounds: "0 < n \<Longrightarrow> 2 ^ leading_bit n \<le> n \<and> n < 2 ^ Suc (leading_bit n)"
proof (induction n rule: leading_bit.induct)
  case (1 n)
  show ?case
  proof (cases "n < 2")
    case True
    with 1(2) show ?thesis by (simp add: leading_bit.simps)
  next
    case False
    with 1(1) have "2 ^ leading_bit (n div 2) \<le> n div 2 \<and> n div 2 < 2 ^ Suc (leading_bit (n div 2))" by simp
    with False show ?thesis by (simp add: leading_bit.simps[of n]) linarith
  qed
qed

text \<open>The fields of a pattern.\<close>

lemma pattern_arith:
  fixes E f s :: int
  assumes "0 \<le> E" "E < 2048" "0 \<le> f" "f < 2 ^ 52" "s = 0 \<or> s = 1"
  defines "v \<equiv> s * 2 ^ 63 + E * 2 ^ 52 + f"
  shows "v mod 2 ^ 52 = f" and "v div 2 ^ 52 mod 2 ^ 11 = E" and "v div 2 ^ 63 mod 2 = s" and "0 \<le> v" and "v < 2 ^ 64"
proof -
  have v: "v = f + (s * 2 ^ 11 + E) * 2 ^ 52" unfolding v_def by simp
  have f: "f mod 2 ^ 52 = f" "f div 2 ^ 52 = 0" using assms(3,4) by (auto simp: div_pos_pos_trivial)
  show "v mod 2 ^ 52 = f" unfolding v using f(1) by (simp only: mod_mult_self1)
  have d: "v div 2 ^ 52 = s * 2 ^ 11 + E" unfolding v using f(2) by (subst div_mult_self1) auto
  show "v div 2 ^ 52 mod 2 ^ 11 = E" unfolding d using assms(1,2,5) by auto
  have "v div 2 ^ 63 = v div 2 ^ 52 div 2 ^ 11" by (simp add: zdiv_zmult2_eq[symmetric])
  then show "v div 2 ^ 63 mod 2 = s" unfolding d using assms(1,2,5) by auto
  show "0 \<le> v" "v < 2 ^ 64" unfolding v_def using assms(1-5) by auto
qed

lemma pattern_fields:
  fixes E f s :: int
  assumes "0 \<le> E" "E < 2048" "0 \<le> f" "f < 2 ^ 52" "s = 0 \<or> s = 1"
  defines "d \<equiv> word_of_int (s * 2 ^ 63 + E * 2 ^ 52 + f) :: 64 word"
  shows "dbl_exponent d = nat E" and "dbl_fraction d = f" and "dbl_negative d \<longleftrightarrow> s = 1"
proof -
  note arith = pattern_arith[OF assms(1-5)]
  have u: "uint d = s * 2 ^ 63 + E * 2 ^ 52 + f"
    unfolding d_def uint_word_of_int_eq using arith(4,5) by (intro take_bit_int_eq_self) simp_all
  show "dbl_exponent d = nat E"
    unfolding dbl_exponent_def unat_eq_nat_uint unsigned_take_bit_eq unsigned_drop_bit_eq u
    using arith(2,4,5) by (simp add: take_bit_eq_mod drop_bit_eq_div)
  show "dbl_fraction d = f"
    unfolding dbl_fraction_def unsigned_take_bit_eq u using arith(1) by (simp add: take_bit_eq_mod)
  show "dbl_negative d \<longleftrightarrow> s = 1"
  proof -
    have "bit d 63 \<longleftrightarrow> bit (uint d) 63" by (simp add: bit_uint_iff)
    then show ?thesis
      unfolding dbl_negative_def u bit_iff_odd using arith(3) by (simp add: odd_iff_mod_2_eq_one)
  qed
qed

lemma double_of_int_fields:
  assumes "n \<noteq> 0" "\<bar>n\<bar> < 2 ^ 53"
  defines "e \<equiv> leading_bit \<bar>n\<bar>"
  shows "e \<le> 52" and "dbl_exponent (double_of_int n) = 1023 + e"
    and "dbl_mantissa (double_of_int n) = \<bar>n\<bar> * 2 ^ (52 - e)" and "dbl_negative (double_of_int n) \<longleftrightarrow> n < 0"
proof -
  have b: "2 ^ e \<le> \<bar>n\<bar>" "\<bar>n\<bar> < 2 ^ Suc e" using leading_bit_bounds[of "\<bar>n\<bar>"] assms(1) by (auto simp: e_def)
  then have "(2::int) ^ e < 2 ^ 53" using assms(2) by linarith
  then show e: "e \<le> 52" using power_less_imp_less_exp[of "2::int" e 53] by simp
  define f where "f = \<bar>n\<bar> * 2 ^ (52 - e) - 2 ^ 52"
  have p: "(2::int) ^ 52 = 2 ^ e * 2 ^ (52 - e)" "(2::int) ^ 53 = 2 ^ Suc e * 2 ^ (52 - e)"
    using e by (simp_all only: power_add[symmetric]) simp_all
  have "2 ^ 52 \<le> \<bar>n\<bar> * 2 ^ (52 - e)" unfolding p(1) using b(1) by (intro mult_right_mono) simp_all
  moreover have "\<bar>n\<bar> * 2 ^ (52 - e) < 2 ^ 53" unfolding p(2) using b(2) by (intro mult_strict_right_mono) simp_all
  ultimately have f: "0 \<le> f" "f < 2 ^ 52" by (simp_all add: f_def)
  define s :: int where "s = (if n < 0 then 1 else 0)"
  have d: "double_of_int n = word_of_int (s * 2 ^ 63 + (1023 + int e) * 2 ^ 52 + f)"
    using assms(1) e by (simp add: double_of_int_def Let_def e_def[symmetric] f_def s_def)
  have E: "0 \<le> 1023 + int e" "1023 + int e < 2048" "s = 0 \<or> s = 1" using e by (auto simp: s_def)
  note fields = pattern_fields[OF E(1,2) f E(3), folded d]
  show ex: "dbl_exponent (double_of_int n) = 1023 + e" using fields(1) by simp
  show "dbl_mantissa (double_of_int n) = \<bar>n\<bar> * 2 ^ (52 - e)"
    unfolding dbl_mantissa_def fields(2) ex by (simp add: f_def)
  show "dbl_negative (double_of_int n) \<longleftrightarrow> n < 0" unfolding fields(3) by (simp add: s_def)
qed

text \<open>Every integer below \<open>2^53\<close> is exact: its double is finite and integral and has that value.\<close>

theorem double_of_int_exact:
  assumes "\<bar>n\<bar> < 2 ^ 53"
  shows "dbl_finite (double_of_int n)" and "dbl_integral (double_of_int n)" and "dbl_trunc (double_of_int n) = n"
proof -
  have "dbl_finite (double_of_int n) \<and> dbl_integral (double_of_int n) \<and> dbl_trunc (double_of_int n) = n"
  proof (cases "n = 0")
    case True
    then show ?thesis
      by (simp add: double_of_int_def dbl_finite_def dbl_integral_def dbl_trunc_def dbl_mantissa_def dbl_exponent_def
          dbl_fraction_def)
  next
    case False
    define m where "m = \<bar>n\<bar>"
    note F = double_of_int_fields[OF False assms, folded m_def]
    have "dbl_trunc (double_of_int n) = (if n < 0 then - m else m)"
      using F(1) by (simp add: dbl_trunc_def Let_def F(2-4))
    moreover have "dbl_finite (double_of_int n) \<and> dbl_integral (double_of_int n)"
      using F(1) by (simp add: dbl_finite_def dbl_integral_def F(2-4))
    ultimately show ?thesis by (simp add: m_def)
  qed
  then show "dbl_finite (double_of_int n)" "dbl_integral (double_of_int n)" "dbl_trunc (double_of_int n) = n" by auto
qed

end
