(* ===== verification/Server_Response.thy ===== *)
theory Server_Response
  imports Dispatcher Sse_Stream Proto_Number
begin

text \<open>
  What the HTTP bindings of the server share: the response builder (\<open>src/server/transport/http_server_response_builder.cpp\<close>),
  the serialised agent card (\<open>src/server/agent_card/agent_card_serializer.cpp\<close>), the ProtoJSON codec as a parameter, and
  the stream writers of a response. A writer is a closure over the session of the response; it is kept as a value
  that says which function it is and what it captured; the call of it is in \<open>Json_Rpc_Server\<close>.
\<close>

section \<open>ProtoJSON\<close>

text \<open>\<open>core::MessageToJson\<close> and \<open>core::JsonToMessage\<close> at the message types and with the options of their callers. They
  rest on the protobuf reflection interface and on simdjson.\<close>

record ProtoJsonParseOptions =
  ignore_unknown_fields :: bool
  reject_top_level_null_fields :: bool
  reject_duplicate_top_level_fields :: bool

definition default_parse :: ProtoJsonParseOptions where
  "default_parse = \<lparr>ignore_unknown_fields = False, reject_top_level_null_fields = False,
     reject_duplicate_top_level_fields = False\<rparr>"

definition lenient_parse :: ProtoJsonParseOptions where
  "lenient_parse = default_parse\<lparr>ignore_unknown_fields := True\<rparr>"

record 'card ProtoJson =
  json_SendMessageRequest :: "SendMessageRequest \<Rightarrow> string Result"
  json_SendMessageResponse :: "SendMessageResponse \<Rightarrow> string Result"
  json_GetTaskRequest :: "GetTaskRequest \<Rightarrow> string Result"
  json_CancelTaskRequest :: "CancelTaskRequest \<Rightarrow> string Result"
  json_GetPushConfigRequest :: "GetTaskPushNotificationConfigRequest \<Rightarrow> string Result"
  json_ListPushConfigsRequest :: "ListTaskPushNotificationConfigsRequest \<Rightarrow> string Result"
  json_DeletePushConfigRequest :: "DeleteTaskPushNotificationConfigRequest \<Rightarrow> string Result"
  json_Task :: "Task \<Rightarrow> string Result"
  json_ListTasksResponse :: "ListTasksResponsePayload \<Rightarrow> string Result"
  json_PushConfig :: "TaskPushNotificationConfig \<Rightarrow> string Result"
  json_PushConfigList :: "ListTaskPushNotificationConfigsResponse \<Rightarrow> string Result"
  json_StreamResponse :: "StreamResponse \<Rightarrow> string Result"
  json_Struct :: "Struct \<Rightarrow> string Result"
  json_Value :: "Value \<Rightarrow> string Result"
  json_AgentCard :: "'card \<Rightarrow> string Result"
  parse_SendMessageRequest :: "ProtoJsonParseOptions \<Rightarrow> string \<Rightarrow> SendMessageRequest Result"
  parse_SendMessageResponse :: "ProtoJsonParseOptions \<Rightarrow> string \<Rightarrow> SendMessageResponse Result"
  parse_GetTaskRequest :: "ProtoJsonParseOptions \<Rightarrow> string \<Rightarrow> GetTaskRequest Result"
  parse_CancelTaskRequest :: "ProtoJsonParseOptions \<Rightarrow> string \<Rightarrow> CancelTaskRequest Result"
  parse_GetPushConfigRequest :: "ProtoJsonParseOptions \<Rightarrow> string \<Rightarrow> GetTaskPushNotificationConfigRequest Result"
  parse_ListPushConfigsRequest :: "ProtoJsonParseOptions \<Rightarrow> string \<Rightarrow> ListTaskPushNotificationConfigsRequest Result"
  parse_DeletePushConfigRequest :: "ProtoJsonParseOptions \<Rightarrow> string \<Rightarrow> DeleteTaskPushNotificationConfigRequest Result"
  parse_GetExtendedAgentCardRequest :: "ProtoJsonParseOptions \<Rightarrow> string \<Rightarrow> GetExtendedAgentCardRequest Result"
  parse_Task :: "ProtoJsonParseOptions \<Rightarrow> string \<Rightarrow> Task Result"
  parse_ListTasksResponse :: "ProtoJsonParseOptions \<Rightarrow> string \<Rightarrow> ListTasksResponsePayload Result"
  parse_PushConfig :: "ProtoJsonParseOptions \<Rightarrow> string \<Rightarrow> TaskPushNotificationConfig Result"
  parse_PushConfigList :: "ProtoJsonParseOptions \<Rightarrow> string \<Rightarrow> ListTaskPushNotificationConfigsResponse Result"
  parse_StreamResponse :: "ProtoJsonParseOptions \<Rightarrow> string \<Rightarrow> StreamResponse Result"
  parse_AgentCard :: "ProtoJsonParseOptions \<Rightarrow> string \<Rightarrow> 'card Result"
  parse_Empty :: "ProtoJsonParseOptions \<Rightarrow> string \<Rightarrow> unit Result"
  parse_Struct :: "ProtoJsonParseOptions \<Rightarrow> string \<Rightarrow> Struct Result"
  parse_Value :: "ProtoJsonParseOptions \<Rightarrow> string \<Rightarrow> Value Result"
  parse_Timestamp :: "ProtoJsonParseOptions \<Rightarrow> string \<Rightarrow> Timestamp Result"

text \<open>The codec that refuses everything; concrete codecs are updates of it.\<close>

definition refusing_codec :: "'card ProtoJson" where
  "refusing_codec =
     \<lparr>json_SendMessageRequest = (\<lambda>_. Inl (Internal [])),
      json_SendMessageResponse = (\<lambda>_. Inl (Internal [])),
      json_GetTaskRequest = (\<lambda>_. Inl (Internal [])), json_CancelTaskRequest = (\<lambda>_. Inl (Internal [])),
      json_GetPushConfigRequest = (\<lambda>_. Inl (Internal [])),
      json_ListPushConfigsRequest = (\<lambda>_. Inl (Internal [])),
      json_DeletePushConfigRequest = (\<lambda>_. Inl (Internal [])), json_Task = (\<lambda>_. Inl (Internal [])),
      json_ListTasksResponse = (\<lambda>_. Inl (Internal [])), json_PushConfig = (\<lambda>_. Inl (Internal [])),
      json_PushConfigList = (\<lambda>_. Inl (Internal [])), json_StreamResponse = (\<lambda>_. Inl (Internal [])),
      json_Struct = (\<lambda>_. Inl (Internal [])), json_Value = (\<lambda>_. Inl (Internal [])),
      json_AgentCard = (\<lambda>_. Inl (Internal [])), parse_SendMessageRequest = (\<lambda>_ _. Inl (Internal [])),
      parse_SendMessageResponse = (\<lambda>_ _. Inl (Internal [])),
      parse_GetTaskRequest = (\<lambda>_ _. Inl (Internal [])),
      parse_CancelTaskRequest = (\<lambda>_ _. Inl (Internal [])),
      parse_GetPushConfigRequest = (\<lambda>_ _. Inl (Internal [])),
      parse_ListPushConfigsRequest = (\<lambda>_ _. Inl (Internal [])),
      parse_DeletePushConfigRequest = (\<lambda>_ _. Inl (Internal [])),
      parse_GetExtendedAgentCardRequest = (\<lambda>_ _. Inl (Internal [])),
      parse_Task = (\<lambda>_ _. Inl (Internal [])), parse_ListTasksResponse = (\<lambda>_ _. Inl (Internal [])),
      parse_PushConfig = (\<lambda>_ _. Inl (Internal [])), parse_PushConfigList = (\<lambda>_ _. Inl (Internal [])),
      parse_StreamResponse = (\<lambda>_ _. Inl (Internal [])), parse_AgentCard = (\<lambda>_ _. Inl (Internal [])),
      parse_Empty = (\<lambda>_ _. Inl (Internal [])), parse_Struct = (\<lambda>_ _. Inl (Internal [])),
      parse_Value = (\<lambda>_ _. Inl (Internal [])), parse_Timestamp = (\<lambda>_ _. Inl (Internal []))\<rparr>"

section \<open>Stream writers\<close>

datatype 'w StreamWriter =
    RestStreamingWriter "'w StreamObject"
  | RestSubscribeWriter "'w StreamObject"
  | JsonRpcStreamingWriter Value "'w StreamObject"
  | JsonRpcSubscribeWriter Value "'w StreamObject"

definition object_session :: "'w StreamObject \<Rightarrow> ('w \<times> 'w StreamObject) ServerStreamSession" where
  "object_session stream =
     \<lparr>ss_Next = (\<lambda>(w, obj). map_option (\<lambda>(w, obj, r). ((w, obj), r)) (Stream_Read False obj w)),
      ss_NextFor = (\<lambda>(w, obj). map_option (\<lambda>(w, obj, r). ((w, obj), r)) (Stream_Read True obj w)),
      ss_SupportsTimedNext = Stream_SupportsTimedNext stream,
      ss_IsLive = (\<lambda>(w, obj). Stream_IsLive obj w),
      ss_Cancel = (\<lambda>(w, obj). map_option (\<lambda>w. (w, obj)) (Stream_Cancel obj w))\<rparr>"

section \<open>The response builder\<close>

record 'w RestResponse =
  rr_http_status :: int
  rr_headers :: headers
  rr_body :: string
  rr_stream_writer :: "'w StreamWriter option"
  rr_stream_kind :: HttpStreamKind

definition default_RestResponse :: "'w RestResponse" where
  "default_RestResponse = \<lparr>rr_http_status = 500, rr_headers = [], rr_body = [], rr_stream_writer = None,
     rr_stream_kind = StreamKind_kNone\<rparr>"

type_synonym 'w ServerResponse = "'w StreamWriter HttpServerResponse"

definition kContentTypeHeaderName :: string where "kContentTypeHeaderName = ''Content-Type''"
definition kContentTypeApplicationJson :: string where "kContentTypeApplicationJson = ''application/json''"
definition kContentTypeTextEventStream :: string where "kContentTypeTextEventStream = ''text/event-stream''"
definition kCacheControlHeaderName :: string where "kCacheControlHeaderName = ''Cache-Control''"
definition kCacheControlNoCache :: string where "kCacheControlNoCache = ''no-cache''"
definition kMethodGet :: string where "kMethodGet = ''GET''"
definition kMethodPost :: string where "kMethodPost = ''POST''"
definition kMethodDelete :: string where "kMethodDelete = ''DELETE''"

definition FromRestResponse :: "'w RestResponse \<Rightarrow> 'w ServerResponse" where
  "FromRestResponse response =
     \<lparr>resp_status_code = rr_http_status response, resp_headers = rr_headers response, resp_body = rr_body response,
      resp_stream_writer = rr_stream_writer response, resp_stream_kind = rr_stream_kind response\<rparr>"

definition WithStatus :: "int \<Rightarrow> 'w ServerResponse \<Rightarrow> 'w ServerResponse" where
  "WithStatus status_code response = response\<lparr>resp_status_code := status_code\<rparr>"

definition WithBody :: "string \<Rightarrow> 'w ServerResponse \<Rightarrow> 'w ServerResponse" where
  "WithBody body response = response\<lparr>resp_body := body\<rparr>"

definition WithStreamWriter :: "'w StreamWriter \<Rightarrow> 'w ServerResponse \<Rightarrow> 'w ServerResponse" where
  "WithStreamWriter stream_writer response = response\<lparr>resp_stream_writer := Some stream_writer\<rparr>"

definition WithHeader :: "string \<Rightarrow> string \<Rightarrow> 'w ServerResponse \<Rightarrow> 'w ServerResponse" where
  "WithHeader name value response = response\<lparr>resp_headers := AList.update name value (resp_headers response)\<rparr>"

definition WithJsonContentType :: "'w ServerResponse \<Rightarrow> 'w ServerResponse" where
  "WithJsonContentType = WithHeader kContentTypeHeaderName kContentTypeApplicationJson"

definition WithSseContentType :: "'w ServerResponse \<Rightarrow> 'w ServerResponse" where
  "WithSseContentType = WithHeader kContentTypeHeaderName kContentTypeTextEventStream"

definition WithCacheControlNoCache :: "'w ServerResponse \<Rightarrow> 'w ServerResponse" where
  "WithCacheControlNoCache = WithHeader kCacheControlHeaderName kCacheControlNoCache"

definition WithA2aVersion :: "'w ServerResponse \<Rightarrow> 'w ServerResponse" where
  "WithA2aVersion = WithHeader kVersionHeaderName HeaderValue"

definition WithActivatedExtensions :: "string list \<Rightarrow> 'w ServerResponse \<Rightarrow> 'w ServerResponse" where
  "WithActivatedExtensions activated_extensions response =
     (if activated_extensions \<noteq> [] then WithHeader kExtensionsHeaderName (Extensions_Format activated_extensions) response
      else response)"

lemmas builder_defs = FromRestResponse_def WithStatus_def WithBody_def WithStreamWriter_def WithHeader_def
  WithJsonContentType_def WithSseContentType_def WithCacheControlNoCache_def WithA2aVersion_def
  WithActivatedExtensions_def

section \<open>The serialised agent card\<close>

record AgentInterface =
  iface_url :: string
  iface_protocol_binding :: string
  iface_tenant :: string
  iface_protocol_version :: string

text \<open>The accessors of the generated class \<open>AgentCard\<close> that the server uses: the interfaces, and the in-place change of
  each of them.\<close>

record 'card AgentCardClass =
  supported_interfaces :: "'card \<Rightarrow> AgentInterface list"
  map_supported_interfaces :: "(AgentInterface \<Rightarrow> AgentInterface) \<Rightarrow> 'card \<Rightarrow> 'card"

fun has_struct_value :: "Value \<Rightarrow> bool" where
  "has_struct_value (StructValue s) = True"
| "has_struct_value _ = False"

fun has_list_value :: "Value \<Rightarrow> bool" where
  "has_list_value (ListValue l) = True"
| "has_list_value _ = False"

definition HasField :: "Struct \<Rightarrow> string \<Rightarrow> bool" where
  "HasField object key \<longleftrightarrow> map_of object key \<noteq> None"

definition EnsureStructField :: "string \<Rightarrow> Struct \<Rightarrow> Struct" where
  "EnsureStructField key object =
     (case map_of object key of
        Some v \<Rightarrow> if has_struct_value v then object else AList.update key (StructValue []) object
      | None \<Rightarrow> AList.update key (StructValue []) object)"

definition EnsureListField :: "string \<Rightarrow> Struct \<Rightarrow> Struct" where
  "EnsureListField key object =
     (case map_of object key of
        Some v \<Rightarrow> if has_list_value v then object else AList.update key (ListValue []) object
      | None \<Rightarrow> AList.update key (ListValue []) object)"

definition EnsureStringField :: "string \<Rightarrow> string \<Rightarrow> Struct \<Rightarrow> Struct" where
  "EnsureStringField key fallback object =
     (if \<not> HasField object key then AList.update key (StringValue fallback) object else object)"

definition EnsureBoolField :: "string \<Rightarrow> bool \<Rightarrow> Struct \<Rightarrow> Struct" where
  "EnsureBoolField key fallback object =
     (if \<not> HasField object key then AList.update key (BoolValue fallback) object else object)"

definition kDefaultTextMode :: string where "kDefaultTextMode = ''text/plain''"
definition kDefaultAgentCardVersion :: string where "kDefaultAgentCardVersion = ''0.1.0''"

definition EnsureDefaultModeField :: "string \<Rightarrow> Struct \<Rightarrow> Struct" where
  "EnsureDefaultModeField key object =
     (if HasField object key then object else AList.update key (ListValue [StringValue kDefaultTextMode]) object)"

fun ensure_tags :: "Value \<Rightarrow> Value" where
  "ensure_tags (StructValue skill) = StructValue (EnsureListField ''tags'' skill)"
| "ensure_tags v = v"

definition EnsureSkillTags :: "Struct \<Rightarrow> Struct" where
  "EnsureSkillTags object =
     (let object = (if map_of object ''skills'' = None then EnsureListField ''skills'' object else object) in
      case map_of object ''skills'' of
        Some (ListValue skills) \<Rightarrow> AList.update ''skills'' (ListValue (map ensure_tags skills)) object
      | _ \<Rightarrow> object)"

fun struct_fields :: "Value option \<Rightarrow> Struct" where
  "struct_fields (Some (StructValue s)) = s"
| "struct_fields _ = []"

definition NormalizeAgentCardFields :: "Struct \<Rightarrow> Struct" where
  "NormalizeAgentCardFields object =
     (let object = EnsureStringField ''description'' [] (EnsureStringField ''version'' kDefaultAgentCardVersion object);
          object = EnsureStructField ''capabilities'' object;
          capabilities = EnsureBoolField ''pushNotifications'' False
            (EnsureBoolField ''streaming'' False (struct_fields (map_of object ''capabilities'')));
          object = AList.update ''capabilities'' (StructValue capabilities) object
      in EnsureSkillTags (EnsureDefaultModeField ''defaultOutputModes'' (EnsureDefaultModeField ''defaultInputModes'' object)))"

fun legacy_interface :: "Value \<Rightarrow> Value" where
  "legacy_interface (StructValue members) =
     (case map_of members ''protocolBinding'' of
        Some (StringValue binding) \<Rightarrow> StructValue (AList.update ''transport'' (StringValue binding) members)
      | _ \<Rightarrow> StructValue members)"
| "legacy_interface v = v"

definition kJsonRpcBinding :: string where "kJsonRpcBinding = ''JSONRPC''"
definition kHttpJsonBinding :: string where "kHttpJsonBinding = ''HTTP+JSON''"

definition AddLegacyTransportFields :: "AgentInterface list \<Rightarrow> Struct \<Rightarrow> Struct" where
  "AddLegacyTransportFields interfaces object =
     (let object = (case map_of object ''supportedInterfaces'' of
            Some (ListValue values) \<Rightarrow>
              AList.update ''supportedInterfaces'' (ListValue (map legacy_interface values)) object
          | _ \<Rightarrow> object)
      in if HasField object ''endpoint'' then object
         else case find (\<lambda>i. iface_protocol_binding i = kJsonRpcBinding \<or> iface_protocol_binding i = kHttpJsonBinding) interfaces of
           None \<Rightarrow> object
         | Some i \<Rightarrow> AList.update ''preferredTransport'' (StringValue (iface_protocol_binding i))
                      (AList.update ''endpoint'' (StringValue (iface_url i)) object))"

definition BuildNormalizedAgentCard ::
  "'card ProtoJson \<Rightarrow> 'card AgentCardClass \<Rightarrow> 'card \<Rightarrow> bool \<Rightarrow> Struct Result" where
  "BuildNormalizedAgentCard pj cls agent_card include_legacy_transport_fields =
     result_bind (json_AgentCard pj agent_card) (\<lambda>body.
       result_bind (parse_Struct pj default_parse body) (\<lambda>object.
         let object = NormalizeAgentCardFields object
         in Inr (if include_legacy_transport_fields
                 then AddLegacyTransportFields (supported_interfaces cls agent_card) object else object)))"

definition BuildAgentCardJsonValue ::
  "'card ProtoJson \<Rightarrow> 'card AgentCardClass \<Rightarrow> 'card \<Rightarrow> bool \<Rightarrow> Value Result" where
  "BuildAgentCardJsonValue pj cls agent_card include_legacy_transport_fields =
     result_bind (BuildNormalizedAgentCard pj cls agent_card include_legacy_transport_fields)
       (\<lambda>object. Inr (StructValue object))"

end
