(* ===== verification/Rest_Transport.thy ===== *)
theory Rest_Transport
  imports Server_Response
begin

text \<open>
  The REST binding behind the HTTP layer (\<open>src/server/transport/rest_transport.cpp\<close>): paths and query parameters become
  dispatch requests, dispatch responses become JSON or event streams, errors become error documents. Query parameters
  and headers are association lists; the ProtoJSON codec is a parameter. The stream writers of the responses are in
  \<open>Sse_Stream\<close>.
\<close>

section \<open>Requests and routes\<close>

record RestRequest =
  rest_method :: string
  rest_path :: string
  rest_query_params :: headers
  rest_headers :: headers
  rest_body :: string
  rest_context :: RequestContext

record RestRoute =
  route_method :: string
  route_path_pattern :: string
  route_operation :: DispatcherOperation

definition kSendMessagePath :: string where "kSendMessagePath = ''/message:send''"
definition kSendStreamingMessagePath :: string where "kSendStreamingMessagePath = ''/message:stream''"
definition kTaskCollection :: string where "kTaskCollection = ''/tasks''"
definition kTaskResourcePrefix :: string where "kTaskResourcePrefix = ''/tasks/''"
definition kTaskCancelSuffix :: string where "kTaskCancelSuffix = '':cancel''"
definition kTaskSubscribeSuffix :: string where "kTaskSubscribeSuffix = '':subscribe''"
definition kTaskSubscribePath :: string where "kTaskSubscribePath = ''/tasks/{id}:subscribe''"
definition kPushNotificationConfigsSegment :: string where
  "kPushNotificationConfigsSegment = ''/pushNotificationConfigs''"

definition kRoutes :: "RestRoute list" where
  "kRoutes = map (\<lambda>(m, p, op). \<lparr>route_method = m, route_path_pattern = p, route_operation = op\<rparr>)
     [(kMethodPost, kSendMessagePath, kSendMessage),
      (kMethodPost, kSendStreamingMessagePath, kSendStreamingMessage),
      (kMethodGet, ''/tasks/{id}'', kGetTask),
      (kMethodGet, kTaskCollection, kListTasks),
      (kMethodPost, ''/tasks/{id}:cancel'', kCancelTask),
      (kMethodGet, kTaskSubscribePath, kSubscribeTask),
      (kMethodPost, kTaskSubscribePath, kSubscribeTask),
      (kMethodPost, ''/tasks/{task_id}/pushNotificationConfigs'', kCreateTaskPushNotificationConfig),
      (kMethodGet, ''/tasks/{task_id}/pushNotificationConfigs/{id}'', kGetTaskPushNotificationConfig),
      (kMethodGet, ''/tasks/{task_id}/pushNotificationConfigs'', kListTaskPushNotificationConfigs),
      (kMethodDelete, ''/tasks/{task_id}/pushNotificationConfigs/{id}'', kDeleteTaskPushNotificationConfig)]"

section \<open>Paths\<close>

definition has_slash :: "string \<Rightarrow> bool" where
  "has_slash s \<longleftrightarrow> index_of (\<lambda>c. c = CHR ''/'') s \<noteq> None"

definition ParseTaskIdFromPath :: "string \<Rightarrow> bool \<Rightarrow> string option" where
  "ParseTaskIdFromPath path for_cancel =
     (if \<not> prefix kTaskResourcePrefix path then None
      else let suf = drop (length kTaskResourcePrefix) path in
        if suf = [] then None
        else if for_cancel then
          (if \<not> suffix kTaskCancelSuffix suf then None
           else let suf = take (length suf - length kTaskCancelSuffix) suf in
             if suf = [] \<or> has_slash suf then None else Some suf)
        else if suffix kTaskCancelSuffix suf \<or> suffix kTaskSubscribeSuffix suf then None
        else if suf = [] \<or> has_slash suf then None else Some suf)"

text \<open>The length is computed in \<open>std::size_t\<close>.\<close>

definition ParseTaskIdFromActionPath :: "string \<Rightarrow> string \<Rightarrow> string option" where
  "ParseTaskIdFromActionPath path action_suffix =
     (if \<not> prefix kTaskResourcePrefix path \<or> \<not> suffix action_suffix path then None
      else let id_start = length kTaskResourcePrefix;
               id_length = size_sub (size_sub (length path) id_start) (length action_suffix);
               task_id = substr id_start id_length path
           in if task_id = [] \<or> has_slash task_id then None else Some task_id)"

record PushConfigPathParts =
  parts_task_id :: string
  parts_config_id :: string
  parts_collection :: bool

definition ParsePushConfigPath :: "string \<Rightarrow> PushConfigPathParts option" where
  "ParsePushConfigPath path =
     (if \<not> prefix kTaskResourcePrefix path then None
      else let suf = drop (length kTaskResourcePrefix) path in
        case find_sub kPushNotificationConfigsSegment suf of
          None \<Rightarrow> None
        | Some segment_pos \<Rightarrow>
            if segment_pos = 0 then None
            else let task_id = take segment_pos suf;
                     remainder = drop (segment_pos + length kPushNotificationConfigsSegment) suf in
              if has_slash task_id then None
              else if remainder = []
              then Some \<lparr>parts_task_id = task_id, parts_config_id = [], parts_collection = True\<rparr>
              else if \<not> prefix ''/'' remainder \<or> length remainder = 1 then None
              else let config_id = drop 1 remainder in
                if has_slash config_id then None
                else Some \<lparr>parts_task_id = task_id, parts_config_id = config_id, parts_collection = False\<rparr>)"

section \<open>Content type and query parameters\<close>

definition ExpectsJsonRequestBody :: "RestRequest \<Rightarrow> bool" where
  "ExpectsJsonRequestBody request =
     (if rest_method request \<noteq> kMethodPost then False
      else if rest_path request = kSendMessagePath \<or> rest_path request = kSendStreamingMessagePath then True
      else if ParseTaskIdFromPath (rest_path request) True \<noteq> None then True
      else case ParsePushConfigPath (rest_path request) of None \<Rightarrow> False | Some parts \<Rightarrow> parts_collection parts)"

definition ValidateJsonRequestContentType :: "RestRequest \<Rightarrow> Error option" where
  "ValidateJsonRequestContentType request =
     (if \<not> ExpectsJsonRequestBody request then None
      else case FindHeaderValue (rest_headers request) kContentTypeHeaderName of
          None \<Rightarrow> None
        | Some content_type \<Rightarrow>
            if IsJsonContentType content_type then None
            else Some (WithTransport ''rest'' (ContentTypeNotSupported ''content type is not supported'')))"

text \<open>\<open>parsed\<close> is a \<open>std::size_t\<close>: the multiplication and the addition wrap. The result -1 is a refusal.\<close>

fun ParsePageSize_loop :: "64 word \<Rightarrow> string \<Rightarrow> 64 word option" where
  "ParsePageSize_loop parsed [] = Some parsed"
| "ParsePageSize_loop parsed (c # cs) =
     (if \<not> isdigit c then None else ParsePageSize_loop (parsed * 10 + of_nat (digit_val c)) cs)"

definition ParsePageSize :: "string \<Rightarrow> int" where
  "ParsePageSize raw_page_size =
     (if raw_page_size = [] then 0
      else case ParsePageSize_loop 0 raw_page_size of
          None \<Rightarrow> -1
        | Some parsed \<Rightarrow> if uint parsed > INT32_MAX then -1 else uint parsed)"

definition LookupQuery :: "RestRequest \<Rightarrow> string \<Rightarrow> string option" where
  "LookupQuery request key = map_of (rest_query_params request) key"

definition ApplyHistoryLengthQuery :: "RestRequest \<Rightarrow> GetTaskRequest \<Rightarrow> GetTaskRequest option" where
  "ApplyHistoryLengthQuery request get_task_request =
     (case LookupQuery request ''historyLength'' of
        None \<Rightarrow> Some get_task_request
      | Some history_length \<Rightarrow>
          let parsed_history_length = ParsePageSize history_length in
          if parsed_history_length < 0 then None
          else Some (get_task_request\<lparr>GTR_history_length := Some parsed_history_length\<rparr>))"

section \<open>Error documents\<close>

definition ErrorStatusName :: "int \<Rightarrow> string" where
  "ErrorStatusName http_status =
     (if http_status = 400 then ''INVALID_ARGUMENT''
      else if http_status = 404 then ''NOT_FOUND''
      else if http_status = 409 then ''FAILED_PRECONDITION''
      else if http_status = 415 then ''UNSUPPORTED_MEDIA_TYPE''
      else if http_status = 502 \<or> http_status = 500 then ''INTERNAL''
      else if http_status = 503 then ''UNAVAILABLE''
      else ''UNKNOWN'')"

definition Rest_ErrorInfoReason :: "Error \<Rightarrow> string" where
  "Rest_ErrorInfoReason error =
     (let by_class =
        (if error_code error = kUnsupportedVersion then ''VERSION_NOT_SUPPORTED''
         else if error_code error = kRemoteProtocol \<or> error_code error = kValidation then ''UNSUPPORTED_OPERATION''
         else ''INVALID_AGENT_RESPONSE'')
      in case error_protocol_code error of
          None \<Rightarrow> by_class
        | Some c \<Rightarrow>
            if c = ''-32001'' then ''TASK_NOT_FOUND''
            else if c = ''-32002'' then ''TASK_NOT_CANCELABLE''
            else if c = ''-32003'' then ''PUSH_NOTIFICATION_NOT_SUPPORTED''
            else if c = ''-32004'' then ''UNSUPPORTED_OPERATION''
            else if c = ''-32005'' then ''CONTENT_TYPE_NOT_SUPPORTED''
            else by_class)"

definition ToHttpStatus :: "Error \<Rightarrow> int" where
  "ToHttpStatus error =
     (case error_http_status error of
        Some http_status \<Rightarrow> http_status
      | None \<Rightarrow>
          if error_code error = kValidation \<or> error_code error = kUnsupportedVersion then 400
          else if error_code error = kNetwork then 503
          else if error_code error = kRemoteProtocol then 502
          else 500)"

definition error_info_metadata :: "Error \<Rightarrow> Struct" where
  "error_info_metadata error =
     (let metadata = (case error_transport error of None \<Rightarrow> [] | Some t \<Rightarrow> [(''transport'', StringValue t)])
      in case error_protocol_code error of
           None \<Rightarrow> metadata
         | Some c \<Rightarrow> AList.update ''protocolCode'' (StringValue c) metadata)"

definition rest_error_info :: "Error \<Rightarrow> Struct" where
  "rest_error_info error =
     (let info = [(''@type'', StringValue ''type.googleapis.com/google.rpc.ErrorInfo''),
                  (''reason'', StringValue (Rest_ErrorInfoReason error)), (''domain'', StringValue ''a2a-protocol.org'')]
      in if error_transport error \<noteq> None \<or> error_protocol_code error \<noteq> None
         then AList.update ''metadata'' (StructValue (error_info_metadata error)) info else info)"

definition rest_error_envelope :: "Error \<Rightarrow> Struct" where
  "rest_error_envelope error =
     [(''error'', StructValue
        [(''code'', NumberValue (double_of_int (ToHttpStatus error))),
         (''status'', StringValue (ErrorStatusName (ToHttpStatus error))),
         (''message'', StringValue (error_message error)),
         (''details'', ListValue [StructValue (rest_error_info error)])])]"

definition kSerializeErrorFallback :: string where
  "kSerializeErrorFallback =
     ''{\"error\":{\"code\":500,\"status\":\"INTERNAL\",\"message\":\"Failed to serialize error\"}}''"

definition Rest_BuildErrorResponse :: "'card ProtoJson \<Rightarrow> Error \<Rightarrow> 'w RestResponse" where
  "Rest_BuildErrorResponse pj error =
     default_RestResponse\<lparr>rr_http_status := ToHttpStatus error,
       rr_headers := [(kContentTypeHeaderName, kContentTypeApplicationJson)],
       rr_body := (case json_Struct pj (rest_error_envelope error) of
                     Inr body \<Rightarrow> body | Inl _ \<Rightarrow> kSerializeErrorFallback)\<rparr>"

section \<open>Responses\<close>

definition json_response :: "string \<Rightarrow> 'w RestResponse" where
  "json_response body = default_RestResponse\<lparr>rr_http_status := 200,
     rr_headers := [(kContentTypeHeaderName, kContentTypeApplicationJson)], rr_body := body\<rparr>"

definition BuildJsonResponse :: "('m \<Rightarrow> string Result) \<Rightarrow> 'm \<Rightarrow> 'w RestResponse Result" where
  "BuildJsonResponse MessageToJson message = result_bind (MessageToJson message) (\<lambda>body. Inr (json_response body))"

definition sse_response_headers :: headers where
  "sse_response_headers = AList.update kCacheControlHeaderName kCacheControlNoCache
     [(kContentTypeHeaderName, kContentTypeTextEventStream)]"

definition BuildStreamingResponse :: "'w StreamObject option \<Rightarrow> 'w RestResponse Result" where
  "BuildStreamingResponse session =
     (case session of
        None \<Rightarrow> Inl (Internal ''Streaming response session is missing'')
      | Some obj \<Rightarrow> Inr (default_RestResponse\<lparr>rr_http_status := 200, rr_headers := sse_response_headers,
          rr_stream_kind := StreamKind_kFinite, rr_stream_writer := Some (RestStreamingWriter obj)\<rparr>))"

definition BuildSubscribeResponse :: "'w StreamObject option \<Rightarrow> 'w RestResponse Result" where
  "BuildSubscribeResponse session =
     (case session of
        None \<Rightarrow> Inl (Internal ''Subscription response session is missing'')
      | Some obj \<Rightarrow> Inr (default_RestResponse\<lparr>rr_http_status := 200, rr_headers := sse_response_headers,
          rr_stream_kind := StreamKind_kLive, rr_stream_writer := Some (RestSubscribeWriter obj)\<rparr>))"

section \<open>Dispatch requests\<close>

definition default_GetTaskRequest :: GetTaskRequest where
  "default_GetTaskRequest = \<lparr>GTR_tenant = [], GTR_id = [], GTR_history_length = None\<rparr>"

definition BuildMessageDispatchRequest :: "'card ProtoJson \<Rightarrow> RestRequest \<Rightarrow> DispatchRequest option" where
  "BuildMessageDispatchRequest pj request =
     (if rest_method request \<noteq> kMethodPost \<or>
         (rest_path request \<noteq> kSendMessagePath \<and> rest_path request \<noteq> kSendStreamingMessagePath) then None
      else case parse_SendMessageRequest pj lenient_parse (rest_body request) of
          Inl _ \<Rightarrow> None
        | Inr payload \<Rightarrow>
            Some \<lparr>req_operation = (if rest_path request = kSendStreamingMessagePath then kSendStreamingMessage
                                   else kSendMessage),
                  req_payload = Req_SendMessage payload\<rparr>)"

text \<open>\<open>payload.page_size\<close>, then the other parameters in the order of the code.\<close>

definition BuildListTasksDispatchRequest :: "RestRequest \<Rightarrow> DispatchRequest option" where
  "BuildListTasksDispatchRequest request =
     (if rest_method request \<noteq> kMethodGet \<or> rest_path request \<noteq> kTaskCollection then None
      else Option.bind (case LookupQuery request ''pageSize'' of
            None \<Rightarrow> Some None
          | Some raw \<Rightarrow> let parsed = ParsePageSize raw in if parsed < 0 then None else Some (Some parsed))
        (\<lambda>requested_page_size.
          case NormalizeListTasksPageSize requested_page_size of
            Inl _ \<Rightarrow> None
          | Inr page_size \<Rightarrow>
              let payload = default_ListTasksRequest\<lparr>LTR_page_size := page_size\<rparr>;
                  payload = (case LookupQuery request ''pageToken'' of
                      None \<Rightarrow> payload | Some t \<Rightarrow> payload\<lparr>LTR_page_token := t\<rparr>);
                  payload = (case LookupQuery request ''contextId'' of
                      None \<Rightarrow> payload | Some c \<Rightarrow> payload\<lparr>LTR_context_id := c\<rparr>)
              in Option.bind (case LookupQuery request ''historyLength'' of
                    None \<Rightarrow> Some payload
                  | Some raw \<Rightarrow> let parsed = ParsePageSize raw in
                      if parsed < 0 then None else Some (payload\<lparr>LTR_history_length := Some (nat parsed)\<rparr>))
                (\<lambda>payload.
                   let payload = (case LookupQuery request ''includeArtifacts'' of
                         None \<Rightarrow> payload | Some v \<Rightarrow> payload\<lparr>LTR_include_artifacts := (v = ''true'')\<rparr>)
                   in Some \<lparr>req_operation = kListTasks, req_payload = Req_ListTasks payload\<rparr>)))"

definition BuildGetTaskDispatchRequest :: "RestRequest \<Rightarrow> DispatchRequest option" where
  "BuildGetTaskDispatchRequest request =
     (if rest_method request \<noteq> kMethodGet then None
      else Option.bind (ParseTaskIdFromPath (rest_path request) False) (\<lambda>task_id.
        map_option (\<lambda>payload. \<lparr>req_operation = kGetTask, req_payload = Req_GetTask payload\<rparr>)
          (ApplyHistoryLengthQuery request (default_GetTaskRequest\<lparr>GTR_id := task_id\<rparr>))))"

definition BuildCancelTaskDispatchRequest :: "RestRequest \<Rightarrow> DispatchRequest option" where
  "BuildCancelTaskDispatchRequest request =
     (if rest_method request \<noteq> kMethodPost then None
      else map_option (\<lambda>task_id. \<lparr>req_operation = kCancelTask,
            req_payload = Req_CancelTask \<lparr>CTR_tenant = [], CTR_id = task_id, CTR_metadata = None\<rparr>\<rparr>)
        (ParseTaskIdFromPath (rest_path request) True))"

definition list_push_configs_payload :: "RestRequest \<Rightarrow> string \<Rightarrow> ListTaskPushNotificationConfigsRequest" where
  "list_push_configs_payload request task_id =
     (let payload = \<lparr>LPR_tenant = [], LPR_task_id = task_id, LPR_page_size = 0, LPR_page_token = []\<rparr>;
          payload = (case LookupQuery request ''pageSize'' of
              None \<Rightarrow> payload | Some raw \<Rightarrow> payload\<lparr>LPR_page_size := ParsePageSize raw\<rparr>)
      in case LookupQuery request ''pageToken'' of
           None \<Rightarrow> payload | Some t \<Rightarrow> payload\<lparr>LPR_page_token := t\<rparr>)"

definition BuildPushConfigDispatchRequest :: "'card ProtoJson \<Rightarrow> RestRequest \<Rightarrow> DispatchRequest option" where
  "BuildPushConfigDispatchRequest pj request =
     (case ParsePushConfigPath (rest_path request) of
        None \<Rightarrow> None
      | Some parts \<Rightarrow>
          if rest_method request = kMethodPost \<and> parts_collection parts then
            (case parse_PushConfig pj lenient_parse (rest_body request) of
               Inl _ \<Rightarrow> None
             | Inr payload \<Rightarrow> Some \<lparr>req_operation = kCreateTaskPushNotificationConfig,
                   req_payload = Req_PushConfig (payload\<lparr>Push_task_id := parts_task_id parts\<rparr>)\<rparr>)
          else if rest_method request = kMethodGet \<and> parts_collection parts then
            Some \<lparr>req_operation = kListTaskPushNotificationConfigs,
                  req_payload = Req_ListPushConfigs (list_push_configs_payload request (parts_task_id parts))\<rparr>
          else if rest_method request = kMethodGet \<and> \<not> parts_collection parts then
            Some \<lparr>req_operation = kGetTaskPushNotificationConfig,
                  req_payload = Req_GetPushConfig
                    \<lparr>GPR_tenant = [], GPR_task_id = parts_task_id parts, GPR_id = parts_config_id parts\<rparr>\<rparr>
          else if rest_method request = kMethodDelete \<and> \<not> parts_collection parts then
            Some \<lparr>req_operation = kDeleteTaskPushNotificationConfig,
                  req_payload = Req_DeletePushConfig
                    \<lparr>DPR_tenant = [], DPR_task_id = parts_task_id parts, DPR_id = parts_config_id parts\<rparr>\<rparr>
          else None)"

definition BuildDispatchRequest :: "'card ProtoJson \<Rightarrow> RestRequest \<Rightarrow> DispatchRequest option" where
  "BuildDispatchRequest pj request =
     (case BuildPushConfigDispatchRequest pj request of
        Some r \<Rightarrow> Some r
      | None \<Rightarrow> case BuildMessageDispatchRequest pj request of
          Some r \<Rightarrow> Some r
        | None \<Rightarrow> case BuildListTasksDispatchRequest request of
            Some r \<Rightarrow> Some r
          | None \<Rightarrow> case BuildGetTaskDispatchRequest request of
              Some r \<Rightarrow> Some r
            | None \<Rightarrow> BuildCancelTaskDispatchRequest request)"

section \<open>Serialisation\<close>

definition ResponsePayloadMismatch :: "string \<Rightarrow> Error" where
  "ResponsePayloadMismatch payload = Internal (payload @ '' response payload mismatch'')"

definition UnexpectedDispatchPayload :: "string \<Rightarrow> Error" where
  "UnexpectedDispatchPayload operation = Internal (''Unexpected dispatch payload type for '' @ operation)"

text \<open>\<open>None\<close> is the exception of \<open>SerializeListTasksResponse\<close> on an empty document.\<close>

definition Rest_SerializeDispatchResponse ::
  "'card ProtoJson \<Rightarrow> DispatcherOperation \<Rightarrow> ('w, 'card) DispatchResponse \<Rightarrow> 'w RestResponse Result option" where
  "Rest_SerializeDispatchResponse pj operation response =
     (case operation of
        kSendMessage \<Rightarrow> Some (case response of
            Resp_SendMessage payload \<Rightarrow> BuildJsonResponse (json_SendMessageResponse pj) payload
          | _ \<Rightarrow> Inl (ResponsePayloadMismatch ''SendMessage''))
      | kSendStreamingMessage \<Rightarrow> Some (case response of
            Resp_Stream payload \<Rightarrow> BuildStreamingResponse payload
          | _ \<Rightarrow> Inl (ResponsePayloadMismatch ''SendStreamingMessage''))
      | kSubscribeTask \<Rightarrow> Some (case response of
            Resp_Stream payload \<Rightarrow> BuildSubscribeResponse payload
          | _ \<Rightarrow> Inl (UnexpectedDispatchPayload ''SubscribeToTask''))
      | kGetTask \<Rightarrow> Some (case response of
            Resp_Task payload \<Rightarrow> BuildJsonResponse (json_Task pj) payload
          | _ \<Rightarrow> Inl (ResponsePayloadMismatch ''Task''))
      | kCancelTask \<Rightarrow> Some (case response of
            Resp_Task payload \<Rightarrow> BuildJsonResponse (json_Task pj) payload
          | _ \<Rightarrow> Inl (ResponsePayloadMismatch ''Task''))
      | kCreateTaskPushNotificationConfig \<Rightarrow> Some (case response of
            Resp_PushConfig payload \<Rightarrow> BuildJsonResponse (json_PushConfig pj) payload
          | _ \<Rightarrow> Inl (ResponsePayloadMismatch ''Push config''))
      | kGetTaskPushNotificationConfig \<Rightarrow> Some (case response of
            Resp_PushConfig payload \<Rightarrow> BuildJsonResponse (json_PushConfig pj) payload
          | _ \<Rightarrow> Inl (ResponsePayloadMismatch ''Push config''))
      | kListTaskPushNotificationConfigs \<Rightarrow> Some (case response of
            Resp_ListPushConfigs payload \<Rightarrow> BuildJsonResponse (json_PushConfigList pj) payload
          | _ \<Rightarrow> Inl (ResponsePayloadMismatch ''Push config list''))
      | kDeleteTaskPushNotificationConfig \<Rightarrow> Some (BuildJsonResponse (json_Struct pj) [])
      | kGetExtendedAgentCard \<Rightarrow> Some (Inl (Validation ''Extended agent card is handled by the server transport''))
      | kListTasks \<Rightarrow>
          (case response of
             Resp_ListTasks payload \<Rightarrow>
               map_option (\<lambda>body. result_bind body (\<lambda>body. Inr (json_response body)))
                 (SerializeListTasksResponse (json_ListTasksResponse pj) payload)
           | _ \<Rightarrow> Some (Inl (ResponsePayloadMismatch ''ListTasks''))))"

section \<open>Handle\<close>

definition malformed_route :: Error where
  "malformed_route = WithHttpStatus 404 (Validation ''No matching route or request was malformed'')"

text \<open>The branch of \<open>Handle\<close> for \<open>/tasks/{id}:subscribe\<close>.\<close>

definition Rest_HandleSubscribe ::
  "'card ProtoJson \<Rightarrow> ('w, 'card) Dispatcher \<Rightarrow> RestRequest \<Rightarrow> string \<Rightarrow> ('w, 'w RestResponse) step" where
  "Rest_HandleSubscribe pj dispatcher request task_id w =
     (case ApplyHistoryLengthQuery request (default_GetTaskRequest\<lparr>GTR_id := task_id\<rparr>) of
        None \<Rightarrow> Some (w, Inr (Rest_BuildErrorResponse pj malformed_route))
      | Some get_task_request \<Rightarrow>
          map_option (\<lambda>((w, context), dispatched). (w, Inr (case dispatched of
              Inl e \<Rightarrow> Rest_BuildErrorResponse pj (WithTransport ''rest'' e)
            | Inr (Resp_Stream (Some stream)) \<Rightarrow>
                (case BuildSubscribeResponse (Some stream) of
                   Inl e \<Rightarrow> Rest_BuildErrorResponse pj (WithTransport ''rest'' e)
                 | Inr response \<Rightarrow> response)
            | Inr _ \<Rightarrow> Rest_BuildErrorResponse pj (WithTransport ''rest'' (UnexpectedDispatchPayload ''SubscribeToTask'')))))
            (Dispatch dispatcher \<lparr>req_operation = kSubscribeTask, req_payload = Req_GetTask get_task_request\<rparr>
              (w, rest_context request)))"

text \<open>The branch of \<open>Handle\<close> for all other requests.\<close>

definition Rest_HandleRequest ::
  "'card ProtoJson \<Rightarrow> ('w, 'card) Dispatcher \<Rightarrow> RestRequest \<Rightarrow> ('w, 'w RestResponse) step" where
  "Rest_HandleRequest pj dispatcher request w =
     (case ValidateJsonRequestContentType request of
        Some e \<Rightarrow> Some (w, Inr (Rest_BuildErrorResponse pj e))
      | None \<Rightarrow>
          (case BuildDispatchRequest pj request of
             None \<Rightarrow>
               Some (w, Inr (if rest_method request = kMethodGet \<and> rest_path request = kTaskCollection
                  then Rest_BuildErrorResponse pj (Validation ''ListTasks request parameters are invalid'')
                  else Rest_BuildErrorResponse pj malformed_route))
           | Some dispatch_request \<Rightarrow>
               do { ((w, context), dispatched) \<leftarrow> Dispatch dispatcher dispatch_request (w, rest_context request);
                    case dispatched of
                      Inl e \<Rightarrow> Some (w, Inr (Rest_BuildErrorResponse pj (WithTransport ''rest'' e)))
                    | Inr response \<Rightarrow>
                        do { serialized \<leftarrow> Rest_SerializeDispatchResponse pj (req_operation dispatch_request) response;
                             Some (w, Inr (case serialized of
                                 Inl e \<Rightarrow> Rest_BuildErrorResponse pj (WithTransport ''rest'' e)
                               | Inr r \<Rightarrow> r)) } }))"

definition RestTransport_Handle ::
  "'card ProtoJson \<Rightarrow> ('w, 'card) Dispatcher option \<Rightarrow> RestRequest \<Rightarrow> ('w, 'w RestResponse) step" where
  "RestTransport_Handle pj dispatcher request w =
     (case dispatcher of
        None \<Rightarrow> Some (w, Inl (Internal ''REST transport dispatcher is not configured''))
      | Some d \<Rightarrow>
          (case (if rest_method request = kMethodGet \<or> rest_method request = kMethodPost
                 then ParseTaskIdFromActionPath (rest_path request) kTaskSubscribeSuffix else None) of
             Some task_id \<Rightarrow> Rest_HandleSubscribe pj d request task_id w
           | None \<Rightarrow> Rest_HandleRequest pj d request w))"

end
