(* ===== verification/Rest_Server.thy ===== *)
theory Rest_Server
  imports Rest_Transport
begin

text \<open>
  The HTTP side of the REST binding (\<open>src/server/transport/rest_server_transport.cpp\<close>): agent cards, the validation of the
  version and extension headers, URL decoding, and the hand-over to \<open>RestTransport\<close>. Points of the system clock are
  nanoseconds since the epoch.
\<close>

unbundle bit_operations_syntax

section \<open>Error documents\<close>

definition HttpStatusName :: "int \<Rightarrow> string" where
  "HttpStatusName status_code =
     (if status_code = 400 then ''INVALID_ARGUMENT''
      else if status_code = 404 then ''NOT_FOUND''
      else if status_code = 401 then ''UNAUTHENTICATED''
      else if status_code = 403 then ''PERMISSION_DENIED''
      else if status_code = 409 then ''CONFLICT''
      else if status_code = 415 then ''UNSUPPORTED_MEDIA_TYPE''
      else if status_code = 500 then ''INTERNAL''
      else if status_code = 502 then ''BAD_GATEWAY''
      else ''UNKNOWN'')"

definition error_body_envelope :: "int \<Rightarrow> string \<Rightarrow> string \<Rightarrow> Struct" where
  "error_body_envelope status_code message reason =
     [(''error'', StructValue
        [(''code'', NumberValue (double_of_int status_code)),
         (''status'', StringValue (HttpStatusName status_code)),
         (''message'', StringValue message),
         (''details'', ListValue [StructValue
            [(''@type'', StringValue ''type.googleapis.com/google.rpc.ErrorInfo''),
             (''reason'', StringValue reason), (''domain'', StringValue ''a2a-protocol.org'')]])])]"

definition ErrorBody :: "'card ProtoJson \<Rightarrow> int \<Rightarrow> string \<Rightarrow> string \<Rightarrow> string" where
  "ErrorBody pj status_code message reason =
     (case json_Struct pj (error_body_envelope status_code message reason) of
        Inr serialized \<Rightarrow> serialized
      | Inl _ \<Rightarrow> ''{\"error\":{\"code\":500,\"status\":\"INTERNAL\",\"message\":\"serialization failed\"}}'')"

definition BuildJsonErrorResponse :: "'card ProtoJson \<Rightarrow> int \<Rightarrow> string \<Rightarrow> string \<Rightarrow> 'w ServerResponse" where
  "BuildJsonErrorResponse pj status_code message reason =
     WithBody (ErrorBody pj status_code message reason)
       (WithA2aVersion (WithJsonContentType (WithStatus status_code default_HttpServerResponse)))"

definition BuildValidatedErrorResponse ::
  "'card ProtoJson \<Rightarrow> int \<Rightarrow> string \<Rightarrow> string \<Rightarrow> string list \<Rightarrow> 'w ServerResponse" where
  "BuildValidatedErrorResponse pj status_code message reason activated_extensions =
     WithBody (ErrorBody pj status_code message reason)
       (WithActivatedExtensions activated_extensions
         (WithA2aVersion (WithJsonContentType (WithStatus status_code default_HttpServerResponse))))"

definition ProtocolCodeToRestReason :: "string \<Rightarrow> string" where
  "ProtocolCodeToRestReason protocol_code =
     (if protocol_code = ''-32007'' then ''EXTENDED_AGENT_CARD_NOT_CONFIGURED''
      else if protocol_code = ''-32004'' then ''UNSUPPORTED_OPERATION''
      else if protocol_code = ''-32005'' then ''CONTENT_TYPE_NOT_SUPPORTED''
      else if protocol_code = ''-32006'' then ''INVALID_AGENT_RESPONSE''
      else if protocol_code = ''-32008'' then ''EXTENSION_SUPPORT_REQUIRED''
      else if protocol_code = ''-32009'' then ''VERSION_NOT_SUPPORTED''
      else ''REMOTE_PROTOCOL_ERROR'')"

definition RestReasonFromError :: "Error \<Rightarrow> string" where
  "RestReasonFromError error =
     (case error_protocol_code error of
        Some protocol_code \<Rightarrow> ProtocolCodeToRestReason protocol_code
      | None \<Rightarrow>
          if error_code error = kUnsupportedVersion then ''VERSION_NOT_SUPPORTED''
          else if error_code error = kInternal \<or> error_code error = kSerialization then ''INTERNAL''
          else ''INVALID_ARGUMENT'')"

definition RestServer_HttpStatusFromError :: "Error \<Rightarrow> int" where
  "RestServer_HttpStatusFromError error =
     (case error_http_status error of
        Some http_status \<Rightarrow> http_status
      | None \<Rightarrow>
          if error_code error = kInternal \<or> error_code error = kSerialization then 500
          else if error_code error = kNetwork then 502
          else 400)"

section \<open>Cache headers\<close>

definition kFnvOffsetBasis :: "64 word" where "kFnvOffsetBasis = 14695981039346656037"
definition kFnvPrime :: "64 word" where "kFnvPrime = 1099511628211"

definition ComputeEtagHash :: "string \<Rightarrow> 64 word" where
  "ComputeEtagHash data = foldl (\<lambda>hash ch. (hash XOR of_nat (of_char ch)) * kFnvPrime) kFnvOffsetBasis data"

definition BuildQuotedEtag :: "64 word \<Rightarrow> string" where
  "BuildQuotedEtag hash_value = CHR 0x22 # to_string_nat (unat hash_value) @ [CHR 0x22]"

text \<open>\<open>to_time_t\<close> drops the part of a second; \<open>gmtime\<close> is the proleptic Gregorian calendar, in which 400 years from the
  first of March of a year divisible by 400 have 146097 days.\<close>

definition to_time_t :: "int \<Rightarrow> int" where
  "to_time_t time_point = (if time_point < 0 then - ((- time_point) div 1000000000) else time_point div 1000000000)"

record tm =
  tm_year :: int
  tm_mon :: int
  tm_mday :: int
  tm_wday :: int
  tm_secs :: int

definition gmtime :: "int \<Rightarrow> tm" where
  "gmtime timestamp =
     (let days = timestamp div 86400;
          z = days + 719468;
          era = z div 146097;
          doe = z mod 146097;
          yoe = (doe - doe div 1460 + doe div 36524 - doe div 146096) div 365;
          doy = doe - (365 * yoe + yoe div 4 - yoe div 100);
          mp = (5 * doy + 2) div 153;
          month = (if mp < 10 then mp + 3 else mp - 9)
      in \<lparr>tm_year = yoe + era * 400 + (if month \<le> 2 then 1 else 0), tm_mon = month,
          tm_mday = doy - (153 * mp + 2) div 5 + 1, tm_wday = (days + 4) mod 7, tm_secs = timestamp mod 86400\<rparr>)"

definition two_digits :: "int \<Rightarrow> string" where
  "two_digits n = (if n < 10 then ''0'' @ to_string_int n else to_string_int n)"

definition FormatHttpDate :: "int \<Rightarrow> string" where
  "FormatHttpDate time_point =
     (let utc_tm = gmtime (to_time_t time_point) in
      [''Sun'', ''Mon'', ''Tue'', ''Wed'', ''Thu'', ''Fri'', ''Sat''] ! nat (tm_wday utc_tm) @ '', '' @
      two_digits (tm_mday utc_tm) @ '' '' @
      [''Jan'', ''Feb'', ''Mar'', ''Apr'', ''May'', ''Jun'', ''Jul'', ''Aug'', ''Sep'', ''Oct'', ''Nov'', ''Dec'']
        ! nat (tm_mon utc_tm - 1) @ '' '' @
      to_string_int (tm_year utc_tm) @ '' '' @
      two_digits (tm_secs utc_tm div 3600) @ '':'' @ two_digits (tm_secs utc_tm div 60 mod 60) @ '':'' @
      two_digits (tm_secs utc_tm mod 60) @ '' GMT'')"

record AgentCardCacheSettings =
  cache_control :: "string option"
  last_modified :: "int option"

definition ApplyAgentCardCacheHeaders ::
  "AgentCardCacheSettings option \<Rightarrow> 'w ServerResponse \<Rightarrow> 'w ServerResponse" where
  "ApplyAgentCardCacheHeaders settings response =
     (let response = (case Option.bind settings cache_control of
            Some c \<Rightarrow> WithHeader kCacheControlHeaderName c response | None \<Rightarrow> response)
      in case Option.bind settings last_modified of
           None \<Rightarrow> response
         | Some t \<Rightarrow>
             let formatted = FormatHttpDate t in
             if formatted \<noteq> [] then WithHeader ''Last-Modified'' formatted response else response)"

section \<open>URL decoding\<close>

definition hex_to_int :: "char \<Rightarrow> int" where
  "hex_to_int h =
     (let v = of_char h in
      if of_char (CHR ''0'') \<le> v \<and> v \<le> of_char (CHR ''9'') then v - of_char (CHR ''0'')
      else if of_char (CHR ''a'') \<le> v \<and> v \<le> of_char (CHR ''f'') then 10 + (v - of_char (CHR ''a''))
      else if of_char (CHR ''A'') \<le> v \<and> v \<le> of_char (CHR ''F'') then 10 + (v - of_char (CHR ''A''))
      else -1)"

definition malformed_url :: Error where
  "malformed_url = Validation ''Malformed URL encoding''"

fun decode_loop :: "string \<Rightarrow> string \<Rightarrow> string Result" where
  "decode_loop decoded [] = Inr decoded"
| "decode_loop decoded (ch # rest) =
     (if ch = CHR ''+'' then decode_loop (decoded @ '' '') rest
      else if ch \<noteq> CHR ''%'' then decode_loop (decoded @ [ch]) rest
      else case rest of
          h # l # rest' \<Rightarrow>
            let hi = hex_to_int h; lo = hex_to_int l in
            if hi < 0 \<or> lo < 0 then Inl malformed_url
            else decode_loop (decoded @ [char_of (nat (push_bit 4 hi OR lo))]) rest'
        | _ \<Rightarrow> Inl malformed_url)"

definition DecodeUrlComponent :: "string \<Rightarrow> string Result" where
  "DecodeUrlComponent raw =
     (if index_of (\<lambda>c. c = CHR ''+'' \<or> c = CHR ''%'') raw = None then Inr raw else decode_loop [] raw)"

definition parse_query_part :: "string \<Rightarrow> headers \<Rightarrow> headers Result" where
  "parse_query_part part out =
     (if part = [] then Inr out
      else let split = index_of (\<lambda>c. c = CHR ''='') part;
               key_raw = (case split of None \<Rightarrow> part | Some i \<Rightarrow> take i part);
               value_raw = (case split of None \<Rightarrow> [] | Some i \<Rightarrow> drop (Suc i) part)
           in result_bind (DecodeUrlComponent key_raw) (\<lambda>key.
                result_bind (DecodeUrlComponent value_raw) (\<lambda>value. Inr (AList.update key value out))))"

text \<open>The argument is the string from \<open>start\<close> on.\<close>

function parse_query_loop :: "string \<Rightarrow> headers \<Rightarrow> headers Result" where
  "parse_query_loop raw out =
     (case index_of (\<lambda>c. c = CHR ''&'') raw of
        None \<Rightarrow> parse_query_part raw out
      | Some end_pos \<Rightarrow>
          (case parse_query_part (take end_pos raw) out of
             Inl e \<Rightarrow> Inl e
           | Inr out \<Rightarrow> parse_query_loop (drop (Suc end_pos) raw) out))"
  by pat_completeness auto
termination
  by (relation "measure (length \<circ> fst)") (auto dest: index_of_less)

declare parse_query_loop.simps [simp del]

definition ParseRestQueryString :: "string \<Rightarrow> headers Result" where
  "ParseRestQueryString raw = (if raw = [] then Inr [] else parse_query_loop raw [])"

definition HasExtendedAgentCardView :: "string \<Rightarrow> bool Result" where
  "HasExtendedAgentCardView query =
     result_bind (ParseRestQueryString query) (\<lambda>query_params. Inr (map_of query_params ''view'' = Some ''extended''))"

section \<open>Paths of the agent card\<close>

definition kAgentCardPath :: string where "kAgentCardPath = ''/.well-known/agent-card.json''"
definition kLegacyAgentCardPath :: string where "kLegacyAgentCardPath = ''/.well-known/agent.json''"
definition kExtendedAgentCardPath :: string where "kExtendedAgentCardPath = ''/extendedAgentCard''"

definition PathStartsWithBasePath :: "string \<Rightarrow> string \<Rightarrow> bool" where
  "PathStartsWithBasePath path base_path \<longleftrightarrow>
     base_path \<noteq> [] \<and> base_path \<noteq> ''/'' \<and> prefix base_path path \<and>
     (length path = length base_path \<or> path ! length base_path = CHR ''/'')"

definition ExtractTenantFromRelativeExtendedAgentCardPath :: "string \<Rightarrow> string option" where
  "ExtractTenantFromRelativeExtendedAgentCardPath path =
     (if \<not> prefix ''/'' path \<or> \<not> suffix kExtendedAgentCardPath path then None
      else let tenant_end = length path - length kExtendedAgentCardPath in
        if tenant_end \<le> 1 \<or> path ! tenant_end \<noteq> CHR ''/'' then None
        else let tenant = substr 1 (tenant_end - 1) path in
          if tenant = [] \<or> has_slash tenant then None else Some tenant)"

definition ExtractTenantFromExtendedAgentCardPath :: "string \<Rightarrow> string \<Rightarrow> string option" where
  "ExtractTenantFromExtendedAgentCardPath path base_path =
     (case ExtractTenantFromRelativeExtendedAgentCardPath path of
        Some tenant \<Rightarrow> Some tenant
      | None \<Rightarrow>
          if \<not> PathStartsWithBasePath path base_path then None
          else ExtractTenantFromRelativeExtendedAgentCardPath (drop (length base_path) path))"

text \<open>The loop takes slashes off the back while more than one character is left.\<close>

definition NormalizeBasePath :: "string \<Rightarrow> string" where
  "NormalizeBasePath path =
     (if path = [] then ''/''
      else let normalized = (if hd path \<noteq> CHR ''/'' then CHR ''/'' # path else path)
           in hd normalized # rev (dropWhile (\<lambda>c. c = CHR ''/'') (rev (tl normalized))))"

section \<open>The transport\<close>

record RestServerTransportOptions =
  rest_api_base_path :: string
  require_version_header :: bool
  include_legacy_transport_fields :: bool
  agent_card_cache_settings :: "AgentCardCacheSettings option"
  required_extensions :: "string list"

definition default_RestServerTransportOptions :: RestServerTransportOptions where
  "default_RestServerTransportOptions = \<lparr>rest_api_base_path = ''/'', require_version_header = True,
     include_legacy_transport_fields = True, agent_card_cache_settings = None, required_extensions = []\<rparr>"

record ('w, 'card) RestServerTransport =
  rst_dispatcher :: "('w, 'card) Dispatcher option"
  rst_agent_card :: 'card
  rst_options :: RestServerTransportOptions

definition default_interface_version :: "AgentInterface \<Rightarrow> AgentInterface" where
  "default_interface_version iface =
     (if iface_protocol_version iface = [] then iface\<lparr>iface_protocol_version := HeaderValue\<rparr> else iface)"

definition RestServerTransport_new ::
  "'card AgentCardClass \<Rightarrow> ('w, 'card) Dispatcher option \<Rightarrow> 'card \<Rightarrow> RestServerTransportOptions \<Rightarrow>
   ('w, 'card) RestServerTransport" where
  "RestServerTransport_new cls dispatcher agent_card options =
     \<lparr>rst_dispatcher = dispatcher,
      rst_agent_card = map_supported_interfaces cls default_interface_version agent_card,
      rst_options = options\<lparr>rest_api_base_path := NormalizeBasePath (rest_api_base_path options)\<rparr>\<rparr>"

definition split_target :: "string \<Rightarrow> string \<times> string option" where
  "split_target target =
     (case index_of (\<lambda>c. c = CHR ''?'') target of
        None \<Rightarrow> (target, None)
      | Some query_start \<Rightarrow> (take query_start target, Some (drop (Suc query_start) target)))"

definition http_request_context :: "HttpServerRequest \<Rightarrow> RequestContext" where
  "http_request_context request =
     default_RequestContext\<lparr>
       ctx_remote_address := (if req_remote_address request = [] then None else Some (req_remote_address request)),
       ctx_client_headers := req_headers request,
       ctx_protocol_version := kProtocolVersion,
       ctx_auth_metadata := ExtractAuthMetadata (req_headers request)\<rparr>"

definition BuildRestRequest :: "RestServerTransportOptions \<Rightarrow> HttpServerRequest \<Rightarrow> RestRequest Result" where
  "BuildRestRequest options request =
     (let (path, query) = split_target (req_target request); base = rest_api_base_path options in
      if base \<noteq> [] \<and> base \<noteq> ''/'' \<and> \<not> prefix base path
      then Inl (Validation ''Request path does not match configured REST API base path'')
      else let path = (if base \<noteq> [] \<and> base \<noteq> ''/''
                       then (if drop (length base) path = [] then ''/'' else drop (length base) path) else path);
               rest_request = \<lparr>rest_method = req_method request, rest_path = path, rest_query_params = [],
                 rest_headers = req_headers request, rest_body = req_body request,
                 rest_context = http_request_context request\<rparr>
           in case query of
                None \<Rightarrow> Inr rest_request
              | Some q \<Rightarrow> result_bind (ParseRestQueryString q) (\<lambda>params. Inr (rest_request\<lparr>rest_query_params := params\<rparr>)))"

definition kMalformedRoute :: string where
  "kMalformedRoute = ''No matching route or request was malformed''"

definition BuildRestHttpResponse :: "'w RestResponse \<Rightarrow> string list \<Rightarrow> 'w ServerResponse" where
  "BuildRestHttpResponse response activated_extensions =
     WithActivatedExtensions activated_extensions (WithA2aVersion (FromRestResponse response))"

definition HandleAgentCard ::
  "'card ProtoJson \<Rightarrow> 'card AgentCardClass \<Rightarrow> ('w, 'card) RestServerTransport \<Rightarrow> HttpServerRequest \<Rightarrow>
   'w ServerResponse Result" where
  "HandleAgentCard pj cls t request =
     (if req_method request \<noteq> kMethodGet
      then Inr (BuildJsonErrorResponse pj 404 kMalformedRoute ''UNSUPPORTED_OPERATION'')
      else result_bind (BuildNormalizedAgentCard pj cls (rst_agent_card t)
             (include_legacy_transport_fields (rst_options t))) (\<lambda>card_struct.
           result_bind (json_Struct pj card_struct) (\<lambda>normalized.
             let response = WithBody normalized
                   (WithA2aVersion (WithJsonContentType (WithStatus 200 default_HttpServerResponse)));
                 response = ApplyAgentCardCacheHeaders (agent_card_cache_settings (rst_options t)) response
             in Inr (WithHeader ''ETag'' (BuildQuotedEtag (ComputeEtagHash normalized)) response))))"

text \<open>The part of \<open>HandleExtendedAgentCard\<close> after the dispatch.\<close>

definition extended_card_response ::
  "'card ProtoJson \<Rightarrow> 'card AgentCardClass \<Rightarrow> RestServerTransportOptions \<Rightarrow> string list \<Rightarrow>
   ('w, 'card) DispatchResponse Result \<Rightarrow> 'w ServerResponse Result" where
  "extended_card_response pj cls options extensions dispatch =
     (case dispatch of
        Inl e \<Rightarrow> Inr (BuildValidatedErrorResponse pj (RestServer_HttpStatusFromError e) (error_message e)
          (RestReasonFromError e) extensions)
      | Inr (Resp_AgentCard payload) \<Rightarrow>
          result_bind (BuildNormalizedAgentCard pj cls payload (include_legacy_transport_fields options)) (\<lambda>card_struct.
            result_bind (json_Struct pj card_struct) (\<lambda>normalized.
              Inr (WithBody normalized (WithActivatedExtensions extensions
                (WithA2aVersion (WithJsonContentType (WithStatus 200 default_HttpServerResponse)))))))
      | Inr _ \<Rightarrow> Inl (Internal ''GetExtendedAgentCard dispatch returned an unexpected payload''))"

definition HandleExtendedAgentCard ::
  "'card ProtoJson \<Rightarrow> 'card AgentCardClass \<Rightarrow> ('w, 'card) RestServerTransport \<Rightarrow> HttpServerRequest \<Rightarrow> string \<Rightarrow>
   ('w, 'w ServerResponse) step" where
  "HandleExtendedAgentCard pj cls t request tenant w =
     (if req_method request \<noteq> kMethodGet
      then Some (w, Inr (BuildJsonErrorResponse pj 404 kMalformedRoute ''UNSUPPORTED_OPERATION''))
      else case VersionHeaderValidator_Validate (require_version_header (rst_options t)) (req_headers request) of
        Inl e \<Rightarrow> Some (w, Inr (BuildJsonErrorResponse pj 400 (error_message e) ''VERSION_NOT_SUPPORTED''))
      | Inr _ \<Rightarrow>
        (case RequiredExtensionsValidator_Validate (required_extensions (rst_options t)) (req_headers request) of
           Inl e \<Rightarrow> Some (w, Inr (BuildJsonErrorResponse pj 400 (error_message e) ''EXTENSION_SUPPORT_REQUIRED''))
         | Inr extensions \<Rightarrow>
           (case rst_dispatcher t of
              None \<Rightarrow> Some (w, Inr (BuildValidatedErrorResponse pj 500 ''REST transport dispatcher is not configured''
                ''INTERNAL'' extensions))
            | Some dispatcher \<Rightarrow>
                map_option (\<lambda>((w, context), dispatch).
                    (w, extended_card_response pj cls (rst_options t) extensions dispatch))
                  (Dispatch dispatcher \<lparr>req_operation = kGetExtendedAgentCard,
                     req_payload = Req_GetExtendedAgentCard \<lparr>GEC_tenant = tenant\<rparr>\<rparr> (w, http_request_context request)))))"

text \<open>The requests that are not for an agent card.\<close>

definition RestServer_HandleApi ::
  "'card ProtoJson \<Rightarrow> ('w, 'card) RestServerTransport \<Rightarrow> HttpServerRequest \<Rightarrow> ('w, 'w ServerResponse) step" where
  "RestServer_HandleApi pj t request w =
     (case VersionHeaderValidator_Validate (require_version_header (rst_options t)) (req_headers request) of
        Inl e \<Rightarrow> Some (w, Inr (BuildJsonErrorResponse pj 400 (error_message e) ''VERSION_NOT_SUPPORTED''))
      | Inr _ \<Rightarrow>
        (case RequiredExtensionsValidator_Validate (required_extensions (rst_options t)) (req_headers request) of
           Inl e \<Rightarrow> Some (w, Inr (BuildJsonErrorResponse pj 400 (error_message e) ''EXTENSION_SUPPORT_REQUIRED''))
         | Inr extensions \<Rightarrow>
           (case BuildRestRequest (rst_options t) request of
              Inl _ \<Rightarrow> Some (w, Inr (BuildValidatedErrorResponse pj 404 kMalformedRoute ''UNSUPPORTED_OPERATION'' extensions))
            | Inr rest_request \<Rightarrow>
                map_option (\<lambda>(w, rest_response). (w, result_bind rest_response (\<lambda>response.
                    Inr (BuildRestHttpResponse response extensions))))
                  (RestTransport_Handle pj (rst_dispatcher t) rest_request w))))"

definition RestServerTransport_Handle ::
  "'card ProtoJson \<Rightarrow> 'card AgentCardClass \<Rightarrow> ('w, 'card) RestServerTransport \<Rightarrow> HttpServerRequest \<Rightarrow>
   ('w, 'w ServerResponse) step" where
  "RestServerTransport_Handle pj cls t request w =
     (if req_target request = [] \<or> hd (req_target request) \<noteq> CHR ''/''
      then Some (w, Inl (Validation (''HTTP request target must start with '' @ [CHR 0x27] @ ''/'' @ [CHR 0x27]))) else
      let (path, query) = split_target (req_target request);
          base = rest_api_base_path (rst_options t) in
      if path = kAgentCardPath then
        (case HasExtendedAgentCardView (case query of None \<Rightarrow> [] | Some q \<Rightarrow> q) of
           Inl e \<Rightarrow> Some (w, Inl e)
         | Inr True \<Rightarrow> HandleExtendedAgentCard pj cls t request [] w
         | Inr False \<Rightarrow> Some (w, HandleAgentCard pj cls t request))
      else if path = kLegacyAgentCardPath then Some (w, HandleAgentCard pj cls t request)
      else if path = kExtendedAgentCardPath \<or> (base \<noteq> ''/'' \<and> path = base @ kExtendedAgentCardPath)
      then HandleExtendedAgentCard pj cls t request [] w
      else case ExtractTenantFromExtendedAgentCardPath path base of
          Some tenant \<Rightarrow> HandleExtendedAgentCard pj cls t request tenant w
        | None \<Rightarrow> RestServer_HandleApi pj t request w)"

end
