(* ===== verification/Core_Json.thy ===== *)
theory Core_Json
  imports Core_Error Proto_Number "HOL-Library.AList"
begin

text \<open>
  JSON documents (\<open>src/core/json.cpp\<close>). The parser is simdjson: a parameter that yields the element tree of a text, or the
  message of its error, the text of an element, and the members of an object in the on-demand interface as unescaped
  name and raw text, up to the first error.
\<close>

datatype JsonElement =
    JObject "(string \<times> JsonElement) list"
  | JArray "JsonElement list"
  | JString string
  | JBool bool
  | JNull
  | JInteger int
  | JDouble "64 word"

record SimdJson =
  sj_allocate :: "nat \<Rightarrow> string option"
  sj_parse :: "string \<Rightarrow> string + JsonElement"
  sj_incorrect_type :: string
  sj_minify :: "JsonElement \<Rightarrow> string"
  sj_members :: "string \<Rightarrow> (string \<times> string) list"

definition kMaximumJsonBytes :: nat where "kMaximumJsonBytes = 64 * 1024 * 1024"

definition JsonDocument_Parse :: "SimdJson \<Rightarrow> string \<Rightarrow> JsonElement Result" where
  "JsonDocument_Parse sj input =
     (if length input > kMaximumJsonBytes then Inl (Serialization ''JSON input exceeds the 64 MiB limit'')
      else case sj_allocate sj (length input) of
          Some message \<Rightarrow> Inl (Serialization message)
        | None \<Rightarrow> (case sj_parse sj input of Inl message \<Rightarrow> Inl (Serialization message) | Inr root \<Rightarrow> Inr root))"

definition JsonDocument_ParseObject :: "SimdJson \<Rightarrow> string \<Rightarrow> JsonElement Result" where
  "JsonDocument_ParseObject sj input =
     result_bind (JsonDocument_Parse sj input) (\<lambda>root.
       case root of
         JObject members \<Rightarrow>
           if distinct (map fst members) then Inr root
           else Inl (Serialization ''JSON object contains duplicate envelope members'')
       | _ \<Rightarrow> Inl (Serialization (sj_incorrect_type sj)))"

text \<open>\<open>element[name]\<close>: the first member with that name; an error on an element that is not an object.\<close>

fun json_at :: "JsonElement \<Rightarrow> string \<Rightarrow> JsonElement option" where
  "json_at (JObject members) name = map_of members name"
| "json_at _ name = None"

fun json_string :: "JsonElement option \<Rightarrow> string option" where
  "json_string (Some (JString s)) = Some s"
| "json_string _ = None"

fun is_json_object :: "JsonElement \<Rightarrow> bool" where
  "is_json_object (JObject members) = True"
| "is_json_object _ = False"

fun is_json_scalar_id :: "JsonElement \<Rightarrow> bool" where
  "is_json_scalar_id (JString s) = True"
| "is_json_scalar_id (JInteger n) = True"
| "is_json_scalar_id (JDouble d) = True"
| "is_json_scalar_id JNull = True"
| "is_json_scalar_id _ = False"

text \<open>No such member is an exception: the outcome \<open>None\<close>.\<close>

definition JsonMember :: "SimdJson \<Rightarrow> string \<Rightarrow> string \<Rightarrow> string option" where
  "JsonMember sj input name = map_of (sj_members sj input) name"

fun JsonToValue :: "JsonElement \<Rightarrow> Value" where
  "JsonToValue (JObject members) =
     StructValue (foldl (\<lambda>fs (name, v). AList.update name v fs) [] (map (\<lambda>(name, e). (name, JsonToValue e)) members))"
| "JsonToValue (JArray elements) = ListValue (map JsonToValue elements)"
| "JsonToValue (JString s) = StringValue s"
| "JsonToValue (JBool b) = BoolValue b"
| "JsonToValue JNull = NullValue"
| "JsonToValue (JInteger n) = NumberValue (double_of_int n)"
| "JsonToValue (JDouble d) = NumberValue d"

end
