(* ===== verification/Json_Rpc_Server.thy ===== *)
theory Json_Rpc_Server
  imports Rest_Server Core_Json
begin

text \<open>
  The JSON-RPC binding (\<open>src/server/transport/json_rpc_server_transport.cpp\<close>): the request envelope, the methods and
  their parameters, the dispatch, and the success, error and streaming responses. The outcome \<open>None\<close> is an exception
  or undefined behaviour.
\<close>

section \<open>Methods\<close>

definition HasJsonContentType :: "HttpServerRequest \<Rightarrow> bool" where
  "HasJsonContentType request =
     (case FindHeaderValue (req_headers request) kContentTypeHeaderName of
        None \<Rightarrow> True | Some content_type \<Rightarrow> IsJsonContentType content_type)"

definition IsMethod :: "string \<Rightarrow> string \<Rightarrow> string \<Rightarrow> bool" where
  "IsMethod actual canonical legacy \<longleftrightarrow> actual = canonical \<or> actual = legacy"

definition IsSendMessageMethod :: "string \<Rightarrow> bool" where
  "IsSendMessageMethod m \<longleftrightarrow> IsMethod m ''SendMessage'' ''a2a.sendMessage'' \<or> m = ''tasks/send''"

definition IsSendStreamingMessageMethod :: "string \<Rightarrow> bool" where
  "IsSendStreamingMessageMethod m \<longleftrightarrow> IsMethod m ''SendStreamingMessage'' ''a2a.sendStreamingMessage''"

definition IsGetTaskMethod :: "string \<Rightarrow> bool" where
  "IsGetTaskMethod m \<longleftrightarrow> IsMethod m ''GetTask'' ''a2a.getTask'' \<or> m = ''tasks/get''"

definition IsCancelTaskMethod :: "string \<Rightarrow> bool" where
  "IsCancelTaskMethod m \<longleftrightarrow> IsMethod m ''CancelTask'' ''a2a.cancelTask'' \<or> m = ''tasks/cancel''"

definition IsListTasksMethod :: "string \<Rightarrow> bool" where
  "IsListTasksMethod m \<longleftrightarrow> IsMethod m ''ListTasks'' ''a2a.listTasks'' \<or> m = ''tasks/list'' \<or> m = ''tasks.list''"

definition IsSubscribeToTaskMethod :: "string \<Rightarrow> bool" where
  "IsSubscribeToTaskMethod m \<longleftrightarrow> IsMethod m ''SubscribeToTask'' ''a2a.subscribeToTask''"

definition IsCreatePushConfigMethod :: "string \<Rightarrow> bool" where
  "IsCreatePushConfigMethod m \<longleftrightarrow>
     IsMethod m ''CreateTaskPushNotificationConfig'' ''a2a.setTaskPushNotificationConfig''"

definition IsGetPushConfigMethod :: "string \<Rightarrow> bool" where
  "IsGetPushConfigMethod m \<longleftrightarrow> IsMethod m ''GetTaskPushNotificationConfig'' ''a2a.getTaskPushNotificationConfig''"

definition IsListPushConfigMethod :: "string \<Rightarrow> bool" where
  "IsListPushConfigMethod m \<longleftrightarrow>
     IsMethod m ''ListTaskPushNotificationConfigs'' ''a2a.listTaskPushNotificationConfigs''"

definition IsDeletePushConfigMethod :: "string \<Rightarrow> bool" where
  "IsDeletePushConfigMethod m \<longleftrightarrow>
     IsMethod m ''DeleteTaskPushNotificationConfig'' ''a2a.deleteTaskPushNotificationConfig''"

definition IsGetExtendedAgentCardMethod :: "string \<Rightarrow> bool" where
  "IsGetExtendedAgentCardMethod m \<longleftrightarrow> m = ''GetExtendedAgentCard'' \<or> m = ''a2a.getExtendedAgentCard''"

definition MethodToOperation :: "string \<Rightarrow> DispatcherOperation option" where
  "MethodToOperation m =
     (if IsSendMessageMethod m then Some kSendMessage
      else if IsSendStreamingMessageMethod m then Some kSendStreamingMessage
      else if IsGetTaskMethod m then Some kGetTask
      else if IsSubscribeToTaskMethod m then Some kSubscribeTask
      else if IsCancelTaskMethod m then Some kCancelTask
      else if IsListTasksMethod m then Some kListTasks
      else None)"

section \<open>Parameters\<close>

definition strict_members_parse :: ProtoJsonParseOptions where
  "strict_members_parse = default_parse\<lparr>ignore_unknown_fields := True, reject_duplicate_top_level_fields := True\<rparr>"

definition ParseCreatePushConfigPayload ::
  "SimdJson \<Rightarrow> 'card ProtoJson \<Rightarrow> string \<Rightarrow> TaskPushNotificationConfig Result option" where
  "ParseCreatePushConfigPayload sj pj params =
     (case JsonDocument_Parse sj params of
        Inl e \<Rightarrow> Some (Inl e)
      | Inr root \<Rightarrow>
          (case json_at root ''pushNotificationConfig'' of
             None \<Rightarrow> Some (parse_PushConfig pj strict_members_parse params)
           | Some nested \<Rightarrow>
               if \<not> is_json_object nested
               then Some (Inl (Validation ''TaskPushNotificationConfig.pushNotificationConfig must be an object''))
               else map_option (\<lambda>text. result_bind (parse_PushConfig pj strict_members_parse text) (\<lambda>payload.
                      case json_at root ''taskId'' of
                        None \<Rightarrow> Inr payload
                      | Some (JString task_id) \<Rightarrow> Inr (payload\<lparr>Push_task_id := task_id\<rparr>)
                      | Some _ \<Rightarrow> Inl (Validation ''TaskPushNotificationConfig.taskId must be a string'')))
                    (JsonMember sj params ''pushNotificationConfig'')))"

definition ParseListTasksPageSize :: "Struct \<Rightarrow> ListTasksRequest \<Rightarrow> ListTasksRequest Result" where
  "ParseListTasksPageSize params payload =
     (case map_of params ''pageSize'' of
        None \<Rightarrow> result_bind (NormalizeListTasksPageSize None) (\<lambda>n. Inr (payload\<lparr>LTR_page_size := n\<rparr>))
      | Some (NumberValue page_size) \<Rightarrow>
          if \<not> dbl_finite page_size \<or> \<not> dbl_integral page_size \<or> dbl_trunc page_size < 1 \<or>
             dbl_trunc page_size > int kMaxListTasksPageSize
          then Inl (Validation ''ListTasksRequest.pageSize must be an integer between 1 and 100'')
          else Inr (payload\<lparr>LTR_page_size := nat (dbl_trunc page_size)\<rparr>)
      | Some _ \<Rightarrow> Inl (Validation ''ListTasksRequest.pageSize must be a number''))"

definition ParseListTasksContextId :: "Struct \<Rightarrow> ListTasksRequest \<Rightarrow> ListTasksRequest Result" where
  "ParseListTasksContextId params payload =
     result_bind
       (case map_of params ''contextId'' of
          None \<Rightarrow> Inr payload
        | Some (StringValue c) \<Rightarrow> Inr (payload\<lparr>LTR_context_id := c\<rparr>)
        | Some _ \<Rightarrow> Inl (Validation ''ListTasksRequest.contextId must be a string''))
       (\<lambda>payload.
          case map_of params ''context_id'' of
            None \<Rightarrow> Inr payload
          | Some v \<Rightarrow>
              if LTR_context_id payload \<noteq> [] then Inr payload
              else (case v of
                      StringValue c \<Rightarrow> Inr (payload\<lparr>LTR_context_id := c\<rparr>)
                    | _ \<Rightarrow> Inl (Validation ''ListTasksRequest.context_id must be a string'')))"

definition ParseListTasksPageToken :: "Struct \<Rightarrow> ListTasksRequest \<Rightarrow> ListTasksRequest Result" where
  "ParseListTasksPageToken params payload =
     (case map_of params ''pageToken'' of
        None \<Rightarrow> Inr payload
      | Some (StringValue t) \<Rightarrow> Inr (payload\<lparr>LTR_page_token := t\<rparr>)
      | Some _ \<Rightarrow> Inl (Validation ''ListTasksRequest.pageToken must be a string''))"

text \<open>The generated \<open>TaskState_Parse\<close> accepts the names of the enum's values.\<close>

definition TaskState_Parse :: "string \<Rightarrow> TaskState option" where
  "TaskState_Parse name = map_of
     [(''TASK_STATE_UNSPECIFIED'', TASK_STATE_UNSPECIFIED), (''TASK_STATE_SUBMITTED'', TASK_STATE_SUBMITTED),
      (''TASK_STATE_WORKING'', TASK_STATE_WORKING), (''TASK_STATE_COMPLETED'', TASK_STATE_COMPLETED),
      (''TASK_STATE_FAILED'', TASK_STATE_FAILED), (''TASK_STATE_CANCELED'', TASK_STATE_CANCELED),
      (''TASK_STATE_INPUT_REQUIRED'', TASK_STATE_INPUT_REQUIRED), (''TASK_STATE_REJECTED'', TASK_STATE_REJECTED),
      (''TASK_STATE_AUTH_REQUIRED'', TASK_STATE_AUTH_REQUIRED)] name"

definition ParseListTasksStatus :: "Struct \<Rightarrow> ListTasksRequest \<Rightarrow> ListTasksRequest Result" where
  "ParseListTasksStatus params payload =
     (case map_of params ''status'' of
        None \<Rightarrow> Inr payload
      | Some (StringValue s) \<Rightarrow>
          (case TaskState_Parse s of
             None \<Rightarrow> Inl (Validation ''ListTasksRequest.status must be a valid TaskState value'')
           | Some state \<Rightarrow> Inr (payload\<lparr>LTR_status_filter := Some state\<rparr>))
      | Some _ \<Rightarrow> Inl (Validation ''ListTasksRequest.status must be a string''))"

definition ParseListTasksTimestampAfter ::
  "'card ProtoJson \<Rightarrow> Struct \<Rightarrow> ListTasksRequest \<Rightarrow> ListTasksRequest Result" where
  "ParseListTasksTimestampAfter pj params payload =
     (case map_of params ''statusTimestampAfter'' of
        None \<Rightarrow> Inr payload
      | Some (StringValue s) \<Rightarrow>
          (case parse_Timestamp pj default_parse ([CHR 0x22] @ s @ [CHR 0x22]) of
             Inl _ \<Rightarrow> Inl (Validation ''ListTasksRequest.statusTimestampAfter must be an RFC3339 timestamp'')
           | Inr ts \<Rightarrow> Inr (payload\<lparr>LTR_status_timestamp_after := Some ts\<rparr>))
      | Some _ \<Rightarrow> Inl (Validation ''ListTasksRequest.statusTimestampAfter must be a string''))"

text \<open>The conversion to \<open>std::size_t\<close> is undefined for a NaN, an infinity and a value outside of the type.\<close>

definition ParseListTasksHistoryLength :: "Struct \<Rightarrow> ListTasksRequest \<Rightarrow> ListTasksRequest Result option" where
  "ParseListTasksHistoryLength params payload =
     (case map_of params ''historyLength'' of
        None \<Rightarrow> Some (Inr payload)
      | Some (NumberValue n) \<Rightarrow>
          if dbl_less_zero n then Some (Inl (Validation ''ListTasksRequest.historyLength must be non-negative''))
          else if \<not> dbl_finite n \<or> dbl_trunc n \<ge> 2 ^ 64 then None
          else Some (Inr (payload\<lparr>LTR_history_length := Some (nat (dbl_trunc n))\<rparr>))
      | Some _ \<Rightarrow> Some (Inl (Validation ''ListTasksRequest.historyLength must be non-negative'')))"

definition ParseListTasksIncludeArtifacts :: "Struct \<Rightarrow> ListTasksRequest \<Rightarrow> ListTasksRequest Result" where
  "ParseListTasksIncludeArtifacts params payload =
     (case map_of params ''includeArtifacts'' of
        None \<Rightarrow> Inr payload
      | Some (BoolValue b) \<Rightarrow> Inr (payload\<lparr>LTR_include_artifacts := b\<rparr>)
      | Some _ \<Rightarrow> Inl (Validation ''ListTasksRequest.includeArtifacts must be a boolean''))"

definition ApplyListTasksParsers ::
  "'card ProtoJson \<Rightarrow> Struct \<Rightarrow> ListTasksRequest \<Rightarrow> ListTasksRequest Result option" where
  "ApplyListTasksParsers pj params payload =
     (case result_bind (ParseListTasksPageSize params payload) (\<lambda>payload.
           result_bind (ParseListTasksContextId params payload) (\<lambda>payload.
           result_bind (ParseListTasksPageToken params payload) (\<lambda>payload.
           result_bind (ParseListTasksStatus params payload) (\<lambda>payload.
             ParseListTasksTimestampAfter pj params payload)))) of
        Inl e \<Rightarrow> Some (Inl e)
      | Inr payload \<Rightarrow>
          map_option (\<lambda>parsed. result_bind parsed (ParseListTasksIncludeArtifacts params))
            (ParseListTasksHistoryLength params payload))"

definition ParseListTasksPayload :: "'card ProtoJson \<Rightarrow> string \<Rightarrow> ListTasksRequest Result option" where
  "ParseListTasksPayload pj json =
     (case parse_Struct pj default_parse json of
        Inl e \<Rightarrow> Some (Inl e)
      | Inr params \<Rightarrow> ApplyListTasksParsers pj params default_ListTasksRequest)"

text \<open>A dispatch request from an operation and the outcome of parsing its payload.\<close>

definition with_payload ::
  "DispatcherOperation \<Rightarrow> ('a \<Rightarrow> RequestPayload) \<Rightarrow> 'a Result \<Rightarrow> DispatchRequest Result" where
  "with_payload operation mk payload = result_bind payload (\<lambda>p. Inr \<lparr>req_operation = operation, req_payload = mk p\<rparr>)"

definition method_not_supported :: Error where
  "method_not_supported = WithProtocolCode ''-32601'' (RemoteProtocol ''JSON-RPC method is not supported'')"

definition BuildDispatchRequestFromMethod ::
  "SimdJson \<Rightarrow> 'card ProtoJson \<Rightarrow> string \<Rightarrow> string \<Rightarrow> DispatchRequest Result option" where
  "BuildDispatchRequestFromMethod sj pj method_name params =
     (if IsGetExtendedAgentCardMethod method_name then
        Some (with_payload kGetExtendedAgentCard Req_GetExtendedAgentCard
          (parse_GetExtendedAgentCardRequest pj strict_members_parse params))
      else if IsCreatePushConfigMethod method_name then
        map_option (with_payload kCreateTaskPushNotificationConfig Req_PushConfig)
          (ParseCreatePushConfigPayload sj pj params)
      else if IsGetPushConfigMethod method_name then
        Some (with_payload kGetTaskPushNotificationConfig Req_GetPushConfig
          (parse_GetPushConfigRequest pj strict_members_parse params))
      else if IsListPushConfigMethod method_name then
        Some (with_payload kListTaskPushNotificationConfigs Req_ListPushConfigs
          (parse_ListPushConfigsRequest pj strict_members_parse params))
      else if IsDeletePushConfigMethod method_name then
        Some (with_payload kDeleteTaskPushNotificationConfig Req_DeletePushConfig
          (parse_DeletePushConfigRequest pj strict_members_parse params))
      else case MethodToOperation method_name of
          None \<Rightarrow> Some (Inl method_not_supported)
        | Some kSendMessage \<Rightarrow>
            Some (with_payload kSendMessage Req_SendMessage (parse_SendMessageRequest pj strict_members_parse params))
        | Some kSendStreamingMessage \<Rightarrow>
            Some (with_payload kSendStreamingMessage Req_SendMessage
              (parse_SendMessageRequest pj strict_members_parse params))
        | Some kGetTask \<Rightarrow>
            Some (with_payload kGetTask Req_GetTask (parse_GetTaskRequest pj strict_members_parse params))
        | Some kSubscribeTask \<Rightarrow>
            Some (with_payload kSubscribeTask Req_GetTask (parse_GetTaskRequest pj strict_members_parse params))
        | Some kCancelTask \<Rightarrow>
            Some (with_payload kCancelTask Req_CancelTask (parse_CancelTaskRequest pj strict_members_parse params))
        | Some kListTasks \<Rightarrow> map_option (with_payload kListTasks Req_ListTasks) (ParseListTasksPayload pj params)
        | Some kGetExtendedAgentCard \<Rightarrow>
            Some (Inl (Internal ''GetExtendedAgentCard is handled before the generic JSON-RPC switch''))
        | Some _ \<Rightarrow>
            Some (Inl (Internal ''Push notification operations are handled before the generic JSON-RPC switch'')))"

section \<open>Errors\<close>

definition JsonRpc_HttpStatusFromError :: "Error \<Rightarrow> int" where
  "JsonRpc_HttpStatusFromError error =
     (let status = (case error_http_status error of None \<Rightarrow> 200 | Some s \<Rightarrow> s)
      in if status = 401 \<or> status = 403 then status else 200)"

definition JsonRpc_ErrorInfoReason :: "Error \<Rightarrow> string" where
  "JsonRpc_ErrorInfoReason error =
     (let by_class = (case error_code error of
            kValidation \<Rightarrow> ''INVALID_PARAMS''
          | kUnsupportedVersion \<Rightarrow> ''VERSION_NOT_SUPPORTED''
          | kRemoteProtocol \<Rightarrow> ''UNSUPPORTED_OPERATION''
          | _ \<Rightarrow> ''INVALID_AGENT_RESPONSE'')
      in case error_protocol_code error of
          None \<Rightarrow> by_class
        | Some c \<Rightarrow>
            if c = ''-32001'' then ''TASK_NOT_FOUND''
            else if c = ''-32002'' then ''TASK_NOT_CANCELABLE''
            else if c = ''-32003'' then ''PUSH_NOTIFICATION_NOT_SUPPORTED''
            else if c = ''-32004'' then ''UNSUPPORTED_OPERATION''
            else if c = ''-32005'' then ''CONTENT_TYPE_NOT_SUPPORTED''
            else if c = ''-32006'' then ''INVALID_AGENT_RESPONSE''
            else if c = ''-32007'' then ''EXTENDED_AGENT_CARD_NOT_CONFIGURED''
            else if c = ''-32009'' then ''VERSION_NOT_SUPPORTED''
            else if c = ''-32008'' then ''EXTENSION_SUPPORT_REQUIRED''
            else by_class)"

definition JsonRpcCodeFromError :: "Error \<Rightarrow> int" where
  "JsonRpcCodeFromError error =
     (case error_code error of
        kValidation \<Rightarrow> -32602
      | kUnsupportedVersion \<Rightarrow> -32009
      | kRemoteProtocol \<Rightarrow>
          (case error_protocol_code error of
             None \<Rightarrow> -32603
           | Some protocol_code \<Rightarrow>
               (case from_chars_signed INT32_MIN INT32_MAX protocol_code of
                  Inl _ \<Rightarrow> -32603
                | Inr (parsed_code, rest) \<Rightarrow> if rest = [] \<and> parsed_code \<le> -32000 then parsed_code else -32603))
      | _ \<Rightarrow> -32603)"

definition ParseErrorCodeForRequestParsing :: "Error \<Rightarrow> int" where
  "ParseErrorCodeForRequestParsing error =
     (case error_code error of
        kValidation \<Rightarrow> -32602
      | kSerialization \<Rightarrow> -32700
      | _ \<Rightarrow> JsonRpcCodeFromError error)"

definition json_rpc_error_info :: "Error \<Rightarrow> Struct" where
  "json_rpc_error_info error =
     (let info = [(''@type'', StringValue ''type.googleapis.com/google.rpc.ErrorInfo''),
                  (''reason'', StringValue (JsonRpc_ErrorInfoReason error)), (''domain'', StringValue ''a2a-protocol.org'')];
          metadata = (case error_protocol_code error of None \<Rightarrow> [] | Some c \<Rightarrow> [(''protocolCode'', StringValue c)]);
          metadata = (case error_transport error of
              None \<Rightarrow> metadata | Some t \<Rightarrow> AList.update ''transport'' (StringValue t) metadata)
      in if error_protocol_code error \<noteq> None \<or> error_transport error \<noteq> None
         then AList.update ''metadata'' (StructValue metadata) info else info)"

definition json_rpc_error_object :: "int \<Rightarrow> string \<Rightarrow> Error option \<Rightarrow> Struct" where
  "json_rpc_error_object json_rpc_code message error =
     (let error_fields = [(''code'', NumberValue (double_of_int json_rpc_code)), (''message'', StringValue message)]
      in case error of
           Some e \<Rightarrow>
             if -32099 \<le> json_rpc_code \<and> json_rpc_code \<le> -32000
             then AList.update ''data'' (ListValue [StructValue (json_rpc_error_info e)]) error_fields else error_fields
         | None \<Rightarrow> error_fields)"

definition json_rpc_error_envelope :: "int \<Rightarrow> string \<Rightarrow> Value \<Rightarrow> Error option \<Rightarrow> Struct" where
  "json_rpc_error_envelope json_rpc_code message id_value error =
     [(''jsonrpc'', StringValue ''2.0''), (''id'', id_value),
      (''error'', StructValue (json_rpc_error_object json_rpc_code message error))]"

definition BuildJsonRpcErrorEnvelope ::
  "'card ProtoJson \<Rightarrow> int \<Rightarrow> string \<Rightarrow> Value \<Rightarrow> Error option \<Rightarrow> string Result" where
  "BuildJsonRpcErrorEnvelope pj json_rpc_code message id_value error =
     json_Struct pj (json_rpc_error_envelope json_rpc_code message id_value error)"

definition JsonRpc_BuildErrorResponse ::
  "'card ProtoJson \<Rightarrow> int \<Rightarrow> string \<Rightarrow> Value \<Rightarrow> Error option \<Rightarrow> int \<Rightarrow> 'w ServerResponse" where
  "JsonRpc_BuildErrorResponse pj json_rpc_code message id_value error http_status =
     (let response = WithA2aVersion (WithJsonContentType (WithStatus http_status default_HttpServerResponse))
      in case BuildJsonRpcErrorEnvelope pj json_rpc_code message id_value error of
           Inr body \<Rightarrow> WithBody body response
         | Inl _ \<Rightarrow> WithStatus 500 (WithBody
             ''{\"jsonrpc\":\"2.0\",\"id\":null,\"error\":{\"code\":-32603,\"message\":\"Failed to serialize error\"}}'' response))"

section \<open>The envelope\<close>

record JsonRpcEnvelope =
  env_id :: Value
  env_method :: string
  env_params :: string

definition ParseJsonRpcEnvelope :: "SimdJson \<Rightarrow> string \<Rightarrow> JsonRpcEnvelope Result option" where
  "ParseJsonRpcEnvelope sj body =
     (case JsonDocument_ParseObject sj body of
        Inl e \<Rightarrow> Some (Inl e)
      | Inr envelope \<Rightarrow>
          if json_string (json_at envelope ''jsonrpc'') \<noteq> Some ''2.0''
          then Some (Inl (Validation ''JSON-RPC request has invalid version''))
          else case json_at envelope ''id'' of
            None \<Rightarrow> Some (Inl (Validation ''JSON-RPC request id must be a string, number, or null''))
          | Some id_element \<Rightarrow>
              if \<not> is_json_scalar_id id_element
              then Some (Inl (Validation ''JSON-RPC request id must be a string, number, or null''))
              else case json_string (json_at envelope ''method'') of
                None \<Rightarrow> Some (Inl (Validation ''JSON-RPC request method must be a non-empty string''))
              | Some method_name \<Rightarrow>
                  if method_name = [] then Some (Inl (Validation ''JSON-RPC request method must be a non-empty string''))
                  else case json_at envelope ''params'' of
                    None \<Rightarrow> Some (Inr \<lparr>env_id = JsonToValue id_element, env_method = method_name, env_params = ''{}''\<rparr>)
                  | Some params \<Rightarrow>
                      if \<not> is_json_object params
                      then Some (Inl (Validation ''JSON-RPC request params must be an object''))
                      else map_option (\<lambda>text. Inr \<lparr>env_id = JsonToValue id_element, env_method = method_name,
                             env_params = text\<rparr>) (JsonMember sj body ''params''))"

section \<open>Results\<close>

definition JsonRpcPayloadMismatch :: "string \<Rightarrow> Error" where
  "JsonRpcPayloadMismatch payload = InvalidAgentResponse (''JSON-RPC '' @ payload @ '' response payload mismatch'')"

definition BuildJsonValueFromMessage ::
  "'card ProtoJson \<Rightarrow> ('m \<Rightarrow> string Result) \<Rightarrow> 'm \<Rightarrow> Value Result" where
  "BuildJsonValueFromMessage pj MessageToJson message = result_bind (MessageToJson message) (parse_Value pj default_parse)"

definition JsonRpc_SerializeDispatchResult ::
  "'card ProtoJson \<Rightarrow> 'card AgentCardClass \<Rightarrow> DispatcherOperation \<Rightarrow> ('w, 'card) DispatchResponse \<Rightarrow>
   Value Result option" where
  "JsonRpc_SerializeDispatchResult pj cls operation response =
     (case operation of
        kSendMessage \<Rightarrow> Some (case response of
            Resp_SendMessage payload \<Rightarrow> BuildJsonValueFromMessage pj (json_SendMessageResponse pj) payload
          | _ \<Rightarrow> Inl (JsonRpcPayloadMismatch ''SendMessage''))
      | kGetTask \<Rightarrow> Some (case response of
            Resp_Task payload \<Rightarrow> BuildJsonValueFromMessage pj (json_Task pj) payload
          | _ \<Rightarrow> Inl (JsonRpcPayloadMismatch ''Task''))
      | kCancelTask \<Rightarrow> Some (case response of
            Resp_Task payload \<Rightarrow> BuildJsonValueFromMessage pj (json_Task pj) payload
          | _ \<Rightarrow> Inl (JsonRpcPayloadMismatch ''Task''))
      | kListTasks \<Rightarrow> (case response of
            Resp_ListTasks payload \<Rightarrow>
              map_option (\<lambda>json. result_bind json (parse_Value pj default_parse))
                (SerializeListTasksResponse (json_ListTasksResponse pj) payload)
          | _ \<Rightarrow> Some (Inl (JsonRpcPayloadMismatch ''ListTasks'')))
      | kCreateTaskPushNotificationConfig \<Rightarrow> Some (case response of
            Resp_PushConfig payload \<Rightarrow> BuildJsonValueFromMessage pj (json_PushConfig pj) payload
          | _ \<Rightarrow> Inl (JsonRpcPayloadMismatch ''push config''))
      | kGetTaskPushNotificationConfig \<Rightarrow> Some (case response of
            Resp_PushConfig payload \<Rightarrow> BuildJsonValueFromMessage pj (json_PushConfig pj) payload
          | _ \<Rightarrow> Inl (JsonRpcPayloadMismatch ''push config''))
      | kListTaskPushNotificationConfigs \<Rightarrow> Some (case response of
            Resp_ListPushConfigs payload \<Rightarrow> BuildJsonValueFromMessage pj (json_PushConfigList pj) payload
          | _ \<Rightarrow> Inl (JsonRpcPayloadMismatch ''push config list''))
      | kDeleteTaskPushNotificationConfig \<Rightarrow> Some (Inr (StructValue []))
      | kGetExtendedAgentCard \<Rightarrow> Some (case response of
            Resp_AgentCard payload \<Rightarrow> BuildAgentCardJsonValue pj cls payload False
          | _ \<Rightarrow> Inl (InvalidAgentResponse ''JSON-RPC GetExtendedAgentCard response payload type mismatch''))
      | _ \<Rightarrow> Some (Inl (InvalidAgentResponse ''Streaming JSON-RPC responses must be serialized as SSE'')))"

definition SerializeJsonRpcSuccessEnvelope :: "'card ProtoJson \<Rightarrow> Value \<Rightarrow> Value \<Rightarrow> string Result" where
  "SerializeJsonRpcSuccessEnvelope pj id_value result =
     json_Struct pj [(''jsonrpc'', StringValue ''2.0''), (''id'', id_value), (''result'', result)]"

definition JsonRpc_BuildSuccessResponse ::
  "'card ProtoJson \<Rightarrow> Value \<Rightarrow> Value \<Rightarrow> string list \<Rightarrow> 'w ServerResponse" where
  "JsonRpc_BuildSuccessResponse pj id_value result activated_extensions =
     (let response = WithActivatedExtensions activated_extensions
            (WithA2aVersion (WithJsonContentType (WithStatus 200 default_HttpServerResponse)))
      in case SerializeJsonRpcSuccessEnvelope pj id_value result of
           Inr body \<Rightarrow> WithBody body response
         | Inl _ \<Rightarrow> WithStatus 500 (WithBody
             ''{\"jsonrpc\":\"2.0\",\"id\":null,\"error\":{\"code\":-32603,\"message\":\"Failed to serialize response\"}}'' response))"

definition BuildListTasksSuccessResponse ::
  "'card ProtoJson \<Rightarrow> ('w, 'card) DispatchResponse \<Rightarrow> Value \<Rightarrow> string list \<Rightarrow> 'w ServerResponse Result option" where
  "BuildListTasksSuccessResponse pj dispatch id_value activated_extensions =
     (case dispatch of
        Resp_ListTasks payload \<Rightarrow>
          map_option (\<lambda>result_json. result_bind result_json (\<lambda>result_json.
              result_bind (BuildSuccessEnvelopeFromJson (json_Value pj) id_value result_json) (\<lambda>body.
                Inr (WithBody body (WithActivatedExtensions activated_extensions
                  (WithA2aVersion (WithJsonContentType (WithStatus 200 default_HttpServerResponse))))))))
            (SerializeListTasksResponse (json_ListTasksResponse pj) payload)
      | _ \<Rightarrow> Some (Inl (JsonRpcPayloadMismatch ''ListTasks'')))"

definition BuildSseResponse :: "Value \<Rightarrow> 'w StreamObject option \<Rightarrow> 'w \<Rightarrow> 'w ServerResponse Result" where
  "BuildSseResponse id_value session w =
     (case session of
        None \<Rightarrow> Inl (Internal ''JSON-RPC streaming session is missing'')
      | Some obj \<Rightarrow>
          let response = WithA2aVersion (WithCacheControlNoCache (WithSseContentType
                (WithStatus 200 default_HttpServerResponse)))
          in Inr (if Stream_IsLive obj w
                  then (WithStreamWriter (JsonRpcSubscribeWriter id_value obj) response)\<lparr>resp_stream_kind := StreamKind_kLive\<rparr>
                  else (WithStreamWriter (JsonRpcStreamingWriter id_value obj) response)\<lparr>resp_stream_kind := StreamKind_kFinite\<rparr>))"

section \<open>The transport\<close>

record JsonRpcServerTransportOptions =
  rpc_path :: string
  rpc_require_version_header :: bool
  rpc_required_extensions :: "string list"

record ('w, 'card) JsonRpcServerTransport =
  jrt_dispatcher :: "('w, 'card) Dispatcher option"
  jrt_options :: JsonRpcServerTransportOptions

definition JsonRpc_NormalizePath :: "string \<Rightarrow> string" where
  "JsonRpc_NormalizePath path =
     (let path = (if path = [] then ''/'' else path);
          path = (if hd path \<noteq> CHR ''/'' then CHR ''/'' # path else path)
      in hd path # rev (dropWhile (\<lambda>c. c = CHR ''/'') (rev (tl path))))"

definition JsonRpcServerTransport_new ::
  "('w, 'card) Dispatcher option \<Rightarrow> JsonRpcServerTransportOptions \<Rightarrow> ('w, 'card) JsonRpcServerTransport" where
  "JsonRpcServerTransport_new dispatcher options =
     \<lparr>jrt_dispatcher = dispatcher, jrt_options = options\<lparr>rpc_path := JsonRpc_NormalizePath (rpc_path options)\<rparr>\<rparr>"

definition build_validated_error_response ::
  "'card ProtoJson \<Rightarrow> string list \<Rightarrow> int \<Rightarrow> string \<Rightarrow> Value \<Rightarrow> Error option \<Rightarrow> int \<Rightarrow> 'w ServerResponse" where
  "build_validated_error_response pj activated_extensions json_rpc_code message id_value error http_status =
     WithActivatedExtensions activated_extensions
       (JsonRpc_BuildErrorResponse pj json_rpc_code message id_value error http_status)"

text \<open>An error of the answer, tagged with the transport.\<close>

definition json_rpc_failure :: "'card ProtoJson \<Rightarrow> string list \<Rightarrow> Value \<Rightarrow> Error \<Rightarrow> 'w ServerResponse" where
  "json_rpc_failure pj activated_extensions id_value e =
     (let error = WithTransport ''jsonrpc'' e
      in build_validated_error_response pj activated_extensions (JsonRpcCodeFromError error) (error_message error) id_value
           (Some error) (JsonRpc_HttpStatusFromError error))"

definition json_rpc_stream_answer ::
  "'card ProtoJson \<Rightarrow> string list \<Rightarrow> Value \<Rightarrow> 'w StreamObject option \<Rightarrow> 'w \<Rightarrow> 'w ServerResponse" where
  "json_rpc_stream_answer pj activated_extensions id_value session w =
     (case BuildSseResponse id_value session w of
        Inl e \<Rightarrow> json_rpc_failure pj activated_extensions id_value e
      | Inr sse \<Rightarrow> WithActivatedExtensions activated_extensions sse)"

text \<open>What \<open>Handle\<close> does after the dispatch.\<close>

definition JsonRpc_answer ::
  "'card ProtoJson \<Rightarrow> 'card AgentCardClass \<Rightarrow> string list \<Rightarrow> string \<Rightarrow> Value \<Rightarrow> DispatcherOperation \<Rightarrow>
   'w \<Rightarrow> ('w, 'card) DispatchResponse Result \<Rightarrow> 'w ServerResponse option" where
  "JsonRpc_answer pj cls activated_extensions method_name id_value operation w dispatch =
     (case dispatch of
        Inl e \<Rightarrow> Some (build_validated_error_response pj activated_extensions (JsonRpcCodeFromError e) (error_message e)
          id_value (Some (WithTransport ''jsonrpc'' e)) (JsonRpc_HttpStatusFromError e))
      | Inr response \<Rightarrow>
          if IsSendStreamingMessageMethod method_name then
            Some (case response of
                Resp_Stream session \<Rightarrow> json_rpc_stream_answer pj activated_extensions id_value session w
              | _ \<Rightarrow> json_rpc_failure pj activated_extensions id_value (JsonRpcPayloadMismatch ''streaming''))
          else if IsSubscribeToTaskMethod method_name then
            Some (case response of
                Resp_Stream (Some session) \<Rightarrow> json_rpc_stream_answer pj activated_extensions id_value (Some session) w
              | _ \<Rightarrow> json_rpc_failure pj activated_extensions id_value (JsonRpcPayloadMismatch ''subscribe''))
          else if operation = kListTasks then
            map_option (\<lambda>r. case r of Inl e \<Rightarrow> json_rpc_failure pj activated_extensions id_value e | Inr resp \<Rightarrow> resp)
              (BuildListTasksSuccessResponse pj response id_value activated_extensions)
          else
            map_option (\<lambda>r. case r of
                Inl e \<Rightarrow> json_rpc_failure pj activated_extensions id_value e
              | Inr result \<Rightarrow> JsonRpc_BuildSuccessResponse pj id_value result activated_extensions)
              (JsonRpc_SerializeDispatchResult pj cls operation response))"

text \<open>\<open>Handle\<close> from the parsed envelope on.\<close>

definition JsonRpc_HandleEnvelope ::
  "SimdJson \<Rightarrow> 'card ProtoJson \<Rightarrow> 'card AgentCardClass \<Rightarrow> JsonRpcServerTransportOptions \<Rightarrow> ('w, 'card) Dispatcher \<Rightarrow>
   HttpServerRequest \<Rightarrow> JsonRpcEnvelope \<Rightarrow> ('w, 'w ServerResponse) step" where
  "JsonRpc_HandleEnvelope sj pj cls options dispatcher request envelope w =
     (case VersionHeaderValidator_Validate (rpc_require_version_header options) (req_headers request) of
        Inl e \<Rightarrow> let error = WithTransport ''jsonrpc'' e in
          Some (w, Inr (JsonRpc_BuildErrorResponse pj (JsonRpcCodeFromError error) (error_message error) (env_id envelope)
            (Some error) 200))
      | Inr _ \<Rightarrow>
        (case RequiredExtensionsValidator_Validate (rpc_required_extensions options) (req_headers request) of
           Inl e \<Rightarrow> let error = WithTransport ''jsonrpc'' e in
             Some (w, Inr (JsonRpc_BuildErrorResponse pj (JsonRpcCodeFromError error) (error_message error)
               (env_id envelope) (Some error) 200))
         | Inr extensions \<Rightarrow>
             do { parsed \<leftarrow> BuildDispatchRequestFromMethod sj pj (env_method envelope) (env_params envelope);
                  case parsed of
                    Inl e \<Rightarrow> Some (w, Inr (build_validated_error_response pj extensions
                      (ParseErrorCodeForRequestParsing e) (error_message e) (env_id envelope) (Some e) 200))
                  | Inr dispatch_request \<Rightarrow>
                      do { ((w, context), dispatch) \<leftarrow> Dispatch dispatcher dispatch_request (w, http_request_context request);
                           response \<leftarrow> JsonRpc_answer pj cls extensions (env_method envelope) (env_id envelope)
                             (req_operation dispatch_request) w dispatch;
                           Some (w, Inr response) } }))"

definition JsonRpcServerTransport_Handle ::
  "SimdJson \<Rightarrow> 'card ProtoJson \<Rightarrow> 'card AgentCardClass \<Rightarrow> ('w, 'card) JsonRpcServerTransport \<Rightarrow>
   HttpServerRequest \<Rightarrow> ('w, 'w ServerResponse) step" where
  "JsonRpcServerTransport_Handle sj pj cls t request w =
     (case jrt_dispatcher t of
        None \<Rightarrow> Some (w, Inl (Internal ''JSON-RPC server dispatcher is not configured''))
      | Some dispatcher \<Rightarrow>
          if req_method request \<noteq> kMethodPost \<or> JsonRpc_NormalizePath (req_target request) \<noteq> rpc_path (jrt_options t)
          then Some (w, Inr (JsonRpc_BuildErrorResponse pj (-32600) ''No matching JSON-RPC route'' NullValue None 200))
          else if \<not> HasJsonContentType request then
            let error = WithTransport ''jsonrpc'' (ContentTypeNotSupported ''content type is not supported'') in
            Some (w, Inr (JsonRpc_BuildErrorResponse pj (JsonRpcCodeFromError error) (error_message error) NullValue
              (Some error) 200))
          else do {
            envelope \<leftarrow> ParseJsonRpcEnvelope sj (req_body request);
            case envelope of
              Inl e \<Rightarrow> Some (w, Inr (JsonRpc_BuildErrorResponse pj (ParseErrorCodeForRequestParsing e) (error_message e)
                NullValue (Some e) 200))
            | Inr envelope \<Rightarrow> JsonRpc_HandleEnvelope sj pj cls (jrt_options t) dispatcher request envelope w })"

section \<open>The stream writers of a response\<close>

fun run_stream_writer ::
  "'card ProtoJson \<Rightarrow> 'w StreamWriter \<Rightarrow> 't HttpByteTransport \<Rightarrow> 'w \<Rightarrow> 't \<Rightarrow>
   (('w \<times> 'w StreamObject) \<times> 't \<times> unit Result) option" where
  "run_stream_writer pj (RestStreamingWriter obj) transport w t =
     StreamingResponse_writer (json_StreamResponse pj) (json_Struct pj) (object_session obj) transport (w, obj) t"
| "run_stream_writer pj (RestSubscribeWriter obj) transport w t =
     SubscribeResponse_writer (json_StreamResponse pj) (object_session obj) transport (w, obj) t"
| "run_stream_writer pj (JsonRpcStreamingWriter id_value obj) transport w t =
     StreamFiniteJsonRpcSseEvents (json_StreamResponse pj) (json_Value pj) (\<lambda>e. BuildJsonRpcErrorEnvelope pj (JsonRpcCodeFromError e) (error_message e) id_value (Some e)) id_value
       (object_session obj) transport (w, obj) t"
| "run_stream_writer pj (JsonRpcSubscribeWriter id_value obj) transport w t =
     StreamJsonRpcSseEvents (json_StreamResponse pj) (json_Value pj) id_value (object_session obj) transport (w, obj) t"

end
