(* ===== verification/Transport_Mux.thy ===== *)
theory Transport_Mux
  imports Json_Rpc_Server "HOL-Library.Multiset"
begin

text \<open>
  The transport multiplexer (\<open>src/server/transport/transport_mux.cpp\<close>) and the endpoint texts of
  \<open>src/server/network_utils.cpp\<close>. A route is a matcher over method and normalised path, a handler over the shared state,
  and a priority. The default handler for a miss reads the miss that was recorded last.
\<close>

section \<open>Routes\<close>

datatype PathNormalizationPolicy = Policy_kNone | Policy_kTrimTrailingSlash | Policy_kRootToDefaultPath

datatype RouteMiss_Reason = kNoRoute | kMethodNotAllowed

record RouteMiss =
  miss_method :: string
  miss_normalized_path :: string
  miss_reason :: RouteMiss_Reason

type_synonym 'w Handler = "HttpServerRequest \<Rightarrow> ('w, 'w ServerResponse) step"

record 'w Route =
  route_name :: string
  route_matcher :: "string \<Rightarrow> string \<Rightarrow> bool"
  route_handler :: "'w Handler"
  route_priority :: int

record JsonRpcRouteOptions =
  jro_route_name :: string
  jro_rpc_path :: string
  jro_method :: string
  jro_priority :: int

definition default_JsonRpcRouteOptions :: JsonRpcRouteOptions where
  "default_JsonRpcRouteOptions =
     \<lparr>jro_route_name = ''jsonrpc'', jro_rpc_path = ''/rpc'', jro_method = kMethodPost, jro_priority = 100\<rparr>"

record RestRouteOptions =
  rro_route_name :: string
  rro_rest_api_prefix :: string
  rro_well_known_prefix :: string
  rro_priority :: int

definition default_RestRouteOptions :: RestRouteOptions where
  "default_RestRouteOptions =
     \<lparr>rro_route_name = ''rest'', rro_rest_api_prefix = ''/a2a'', rro_well_known_prefix = ''/.well-known/'',
      rro_priority = 10\<rparr>"

record TransportMux_Options =
  normalization_policy :: PathNormalizationPolicy
  default_path :: string

definition default_TransportMux_Options :: TransportMux_Options where
  "default_TransportMux_Options = \<lparr>normalization_policy = Policy_kTrimTrailingSlash, default_path = []\<rparr>"

text \<open>\<open>mux_not_found\<close> is \<open>None\<close> for the handler that the constructor installs.\<close>

record 'w TransportMux =
  mux_options :: TransportMux_Options
  mux_routes :: "'w Route list"
  mux_not_found :: "'w Handler option"
  mux_last_route_miss :: RouteMiss

definition TransportMux_new :: "TransportMux_Options \<Rightarrow> 'w TransportMux" where
  "TransportMux_new options = \<lparr>mux_options = options, mux_routes = [], mux_not_found = None,
     mux_last_route_miss = \<lparr>miss_method = [], miss_normalized_path = [], miss_reason = kNoRoute\<rparr>\<rparr>"

definition RegisterRoute :: "'w Route \<Rightarrow> 'w TransportMux \<Rightarrow> 'w TransportMux" where
  "RegisterRoute route mux =
     mux\<lparr>mux_routes := sort_key (\<lambda>r. - route_priority r) (mux_routes mux @ [route])\<rparr>"

definition SetNotFoundHandler :: "'w Handler \<Rightarrow> 'w TransportMux \<Rightarrow> 'w TransportMux" where
  "SetNotFoundHandler handler mux = mux\<lparr>mux_not_found := Some handler\<rparr>"

definition json_rpc_route ::
  "SimdJson \<Rightarrow> 'card ProtoJson \<Rightarrow> 'card AgentCardClass \<Rightarrow> ('w, 'card) JsonRpcServerTransport \<Rightarrow> JsonRpcRouteOptions \<Rightarrow>
   'w Route" where
  "json_rpc_route sj pj cls transport options =
     \<lparr>route_name = jro_route_name options,
      route_matcher = (\<lambda>request_method path. request_method = jro_method options \<and> path = jro_rpc_path options),
      route_handler = JsonRpcServerTransport_Handle sj pj cls transport,
      route_priority = jro_priority options\<rparr>"

definition RegisterJsonRpcRoute ::
  "SimdJson \<Rightarrow> 'card ProtoJson \<Rightarrow> 'card AgentCardClass \<Rightarrow> ('w, 'card) JsonRpcServerTransport \<Rightarrow> JsonRpcRouteOptions \<Rightarrow>
   'w TransportMux \<Rightarrow> 'w TransportMux" where
  "RegisterJsonRpcRoute sj pj cls transport options = RegisterRoute (json_rpc_route sj pj cls transport options)"

definition IsTenantExtendedAgentCardPath :: "string \<Rightarrow> bool" where
  "IsTenantExtendedAgentCardPath path =
     (if \<not> prefix ''/'' path \<or> \<not> suffix kExtendedAgentCardPath path then False
      else let tenant_end = length path - length kExtendedAgentCardPath in
        if tenant_end \<le> 1 \<or> path ! tenant_end \<noteq> CHR ''/'' then False
        else let tenant = substr 1 (tenant_end - 1) path in tenant \<noteq> [] \<and> \<not> has_slash tenant)"

definition rest_route ::
  "'card ProtoJson \<Rightarrow> 'card AgentCardClass \<Rightarrow> ('w, 'card) RestServerTransport \<Rightarrow> RestRouteOptions \<Rightarrow> 'w Route" where
  "rest_route pj cls transport options =
     \<lparr>route_name = rro_route_name options,
      route_matcher = (\<lambda>request_method path.
        path = kExtendedAgentCardPath \<or> IsTenantExtendedAgentCardPath path \<or>
        prefix (rro_rest_api_prefix options) path \<or> prefix (rro_well_known_prefix options) path),
      route_handler = RestServerTransport_Handle pj cls transport,
      route_priority = rro_priority options\<rparr>"

definition RegisterRestRoute ::
  "'card ProtoJson \<Rightarrow> 'card AgentCardClass \<Rightarrow> ('w, 'card) RestServerTransport \<Rightarrow> RestRouteOptions \<Rightarrow>
   'w TransportMux \<Rightarrow> 'w TransportMux" where
  "RegisterRestRoute pj cls transport options = RegisterRoute (rest_route pj cls transport options)"

section \<open>Routing\<close>

definition Mux_NormalizePath :: "TransportMux_Options \<Rightarrow> string \<Rightarrow> string" where
  "Mux_NormalizePath options path =
     (let normalized = (case index_of (\<lambda>c. c = CHR ''?'') path of None \<Rightarrow> path | Some q \<Rightarrow> take q path);
          normalized = (if normalized = [] then ''/'' else normalized);
          normalized = (if hd normalized \<noteq> CHR ''/'' then CHR ''/'' # normalized else normalized);
          normalized = (if normalization_policy options = Policy_kTrimTrailingSlash \<or>
                           normalization_policy options = Policy_kRootToDefaultPath
                        then hd normalized # rev (dropWhile (\<lambda>c. c = CHR ''/'') (rev (tl normalized))) else normalized)
      in if normalization_policy options = Policy_kRootToDefaultPath \<and> normalized = ''/'' \<and> default_path options \<noteq> []
         then default_path options else normalized)"

definition NormalizeTargetForHandler :: "TransportMux_Options \<Rightarrow> string \<Rightarrow> string" where
  "NormalizeTargetForHandler options target =
     (case index_of (\<lambda>c. c = CHR ''?'') target of
        None \<Rightarrow> Mux_NormalizePath options target
      | Some query_start \<Rightarrow> Mux_NormalizePath options target @ drop query_start target)"

definition quoted_member :: "string \<Rightarrow> string" where
  "quoted_member name = [CHR 0x22] @ '','' @ [CHR 0x22] @ name @ [CHR 0x22] @ '':'' @ [CHR 0x22]"

definition BuildDefaultNotFound :: "RouteMiss \<Rightarrow> 'w ServerResponse" where
  "BuildDefaultNotFound miss =
     (let method_not_allowed = (miss_reason miss = kMethodNotAllowed);
          message = (if method_not_allowed then ''No route matched HTTP method for normalized path''
                     else ''No route matched normalized path'');
          code = (if method_not_allowed then ''ROUTE_METHOD_NOT_ALLOWED'' else ''ROUTE_NOT_FOUND'')
      in default_HttpServerResponse\<lparr>
           resp_status_code := (if method_not_allowed then 405 else 404),
           resp_headers := [(kContentTypeHeaderName, kContentTypeApplicationJson)],
           resp_body := ''{'' @ [CHR 0x22] @ ''error'' @ [CHR 0x22] @ '':'' @ [CHR 0x22] @ message @ quoted_member ''code'' @ code @
             quoted_member ''path'' @ miss_normalized_path miss @ quoted_member ''method'' @ miss_method miss @
             [CHR 0x22] @ ''}''\<rparr>)"

text \<open>The loop over the routes: the first match, and whether a route that was passed over matches the method \<open>*\<close>.\<close>

fun route_loop :: "'w Route list \<Rightarrow> string \<Rightarrow> string \<Rightarrow> bool \<Rightarrow> 'w Route option \<times> bool" where
  "route_loop [] request_method path path_matched = (None, path_matched)"
| "route_loop (route # routes) request_method path path_matched =
     (if route_matcher route request_method path then (Some route, path_matched)
      else route_loop routes request_method path (path_matched \<or> route_matcher route ''*'' path))"

definition RouteRequest :: "HttpServerRequest \<Rightarrow> ('w TransportMux \<times> 'w, 'w ServerResponse) step" where
  "RouteRequest request s =
     (let (mux, w) = s; normalized_path = Mux_NormalizePath (mux_options mux) (req_target request) in
      case route_loop (mux_routes mux) (req_method request) normalized_path False of
        (Some route, _) \<Rightarrow>
          map_option (\<lambda>(w, r). ((mux, w), r))
            (route_handler route (request\<lparr>req_target := NormalizeTargetForHandler (mux_options mux) (req_target request)\<rparr>) w)
      | (None, path_matched) \<Rightarrow>
          let miss = \<lparr>miss_method = req_method request, miss_normalized_path = normalized_path,
                miss_reason = (if path_matched then kMethodNotAllowed else kNoRoute)\<rparr>;
              mux = mux\<lparr>mux_last_route_miss := miss\<rparr>
          in (case mux_not_found mux of
                None \<Rightarrow> Some ((mux, w), Inr (BuildDefaultNotFound (mux_last_route_miss mux)))
              | Some handler \<Rightarrow> map_option (\<lambda>(w, r). ((mux, w), r)) (handler request w)))"

section \<open>Endpoint texts\<close>

record HostPortEndpoint =
  hpe_host :: string
  hpe_port :: int

definition BuildHttpUrl :: "string \<Rightarrow> int \<Rightarrow> string \<Rightarrow> string" where
  "BuildHttpUrl host port path = ''http://'' @ host @ '':'' @ to_string_int port @ path"

definition ParseHostPortEndpoint :: "string \<Rightarrow> int \<Rightarrow> HostPortEndpoint Result" where
  "ParseHostPortEndpoint endpoint max_port =
     (if max_port < 1 \<or> max_port > 65535 then Inl (Validation ''max_port must be between 1 and 65535'')
      else
        let invalid_format = Inl (Validation (''Invalid endpoint format: '' @ [CHR 0x27] @ endpoint @ [CHR 0x27] @
              ''. Expected <host>:<port>.''));
            invalid_port = Inl (Validation (''Invalid port in endpoint '' @ [CHR 0x27] @ endpoint @ [CHR 0x27] @
              '': port must be between 1 and '' @ to_string_int max_port @ ''.''))
        in case last_index_of (\<lambda>c. c = CHR '':'') endpoint of
             None \<Rightarrow> invalid_format
           | Some pos \<Rightarrow>
               if pos = 0 \<or> pos + 1 \<ge> length endpoint then invalid_format
               else case from_chars_signed INT32_MIN INT32_MAX (drop (pos + 1) endpoint) of
                   Inl _ \<Rightarrow> invalid_port
                 | Inr (parsed_port, rest) \<Rightarrow>
                     if rest \<noteq> [] \<or> parsed_port < 1 \<or> parsed_port > max_port then invalid_port
                     else Inr \<lparr>hpe_host = take pos endpoint, hpe_port = parsed_port\<rparr>)"

section \<open>The first match\<close>

definition register_all :: "'w Route list \<Rightarrow> 'w TransportMux \<Rightarrow> 'w TransportMux" where
  "register_all routes mux = foldl (\<lambda>mux route. RegisterRoute route mux) mux routes"

text \<open>The registered routes that match, restricted to the highest priority among them, in the order of registration.\<close>

definition best_routes :: "'w Route list \<Rightarrow> string \<Rightarrow> string \<Rightarrow> 'w Route list" where
  "best_routes routes request_method path =
     (let matching = filter (\<lambda>r. route_matcher r request_method path) routes
      in filter (\<lambda>r. \<forall>r'\<in>set matching. route_priority r' \<le> route_priority r) matching)"

lemma sort_key_snoc: "sort_key f (sort_key f xs @ [x]) = sort_key f (xs @ [x])"
proof (rule properties_for_sort_key)
  show "mset (sort_key f (xs @ [x])) = mset (sort_key f xs @ [x])" by simp
  show "sorted (map f (sort_key f (xs @ [x])))" by (rule sorted_sort_key)
  fix k
  have "filter (\<lambda>y. f y = f k) (sort_key f (xs @ [x])) = filter (\<lambda>y. f y = f k) (sort_key f xs @ [x])"
    by (simp add: sort_key_stable)
  then show "filter (\<lambda>y. f k = f y) (sort_key f (xs @ [x])) = filter (\<lambda>y. f k = f y) (sort_key f xs @ [x])"
    by (simp add: eq_commute)
qed

lemma register_all_new:
  "register_all routes (TransportMux_new options) =
     (TransportMux_new options)\<lparr>mux_routes := sort_key (\<lambda>r. - route_priority r) routes\<rparr>"
  by (induction routes rule: rev_induct)
    (simp_all add: register_all_def TransportMux_new_def RegisterRoute_def sort_key_snoc)

lemma route_loop_find: "fst (route_loop rs m p b) = find (\<lambda>r. route_matcher r m p) rs"
  by (induction rs arbitrary: b) auto

lemma find_sorted_best:
  assumes "sorted (map f ys)" "find P ys = Some r"
  shows "P r" and "r \<in> set ys" and "\<forall>y\<in>set ys. P y \<longrightarrow> f r \<le> f y"
    and "\<exists>rest. filter P (filter (\<lambda>y. f y = f r) ys) = r # rest"
  using assms by (induction ys) (auto split: if_splits)

lemma find_sort_key:
  fixes prio :: "'a \<Rightarrow> int" and P :: "'a \<Rightarrow> bool"
  defines "best \<equiv> \<lambda>xs. filter (\<lambda>r. \<forall>r'\<in>set (filter P xs). prio r' \<le> prio r) (filter P xs)"
  shows "find P (sort_key (\<lambda>r. - prio r) xs) = (case best xs of [] \<Rightarrow> None | r # _ \<Rightarrow> Some r)"
proof (cases "find P (sort_key (\<lambda>r. - prio r) xs)")
  case None
  then have "filter P xs = []" by (auto simp: find_None_iff filter_empty_conv)
  then have "best xs = []" by (simp only: best_def filter.simps)
  with None show ?thesis by simp
next
  case (Some r)
  note best = find_sorted_best[OF sorted_sort_key Some]
  have "best xs = filter P (filter (\<lambda>y. - prio y = - prio r) xs)"
    unfolding best_def filter_filter using best(1-3) by (intro filter_cong) (force intro: antisym)+
  also have "\<dots> = filter P (filter (\<lambda>y. - prio y = - prio r) (sort_key (\<lambda>r. - prio r) xs))"
    by (simp only: sort_key_stable)
  finally show ?thesis using best(4) Some by auto
qed

text \<open>C35: The multiplexer hands a request to the route of the highest priority among those that match, the one registered
  first among equals, whatever the order of registration; without a match it answers with the recorded miss.\<close>

theorem RouteRequest_first_match:
  "RouteRequest request (register_all routes (TransportMux_new options), w) =
     (let mux = register_all routes (TransportMux_new options);
          path = Mux_NormalizePath options (req_target request);
          miss = \<lparr>miss_method = req_method request, miss_normalized_path = path,
            miss_reason = (if list_ex (\<lambda>r. route_matcher r ''*'' path) routes then kMethodNotAllowed else kNoRoute)\<rparr> in
      case best_routes routes (req_method request) path of
        route # _ \<Rightarrow> map_option (\<lambda>(w, r). ((mux, w), r))
          (route_handler route (request\<lparr>req_target := NormalizeTargetForHandler options (req_target request)\<rparr>) w)
      | [] \<Rightarrow> Some ((mux\<lparr>mux_last_route_miss := miss\<rparr>, w), Inr (BuildDefaultNotFound miss)))"
proof -
  define m p where "m = req_method request" and "p = Mux_NormalizePath options (req_target request)"
  define mux :: "'a TransportMux" where "mux = register_all routes (TransportMux_new options)"
  have mux: "mux_options mux = options" "mux_not_found mux = None"
    "mux_routes mux = sort_key (\<lambda>r. - route_priority r) routes"
    unfolding mux_def register_all_new by (simp_all add: TransportMux_new_def)
  have loop: "fst (route_loop (mux_routes mux) m p False) =
      (case best_routes routes m p of [] \<Rightarrow> None | r # _ \<Rightarrow> Some r)"
    by (simp add: route_loop_find mux find_sort_key best_routes_def Let_def)
  have miss: "fst (route_loop rs m p b) = None \<Longrightarrow>
      snd (route_loop rs m p b) \<longleftrightarrow> b \<or> list_ex (\<lambda>r. route_matcher r ''*'' p) rs" for rs :: "'a Route list" and b
    by (induction rs arbitrary: b) (auto split: if_splits)
  show ?thesis
  proof (cases "best_routes routes m p")
    case Nil
    with loop have "fst (route_loop (mux_routes mux) m p False) = None" by simp
    moreover from miss[OF this] have "snd (route_loop (mux_routes mux) m p False) \<longleftrightarrow>
        list_ex (\<lambda>r. route_matcher r ''*'' p) routes" by (simp add: mux list_ex_iff)
    ultimately have "route_loop (mux_routes mux) m p False = (None, list_ex (\<lambda>r. route_matcher r ''*'' p) routes)"
      by (simp add: prod_eq_iff)
    with Nil show ?thesis
      unfolding mux_def[symmetric] by (simp add: RouteRequest_def Let_def mux m_def[symmetric] p_def[symmetric])
  next
    case (Cons r rest)
    with loop obtain b where "route_loop (mux_routes mux) m p False = (Some r, b)"
      by (cases "route_loop (mux_routes mux) m p False") auto
    with Cons show ?thesis
      unfolding mux_def[symmetric] by (simp add: RouteRequest_def Let_def mux m_def[symmetric] p_def[symmetric])
  qed
qed

text \<open>Neither built-in route ever yields a miss by method: the JSON-RPC matcher does not match the method \<open>*\<close>, and the
  REST matcher ignores the method. A miss of a multiplexer with these routes is answered with status 404.\<close>

theorem builtin_miss_is_404:
  assumes "jro_method jopts \<noteq> ''*''"
    and "routes = [json_rpc_route sj pj cls jt jopts, rest_route pj cls rt ropts]"
    and "best_routes routes (req_method request) (Mux_NormalizePath options (req_target request)) = []"
  shows "\<exists>mux r. RouteRequest request (register_all routes (TransportMux_new options), w) = Some ((mux, w), Inr r) \<and>
     resp_status_code r = 404"
proof -
  have "\<not> list_ex (\<lambda>r. route_matcher r ''*'' (Mux_NormalizePath options (req_target request))) routes"
    using assms by (auto simp: json_rpc_route_def rest_route_def best_routes_def Let_def split: if_splits)
  with assms(3) show ?thesis
    unfolding RouteRequest_first_match Let_def by (simp add: BuildDefaultNotFound_def Let_def)
qed

end
