(* ===== verification/Push_Store.thy ===== *)
theory Push_Store
  imports Task_Store_Spec
begin

text \<open>
  The store of push notification configurations (\<open>include/a2a/server/push_notification_store.h\<close>,
  \<open>src/server/push_notifications/push_notification_store.cpp\<close>): the interface as a record of operations, the contract that
  its clients rely on as a locale over the configurations of each task in the order of their creation, and the in-memory
  implementation with its index from configuration ids to positions.
\<close>

section \<open>The interface\<close>

record 's TaskAwarePushNotificationStore =
  ta_CreateOrUpdateForTask :: "TaskPushNotificationConfig \<Rightarrow> 's TaskStore \<Rightarrow> ('s, TaskPushNotificationConfig) step"
  ta_ListForTask ::
    "string \<Rightarrow> int \<Rightarrow> string \<Rightarrow> 's TaskStore \<Rightarrow> 's \<Rightarrow> ListTaskPushNotificationConfigsResponse Result option"

text \<open>\<open>pns_task_aware\<close> is what the \<open>dynamic_cast\<close> of the store to the optional capability yields.\<close>

record 's PushNotificationStore =
  pns_CreateOrUpdate :: "TaskPushNotificationConfig \<Rightarrow> ('s, TaskPushNotificationConfig) step"
  pns_Get :: "string \<Rightarrow> string \<Rightarrow> 's \<Rightarrow> TaskPushNotificationConfig Result option"
  pns_List :: "string \<Rightarrow> int \<Rightarrow> string \<Rightarrow> 's \<Rightarrow> ListTaskPushNotificationConfigsResponse Result option"
  pns_ListForExistingTask :: "string \<Rightarrow> int \<Rightarrow> string \<Rightarrow> 's \<Rightarrow> ListTaskPushNotificationConfigsResponse Result option"
  pns_Delete :: "string \<Rightarrow> string \<Rightarrow> ('s, unit) step"
  pns_task_aware :: "'s TaskAwarePushNotificationStore option"

section \<open>Validation\<close>

definition ValidateConfig :: "TaskPushNotificationConfig \<Rightarrow> unit Result" where
  "ValidateConfig config =
     (if Push_task_id config = [] then Inl (Validation ''push notification task_id is required'')
      else if Push_id config = [] then Inl (Validation ''push notification id is required'')
      else if Push_url config = [] then Inl (Validation ''push notification url is required'')
      else Inr ())"

definition ValidateLookup :: "string \<Rightarrow> string \<Rightarrow> unit Result" where
  "ValidateLookup task_id config_id =
     (if task_id = [] then Inl (Validation ''push notification task_id is required'')
      else if config_id = [] then Inl (Validation ''push notification id is required'')
      else Inr ())"

definition Push_ParsePageToken :: "string \<Rightarrow> nat Result" where
  "Push_ParsePageToken page_token =
     (if page_token = [] then Inr 0
      else case from_chars_unsigned SIZE_MAX page_token of
          Inr (parsed, []) \<Rightarrow> Inr parsed
        | _ \<Rightarrow> Inl (Validation ''ListTaskPushNotificationConfigsRequest.page_token must be a non-negative integer''))"

definition ValidateListRequest :: "string \<Rightarrow> int \<Rightarrow> unit Result" where
  "ValidateListRequest task_id page_size =
     (if task_id = [] then Inl (Validation ''push notification task_id is required'')
      else if page_size < 0
      then Inl (Validation ''ListTaskPushNotificationConfigsRequest.page_size must be non-negative'')
      else Inr ())"

section \<open>The in-memory store\<close>

record TaskConfigs =
  tc_configs :: "TaskPushNotificationConfig list"
  tc_config_indices :: "(string \<times> nat) list"

type_synonym InMemoryPushNotificationStore = "(string \<times> TaskConfigs) list"

definition empty_TaskConfigs :: TaskConfigs where
  "empty_TaskConfigs = \<lparr>tc_configs = [], tc_config_indices = []\<rparr>"

text \<open>Access past the end of the repeated field is undefined: the outcome \<open>None\<close>.\<close>

definition InMemoryPush_CreateOrUpdate ::
  "TaskPushNotificationConfig \<Rightarrow> (InMemoryPushNotificationStore, TaskPushNotificationConfig) step" where
  "InMemoryPush_CreateOrUpdate config s =
     (case ValidateConfig config of
        Inl e \<Rightarrow> Some (s, Inl e)
      | Inr _ \<Rightarrow>
          let task_configs = (case map_of s (Push_task_id config) of None \<Rightarrow> empty_TaskConfigs | Some tc \<Rightarrow> tc) in
          case map_of (tc_config_indices task_configs) (Push_id config) of
            Some config_index \<Rightarrow>
              if config_index < length (tc_configs task_configs)
              then Some (AList.update (Push_task_id config)
                (task_configs\<lparr>tc_configs := (tc_configs task_configs)[config_index := config]\<rparr>) s, Inr config)
              else None
          | None \<Rightarrow>
              Some (AList.update (Push_task_id config)
                \<lparr>tc_configs = tc_configs task_configs @ [config],
                 tc_config_indices = AList.update (Push_id config) (length (tc_configs task_configs))
                   (tc_config_indices task_configs)\<rparr> s, Inr config))"

definition InMemoryPush_Get :: "string \<Rightarrow> string \<Rightarrow> InMemoryPushNotificationStore \<Rightarrow> TaskPushNotificationConfig Result option" where
  "InMemoryPush_Get task_id config_id s =
     (case ValidateLookup task_id config_id of
        Inl e \<Rightarrow> Some (Inl e)
      | Inr _ \<Rightarrow>
          (case map_of s task_id of
             None \<Rightarrow> Some (Inl (TaskNotFound ''push notification task config not found''))
           | Some tc \<Rightarrow>
               (case map_of (tc_config_indices tc) config_id of
                  None \<Rightarrow> Some (Inl (Validation ''push notification config not found''))
                | Some i \<Rightarrow> if i < length (tc_configs tc) then Some (Inr (tc_configs tc ! i)) else None)))"

text \<open>The page of a list of configurations; copying all of them at once is the loop's result too.\<close>

definition config_page ::
  "TaskPushNotificationConfig list \<Rightarrow> int \<Rightarrow> nat \<Rightarrow> ListTaskPushNotificationConfigsResponse Result" where
  "config_page source_configs page_size start =
     (if start > length source_configs
      then Inl (Validation ''ListTaskPushNotificationConfigsRequest.page_token exceeds available config count'')
      else let remaining = length source_configs - start;
               effective_page_size = (if page_size = 0 then remaining else nat page_size);
               result_size = min effective_page_size remaining
           in Inr \<lparr>LPResp_configs = (if start = 0 \<and> result_size = length source_configs then source_configs
                                     else map (\<lambda>index. source_configs ! index) [start..<start + result_size]),
                   LPResp_next_page_token = (if result_size < remaining then to_string_nat (start + result_size) else [])\<rparr>)"

definition InMemoryPush_List ::
  "string \<Rightarrow> int \<Rightarrow> string \<Rightarrow> InMemoryPushNotificationStore \<Rightarrow> ListTaskPushNotificationConfigsResponse Result option" where
  "InMemoryPush_List task_id page_size page_token s =
     Some (result_bind (ValidateListRequest task_id page_size) (\<lambda>_.
       result_bind (Push_ParsePageToken page_token) (\<lambda>start.
         case map_of s task_id of
           None \<Rightarrow> Inr \<lparr>LPResp_configs = [], LPResp_next_page_token = []\<rparr>
         | Some tc \<Rightarrow> config_page (tc_configs tc) page_size start)))"

text \<open>The loop of \<open>Delete\<close>: the deleted element moves to the back, the others one position forward.\<close>

function shift_loop ::
  "nat \<Rightarrow> nat \<Rightarrow> TaskPushNotificationConfig list \<Rightarrow> (string \<times> nat) list \<Rightarrow>
   TaskPushNotificationConfig list \<times> (string \<times> nat) list" where
  "shift_loop index last_index configs indices =
     (if index < last_index
      then let configs = configs[index := configs ! Suc index, Suc index := configs ! index]
           in shift_loop (Suc index) last_index configs (AList.update (Push_id (configs ! index)) index indices)
      else (configs, indices))"
  by pat_completeness auto
termination
  by (relation "measure (\<lambda>(i, l, _). l - i)") auto

declare shift_loop.simps [simp del]

definition InMemoryPush_Delete :: "string \<Rightarrow> string \<Rightarrow> (InMemoryPushNotificationStore, unit) step" where
  "InMemoryPush_Delete task_id config_id s =
     (case ValidateLookup task_id config_id of
        Inl e \<Rightarrow> Some (s, Inl e)
      | Inr _ \<Rightarrow>
          (case map_of s task_id of
             None \<Rightarrow> Some (s, Inr ())
           | Some tc \<Rightarrow>
               (case map_of (tc_config_indices tc) config_id of
                  None \<Rightarrow> Some (s, Inr ())
                | Some config_index \<Rightarrow>
                    if tc_configs tc = [] then None
                    else let (configs, indices) = shift_loop config_index (length (tc_configs tc) - 1) (tc_configs tc)
                               (tc_config_indices tc);
                             indices = AList.delete config_id indices
                         in Some (if indices = [] then AList.delete task_id s
                                  else AList.update task_id
                                    \<lparr>tc_configs = butlast configs, tc_config_indices = indices\<rparr> s, Inr ()))))"

definition in_memory_push_ops :: "InMemoryPushNotificationStore PushNotificationStore" where
  "in_memory_push_ops =
     \<lparr>pns_CreateOrUpdate = InMemoryPush_CreateOrUpdate, pns_Get = InMemoryPush_Get, pns_List = InMemoryPush_List,
      pns_ListForExistingTask = InMemoryPush_List, pns_Delete = InMemoryPush_Delete, pns_task_aware = None\<rparr>"

lemma in_memory_push_ops_sel:
  "pns_CreateOrUpdate in_memory_push_ops = InMemoryPush_CreateOrUpdate" "pns_Get in_memory_push_ops = InMemoryPush_Get"
  "pns_List in_memory_push_ops = InMemoryPush_List" "pns_Delete in_memory_push_ops = InMemoryPush_Delete"
  by (simp_all add: in_memory_push_ops_def)

section \<open>The contract\<close>

text \<open>The abstract store is a list of configurations per task, in the order of creation.\<close>

definition put_config :: "TaskPushNotificationConfig \<Rightarrow> TaskPushNotificationConfig list \<Rightarrow> TaskPushNotificationConfig list" where
  "put_config c cs =
     (if Push_id c \<in> Push_id ` set cs then map (\<lambda>d. if Push_id d = Push_id c then c else d) cs else cs @ [c])"

definition find_config :: "string \<Rightarrow> TaskPushNotificationConfig list \<Rightarrow> TaskPushNotificationConfig Result" where
  "find_config i cs =
     (if cs = [] then Inl (TaskNotFound ''push notification task config not found'')
      else case find (\<lambda>d. Push_id d = i) cs of
          None \<Rightarrow> Inl (Validation ''push notification config not found'')
        | Some c \<Rightarrow> Inr c)"

definition drop_config :: "string \<Rightarrow> TaskPushNotificationConfig list \<Rightarrow> TaskPushNotificationConfig list" where
  "drop_config i cs = filter (\<lambda>d. Push_id d \<noteq> i) cs"

text \<open>A task without configurations lists nothing for every page token that is a number.\<close>

definition list_configs ::
  "string \<Rightarrow> int \<Rightarrow> string \<Rightarrow> TaskPushNotificationConfig list \<Rightarrow> ListTaskPushNotificationConfigsResponse Result" where
  "list_configs task_id page_size page_token cs =
     result_bind (ValidateListRequest task_id page_size) (\<lambda>_.
       result_bind (Push_ParsePageToken page_token) (\<lambda>start.
         if cs = [] then Inr \<lparr>LPResp_configs = [], LPResp_next_page_token = []\<rparr>
         else if start > length cs
         then Inl (Validation ''ListTaskPushNotificationConfigsRequest.page_token exceeds available config count'')
         else let page = page_of (nat page_size) (drop start cs)
              in Inr \<lparr>LPResp_configs = page,
                      LPResp_next_page_token = (if length page < length (drop start cs)
                        then to_string_nat (start + length page) else [])\<rparr>))"

locale push_store =
  fixes ops :: "'s PushNotificationStore"
    and inv :: "'s \<Rightarrow> bool"
    and view :: "'s \<Rightarrow> string \<Rightarrow> TaskPushNotificationConfig list"
  assumes configs_wf: "inv s \<Longrightarrow> distinct (map Push_id (view s t)) \<and>
      (\<forall>c\<in>set (view s t). Push_task_id c = t \<and> ValidateConfig c = Inr ())"
    and create_refused: "inv s \<Longrightarrow> ValidateConfig c = Inl e \<Longrightarrow> pns_CreateOrUpdate ops c s = Some (s, Inl e)"
    and create_stores: "inv s \<Longrightarrow> ValidateConfig c = Inr () \<Longrightarrow>
      \<exists>s'. pns_CreateOrUpdate ops c s = Some (s', Inr c) \<and> inv s' \<and>
        view s' = (view s)(Push_task_id c := put_config c (view s (Push_task_id c)))"
    and get_finds: "inv s \<Longrightarrow> pns_Get ops t i s = Some (result_bind (ValidateLookup t i) (\<lambda>_. find_config i (view s t)))"
    and list_pages: "inv s \<Longrightarrow> pns_List ops t n token s = Some (list_configs t n token (view s t))"
    and list_existing: "pns_ListForExistingTask ops = pns_List ops"
    and delete_refused: "inv s \<Longrightarrow> ValidateLookup t i = Inl e \<Longrightarrow> pns_Delete ops t i s = Some (s, Inl e)"
    and delete_removes: "inv s \<Longrightarrow> ValidateLookup t i = Inr () \<Longrightarrow>
      \<exists>s'. pns_Delete ops t i s = Some (s', Inr ()) \<and> inv s' \<and> view s' = (view s)(t := drop_config i (view s t))"

text \<open>A client that follows the page tokens of a listing, at most \<open>fuel\<close> pages of it.\<close>

fun follow_pages ::
  "'s PushNotificationStore \<Rightarrow> string \<Rightarrow> int \<Rightarrow> 's \<Rightarrow> nat \<Rightarrow> string \<Rightarrow> TaskPushNotificationConfig list option" where
  "follow_pages ops t n s 0 token = None"
| "follow_pages ops t n s (Suc fuel) token =
     (case pns_List ops t n token s of
        Some (Inr page) \<Rightarrow>
          if LPResp_next_page_token page = [] then Some (LPResp_configs page)
          else map_option (\<lambda>rest. LPResp_configs page @ rest) (follow_pages ops t n s fuel (LPResp_next_page_token page))
      | _ \<Rightarrow> None)"

lemma Push_ParsePageToken_to_string: "n \<le> SIZE_MAX \<Longrightarrow> Push_ParsePageToken (to_string_nat n) = Inr n"
  by (simp add: Push_ParsePageToken_def from_chars_unsigned_to_string)

lemma find_put_config: "find (\<lambda>d. Push_id d = Push_id c) (put_config c cs) = Some c"
proof (cases "Push_id c \<in> Push_id ` set cs")
  case True
  then have "find (\<lambda>d. Push_id d = Push_id c) (map (\<lambda>d. if Push_id d = Push_id c then c else d) cs) = Some c"
    by (induction cs) auto
  with True show ?thesis by (simp add: put_config_def)
next
  case False
  then have "find (\<lambda>d. Push_id d = Push_id c) (cs @ [c]) = Some c" by (induction cs) auto
  with False show ?thesis by (simp add: put_config_def)
qed

lemma put_config_not_Nil [simp]: "put_config c cs \<noteq> []"
  by (auto simp: put_config_def)

context push_store
begin

lemma get_after_create:
  assumes "inv s" "ValidateConfig c = Inr ()"
  obtains s' where "pns_CreateOrUpdate ops c s = Some (s', Inr c)" "inv s'"
    "pns_Get ops (Push_task_id c) (Push_id c) s' = Some (Inr c)"
proof -
  from create_stores[OF assms] obtain s' where s': "pns_CreateOrUpdate ops c s = Some (s', Inr c)" "inv s'"
    "view s' = (view s)(Push_task_id c := put_config c (view s (Push_task_id c)))" by blast
  have "ValidateLookup (Push_task_id c) (Push_id c) = Inr ()"
    using assms(2) by (auto simp: ValidateConfig_def ValidateLookup_def split: if_splits)
  moreover have "find_config (Push_id c) (put_config c cs) = Inr c" for cs
    by (simp add: find_config_def find_put_config)
  ultimately show ?thesis using that[OF s'(1,2)] get_finds[OF s'(2)] s'(3) by simp
qed

lemma get_after_delete:
  assumes "inv s" "ValidateLookup t i = Inr ()"
  obtains s' where "pns_Delete ops t i s = Some (s', Inr ())" "inv s'" "view s' t = drop_config i (view s t)"
    "\<exists>e. pns_Get ops t i s' = Some (Inl e)"
proof -
  from delete_removes[OF assms] obtain s' where s': "pns_Delete ops t i s = Some (s', Inr ())" "inv s'"
    "view s' = (view s)(t := drop_config i (view s t))" by blast
  have "find (\<lambda>d. Push_id d = i) (drop_config i (view s t)) = None"
    by (simp add: find_None_iff drop_config_def)
  then have "\<exists>e. find_config i (view s' t) = Inl e" by (auto simp: find_config_def s'(3))
  with that[OF s'(1,2)] show ?thesis using get_finds[OF s'(2)] s'(3) assms(2) by auto
qed

lemma follow_pages_from:
  assumes "inv s" "t \<noteq> []" "0 < n" "length (view s t) \<le> SIZE_MAX"
  shows "start \<le> length (view s t) \<Longrightarrow> Push_ParsePageToken token = Inr start \<Longrightarrow>
    length (view s t) - start < fuel \<Longrightarrow> follow_pages ops t n s fuel token = Some (drop start (view s t))"
proof (induction fuel arbitrary: start token)
  case 0
  then show ?case by simp
next
  case (Suc fuel)
  define cs where "cs = view s t"
  define page where "page = take (nat n) (drop start cs)"
  have list: "pns_List ops t n token s = Some (Inr \<lparr>LPResp_configs = page, LPResp_next_page_token =
      (if length page < length (drop start cs) then to_string_nat (start + length page) else [])\<rparr>)"
    using Suc.prems assms(2,3)
    by (cases "cs = []")
      (auto simp: list_pages[OF assms(1)] list_configs_def ValidateListRequest_def result_bind_def page_of_def
        page_def cs_def Let_def)
  show ?case
  proof (cases "length page < length (drop start cs)")
    case True
    then have len: "length page = nat n" by (simp add: page_def)
    with True have next_start: "start + length page \<le> length cs" "0 < length page" using assms(3) by auto
    have "follow_pages ops t n s fuel (to_string_nat (start + length page)) = Some (drop (start + length page) cs)"
      unfolding cs_def
    proof (rule Suc.IH)
      show "start + length page \<le> length (view s t)" using next_start by (simp add: cs_def)
      then show "Push_ParsePageToken (to_string_nat (start + length page)) = Inr (start + length page)"
        using assms(4) by (intro Push_ParsePageToken_to_string) simp
      show "length (view s t) - (start + length page) < fuel"
        using next_start Suc.prems(3) unfolding cs_def by linarith
    qed
    moreover have "page @ drop (start + length page) cs = drop start cs"
      by (metis append_take_drop_id drop_drop add.commute len page_def)
    ultimately show ?thesis using True by (simp add: list cs_def)
  next
    case False
    then have "page = drop start cs" by (simp add: page_def)
    with False show ?thesis by (simp add: list cs_def)
  qed
qed

lemma follow_pages_complete:
  assumes "inv s" "t \<noteq> []" "0 < n" "length (view s t) \<le> SIZE_MAX" "length (view s t) < fuel"
  shows "follow_pages ops t n s fuel [] = Some (view s t)"
  using follow_pages_from[OF assms(1-4), of 0 "[]" fuel] assms(5) by (simp add: Push_ParsePageToken_def)

end

section \<open>The in-memory store keeps the contract\<close>

definition position :: "string \<Rightarrow> string list \<Rightarrow> nat option" where
  "position i ids = index_of (\<lambda>y. y = i) ids"

definition tc_wf :: "string \<Rightarrow> TaskConfigs \<Rightarrow> bool" where
  "tc_wf t tc \<longleftrightarrow>
     tc_configs tc \<noteq> [] \<and> distinct (map Push_id (tc_configs tc)) \<and>
     (\<forall>c\<in>set (tc_configs tc). Push_task_id c = t \<and> ValidateConfig c = Inr ()) \<and>
     (\<forall>i. map_of (tc_config_indices tc) i = position i (map Push_id (tc_configs tc)))"

definition push_inv :: "InMemoryPushNotificationStore \<Rightarrow> bool" where
  "push_inv s \<longleftrightarrow> (\<forall>t tc. map_of s t = Some tc \<longrightarrow> tc_wf t tc)"

definition push_view :: "InMemoryPushNotificationStore \<Rightarrow> string \<Rightarrow> TaskPushNotificationConfig list" where
  "push_view s t = (case map_of s t of None \<Rightarrow> [] | Some tc \<Rightarrow> tc_configs tc)"

lemma position_None: "position i ids = None \<longleftrightarrow> i \<notin> set ids"
  by (auto simp: position_def index_of_None)

lemma position_Some: "position i ids = Some k \<Longrightarrow> k < length ids \<and> ids ! k = i"
  by (auto simp: position_def index_of_Some)

lemma position_append:
  "position i (xs @ ys) = (case position i xs of Some n \<Rightarrow> Some n | None \<Rightarrow> map_option (\<lambda>k. length xs + k) (position i ys))"
  by (simp only: position_def index_of_append)

lemma position_Cons: "position i (x # xs) = (if x = i then Some 0 else map_option Suc (position i xs))"
  by (simp add: position_def)

lemma position_Nil [simp]: "position i [] = None"
  by (simp add: position_def)

lemma find_position:
  "find (\<lambda>d. Push_id d = i) cs = map_option (\<lambda>k. cs ! k) (position i (map Push_id cs))"
  by (induction cs) (auto simp: position_Cons option.map_comp o_def)

lemma replace_at_position:
  assumes "distinct (map Push_id cs)" "position (Push_id c) (map Push_id cs) = Some k"
  shows "cs[k := c] = put_config c cs" and "map Push_id (cs[k := c]) = map Push_id cs"
proof -
  from position_Some[OF assms(2)] have k: "k < length cs" "Push_id (cs ! k) = Push_id c" by auto
  then show "map Push_id (cs[k := c]) = map Push_id cs"
    by (metis list_update_id map_update nth_map)
  have "Push_id (cs ! j) = Push_id c \<longleftrightarrow> j = k" if "j < length cs" for j
    using assms(1) k that by (metis distinct_conv_nth length_map nth_map)
  then have "cs[k := c] = map (\<lambda>d. if Push_id d = Push_id c then c else d) cs"
    using k by (intro nth_equalityI) (auto simp: nth_list_update)
  moreover have "Push_id c \<in> Push_id ` set cs" using k by (metis image_eqI nth_mem)
  ultimately show "cs[k := c] = put_config c cs" by (simp add: put_config_def)
qed

lemma config_page_slice:
  assumes "start \<le> length cs" "0 \<le> n"
  shows "config_page cs n start = Inr \<lparr>LPResp_configs = page_of (nat n) (drop start cs),
     LPResp_next_page_token = (if length (page_of (nat n) (drop start cs)) < length (drop start cs)
       then to_string_nat (start + length (page_of (nat n) (drop start cs))) else [])\<rparr>"
proof -
  define page where "page = page_of (nat n) (drop start cs)"
  have slice: "map (\<lambda>i. cs ! i) [start..<start + k] = take k (drop start cs)" if "k \<le> length cs - start" for k
    using that assms(1) by (intro nth_equalityI) auto
  have len: "min (if n = 0 then length cs - start else nat n) (length cs - start) = length page"
    using assms(2) by (auto simp: page_def page_of_def min_def)
  then have "length page \<le> length cs - start" by simp
  moreover have "take (length page) (drop start cs) = page"
    using assms(2) by (auto simp: page_def page_of_def min_def)
  ultimately have list: "map (\<lambda>i. cs ! i) [start..<start + length page] = page" using slice by simp
  have "(if start = 0 \<and> length page = length cs then cs else map (\<lambda>i. cs ! i) [start..<start + length page]) = page"
  proof (cases "start = 0 \<and> length page = length cs")
    case True
    with list have "map (\<lambda>i. cs ! i) [0..<length cs] = page" by (simp only: add_0)
    with True show ?thesis by (simp add: map_nth)
  next
    case False
    then show ?thesis using list by (simp only: if_False)
  qed
  then show ?thesis
    unfolding page_def[symmetric] config_page_def Let_def len using assms(1) by (simp only: if_False not_less length_drop) simp
qed

lemma shift_loop_moves:
  assumes "distinct (map Push_id post)"
  shows "\<exists>indices'. shift_loop (length pre) (length pre + length post) (pre @ x # post) indices = (pre @ post @ [x], indices') \<and>
    (\<forall>i. map_of indices' i = (case position i (map Push_id post) of
       Some k \<Rightarrow> Some (length pre + k) | None \<Rightarrow> map_of indices i))"
  using assms
proof (induction post arbitrary: pre indices)
  case Nil
  show ?case by (simp add: shift_loop.simps)
next
  case (Cons y post)
  have swap: "(pre @ x # y # post)[length pre := y, Suc (length pre) := x] = (pre @ [y]) @ x # post"
    by (simp add: list_update_append)
  from Cons.IH[of "pre @ [y]" "AList.update (Push_id y) (length pre) indices"] Cons.prems
  obtain indices' where ih: "shift_loop (Suc (length pre)) (Suc (length pre) + length post) ((pre @ [y]) @ x # post)
      (AList.update (Push_id y) (length pre) indices) = (pre @ y # post @ [x], indices')"
    "\<forall>i. map_of indices' i = (case position i (map Push_id post) of
       Some k \<Rightarrow> Some (length (pre @ [y]) + k) | None \<Rightarrow> map_of (AList.update (Push_id y) (length pre) indices) i)"
    by auto
  have "shift_loop (length pre) (length pre + length (y # post)) (pre @ x # y # post) indices =
      (pre @ (y # post) @ [x], indices')"
    by (subst shift_loop.simps) (use ih(1) swap in \<open>simp add: nth_append\<close>)
  moreover have y: "position (Push_id y) (map Push_id post) = None" using Cons.prems by (simp add: position_None)
  have "map_of indices' i = (case position i (map Push_id (y # post)) of
       Some k \<Rightarrow> Some (length pre + k) | None \<Rightarrow> map_of indices i)" for i
    using ih(2)[rule_format, of i] y by (cases "position i (map Push_id post)") (auto simp: position_Cons)
  ultimately show ?case by blast
qed

lemma drop_config_split:
  "distinct (map Push_id (pre @ x # post)) \<Longrightarrow> drop_config (Push_id x) (pre @ x # post) = pre @ post"
  by (auto simp: drop_config_def intro!: arg_cong2[where f = "(@)"] filter_True) (metis imageI)+

lemma map_of_Nil_iff: "map_of al = (\<lambda>_. None) \<longleftrightarrow> al = []"
  by (cases al) (auto simp: fun_eq_iff)

text \<open>One step of \<open>Delete\<close> on the configurations of a task.\<close>

lemma shift_loop_delete:
  assumes wf: "tc_wf t tc" and i: "map_of (tc_config_indices tc) i = Some k"
    and loop: "shift_loop k (length (tc_configs tc) - 1) (tc_configs tc) (tc_config_indices tc) = (cs, indices)"
  defines "tc' \<equiv> \<lparr>tc_configs = butlast cs, tc_config_indices = AList.delete i indices\<rparr>"
  shows "tc_configs tc' = drop_config i (tc_configs tc)"
    and "AList.delete i indices = [] \<longleftrightarrow> tc_configs tc' = []"
    and "tc_configs tc' \<noteq> [] \<Longrightarrow> tc_wf t tc'"
proof -
  let ?all = "tc_configs tc"
  have pos: "position i (map Push_id ?all) = Some k" using wf i by (simp add: tc_wf_def)
  then have k: "k < length ?all" "Push_id (?all ! k) = i" using position_Some by fastforce+
  define pre x post where "pre = take k ?all" and "x = ?all ! k" and "post = drop (Suc k) ?all"
  have split: "?all = pre @ x # post" unfolding pre_def x_def post_def using k(1) by (rule id_take_nth_drop)
  have x: "Push_id x = i" and lpre: "length pre = k" using k by (simp_all add: x_def pre_def)
  have dist: "distinct (map Push_id (pre @ x # post))" using wf by (simp add: tc_wf_def flip: split)
  then have "distinct (map Push_id post)" by simp
  from shift_loop_moves[OF this, of pre x "tc_config_indices tc"] loop
  have cs: "cs = pre @ post @ [x]" and idx: "map_of indices j = (case position j (map Push_id post) of
      Some k \<Rightarrow> Some (length pre + k) | None \<Rightarrow> map_of (tc_config_indices tc) j)" for j
    by (auto simp: split lpre)
  have tc': "tc_configs tc' = pre @ post" by (simp add: tc'_def cs butlast_append)
  then show drop: "tc_configs tc' = drop_config i ?all" using drop_config_split[OF dist] by (simp add: split x)
  have index: "map_of (AList.delete i indices) j = position j (map Push_id (pre @ post))" for j
  proof (cases "j = i")
    case True
    with dist x show ?thesis by (auto simp: delete_conv position_None[THEN iffD2])
  next
    case False
    have "map_of (tc_config_indices tc) j = position j (map Push_id ?all)" using wf by (simp add: tc_wf_def)
    moreover have "position j (map Push_id pre) = None \<or> position j (map Push_id post) = None"
      using dist by (auto simp: position_None)
    ultimately show ?thesis
      using False x by (auto simp: delete_conv idx split position_append position_Cons lpre split: option.splits)
  qed
  show "AList.delete i indices = [] \<longleftrightarrow> tc_configs tc' = []"
  proof
    assume "AList.delete i indices = []"
    then have "position j (map Push_id (pre @ post)) = None" for j using index by (metis map_of.simps(1))
    then show "tc_configs tc' = []" unfolding tc' position_None by (cases "pre @ post") auto
  next
    assume "tc_configs tc' = []"
    then show "AList.delete i indices = []" using index by (simp add: tc' map_of_Nil_iff[symmetric] fun_eq_iff)
  qed
  show "tc_wf t tc'" if "tc_configs tc' \<noteq> []"
  proof -
    have "map_of (tc_config_indices tc') j = position j (map Push_id (pre @ post))" for j by (simp add: tc'_def index)
    then show ?thesis using wf dist that by (auto simp: tc_wf_def tc' split)
  qed
qed

lemma push_view_wf: "push_inv s \<Longrightarrow> map_of s t = Some tc \<Longrightarrow> tc_wf t tc"
  by (simp add: push_inv_def)

lemma push_view_Nil: "push_inv s \<Longrightarrow> push_view s t = [] \<longleftrightarrow> map_of s t = None"
  by (auto simp: push_view_def push_inv_def tc_wf_def split: option.splits)

lemma push_update:
  "push_inv s \<Longrightarrow> tc_wf t tc \<Longrightarrow> push_inv (AList.update t tc s) \<and> push_view (AList.update t tc s) = (push_view s)(t := tc_configs tc)"
  by (auto simp: push_inv_def push_view_def fun_eq_iff split: if_splits)

lemma push_delete:
  "push_inv s \<Longrightarrow> push_inv (AList.delete t s) \<and> push_view (AList.delete t s) = (push_view s)(t := [])"
  by (auto simp: push_inv_def push_view_def fun_eq_iff delete_conv split: if_splits)

lemma InMemoryPush_create_stores:
  assumes "push_inv s" "ValidateConfig c = Inr ()"
  shows "\<exists>s'. InMemoryPush_CreateOrUpdate c s = Some (s', Inr c) \<and> push_inv s' \<and>
    push_view s' = (push_view s)(Push_task_id c := put_config c (push_view s (Push_task_id c)))"
proof -
  define t where "t = Push_task_id c"
  define tc where "tc = (case map_of s t of None \<Rightarrow> empty_TaskConfigs | Some tc \<Rightarrow> tc)"
  have view: "tc_configs tc = push_view s t"
    by (simp add: tc_def push_view_def empty_TaskConfigs_def split: option.splits)
  have wf: "distinct (map Push_id (tc_configs tc))" "\<forall>d\<in>set (tc_configs tc). Push_task_id d = t \<and> ValidateConfig d = Inr ()"
    "map_of (tc_config_indices tc) i = position i (map Push_id (tc_configs tc))" for i
    using push_view_wf[OF assms(1), of t]
    by (auto simp: tc_def empty_TaskConfigs_def tc_wf_def split: option.splits)
  show ?thesis
  proof (cases "position (Push_id c) (map Push_id (tc_configs tc))")
    case (Some k)
    define tc' where "tc' = tc\<lparr>tc_configs := (tc_configs tc)[k := c]\<rparr>"
    note repl = replace_at_position[OF wf(1) Some]
    have "k < length (tc_configs tc)" using position_Some[OF Some] by simp
    then have "InMemoryPush_CreateOrUpdate c s = Some (AList.update t tc' s, Inr c)"
      using assms(2) Some by (simp add: InMemoryPush_CreateOrUpdate_def Let_def wf(3) tc'_def flip: t_def tc_def)
    moreover have "tc_wf t tc'"
      using wf assms(2) repl(2) \<open>k < _\<close> set_update_subset_insert[of "tc_configs tc" k c]
      by (auto simp: tc_wf_def tc'_def t_def)
    moreover have "tc_configs tc' = put_config c (push_view s t)" using repl(1) by (simp add: tc'_def view)
    ultimately show ?thesis using push_update[OF assms(1)] by (auto simp: t_def)
  next
    case None
    define tc' where "tc' = \<lparr>tc_configs = tc_configs tc @ [c],
      tc_config_indices = AList.update (Push_id c) (length (tc_configs tc)) (tc_config_indices tc)\<rparr>"
    have "InMemoryPush_CreateOrUpdate c s = Some (AList.update t tc' s, Inr c)"
      using assms(2) None by (simp add: InMemoryPush_CreateOrUpdate_def Let_def wf(3) tc'_def flip: t_def tc_def)
    moreover have "tc_wf t tc'"
      using wf assms(2) None None[unfolded position_None]
      by (auto simp: tc_wf_def tc'_def t_def position_append position_Cons split: option.splits)
    moreover have "tc_configs tc' = put_config c (push_view s t)"
      unfolding view[symmetric] using None by (auto simp: tc'_def put_config_def position_None)
    ultimately show ?thesis using push_update[OF assms(1)] by (auto simp: t_def)
  qed
qed

lemma InMemoryPush_delete_removes:
  assumes "push_inv s" "ValidateLookup t i = Inr ()"
  shows "\<exists>s'. InMemoryPush_Delete t i s = Some (s', Inr ()) \<and> push_inv s' \<and>
    push_view s' = (push_view s)(t := drop_config i (push_view s t))"
proof (cases "map_of s t")
  case None
  then show ?thesis using assms by (auto simp: InMemoryPush_Delete_def push_view_def drop_config_def fun_eq_iff)
next
  case (Some tc)
  note wf = push_view_wf[OF assms(1) Some]
  have view: "push_view s t = tc_configs tc" by (simp add: push_view_def Some)
  show ?thesis
  proof (cases "map_of (tc_config_indices tc) i")
    case None
    then have "drop_config i (tc_configs tc) = tc_configs tc"
      using wf by (auto simp: tc_wf_def position_None drop_config_def intro!: filter_True)
    then show ?thesis using assms Some None by (auto simp: InMemoryPush_Delete_def view fun_eq_iff)
  next
    case (Some k)
    obtain cs indices where loop: "shift_loop k (length (tc_configs tc) - 1) (tc_configs tc) (tc_config_indices tc) = (cs, indices)"
      by fastforce
    note del = shift_loop_delete[OF wf Some loop]
    have ne: "tc_configs tc \<noteq> []" using wf by (simp add: tc_wf_def)
    show ?thesis
      using assms(2) \<open>map_of s t = Some tc\<close> Some ne del push_delete[OF assms(1), of t]
        push_update[OF assms(1) del(3)]
      by (auto simp: InMemoryPush_Delete_def loop[simplified] view Let_def)
  qed
qed

interpretation mem_push: push_store in_memory_push_ops push_inv push_view
proof (unfold_locales, goal_cases)
  case (1 s t)
  then show ?case using push_view_wf[of s t] by (auto simp: push_view_def tc_wf_def split: option.splits)
next
  case (2 s c e)
  then show ?case by (simp add: in_memory_push_ops_def InMemoryPush_CreateOrUpdate_def)
next
  case (3 s c)
  then show ?case using InMemoryPush_create_stores by (simp add: in_memory_push_ops_def)
next
  case (4 s t i)
  then show ?case
    using push_view_wf[of s t]
    by (auto simp: in_memory_push_ops_def InMemoryPush_Get_def result_bind_def find_config_def push_view_def tc_wf_def
        find_position dest: position_Some split: sum.splits option.splits)
next
  case (5 s t n token)
  have page: "config_page cs n start = (if start > length cs then
      Inl (Validation ''ListTaskPushNotificationConfigsRequest.page_token exceeds available config count'')
      else Inr \<lparr>LPResp_configs = page_of (nat n) (drop start cs), LPResp_next_page_token =
        (if length (page_of (nat n) (drop start cs)) < length (drop start cs)
         then to_string_nat (start + length (page_of (nat n) (drop start cs))) else [])\<rparr>)" if "0 \<le> n" for cs start
    using that by (cases "start > length cs") (simp add: config_page_def, simp add: config_page_slice)
  show ?case
  proof (cases "ValidateListRequest t n")
    case (Inr u)
    then have n: "0 \<le> n" by (simp add: ValidateListRequest_def split: if_splits)
    show ?thesis
      using 5 Inr push_view_Nil[of s t]
      by (cases "map_of s t"; cases "Push_ParsePageToken token")
        (simp_all add: in_memory_push_ops_def InMemoryPush_List_def list_configs_def push_view_def page[OF n] Let_def)
  qed (simp add: in_memory_push_ops_def InMemoryPush_List_def list_configs_def)
next
  case 6
  then show ?case by (simp add: in_memory_push_ops_def)
next
  case (7 s t i e)
  then show ?case by (simp add: in_memory_push_ops_def InMemoryPush_Delete_def)
next
  case (8 s t i)
  then show ?case using InMemoryPush_delete_removes by (simp add: in_memory_push_ops_def)
qed

end
