(* ===== verification/Http_Client.thy ===== *)
theory Http_Client
  imports Server_Response
begin

text \<open>
  The data of the shared HTTP client (\<open>include/a2a/http/http_client.h\<close>): requests, responses and TLS options, and the check of
  the protocol version. The client drives libcurl and is a parameter of its users.
\<close>

record TlsOptions =
  tls_ca_bundle_path :: string
  tls_require_tls13 :: bool

record HttpRequest =
  hreq_method :: string
  hreq_url :: string
  hreq_headers :: headers
  hreq_body :: string
  hreq_timeout :: int
  hreq_tls :: "TlsOptions option"
  hreq_http_version :: string

record HttpResponse =
  hresp_status_code :: int
  hresp_headers :: headers
  hresp_body :: string

definition IsSupportedHttpVersion :: "string \<Rightarrow> bool" where
  "IsSupportedHttpVersion http_version \<longleftrightarrow>
     http_version = ''HTTP/1.1'' \<or> http_version = ''HTTP/2.0'' \<or> http_version = ''HTTP/3.0''"

end
