(* ===== verification/Push_Service.thy ===== *)
theory Push_Service
  imports Push_Store Http_Client
begin

text \<open>
  Push notifications: the service (\<open>src/server/push_notifications/push_notification_service.cpp\<close>) over a task store, a
  configuration store and a delivery client that share the state \<open>'w\<close>, and the delivery over HTTP
  (\<open>push_notification_delivery.cpp\<close>). Sending an HTTP request is a parameter.
\<close>

section \<open>Delivery\<close>

record PushDeliveryRequest =
  pdr_config :: TaskPushNotificationConfig
  pdr_payload :: StreamResponse

record PushDeliveryResult =
  pdres_http_status :: int
  pdres_error_message :: string

record 'w PushNotificationDeliveryClient =
  pdc_Deliver :: "PushDeliveryRequest \<Rightarrow> ('w, PushDeliveryResult) step"

record HttpPushNotificationDeliveryOptions =
  hpd_timeout :: int
  hpd_http_version :: string
  hpd_fallback_http_version :: string

definition default_HttpPushNotificationDeliveryOptions :: HttpPushNotificationDeliveryOptions where
  "default_HttpPushNotificationDeliveryOptions =
     \<lparr>hpd_timeout = 5000, hpd_http_version = ''HTTP/2.0'', hpd_fallback_http_version = ''HTTP/1.1''\<rparr>"

definition ValidateUrlScheme :: "string \<Rightarrow> unit Result" where
  "ValidateUrlScheme url =
     (if prefix ''http://'' url \<or> prefix ''https://'' url then Inr ()
      else Inl (Validation ''push notification URL must use http or https''))"

definition ValidateHttpVersion :: "string \<Rightarrow> unit Result" where
  "ValidateHttpVersion http_version =
     (if IsSupportedHttpVersion http_version then Inr ()
      else Inl (Validation ''push notification delivery supports only HTTP/1.1, HTTP/2.0, or HTTP/3.0''))"

definition ValidateDeliveryOptions :: "HttpPushNotificationDeliveryOptions \<Rightarrow> unit Result" where
  "ValidateDeliveryOptions options =
     result_bind (ValidateHttpVersion (hpd_http_version options)) (\<lambda>_.
       if hpd_fallback_http_version options = [] then Inr ()
       else ValidateHttpVersion (hpd_fallback_http_version options))"

text \<open>\<open>config.authentication()\<close> of an absent message is the default instance.\<close>

definition config_authentication :: "TaskPushNotificationConfig \<Rightarrow> AuthenticationInfo" where
  "config_authentication config =
     (case Push_authentication config of None \<Rightarrow> \<lparr>Auth_scheme = [], Auth_credentials = []\<rparr> | Some a \<Rightarrow> a)"

definition BuildAuthorizationValue :: "TaskPushNotificationConfig \<Rightarrow> string" where
  "BuildAuthorizationValue config =
     (let a = config_authentication config in
      Auth_scheme a @ (if Auth_credentials a \<noteq> [] then '' '' @ Auth_credentials a else []))"

definition Push_BuildHeaders :: "TaskPushNotificationConfig \<Rightarrow> headers" where
  "Push_BuildHeaders config =
     [(kContentTypeHeaderName, kContentTypeApplicationJson)] @
     (if Auth_scheme (config_authentication config) \<noteq> [] then [(''Authorization'', BuildAuthorizationValue config)] else [])"

definition BuildHttpRequest :: "PushDeliveryRequest \<Rightarrow> string \<Rightarrow> string \<Rightarrow> int \<Rightarrow> HttpRequest" where
  "BuildHttpRequest request body http_version timeout =
     \<lparr>hreq_method = kMethodPost, hreq_url = Push_url (pdr_config request),
      hreq_headers = Push_BuildHeaders (pdr_config request), hreq_body = body, hreq_timeout = timeout,
      hreq_tls = None, hreq_http_version = http_version\<rparr>"

definition DeliverHttpRequest ::
  "(HttpRequest \<Rightarrow> ('w, HttpResponse) step) \<Rightarrow> PushDeliveryRequest \<Rightarrow> string \<Rightarrow> string \<Rightarrow> int \<Rightarrow>
   ('w, PushDeliveryResult) step" where
  "DeliverHttpRequest SendRequest request body http_version timeout w =
     map_option (\<lambda>(w, response). (w, result_bind response (\<lambda>response.
         let http_status = hresp_status_code response in
         if http_status < 200 \<or> http_status > 299
         then Inl (WithHttpStatus http_status (RemoteProtocol ''webhook returned non-2xx status''))
         else Inr \<lparr>pdres_http_status = http_status, pdres_error_message = []\<rparr>)))
       (SendRequest (BuildHttpRequest request body http_version timeout) w)"

definition HttpDelivery_Deliver ::
  "(StreamResponse \<Rightarrow> string Result) \<Rightarrow> (HttpRequest \<Rightarrow> ('w, HttpResponse) step) \<Rightarrow>
   HttpPushNotificationDeliveryOptions \<Rightarrow> PushDeliveryRequest \<Rightarrow> ('w, PushDeliveryResult) step" where
  "HttpDelivery_Deliver MessageToJson SendRequest options request w =
     (case result_bind (ValidateUrlScheme (Push_url (pdr_config request))) (\<lambda>_.
           result_bind (ValidateDeliveryOptions options) (\<lambda>_. MessageToJson (pdr_payload request))) of
        Inl e \<Rightarrow> Some (w, Inl e)
      | Inr body \<Rightarrow>
          (case DeliverHttpRequest SendRequest request body (hpd_http_version options) (hpd_timeout options) w of
             None \<Rightarrow> None
           | Some (w, result) \<Rightarrow>
               if \<not> isl result \<or> hpd_fallback_http_version options = [] \<or>
                  hpd_fallback_http_version options = hpd_http_version options
               then Some (w, result)
               else DeliverHttpRequest SendRequest request body (hpd_fallback_http_version options)
                      (hpd_timeout options) w))"

section \<open>The service\<close>

definition BuildTaskStatusUpdatePayload :: "Task \<Rightarrow> StreamResponse" where
  "BuildTaskStatusUpdatePayload task =
     StreamResponse_status_update \<lparr>TSU_task_id = Task_id task, TSU_context_id = Task_context_id task,
       TSU_status = Some (status task), TSU_metadata = None\<rparr>"

record 'w PushNotificationService =
  psvc_task_store :: "'w TaskStore option"
  psvc_push_store :: "'w PushNotificationStore option"
  psvc_delivery_client :: "'w PushNotificationDeliveryClient option"

definition task_aware_store :: "'w PushNotificationService \<Rightarrow> 'w TaskAwarePushNotificationStore option" where
  "task_aware_store svc = Option.bind (psvc_push_store svc) pns_task_aware"

definition CreateConfig ::
  "'w PushNotificationService \<Rightarrow> TaskPushNotificationConfig \<Rightarrow> ('w, TaskPushNotificationConfig) step" where
  "CreateConfig svc config w =
     (case (psvc_task_store svc, psvc_push_store svc) of
        (Some tasks, Some configs_store) \<Rightarrow>
          (case task_aware_store svc of
             Some aware \<Rightarrow> ta_CreateOrUpdateForTask aware config tasks w
           | None \<Rightarrow>
               (case TS_Get tasks (Push_task_id config) w of
                  None \<Rightarrow> None
                | Some (Inl e) \<Rightarrow> Some (w, Inl e)
                | Some (Inr _) \<Rightarrow> pns_CreateOrUpdate configs_store config w))
      | _ \<Rightarrow> Some (w, Inl (Internal ''push notification service is not configured'')))"

definition GetConfig ::
  "'w PushNotificationService \<Rightarrow> GetTaskPushNotificationConfigRequest \<Rightarrow> 'w \<Rightarrow> TaskPushNotificationConfig Result option" where
  "GetConfig svc request w =
     (case psvc_push_store svc of
        None \<Rightarrow> Some (Inl (Internal ''push notification store is not configured''))
      | Some configs_store \<Rightarrow> pns_Get configs_store (GPR_task_id request) (GPR_id request) w)"

definition ListConfigs ::
  "'w PushNotificationService \<Rightarrow> ListTaskPushNotificationConfigsRequest \<Rightarrow> 'w \<Rightarrow>
   ListTaskPushNotificationConfigsResponse Result option" where
  "ListConfigs svc request w =
     (case (psvc_task_store svc, psvc_push_store svc) of
        (Some tasks, Some configs_store) \<Rightarrow>
          (case task_aware_store svc of
             Some aware \<Rightarrow> ta_ListForTask aware (LPR_task_id request) (LPR_page_size request) (LPR_page_token request) tasks w
           | None \<Rightarrow>
               (case TS_Get tasks (LPR_task_id request) w of
                  None \<Rightarrow> None
                | Some (Inl e) \<Rightarrow> Some (Inl e)
                | Some (Inr _) \<Rightarrow>
                    pns_ListForExistingTask configs_store (LPR_task_id request) (LPR_page_size request)
                      (LPR_page_token request) w))
      | _ \<Rightarrow> Some (Inl (Internal ''push notification service is not configured'')))"

definition DeleteConfig ::
  "'w PushNotificationService \<Rightarrow> DeleteTaskPushNotificationConfigRequest \<Rightarrow> ('w, unit) step" where
  "DeleteConfig svc request w =
     (case psvc_push_store svc of
        None \<Rightarrow> Some (w, Inl (Internal ''push notification store is not configured''))
      | Some configs_store \<Rightarrow> pns_Delete configs_store (DPR_task_id request) (DPR_id request) w)"

definition RegisterInlineConfigIfPresent ::
  "'w PushNotificationService \<Rightarrow> SendMessageRequest \<Rightarrow> string \<Rightarrow> ('w, unit) step" where
  "RegisterInlineConfigIfPresent svc request resolved_task_id w =
     (case Option.bind (SMR_configuration request) SMC_task_push_notification_config of
        None \<Rightarrow> Some (w, Inr ())
      | Some config \<Rightarrow>
          map_option (\<lambda>(w, created). (w, result_bind created (\<lambda>_. Inr ())))
            (CreateConfig svc (config\<lparr>Push_task_id := resolved_task_id\<rparr>) w))"

fun notify_loop ::
  "'w PushNotificationDeliveryClient \<Rightarrow> StreamResponse \<Rightarrow> TaskPushNotificationConfig list \<Rightarrow> ('w, unit) step" where
  "notify_loop client payload [] w = Some (w, Inr ())"
| "notify_loop client payload (config # configs) w =
     (case pdc_Deliver client \<lparr>pdr_config = config, pdr_payload = payload\<rparr> w of
        None \<Rightarrow> None
      | Some (w, Inl e) \<Rightarrow> Some (w, Inl e)
      | Some (w, Inr result) \<Rightarrow>
          if pdres_error_message result \<noteq> []
          then Some (w, Inl (WithHttpStatus (pdres_http_status result) (RemoteProtocol (pdres_error_message result))))
          else if pdres_http_status result < 200 \<or> pdres_http_status result > 299
          then Some (w, Inl (WithHttpStatus (pdres_http_status result)
            (RemoteProtocol ''push notification delivery returned non-2xx status'')))
          else notify_loop client payload configs w)"

definition NotifyTaskUpdated :: "'w PushNotificationService \<Rightarrow> Task \<Rightarrow> ('w, unit) step" where
  "NotifyTaskUpdated svc task w =
     (case (psvc_push_store svc, psvc_delivery_client svc) of
        (Some configs_store, Some client) \<Rightarrow>
          (case pns_ListForExistingTask configs_store (Task_id task) 0 [] w of
             None \<Rightarrow> None
           | Some (Inl e) \<Rightarrow> Some (w, Inl e)
           | Some (Inr configs) \<Rightarrow> notify_loop client (BuildTaskStatusUpdatePayload task) (LPResp_configs configs) w)
      | _ \<Rightarrow> Some (w, Inl (Internal ''push notification delivery is not configured'')))"

end
