(* ===== verification/Push_Props.thy ===== *)
theory Push_Props
  imports Push_Service Task_Store_Props
begin

text \<open>
  What the push notification components promise: the in-memory configuration store keeps its abstract contract, the
  service stores configurations only for tasks that exist, a task update reaches every configured webhook in order, and
  HTTP delivery sends nothing but the notification to the configured address.
\<close>

section \<open>A task store and a configuration store side by side\<close>

definition at_tasks :: "'a TaskStore \<Rightarrow> ('a \<times> 'b) TaskStore" where
  "at_tasks ops =
     \<lparr>TS_CreateOrUpdate = (\<lambda>t (a, p). map_option (\<lambda>(a, x). ((a, p), x)) (TS_CreateOrUpdate ops t a)),
      TS_SupportsConditionalWrites = TS_SupportsConditionalWrites ops,
      TS_GetSnapshot = (\<lambda>k (a, p). TS_GetSnapshot ops k a),
      TS_CreateOrUpdateIfRevision =
        (\<lambda>t e (a, p). map_option (\<lambda>(a, x). ((a, p), x)) (TS_CreateOrUpdateIfRevision ops t e a)),
      TS_Get = (\<lambda>k (a, p). TS_Get ops k a),
      TS_List = (\<lambda>r (a, p). TS_List ops r a),
      TS_Cancel = (\<lambda>k (a, p). map_option (\<lambda>(a, x). ((a, p), x)) (TS_Cancel ops k a)),
      TS_AppendTaskHistory =
        (\<lambda>k m h (a, p). map_option (\<lambda>(a, x). ((a, p), x)) (TS_AppendTaskHistory ops k m h a)),
      TS_GetHistoryTelemetrySnapshot = (\<lambda>(a, p). TS_GetHistoryTelemetrySnapshot ops a)\<rparr>"

definition at_configs :: "'b PushNotificationStore \<Rightarrow> ('a \<times> 'b) PushNotificationStore" where
  "at_configs ops =
     \<lparr>pns_CreateOrUpdate = (\<lambda>c (a, p). map_option (\<lambda>(p, x). ((a, p), x)) (pns_CreateOrUpdate ops c p)),
      pns_Get = (\<lambda>t i (a, p). pns_Get ops t i p),
      pns_List = (\<lambda>t n token (a, p). pns_List ops t n token p),
      pns_ListForExistingTask = (\<lambda>t n token (a, p). pns_ListForExistingTask ops t n token p),
      pns_Delete = (\<lambda>t i (a, p). map_option (\<lambda>(p, x). ((a, p), x)) (pns_Delete ops t i p)),
      pns_task_aware = None\<rparr>"

context push_store
begin

lemma NotifyTaskUpdated_loop:
  assumes "inv w" "psvc_push_store svc = Some ops" "psvc_delivery_client svc = Some client" "Task_id task \<noteq> []"
  shows "NotifyTaskUpdated svc task w = notify_loop client (BuildTaskStatusUpdatePayload task) (view w (Task_id task)) w"
  using assms
  by (simp add: NotifyTaskUpdated_def list_existing list_pages list_configs_def ValidateListRequest_def
      Push_ParsePageToken_def page_of_def Let_def)

end

text \<open>What the service relies on: the two contracts on one state, in which storing a configuration leaves the tasks as
  they are, and a configuration store without the optional capability.\<close>

locale push_world =
  tasks: task_store tops good tview ser + configs: push_store pops good pview
  for tops :: "'w TaskStore" and pops :: "'w PushNotificationStore" and good :: "'w \<Rightarrow> bool"
    and tview :: "'w \<Rightarrow> AbstractStore" and pview :: "'w \<Rightarrow> string \<Rightarrow> TaskPushNotificationConfig list"
    and ser :: "Part \<Rightarrow> string" +
  assumes create_keeps_tasks: "good w \<Longrightarrow> pns_CreateOrUpdate pops c w = Some (w', r) \<Longrightarrow> tview w' = tview w"
    and not_task_aware: "pns_task_aware pops = None"

context push_world
begin

lemma CreateConfig_spec:
  assumes "good w" "psvc_task_store svc = Some tops" "psvc_push_store svc = Some pops"
  obtains w' r where "CreateConfig svc c w = Some (w', r)" "good w'" "tview w' = tview w"
    "isl r \<Longrightarrow> w' = w"
    "\<not> isl r \<longleftrightarrow> \<not> isl (spec_Get (Push_task_id c) (tview w)) \<and> ValidateConfig c = Inr ()"
    "\<not> isl r \<Longrightarrow> r = Inr c \<and> pview w' = (pview w)(Push_task_id c := put_config c (pview w (Push_task_id c)))"
proof -
  have def: "CreateConfig svc c w = (case spec_Get (Push_task_id c) (tview w) of
      Inl e \<Rightarrow> Some (w, Inl e) | Inr _ \<Rightarrow> pns_CreateOrUpdate pops c w)"
    using assms by (simp add: CreateConfig_def task_aware_store_def not_task_aware tasks.get_impl split: sum.splits)
  show ?thesis
  proof (cases "spec_Get (Push_task_id c) (tview w)")
    case (Inl e)
    with that[of w "Inl e"] show ?thesis using assms(1) by (simp add: def)
  next
    case (Inr t)
    show ?thesis
    proof (cases "ValidateConfig c")
      case (Inl e)
      with that[of w "Inl e"] show ?thesis
        using assms(1) configs.create_refused[OF assms(1) Inl] by (simp add: def Inr)
    next
      case valid: (Inr u)
      then obtain w' where "pns_CreateOrUpdate pops c w = Some (w', Inr c)" "good w'"
        "pview w' = (pview w)(Push_task_id c := put_config c (pview w (Push_task_id c)))"
        using configs.create_stores[OF assms(1), of c] by auto
      with that[of w' "Inr c"] show ?thesis
        using valid create_keeps_tasks[OF assms(1)] by (simp add: def Inr)
    qed
  qed
qed

end

lemma implements_at_tasks:
  assumes "implements good view step spec"
  shows "implements (\<lambda>(a, p). good a \<and> pgood p) (\<lambda>(a, p). view a)
    (\<lambda>(a, p). map_option (\<lambda>(a, x). ((a, p), x)) (step a)) spec"
  using assms by (fastforce simp: implements_def)

definition world_inv :: "InMemoryTaskStore \<times> InMemoryPushNotificationStore \<Rightarrow> bool" where
  "world_inv = (\<lambda>(a, p). store_inv a \<and> push_inv p)"

definition world_tasks :: "InMemoryTaskStore \<times> InMemoryPushNotificationStore \<Rightarrow> AbstractStore" where
  "world_tasks = (\<lambda>(a, p). store_view a)"

definition world_configs ::
  "InMemoryTaskStore \<times> InMemoryPushNotificationStore \<Rightarrow> string \<Rightarrow> TaskPushNotificationConfig list" where
  "world_configs = (\<lambda>(a, p). push_view p)"

interpretation world: push_world "at_tasks (in_memory_ops ser)" "at_configs in_memory_push_ops" world_inv world_tasks
  world_configs ser
proof (unfold_locales, goal_cases)
  case (1 s) then show ?case by (auto simp: world_inv_def world_tasks_def mem.wf)
next
  case (2 s k) then show ?case by (auto simp: world_inv_def world_tasks_def at_tasks_def mem.get_impl)
next
  case (3 s k) then show ?case by (auto simp: world_inv_def world_tasks_def at_tasks_def mem.snapshot_impl)
next
  case (4 s request) then show ?case by (auto simp: world_inv_def world_tasks_def at_tasks_def mem.list_impl)
next
  case (5 t) then show ?case
    using implements_at_tasks[OF mem.upsert_impl] by (simp add: world_inv_def world_tasks_def at_tasks_def)
next
  case (6 t e) then show ?case
    using implements_at_tasks[OF mem.conditional_impl] by (simp add: world_inv_def world_tasks_def at_tasks_def)
next
  case (7 k) then show ?case
    using implements_at_tasks[OF mem.cancel_impl] by (simp add: world_inv_def world_tasks_def at_tasks_def)
next
  case (8 k m p) then show ?case
    using implements_at_tasks[OF mem.append_impl] by (simp add: world_inv_def world_tasks_def at_tasks_def)
next
  case (9 s t) then show ?case by (auto simp: world_inv_def world_configs_def dest: mem_push.configs_wf)
next
  case (10 s c e) then show ?case by (auto simp: world_inv_def at_configs_def mem_push.create_refused)
next
  case (11 s c)
  obtain a p where s: "s = (a, p)" by fastforce
  with 11 mem_push.create_stores[of p c] show ?case by (auto simp: world_inv_def world_configs_def at_configs_def)
next
  case (12 s t i) then show ?case by (auto simp: world_inv_def world_configs_def at_configs_def mem_push.get_finds)
next
  case (13 s t n token) then show ?case by (auto simp: world_inv_def world_configs_def at_configs_def mem_push.list_pages)
next
  case 14 then show ?case by (simp add: at_configs_def mem_push.list_existing)
next
  case (15 s t i e) then show ?case by (auto simp: world_inv_def at_configs_def mem_push.delete_refused)
next
  case (16 s t i)
  obtain a p where s: "s = (a, p)" by fastforce
  with 16 mem_push.delete_removes[of p t i] show ?case by (auto simp: world_inv_def world_configs_def at_configs_def)
next
  case (17 w c w' r) then show ?case by (cases w) (auto simp: world_tasks_def at_configs_def)
next
  case 18 then show ?case by (simp add: at_configs_def)
qed

definition sample_config :: "string \<Rightarrow> string \<Rightarrow> TaskPushNotificationConfig" where
  "sample_config t i = \<lparr>Push_tenant = [], Push_id = i, Push_task_id = t, Push_url = ''https://hook/'' @ i, Push_token = [],
     Push_authentication = None\<rparr>"

definition sample_configs :: InMemoryPushNotificationStore where
  "sample_configs =
     (let s1 = fst (the (InMemoryPush_CreateOrUpdate (sample_config ''a'' ''x'') []));
          s2 = fst (the (InMemoryPush_CreateOrUpdate (sample_config ''a'' ''y'') s1))
      in fst (the (InMemoryPush_CreateOrUpdate (sample_config ''a'' ''z'') s2)))"

lemma sample_configs_inv: "push_inv sample_configs"
proof -
  have step: "push_inv s \<Longrightarrow> ValidateConfig c = Inr () \<Longrightarrow> push_inv (fst (the (InMemoryPush_CreateOrUpdate c s)))" for s c
    using InMemoryPush_create_stores by fastforce
  have "push_inv []" by (simp add: push_inv_def)
  then show ?thesis
    unfolding sample_configs_def Let_def by (intro step) (simp_all add: ValidateConfig_def sample_config_def)
qed

section \<open>The configuration store\<close>

text \<open>C15: The in-memory store of push notification configurations behaves as a list of configurations per task in the
  order of creation: creating validates and then replaces in place or appends, reading finds the configuration or reports
  which part is missing, listing returns the slice that size and token select, deleting removes exactly that
  configuration. Its index of positions and its well-formedness are kept by every operation.\<close>

theorem InMemoryPush_refines:
  assumes "push_inv s"
  shows "\<exists>s' s'' r r'.
     InMemoryPush_CreateOrUpdate c s = Some (s', r) \<and> push_inv s' \<and>
       r = map_sum id (\<lambda>_. c) (ValidateConfig c) \<and>
       push_view s' = (if isl r then push_view s
         else (push_view s)(Push_task_id c := put_config c (push_view s (Push_task_id c)))) \<and>
     InMemoryPush_Delete t i s = Some (s'', r') \<and> push_inv s'' \<and> r' = ValidateLookup t i \<and>
       push_view s'' = (if isl r' then push_view s else (push_view s)(t := drop_config i (push_view s t))) \<and>
     InMemoryPush_Get t i s = Some (result_bind (ValidateLookup t i) (\<lambda>_. find_config i (push_view s t))) \<and>
     InMemoryPush_List t n token s = Some (list_configs t n token (push_view s t))"
proof -
  obtain s' r where create: "InMemoryPush_CreateOrUpdate c s = Some (s', r)" "push_inv s'"
    "r = map_sum id (\<lambda>_. c) (ValidateConfig c)"
    "push_view s' = (if isl r then push_view s
       else (push_view s)(Push_task_id c := put_config c (push_view s (Push_task_id c))))"
  proof (cases "ValidateConfig c")
    case (Inl e)
    show ?thesis
      by (rule that[of s "Inl e"]) (use assms Inl mem_push.create_refused[OF assms Inl] in_memory_push_ops_sel in auto)
  next
    case (Inr u)
    then obtain s' where "InMemoryPush_CreateOrUpdate c s = Some (s', Inr c)" "push_inv s'"
      "push_view s' = (push_view s)(Push_task_id c := put_config c (push_view s (Push_task_id c)))"
      using mem_push.create_stores[OF assms, of c] in_memory_push_ops_sel(1) by auto
    then show ?thesis by (intro that[of s' "Inr c"]) (simp_all add: Inr)
  qed
  obtain s'' r' where delete: "InMemoryPush_Delete t i s = Some (s'', r')" "push_inv s''" "r' = ValidateLookup t i"
    "push_view s'' = (if isl r' then push_view s else (push_view s)(t := drop_config i (push_view s t)))"
  proof (cases "ValidateLookup t i")
    case (Inl e)
    show ?thesis
      by (rule that[of s "Inl e"]) (use assms Inl mem_push.delete_refused[OF assms Inl] in_memory_push_ops_sel in auto)
  next
    case (Inr u)
    then obtain s' where "InMemoryPush_Delete t i s = Some (s', Inr ())" "push_inv s'"
      "push_view s' = (push_view s)(t := drop_config i (push_view s t))"
      using mem_push.delete_removes[OF assms, of t i] in_memory_push_ops_sel(4) by auto
    then show ?thesis by (intro that[of s' "Inr ()"]) (simp_all add: Inr)
  qed
  have "InMemoryPush_Get t i s = Some (result_bind (ValidateLookup t i) (\<lambda>_. find_config i (push_view s t)))"
    "InMemoryPush_List t n token s = Some (list_configs t n token (push_view s t))"
    using mem_push.get_finds[OF assms, of t i] mem_push.list_pages[OF assms, of t n token]
    by (simp_all add: in_memory_push_ops_sel)
  then show ?thesis
    by (intro exI[of _ s'] exI[of _ s''] exI[of _ r] exI[of _ r'] conjI create delete)
qed

theorem InMemoryPush_refines_witness:
  "push_inv sample_configs \<and>
   map_option (\<lambda>(s, r). map Push_id (push_view s ''a'')) (InMemoryPush_Delete ''a'' ''y'' sample_configs) = Some [''x'', ''z'']"
proof -
  have v: "map Push_id (push_view sample_configs ''a'') = [''x'', ''y'', ''z'']" by code_simp
  obtain s'' r' where d: "InMemoryPush_Delete ''a'' ''y'' sample_configs = Some (s'', r')" "r' = ValidateLookup ''a'' ''y''"
    "push_view s'' = (if isl r' then push_view sample_configs
       else (push_view sample_configs)(''a'' := drop_config ''y'' (push_view sample_configs ''a'')))"
    using InMemoryPush_refines[OF sample_configs_inv, of "sample_config ''a'' ''x''" "''a''" "''y''" 0 "[]"]
    by (elim exE conjE) (rule that)
  have "map Push_id (drop_config ''y'' cs) = filter (\<lambda>i. i \<noteq> ''y'') (map Push_id cs)" for cs
    by (simp add: drop_config_def filter_map o_def)
  with d v sample_configs_inv show ?thesis by (simp add: ValidateLookup_def)
qed

text \<open>C22: A client that lists the configurations of a task with a positive page size and follows the page tokens sees
  every configuration exactly once, in the order of creation, and then an empty token.\<close>

theorem InMemoryPush_pages_complete:
  assumes "push_inv s" "t \<noteq> []" "0 < n" "length (push_view s t) \<le> SIZE_MAX" "length (push_view s t) < fuel"
  shows "follow_pages in_memory_push_ops t n s fuel [] = Some (push_view s t)"
  using assms by (rule mem_push.follow_pages_complete)

theorem InMemoryPush_pages_complete_witness:
  "map_option (map Push_id) (follow_pages in_memory_push_ops ''a'' 2 sample_configs 4 []) = Some [''x'', ''y'', ''z'']"
proof -
  have v: "map Push_id (push_view sample_configs ''a'') = [''x'', ''y'', ''z'']" by code_simp
  then have "length (push_view sample_configs ''a'') = 3" by (metis length_Cons length_map list.size(3) numeral_3_eq_3)
  then have "follow_pages in_memory_push_ops ''a'' 2 sample_configs 4 [] = Some (push_view sample_configs ''a'')"
    by (intro InMemoryPush_pages_complete) (simp_all add: sample_configs_inv SIZE_MAX_def)
  with v show ?thesis by simp
qed

section \<open>The service\<close>

definition memory_service :: "(Part \<Rightarrow> string) \<Rightarrow> (InMemoryTaskStore \<times> InMemoryPushNotificationStore) PushNotificationService" where
  "memory_service ser =
     \<lparr>psvc_task_store = Some (at_tasks (in_memory_ops ser)), psvc_push_store = Some (at_configs in_memory_push_ops),
      psvc_delivery_client = None\<rparr>"

text \<open>C23: The push notification service stores a configuration exactly when its task exists and the configuration is valid.
  Then the configuration can be read back. Otherwise it answers with an error and changes nothing; no task changes in
  either case.\<close>

theorem CreateConfig_only_for_tasks:
  assumes "store_inv tasks" "push_inv configs"
  shows "\<exists>configs' r. CreateConfig (memory_service ser) c (tasks, configs) = Some ((tasks, configs'), r) \<and>
     (if a_map (store_view tasks) (Push_task_id c) \<noteq> None \<and> ValidateConfig c = Inr ()
      then r = Inr c \<and> InMemoryPush_Get (Push_task_id c) (Push_id c) configs' = Some (Inr c)
      else isl r \<and> configs' = configs)"
proof -
  let ?w = "(tasks, configs)"
  have svc: "psvc_task_store (memory_service ser) = Some (at_tasks (in_memory_ops ser))"
    "psvc_push_store (memory_service ser) = Some (at_configs in_memory_push_ops)" by (simp_all add: memory_service_def)
  have "world_inv ?w" using assms by (simp add: world_inv_def)
  then obtain w' r where w': "CreateConfig (memory_service ser) c ?w = Some (w', r)"
    "world_inv w'" "isl r \<Longrightarrow> w' = ?w"
    "\<not> isl r \<longleftrightarrow> \<not> isl (spec_Get (Push_task_id c) (world_tasks ?w)) \<and> ValidateConfig c = Inr ()"
    "\<not> isl r \<Longrightarrow> r = Inr c \<and> world_configs w' = (world_configs ?w)(Push_task_id c :=
        put_config c (world_configs ?w (Push_task_id c)))"
    by (rule world.CreateConfig_spec[OF _ svc, of ?w c]) (rule that)
  obtain tasks' configs' where pair: "w' = (tasks', configs')" by fastforce
  have "tasks' = tasks"
    using w'(1) by (auto simp: CreateConfig_def memory_service_def task_aware_store_def at_configs_def at_tasks_def pair
        split: option.splits sum.splits)
  moreover have "isl r \<longleftrightarrow> \<not> (a_map (store_view tasks) (Push_task_id c) \<noteq> None \<and> ValidateConfig c = Inr ())"
    using w'(4) by (auto simp: world_tasks_def spec_Get_def spec_lookup_def ValidateConfig_def split: option.splits if_splits)
  moreover have "InMemoryPush_Get (Push_task_id c) (Push_id c) configs' = Some (Inr c)" if "\<not> isl r"
  proof -
    from that w'(4,5) have "push_view configs' (Push_task_id c) = put_config c (push_view configs (Push_task_id c))"
      and "ValidateConfig c = Inr ()" by (auto simp: world_configs_def pair)
    moreover from this(2) have "ValidateLookup (Push_task_id c) (Push_id c) = Inr ()"
      by (auto simp: ValidateConfig_def ValidateLookup_def split: if_splits)
    ultimately show ?thesis
      using mem_push.get_finds[of configs' "Push_task_id c" "Push_id c"] w'(2)
      by (simp add: in_memory_push_ops_def world_inv_def pair find_config_def find_put_config)
  qed
  ultimately show ?thesis using w'(1,3,5) by (auto simp: pair)
qed

theorem CreateConfig_only_for_tasks_witness:
  "\<exists>configs' r. CreateConfig (memory_service (\<lambda>_. [])) (sample_config ''b'' ''w'') (sample_store, sample_configs) =
     Some ((sample_store, configs'), r) \<and> r = Inr (sample_config ''b'' ''w'') \<and>
     InMemoryPush_Get ''b'' ''w'' configs' = Some r"
proof -
  have "a_map (store_view sample_store) ''b'' \<noteq> None" by code_simp
  moreover have "ValidateConfig (sample_config ''b'' ''w'') = Inr ()" by (simp add: ValidateConfig_def sample_config_def)
  ultimately show ?thesis
    using CreateConfig_only_for_tasks[OF sample_inv sample_configs_inv, of "\<lambda>_. []" "sample_config ''b'' ''w''"]
    by (simp add: sample_config_def)
qed

section \<open>Deliveries\<close>

text \<open>The configuration store beside any other state.\<close>

interpretation beside: push_store "at_configs in_memory_push_ops" "\<lambda>(a, p). push_inv p" "\<lambda>(a, p). push_view p"
proof (unfold_locales, goal_cases)
  case (1 s t) then show ?case by (auto dest: mem_push.configs_wf)
next
  case (2 s c e) then show ?case by (auto simp: at_configs_def mem_push.create_refused)
next
  case (3 s c)
  obtain a p where s: "s = (a, p)" by fastforce
  with 3 mem_push.create_stores[of p c] show ?case by (auto simp: at_configs_def)
next
  case (4 s t i) then show ?case by (auto simp: at_configs_def mem_push.get_finds)
next
  case (5 s t n token) then show ?case by (auto simp: at_configs_def mem_push.list_pages)
next
  case 6 then show ?case by (simp add: at_configs_def mem_push.list_existing)
next
  case (7 s t i e) then show ?case by (auto simp: at_configs_def mem_push.delete_refused)
next
  case (8 s t i)
  obtain a p where s: "s = (a, p)" by fastforce
  with 8 mem_push.delete_removes[of p t i] show ?case by (auto simp: at_configs_def)
qed


definition traced :: "('q \<Rightarrow> ('w, 'a) step) \<Rightarrow> 'q \<Rightarrow> ('w \<times> 'q list, 'a) step" where
  "traced send q = (\<lambda>(w, log). map_option (\<lambda>(w, r). ((w, log @ [q]), r)) (send q w))"

definition at_client :: "'a PushNotificationDeliveryClient \<Rightarrow> ('a \<times> 'b) PushNotificationDeliveryClient" where
  "at_client client = \<lparr>pdc_Deliver = (\<lambda>q (a, p). map_option (\<lambda>(a, x). ((a, p), x)) (pdc_Deliver client q a))\<rparr>"

definition traced_client :: "'w PushNotificationDeliveryClient \<Rightarrow> ('w \<times> PushDeliveryRequest list) PushNotificationDeliveryClient" where
  "traced_client client = \<lparr>pdc_Deliver = traced (pdc_Deliver client)\<rparr>"

text \<open>A step that always answers.\<close>

definition responsive :: "('q \<Rightarrow> ('w, 'a) step) \<Rightarrow> bool" where
  "responsive send \<longleftrightarrow> (\<forall>q w. send q w \<noteq> None)"

lemma notify_loop_trace:
  assumes "responsive (pdc_Deliver client)"
  shows "\<exists>v' k r. notify_loop (traced_client client) payload cs (v, log) =
     Some ((v', log @ map (\<lambda>c. \<lparr>pdr_config = c, pdr_payload = payload\<rparr>) (take k cs)), r) \<and> (r = Inr () \<longrightarrow> k = length cs)"
proof (induction cs arbitrary: v log)
  case Nil
  show ?case by simp
next
  case (Cons c cs)
  let ?q = "\<lparr>pdr_config = c, pdr_payload = payload\<rparr>"
  obtain v1 r1 where d: "pdc_Deliver client ?q v = Some (v1, r1)"
    using assms unfolding responsive_def by (metis not_Some_eq surj_pair)
  then have step: "pdc_Deliver (traced_client client) ?q (v, log) = Some ((v1, log @ [?q]), r1)"
    by (simp add: traced_client_def traced_def)
  show ?case
  proof (cases "\<exists>res. r1 = Inr res \<and> pdres_error_message res = [] \<and> 200 \<le> pdres_http_status res \<and> pdres_http_status res \<le> 299")
    case True
    then have loop: "notify_loop (traced_client client) payload (c # cs) (v, log) =
        notify_loop (traced_client client) payload cs (v1, log @ [?q])" by (auto simp: step)
    from Cons.IH[of v1 "log @ [?q]"] obtain v' k r where "notify_loop (traced_client client) payload cs (v1, log @ [?q]) =
        Some ((v', (log @ [?q]) @ map (\<lambda>c. \<lparr>pdr_config = c, pdr_payload = payload\<rparr>) (take k cs)), r)"
      "r = Inr () \<longrightarrow> k = length cs" by blast
    then show ?thesis unfolding loop by (intro exI[of _ v'] exI[of _ "Suc k"] exI[of _ r]) simp
  next
    case False
    then have "\<exists>e. notify_loop (traced_client client) payload (c # cs) (v, log) = Some ((v1, log @ [?q]), Inl e)"
      by (cases r1) (auto simp: step)
    then show ?thesis by (elim exE) (rule exI[of _ v1], rule exI[of _ 1], auto)
  qed
qed

lemma notify_loop_at_client:
  "notify_loop (at_client client) payload cs (a, p) = map_option (\<lambda>(a, x). ((a, p), x)) (notify_loop client payload cs a)"
proof (induction cs arbitrary: a)
  case (Cons c cs)
  show ?case
  proof (cases "pdc_Deliver client \<lparr>pdr_config = c, pdr_payload = payload\<rparr> a")
    case (Some x)
    then show ?thesis by (cases x; cases "snd x") (simp_all add: at_client_def flip: Cons.IH)
  qed (simp add: at_client_def)
qed simp


definition log_client :: "unit PushNotificationDeliveryClient" where
  "log_client = \<lparr>pdc_Deliver = (\<lambda>q w. Some (w, Inr \<lparr>pdres_http_status = 200, pdres_error_message = []\<rparr>))\<rparr>"

definition log_service ::
  "((unit \<times> PushDeliveryRequest list) \<times> InMemoryPushNotificationStore) PushNotificationService" where
  "log_service = \<lparr>psvc_task_store = None, psvc_push_store = Some (at_configs in_memory_push_ops),
     psvc_delivery_client = Some (at_client (traced_client log_client))\<rparr>"


section \<open>Delivery over HTTP\<close>

lemma DeliverHttpRequest_trace:
  assumes "responsive send"
  shows "\<exists>w' r. DeliverHttpRequest (traced send) q body version timeout (w, log) =
       Some ((w', log @ [BuildHttpRequest q body version timeout]), r) \<and>
     (\<forall>a. r = Inr a \<longrightarrow> 200 \<le> pdres_http_status a \<and> pdres_http_status a \<le> 299)"
proof -
  obtain w' r where "send (BuildHttpRequest q body version timeout) w = Some (w', r)"
    using assms unfolding responsive_def by (metis not_Some_eq surj_pair)
  then show ?thesis
    by (cases r) (auto simp: DeliverHttpRequest_def traced_def result_bind_def Let_def)
qed

text \<open>C21: Delivering a notification over HTTP sends at most two requests. Every one of them is a POST of the encoded
  notification to the configured address with a supported HTTP version, and none is sent when the address is not an http
  or https URL. It reports success only after a webhook answer in the 2xx range.\<close>

theorem Deliver_guarded:
  assumes "responsive send"
  shows "\<exists>w' sent r. HttpDelivery_Deliver enc (traced send) options q (w, []) = Some ((w', sent), r) \<and>
     length sent \<le> 2 \<and>
     (\<forall>h \<in> set sent. hreq_method h = ''POST'' \<and> hreq_url h = Push_url (pdr_config q) \<and>
        enc (pdr_payload q) = Inr (hreq_body h) \<and> IsSupportedHttpVersion (hreq_http_version h) \<and>
        hreq_timeout h = hpd_timeout options \<and>
        (prefix ''http://'' (hreq_url h) \<or> prefix ''https://'' (hreq_url h))) \<and>
     (\<forall>answer. r = Inr answer \<longrightarrow> sent \<noteq> [] \<and> 200 \<le> pdres_http_status answer \<and> pdres_http_status answer \<le> 299)"
proof (cases "result_bind (ValidateUrlScheme (Push_url (pdr_config q))) (\<lambda>_.
    result_bind (ValidateDeliveryOptions options) (\<lambda>_. enc (pdr_payload q)))")
  case (Inl e)
  then show ?thesis by (simp add: HttpDelivery_Deliver_def)
next
  case (Inr body)
  then have url: "prefix ''http://'' (Push_url (pdr_config q)) \<or> prefix ''https://'' (Push_url (pdr_config q))"
    and versions: "IsSupportedHttpVersion (hpd_http_version options)"
      "hpd_fallback_http_version options \<noteq> [] \<longrightarrow> IsSupportedHttpVersion (hpd_fallback_http_version options)"
    and body: "enc (pdr_payload q) = Inr body"
    by (auto simp: result_bind_def ValidateUrlScheme_def ValidateDeliveryOptions_def ValidateHttpVersion_def
        split: if_splits sum.splits)
  let ?h = "\<lambda>version. BuildHttpRequest q body version (hpd_timeout options)"
  have h: "hreq_method (?h v) = ''POST''" "hreq_url (?h v) = Push_url (pdr_config q)" "hreq_body (?h v) = body"
    "hreq_http_version (?h v) = v" "hreq_timeout (?h v) = hpd_timeout options" for v
    by (simp_all add: BuildHttpRequest_def kMethodPost_def)
  obtain w1 r1 where first: "DeliverHttpRequest (traced send) q body (hpd_http_version options) (hpd_timeout options) (w, []) =
      Some ((w1, [?h (hpd_http_version options)]), r1)" "\<forall>a. r1 = Inr a \<longrightarrow> 200 \<le> pdres_http_status a \<and> pdres_http_status a \<le> 299"
    using DeliverHttpRequest_trace[OF assms, of q body "hpd_http_version options" "hpd_timeout options" w "[]"] by auto
  obtain w2 r2 where second: "DeliverHttpRequest (traced send) q body (hpd_fallback_http_version options) (hpd_timeout options)
      (w1, [?h (hpd_http_version options)]) =
      Some ((w2, [?h (hpd_http_version options), ?h (hpd_fallback_http_version options)]), r2)"
    "\<forall>a. r2 = Inr a \<longrightarrow> 200 \<le> pdres_http_status a \<and> pdres_http_status a \<le> 299"
    using DeliverHttpRequest_trace[OF assms, of q body "hpd_fallback_http_version options" "hpd_timeout options" w1
      "[?h (hpd_http_version options)]"] by auto
  show ?thesis
  proof (cases "\<not> isl r1 \<or> hpd_fallback_http_version options = [] \<or> hpd_fallback_http_version options = hpd_http_version options")
    case True
    then have "HttpDelivery_Deliver enc (traced send) options q (w, []) = Some ((w1, [?h (hpd_http_version options)]), r1)"
      by (simp add: HttpDelivery_Deliver_def Inr first(1))
    then show ?thesis using first(2) url versions body by (simp add: h)
  next
    case False
    then have "HttpDelivery_Deliver enc (traced send) options q (w, []) =
        Some ((w2, [?h (hpd_http_version options), ?h (hpd_fallback_http_version options)]), r2)"
      by (simp add: HttpDelivery_Deliver_def Inr first(1) second(1))
    then show ?thesis using second(2) url versions body False by (simp add: h)
  qed
qed

definition webhook :: "HttpRequest \<Rightarrow> (unit, HttpResponse) step" where
  "webhook h w = Some (w, Inr \<lparr>hresp_status_code = (if hreq_http_version h = ''HTTP/2.0'' then 505 else 204),
     hresp_headers = [], hresp_body = []\<rparr>)"

theorem Deliver_guarded_witness:
  "\<exists>w' sent r. HttpDelivery_Deliver (\<lambda>_. Inr ''{}'') (traced webhook) default_HttpPushNotificationDeliveryOptions
       \<lparr>pdr_config = sample_config ''a'' ''x'', pdr_payload = StreamResponse_not_set\<rparr> ((), []) =
     Some ((w', sent), r) \<and> length sent \<le> 2 \<and> map hreq_http_version sent = [''HTTP/2.0'', ''HTTP/1.1''] \<and>
     r = Inr \<lparr>pdres_http_status = 204, pdres_error_message = []\<rparr>"
proof -
  let ?run = "HttpDelivery_Deliver (\<lambda>_. Inr ''{}'') (traced webhook) default_HttpPushNotificationDeliveryOptions
       \<lparr>pdr_config = sample_config ''a'' ''x'', pdr_payload = StreamResponse_not_set\<rparr> ((), [])"
  have eval: "map_option (\<lambda>((w, sent), r). (map hreq_http_version sent, r)) ?run =
      Some ([''HTTP/2.0'', ''HTTP/1.1''], Inr \<lparr>pdres_http_status = 204, pdres_error_message = []\<rparr>)" by code_simp
  have "responsive webhook" by (simp add: responsive_def webhook_def)
  with Deliver_guarded[of webhook "\<lambda>_. Inr ''{}''" default_HttpPushNotificationDeliveryOptions
    "\<lparr>pdr_config = sample_config ''a'' ''x'', pdr_payload = StreamResponse_not_set\<rparr>" "()"]
  obtain w' sent r where "?run = Some ((w', sent), r)" "length sent \<le> 2" by auto
  with eval show ?thesis by (intro exI[of _ w'] exI[of _ sent] exI[of _ r]) simp
qed

end
