(* ===== verification/Client_Auth.thy ===== *)
theory Client_Auth
  imports Http_Client Server_Context
begin

text \<open>
  The options of a client call: credentials (\<open>src/client/auth.cpp\<close>, \<open>include/a2a/client/auth.h\<close>, \<open>call_options.h\<close>) and the
  version header (\<open>src/client/transport/request_headers.h\<close>). The client carries security schemes of the agent card
  without looking at them: the type \<open>'scheme\<close>. Credential providers, token providers and header hooks of the caller are
  steps on a state \<open>'w\<close>; a hook has no result but the headers.
\<close>

definition kAcceptHeaderName :: string where "kAcceptHeaderName = ''Accept''"

section \<open>Credentials\<close>

record MtlsConfig =
  mtls_client_certificate_pem :: string
  mtls_client_private_key_pem :: string
  mtls_trusted_ca_pem :: string
  mtls_server_name_override :: string

record 'scheme AuthContext =
  ac_security_requirements :: "string list"
  ac_security_schemes :: "(string \<times> 'scheme) list"
  ac_oauth2_scopes :: "string list"
  ac_audience :: "string option"

type_synonym ('w, 'scheme) CredentialProvider = "'scheme AuthContext \<Rightarrow> ('w, headers) step"

definition ApiKey_GetHeaders :: "string \<Rightarrow> string \<Rightarrow> ('w, 'scheme) CredentialProvider" where
  "ApiKey_GetHeaders api_key header_name auth w =
     Some (w, if api_key = [] then Inl (Validation ''API key is required'')
              else if header_name = [] then Inl (Validation ''API key header name is required'')
              else Inr [(header_name, api_key)])"

definition BearerToken_GetHeaders :: "string \<Rightarrow> ('w, 'scheme) CredentialProvider" where
  "BearerToken_GetHeaders token auth w =
     Some (w, if token = [] then Inl (Validation ''Bearer token is required'')
              else Inr [(''Authorization'', ''Bearer '' @ token)])"

definition CustomHeader_GetHeaders :: "headers \<Rightarrow> ('w, 'scheme) CredentialProvider" where
  "CustomHeader_GetHeaders hs auth w =
     Some (w, if hs = [] then Inl (Validation ''At least one custom auth header is required'') else Inr hs)"

type_synonym ('w, 'scheme) OAuth2TokenProvider = "'scheme AuthContext \<Rightarrow> ('w, string) step"

definition OAuth2Bearer_GetHeaders :: "('w, 'scheme) OAuth2TokenProvider option \<Rightarrow> ('w, 'scheme) CredentialProvider" where
  "OAuth2Bearer_GetHeaders token_provider auth w =
     (case token_provider of
        None \<Rightarrow> Some (w, Inl (Internal ''OAuth2 token provider is not configured''))
      | Some GetAccessToken \<Rightarrow>
          map_option (\<lambda>(w, token). (w, result_bind token (\<lambda>token.
              if token = [] then Inl (Validation ''OAuth2 token provider returned an empty access token'')
              else Inr [(''Authorization'', ''Bearer '' @ token)])))
            (GetAccessToken auth w))"

definition insert_headers :: "headers \<Rightarrow> headers \<Rightarrow> headers" where
  "insert_headers new hs = foldl (\<lambda>hs (name, value). AList.update name value hs) hs new"

definition ApplyCredentialProvider ::
  "('w, 'scheme) CredentialProvider \<Rightarrow> 'scheme AuthContext \<Rightarrow> headers \<Rightarrow> ('w, headers) step" where
  "ApplyCredentialProvider provider auth hs w =
     map_option (\<lambda>(w, auth_headers). (w, result_bind auth_headers (\<lambda>new. Inr (insert_headers new hs)))) (provider auth w)"

section \<open>Call options\<close>

record ('w, 'scheme) CallOptions =
  co_timeout :: "int option"
  co_headers :: headers
  co_extensions :: "string list"
  co_auth_hook :: "(headers \<Rightarrow> 'w \<Rightarrow> ('w \<times> headers) option) option"
  co_credential_provider :: "('w, 'scheme) CredentialProvider option"
  co_auth_context :: "'scheme AuthContext"
  co_mtls :: "MtlsConfig option"
  co_tls :: "TlsOptions option"
  co_protocol_version :: string

definition default_CallOptions :: "('w, 'scheme) CallOptions" where
  "default_CallOptions =
     \<lparr>co_timeout = None, co_headers = [], co_extensions = [], co_auth_hook = None, co_credential_provider = None,
      co_auth_context = \<lparr>ac_security_requirements = [], ac_security_schemes = [], ac_oauth2_scopes = [], ac_audience = None\<rparr>,
      co_mtls = None, co_tls = None, co_protocol_version = kProtocolVersion\<rparr>"

definition ApplyProtocolVersion :: "('w, 'scheme) CallOptions \<Rightarrow> headers \<Rightarrow> headers Result" where
  "ApplyProtocolVersion options hs =
     (case MajorMinor (co_protocol_version options) of
        None \<Rightarrow> Inl (Validation ''A2A protocol version must be Major.Minor or Major.Minor.Patch'')
      | Some version \<Rightarrow>
          let hs = filter (\<lambda>h. \<not> EqualsAsciiCaseInsensitive (fst h) kVersionHeaderName) hs
          in Inr (AList.update kVersionHeaderName (if co_protocol_version options = [] then [] else version) hs))"

section \<open>Requests of the HTTP transports\<close>

record ClientHttpRequest =
  creq_method :: string
  creq_url :: string
  creq_headers :: headers
  creq_body :: string
  creq_timeout :: int
  creq_tls :: "TlsOptions option"
  creq_mtls :: "MtlsConfig option"

record HttpClientResponse =
  cresp_status_code :: int
  cresp_headers :: headers
  cresp_body :: string

type_synonym 'w HttpRequester = "ClientHttpRequest \<Rightarrow> ('w, HttpClientResponse) step"

datatype PreferredTransport = Transport_kRest | Transport_kJsonRpc | Transport_kGrpc

record 'scheme ResolvedInterface =
  ri_transport :: PreferredTransport
  ri_url :: string
  ri_security_requirements :: "string list"
  ri_security_schemes :: "(string \<times> 'scheme) list"

definition ToSharedHttpRequest :: "ClientHttpRequest \<Rightarrow> HttpRequest" where
  "ToSharedHttpRequest request =
     \<lparr>hreq_method = creq_method request, hreq_url = creq_url request, hreq_headers = creq_headers request,
      hreq_body = creq_body request, hreq_timeout = creq_timeout request, hreq_tls = creq_tls request,
      hreq_http_version = ''HTTP/1.1''\<rparr>"

definition ToClientHttpResponse :: "HttpResponse \<Rightarrow> HttpClientResponse" where
  "ToClientHttpResponse response =
     \<lparr>cresp_status_code = hresp_status_code response, cresp_headers = insert_headers (hresp_headers response) [],
      cresp_body = hresp_body response\<rparr>"

text \<open>The requester over the shared HTTP client, whose \<open>SendRequest\<close> is a parameter.\<close>

definition MakeHttpRequesterForClient :: "(HttpRequest \<Rightarrow> ('w, HttpResponse) step) \<Rightarrow> 'w HttpRequester" where
  "MakeHttpRequesterForClient SendRequest request w =
     (if creq_mtls request \<noteq> None
      then Some (w, Inl (Validation
        ''default libcurl HTTP requester does not support mTLS options; inject a custom requester for mTLS''))
      else map_option (\<lambda>(w, response). (w, map_sum id ToClientHttpResponse response))
             (SendRequest (ToSharedHttpRequest request) w))"

text \<open>The headers the HTTP transports send: those of the caller, the content types (that of the body only where there is
  one), the extensions, then what the hook and the credential provider make of them, and the version.\<close>

definition base_headers :: "bool \<Rightarrow> string \<Rightarrow> ('w, 'scheme) CallOptions \<Rightarrow> headers" where
  "base_headers json_body accept options =
     (let hs = AList.update kAcceptHeaderName accept
            (if json_body then AList.update kContentTypeHeaderName kContentTypeApplicationJson (co_headers options)
             else co_headers options)
      in if co_extensions options \<noteq> [] then AList.update kExtensionsHeaderName (Extensions_Format (co_extensions options)) hs
         else hs)"

definition authorized_headers :: "bool \<Rightarrow> string \<Rightarrow> ('w, 'scheme) CallOptions \<Rightarrow> ('w, headers) step" where
  "authorized_headers json_body accept options w =
     do { (w, hs) \<leftarrow> (case co_auth_hook options of
              None \<Rightarrow> Some (w, base_headers json_body accept options)
            | Some hook \<Rightarrow> hook (base_headers json_body accept options) w);
          (w, hs) \<leftarrow> (case co_credential_provider options of
              None \<Rightarrow> Some (w, Inr hs)
            | Some provider \<Rightarrow> ApplyCredentialProvider provider (co_auth_context options) hs w);
          Some (w, result_bind hs (ApplyProtocolVersion options)) }"

definition ValidateResponseVersion :: "string \<Rightarrow> HttpClientResponse \<Rightarrow> unit Result" where
  "ValidateResponseVersion transport response =
     (case FindHeaderValue (cresp_headers response) kVersionHeaderName of
        None \<Rightarrow> Inr ()
      | Some version \<Rightarrow>
          if IsSupported version then Inr ()
          else Inl (WithProtocolCode version (WithTransport transport
                 (UnsupportedVersion ''Server returned unsupported A2A-Version header''))))"

end
