(* ===== verification/Http_Json_Client.thy ===== *)
theory Http_Json_Client
  imports Client_Auth Rest_Transport
begin

text \<open>
  The client's REST transport (\<open>src/client/transport/http_json_transport.cpp\<close>, \<open>http_json_transport_internal.cpp\<close>): the
  endpoints, the request, the mapping of HTTP errors and the parsing of answers. The requester is a parameter; a null
  requester is \<open>None\<close>.
\<close>

section \<open>Endpoints\<close>

definition EndpointMap_kSendMessage :: string where "EndpointMap_kSendMessage = ''/message:send''"
definition EndpointMap_kTaskCollection :: string where "EndpointMap_kTaskCollection = ''/tasks''"
definition EndpointMap_kPushConfigCollection :: string where
  "EndpointMap_kPushConfigCollection = kPushNotificationConfigsSegment"

definition strip_slashes :: "string \<Rightarrow> string" where
  "strip_slashes base = rev (dropWhile (\<lambda>c. c = CHR ''/'') (rev base))"

definition HttpJson_JoinUrl :: "string \<Rightarrow> string \<Rightarrow> string" where
  "HttpJson_JoinUrl interface_base_url rpc_endpoint =
     (let base = strip_slashes interface_base_url in
      if rpc_endpoint = [] then base
      else (if prefix ''/'' rpc_endpoint then base else base @ ''/'') @ rpc_endpoint)"

definition BuildTaskPath :: "string \<Rightarrow> string" where
  "BuildTaskPath task_id = EndpointMap_kTaskCollection @ ''/'' @ task_id"

definition BuildTaskPushConfigCollectionPath :: "string \<Rightarrow> string" where
  "BuildTaskPushConfigCollectionPath task_id = BuildTaskPath task_id @ EndpointMap_kPushConfigCollection"

definition BuildTaskPushConfigPath :: "string \<Rightarrow> string \<Rightarrow> string" where
  "BuildTaskPushConfigPath task_id config_id = BuildTaskPushConfigCollectionPath task_id @ ''/'' @ config_id"

text \<open>The query string of both listings.\<close>

definition page_query :: "string option \<Rightarrow> string \<Rightarrow> string" where
  "page_query page_size page_token =
     (if page_size \<noteq> None \<or> page_token \<noteq> []
      then ''?'' @ (case page_size of None \<Rightarrow> [] | Some n \<Rightarrow> ''pageSize='' @ n) @
        (if page_token \<noteq> [] then (if page_size \<noteq> None then ''&'' else []) @ ''pageToken='' @ page_token else [])
      else [])"

section \<open>Sending\<close>

record ('w, 'scheme) HttpJsonTransport =
  hj_resolved_interface :: "'scheme ResolvedInterface"
  hj_requester :: "'w HttpRequester option"
  hj_default_timeout :: int

definition HttpJson_request ::
  "('w, 'scheme) HttpJsonTransport \<Rightarrow> string \<Rightarrow> string \<Rightarrow> string \<Rightarrow> ('w, 'scheme) CallOptions \<Rightarrow> headers \<Rightarrow>
   ClientHttpRequest" where
  "HttpJson_request transport http_method endpoint body options hs =
     \<lparr>creq_method = http_method, creq_url = HttpJson_JoinUrl (ri_url (hj_resolved_interface transport)) endpoint,
      creq_headers = hs, creq_body = body,
      creq_timeout = (case co_timeout options of None \<Rightarrow> hj_default_timeout transport | Some t \<Rightarrow> t),
      creq_tls = co_tls options, creq_mtls = co_mtls options\<rparr>"

definition HttpJson_SendRequest ::
  "('w, 'scheme) HttpJsonTransport \<Rightarrow> string \<Rightarrow> string \<Rightarrow> string \<Rightarrow> ('w, 'scheme) CallOptions \<Rightarrow>
   ('w, HttpClientResponse) step" where
  "HttpJson_SendRequest transport http_method endpoint body options w =
     (if ri_transport (hj_resolved_interface transport) \<noteq> Transport_kRest
      then Some (w, Inl (Validation ''HttpJsonTransport requires a REST interface''))
      else case hj_requester transport of
          None \<Rightarrow> Some (w, Inl (Internal ''HTTP requester is not configured''))
        | Some requester \<Rightarrow>
            if ri_url (hj_resolved_interface transport) = []
            then Some (w, Inl (Validation ''Resolved REST interface URL is required''))
            else do { (w, hs) \<leftarrow> authorized_headers True kContentTypeApplicationJson options w;
                      case hs of
                        Inl e \<Rightarrow> Some (w, Inl e)
                      | Inr hs \<Rightarrow>
                          do { (w, response) \<leftarrow> requester (HttpJson_request transport http_method endpoint body options hs) w;
                               Some (w, result_bind response (\<lambda>response.
                                 result_bind (ValidateResponseVersion ''http'' response) (\<lambda>_. Inr response))) } })"

section \<open>Answers\<close>

definition struct_code :: "'card ProtoJson \<Rightarrow> string \<Rightarrow> string option" where
  "struct_code pj body =
     (if body \<noteq> [] \<and> hd body = CHR ''{'' then
        (case parse_Struct pj lenient_parse body of
           Inl _ \<Rightarrow> None
         | Inr status_payload \<Rightarrow>
             (case map_of status_payload ''code'' of Some (StringValue code) \<Rightarrow> Some code | _ \<Rightarrow> None))
      else None)"

definition BuildHttpError :: "'card ProtoJson \<Rightarrow> string \<Rightarrow> string \<Rightarrow> HttpClientResponse \<Rightarrow> Error" where
  "BuildHttpError pj http_method endpoint response =
     (let message = ''HTTP request failed for '' @ http_method @ '' '' @ endpoint @
            (if cresp_body response \<noteq> [] then '': '' @ cresp_body response else []);
          error = WithHttpStatus (cresp_status_code response) (WithTransport ''http'' (RemoteProtocol message))
      in case struct_code pj (cresp_body response) of None \<Rightarrow> error | Some code \<Rightarrow> WithProtocolCode code error)"

definition http_ok :: "HttpClientResponse \<Rightarrow> bool" where
  "http_ok response \<longleftrightarrow> 200 \<le> cresp_status_code response \<and> cresp_status_code response \<le> 299"

definition with_http_context :: "HttpClientResponse \<Rightarrow> 'a Result \<Rightarrow> 'a Result" where
  "with_http_context response parsed =
     map_sum (\<lambda>e. WithHttpStatus (cresp_status_code response) (WithTransport ''http'' e)) id parsed"

definition ParseBodyOrMapError ::
  "'card ProtoJson \<Rightarrow> (ProtoJsonParseOptions \<Rightarrow> string \<Rightarrow> 'm Result) \<Rightarrow> string \<Rightarrow> string \<Rightarrow> HttpClientResponse \<Rightarrow> 'm Result" where
  "ParseBodyOrMapError pj JsonToMessage http_method endpoint response =
     (if \<not> http_ok response then Inl (BuildHttpError pj http_method endpoint response)
      else with_http_context response (JsonToMessage default_parse (cresp_body response)))"

record ClientListTasksRequest =
  cltr_page_size :: nat
  cltr_page_token :: string

record ClientListTasksResponse =
  cltresp_tasks :: "Task list"
  cltresp_next_page_token :: string

definition strict_list_parse :: ProtoJsonParseOptions where
  "strict_list_parse = default_parse\<lparr>ignore_unknown_fields := True, reject_top_level_null_fields := True,
     reject_duplicate_top_level_fields := True\<rparr>"

definition to_client_list :: "ListTasksResponsePayload \<Rightarrow> ClientListTasksResponse" where
  "to_client_list payload =
     \<lparr>cltresp_tasks = LTPay_tasks payload, cltresp_next_page_token = LTPay_next_page_token payload\<rparr>"

definition ParseListTasksResponsePayload ::
  "'card ProtoJson \<Rightarrow> HttpClientResponse \<Rightarrow> string \<Rightarrow> ClientListTasksResponse Result" where
  "ParseListTasksResponsePayload pj response endpoint =
     (if \<not> http_ok response then Inl (BuildHttpError pj kMethodGet endpoint response)
      else map_sum id to_client_list
             (with_http_context response (parse_ListTasksResponse pj strict_list_parse (cresp_body response))))"

section \<open>Calls\<close>

text \<open>A request and what is made of its answer.\<close>

definition http_call ::
  "('w, 'scheme) HttpJsonTransport \<Rightarrow> string \<Rightarrow> string \<Rightarrow> string \<Rightarrow> ('w, 'scheme) CallOptions \<Rightarrow>
   (HttpClientResponse \<Rightarrow> 'm Result) \<Rightarrow> ('w, 'm) step" where
  "http_call transport http_method endpoint body options parse w =
     map_option (\<lambda>(w, response). (w, result_bind response parse))
       (HttpJson_SendRequest transport http_method endpoint body options w)"

definition HttpJson_SendMessage ::
  "'card ProtoJson \<Rightarrow> ('w, 'scheme) HttpJsonTransport \<Rightarrow> SendMessageRequest \<Rightarrow> ('w, 'scheme) CallOptions \<Rightarrow>
   ('w, SendMessageResponse) step" where
  "HttpJson_SendMessage pj transport request options w =
     (case json_SendMessageRequest pj request of
        Inl e \<Rightarrow> Some (w, Inl e)
      | Inr body \<Rightarrow>
          http_call transport kMethodPost EndpointMap_kSendMessage body options
            (ParseBodyOrMapError pj (parse_SendMessageResponse pj) kMethodPost EndpointMap_kSendMessage) w)"

definition get_task_endpoint :: "GetTaskRequest \<Rightarrow> string" where
  "get_task_endpoint request =
     BuildTaskPath (GTR_id request) @
       (case GTR_history_length request of None \<Rightarrow> [] | Some n \<Rightarrow> ''?historyLength='' @ to_string_int n)"

definition HttpJson_GetTask ::
  "'card ProtoJson \<Rightarrow> ('w, 'scheme) HttpJsonTransport \<Rightarrow> GetTaskRequest \<Rightarrow> ('w, 'scheme) CallOptions \<Rightarrow> ('w, Task) step" where
  "HttpJson_GetTask pj transport request options w =
     (if GTR_id request = [] then Some (w, Inl (Validation ''GetTaskRequest.id is required''))
      else let endpoint = get_task_endpoint request in
        http_call transport kMethodGet endpoint [] options (ParseBodyOrMapError pj (parse_Task pj) kMethodGet endpoint) w)"

definition list_tasks_endpoint :: "ClientListTasksRequest \<Rightarrow> string" where
  "list_tasks_endpoint request =
     EndpointMap_kTaskCollection @
       page_query (if cltr_page_size request > 0 then Some (to_string_nat (cltr_page_size request)) else None)
         (cltr_page_token request)"

definition HttpJson_ListTasks ::
  "'card ProtoJson \<Rightarrow> ('w, 'scheme) HttpJsonTransport \<Rightarrow> ClientListTasksRequest \<Rightarrow> ('w, 'scheme) CallOptions \<Rightarrow>
   ('w, ClientListTasksResponse) step" where
  "HttpJson_ListTasks pj transport request options w =
     (let endpoint_path = list_tasks_endpoint request in
      http_call transport kMethodGet endpoint_path [] options
        (\<lambda>response. ParseListTasksResponsePayload pj response endpoint_path) w)"

definition HttpJson_CancelTask ::
  "'card ProtoJson \<Rightarrow> ('w, 'scheme) HttpJsonTransport \<Rightarrow> CancelTaskRequest \<Rightarrow> ('w, 'scheme) CallOptions \<Rightarrow> ('w, Task) step" where
  "HttpJson_CancelTask pj transport request options w =
     (if CTR_id request = [] then Some (w, Inl (Validation ''CancelTaskRequest.id is required''))
      else let endpoint = BuildTaskPath (CTR_id request) @ '':cancel'' in
        http_call transport kMethodPost endpoint ''{}'' options
          (ParseBodyOrMapError pj (parse_Task pj) kMethodPost endpoint) w)"

definition HttpJson_CreateTaskPushNotificationConfig ::
  "'card ProtoJson \<Rightarrow> ('w, 'scheme) HttpJsonTransport \<Rightarrow> TaskPushNotificationConfig \<Rightarrow> ('w, 'scheme) CallOptions \<Rightarrow>
   ('w, TaskPushNotificationConfig) step" where
  "HttpJson_CreateTaskPushNotificationConfig pj transport request options w =
     (if Push_task_id request = [] then Some (w, Inl (Validation ''TaskPushNotificationConfig.task_id is required''))
      else case json_PushConfig pj request of
          Inl e \<Rightarrow> Some (w, Inl e)
        | Inr body \<Rightarrow>
            let endpoint = BuildTaskPushConfigCollectionPath (Push_task_id request) in
            http_call transport kMethodPost endpoint body options
              (ParseBodyOrMapError pj (parse_PushConfig pj) kMethodPost endpoint) w)"

definition HttpJson_GetTaskPushNotificationConfig ::
  "'card ProtoJson \<Rightarrow> ('w, 'scheme) HttpJsonTransport \<Rightarrow> GetTaskPushNotificationConfigRequest \<Rightarrow>
   ('w, 'scheme) CallOptions \<Rightarrow> ('w, TaskPushNotificationConfig) step" where
  "HttpJson_GetTaskPushNotificationConfig pj transport request options w =
     (if GPR_task_id request = []
      then Some (w, Inl (Validation ''GetTaskPushNotificationConfigRequest.task_id is required''))
      else if GPR_id request = [] then Some (w, Inl (Validation ''GetTaskPushNotificationConfigRequest.id is required''))
      else let endpoint = BuildTaskPushConfigPath (GPR_task_id request) (GPR_id request) in
        http_call transport kMethodGet endpoint [] options
          (ParseBodyOrMapError pj (parse_PushConfig pj) kMethodGet endpoint) w)"

definition list_push_configs_endpoint :: "ListTaskPushNotificationConfigsRequest \<Rightarrow> string" where
  "list_push_configs_endpoint request =
     BuildTaskPushConfigCollectionPath (LPR_task_id request) @
       page_query (if LPR_page_size request > 0 then Some (to_string_int (LPR_page_size request)) else None)
         (LPR_page_token request)"

definition HttpJson_ListTaskPushNotificationConfigs ::
  "'card ProtoJson \<Rightarrow> ('w, 'scheme) HttpJsonTransport \<Rightarrow> ListTaskPushNotificationConfigsRequest \<Rightarrow>
   ('w, 'scheme) CallOptions \<Rightarrow> ('w, ListTaskPushNotificationConfigsResponse) step" where
  "HttpJson_ListTaskPushNotificationConfigs pj transport request options w =
     (if LPR_task_id request = []
      then Some (w, Inl (Validation ''ListTaskPushNotificationConfigsRequest.task_id is required''))
      else let path = list_push_configs_endpoint request in
        http_call transport kMethodGet path [] options
          (ParseBodyOrMapError pj (parse_PushConfigList pj) kMethodGet path) w)"

definition delete_answer :: "'card ProtoJson \<Rightarrow> string \<Rightarrow> HttpClientResponse \<Rightarrow> unit Result" where
  "delete_answer pj endpoint response =
     (if \<not> http_ok response then Inl (BuildHttpError pj kMethodDelete endpoint response)
      else if cresp_status_code response \<noteq> 204 \<and> cresp_body response \<noteq> [] \<and> cresp_body response \<noteq> ''{}''
      then with_http_context response (parse_Empty pj default_parse (cresp_body response))
      else Inr ())"

definition HttpJson_DeleteTaskPushNotificationConfig ::
  "'card ProtoJson \<Rightarrow> ('w, 'scheme) HttpJsonTransport \<Rightarrow> DeleteTaskPushNotificationConfigRequest \<Rightarrow>
   ('w, 'scheme) CallOptions \<Rightarrow> ('w, unit) step" where
  "HttpJson_DeleteTaskPushNotificationConfig pj transport request options w =
     (if DPR_task_id request = []
      then Some (w, Inl (Validation ''DeleteTaskPushNotificationConfigRequest.task_id is required''))
      else if DPR_id request = [] then Some (w, Inl (Validation ''DeleteTaskPushNotificationConfigRequest.id is required''))
      else let endpoint = BuildTaskPushConfigPath (DPR_task_id request) (DPR_id request) in
        http_call transport kMethodDelete endpoint [] options (delete_answer pj endpoint) w)"

end
