(* ===== verification/Json_Rpc_Client.thy ===== *)
theory Json_Rpc_Client
  imports Http_Json_Client Core_Json
begin

text \<open>
  The client's JSON-RPC transport (\<open>src/client/transport/json_rpc_transport.cpp\<close>, \<open>json_rpc_transport_internal.cpp\<close>): the
  request envelope, the request, and the checks of the response envelope. The generator of request ids is a step on the
  state; the default one counts. The outcome \<open>None\<close> is an exception of a parameter or of the extraction of the result.
\<close>

section \<open>Envelopes\<close>

definition quoted :: "string \<Rightarrow> string" where
  "quoted s = [CHR 0x22] @ s @ [CHR 0x22]"

definition BuildJsonRpcEnvelope :: "'card ProtoJson \<Rightarrow> string \<Rightarrow> string Result \<Rightarrow> string \<Rightarrow> string Result" where
  "BuildJsonRpcEnvelope pj method_name request_json request_id =
     result_bind request_json (\<lambda>request_json.
       case (json_Value pj (StringValue request_id), json_Value pj (StringValue method_name)) of
         (Inr id_json, Inr method_json) \<Rightarrow>
           Inr (''{'' @ quoted ''jsonrpc'' @ '':'' @ quoted ''2.0'' @ '','' @ quoted ''id'' @ '':'' @ id_json @ '','' @
                quoted ''method'' @ '':'' @ method_json @ '','' @ quoted ''params'' @ '':'' @ request_json @ ''}'')
       | _ \<Rightarrow> Inl (Serialization ''Failed to serialize JSON-RPC envelope fields''))"

definition BuildJsonRpcEnvelopeError :: "string \<Rightarrow> HttpClientResponse \<Rightarrow> Error" where
  "BuildJsonRpcEnvelopeError message response =
     WithHttpStatus (cresp_status_code response) (WithTransport ''jsonrpc'' (RemoteProtocol message))"

text \<open>\<open>number >= INT_MIN\<close> and \<open>number <= INT_MAX\<close> on a double, by its integral part.\<close>

definition dbl_in_int_range :: "64 word \<Rightarrow> bool" where
  "dbl_in_int_range d \<longleftrightarrow> dbl_finite d \<and>
     (INT32_MIN < dbl_trunc d \<or> dbl_trunc d = INT32_MIN \<and> dbl_integral d) \<and>
     (dbl_trunc d < INT32_MAX \<or> dbl_trunc d = INT32_MAX \<and> dbl_integral d)"

fun json_number :: "JsonElement \<Rightarrow> 64 word option" where
  "json_number (JInteger n) = Some (double_of_int n)"
| "json_number (JDouble d) = Some d"
| "json_number _ = None"

definition remote_code :: "SimdJson \<Rightarrow> JsonElement \<Rightarrow> string" where
  "remote_code sj code_value =
     (case code_value of
        JString s \<Rightarrow> s
      | _ \<Rightarrow> (case json_number code_value of
               None \<Rightarrow> []
             | Some number \<Rightarrow> if dbl_in_int_range number then to_string_int (dbl_trunc number) else sj_minify sj code_value))"

definition BuildRemoteJsonRpcError :: "SimdJson \<Rightarrow> JsonElement \<Rightarrow> HttpClientResponse \<Rightarrow> Error" where
  "BuildRemoteJsonRpcError sj error_value response =
     (if \<not> is_json_object error_value
      then BuildJsonRpcEnvelopeError ''JSON-RPC error payload must be an object'' response
      else let message = (case json_string (json_at error_value ''message'') of
                            None \<Rightarrow> ''JSON-RPC request failed'' | Some message \<Rightarrow> message);
               code = (case json_at error_value ''code'' of None \<Rightarrow> [] | Some code_value \<Rightarrow> remote_code sj code_value);
               error = BuildJsonRpcEnvelopeError message response
           in if code = [] then error else WithProtocolCode code error)"

definition ParseResponseResult :: "SimdJson \<Rightarrow> HttpClientResponse \<Rightarrow> string \<Rightarrow> string Result option" where
  "ParseResponseResult sj response expected_id =
     (case JsonDocument_ParseObject sj (cresp_body response) of
        Inl e \<Rightarrow> Some (Inl (WithHttpStatus (cresp_status_code response) (WithTransport ''jsonrpc'' e)))
      | Inr envelope \<Rightarrow>
          let refuse = (\<lambda>message. Some (Inl (BuildJsonRpcEnvelopeError message response))) in
          if json_string (json_at envelope ''jsonrpc'') \<noteq> Some ''2.0'' then refuse ''JSON-RPC response has invalid version''
          else case json_string (json_at envelope ''id'') of
              None \<Rightarrow> refuse ''JSON-RPC response id must be a string''
            | Some response_id \<Rightarrow>
                if response_id \<noteq> expected_id then refuse ''JSON-RPC response id does not match request id''
                else case (json_at envelope ''error'', json_at envelope ''result'') of
                    (Some _, Some _) \<Rightarrow> refuse ''JSON-RPC response must not contain both result and error''
                  | (Some e, None) \<Rightarrow> Some (Inl (BuildRemoteJsonRpcError sj e response))
                  | (None, None) \<Rightarrow> refuse ''JSON-RPC response is missing result''
                  | (None, Some _) \<Rightarrow> map_option Inr (JsonMember sj (cresp_body response) ''result''))"

definition ParseResultMessage ::
  "(ProtoJsonParseOptions \<Rightarrow> string \<Rightarrow> 'm Result) \<Rightarrow> string \<Rightarrow> int \<Rightarrow> 'm Result" where
  "ParseResultMessage JsonToMessage json response_status_code =
     map_sum (\<lambda>e. WithHttpStatus response_status_code (WithTransport ''jsonrpc'' e)) id (JsonToMessage default_parse json)"

section \<open>Sending\<close>

definition BuildDefaultRequestId :: "64 word \<Rightarrow> 64 word \<times> string" where
  "BuildDefaultRequestId sequence = (sequence + 1, ''jsonrpc-'' @ to_string_nat (unat sequence))"

record ('w, 'scheme) JsonRpcTransport =
  jr_resolved_interface :: "'scheme ResolvedInterface"
  jr_requester :: "'w HttpRequester option"
  jr_default_timeout :: int
  jr_id_generator :: "'w \<Rightarrow> ('w \<times> string) option"

definition JsonRpc_request ::
  "('w, 'scheme) JsonRpcTransport \<Rightarrow> string \<Rightarrow> ('w, 'scheme) CallOptions \<Rightarrow> headers \<Rightarrow> ClientHttpRequest" where
  "JsonRpc_request transport body options hs =
     \<lparr>creq_method = kMethodPost, creq_url = strip_slashes (ri_url (jr_resolved_interface transport)),
      creq_headers = hs, creq_body = body,
      creq_timeout = (case co_timeout options of None \<Rightarrow> jr_default_timeout transport | Some t \<Rightarrow> t),
      creq_tls = co_tls options, creq_mtls = co_mtls options\<rparr>"

definition SendJsonRpcRequest ::
  "('w, 'scheme) JsonRpcTransport \<Rightarrow> string \<Rightarrow> ('w, 'scheme) CallOptions \<Rightarrow> ('w, HttpClientResponse) step" where
  "SendJsonRpcRequest transport request_body options w =
     (if ri_transport (jr_resolved_interface transport) \<noteq> Transport_kJsonRpc
      then Some (w, Inl (Validation ''JsonRpcTransport requires a JSON-RPC interface''))
      else if ri_url (jr_resolved_interface transport) = []
      then Some (w, Inl (Validation ''Resolved JSON-RPC interface URL is required''))
      else case jr_requester transport of
          None \<Rightarrow> Some (w, Inl (Internal ''HTTP requester is not configured''))
        | Some requester \<Rightarrow>
            do { (w, hs) \<leftarrow> authorized_headers True kContentTypeApplicationJson options w;
                 case hs of
                   Inl e \<Rightarrow> Some (w, Inl e)
                 | Inr hs \<Rightarrow>
                     do { (w, response) \<leftarrow> requester (JsonRpc_request transport request_body options hs) w;
                          Some (w, result_bind response (\<lambda>response.
                            result_bind (ValidateResponseVersion ''jsonrpc'' response) (\<lambda>_. Inr response))) } })"

definition ValidateJsonRpcHttpStatus :: "HttpClientResponse \<Rightarrow> unit Result" where
  "ValidateJsonRpcHttpStatus response =
     (if http_ok response then Inr ()
      else Inl (BuildJsonRpcEnvelopeError ''JSON-RPC response received with non-success HTTP status'' response))"

text \<open>An envelope with a fresh id is sent; \<open>parse\<close> makes the outcome of the answer and the id.\<close>

definition json_rpc_exchange ::
  "'card ProtoJson \<Rightarrow> ('w, 'scheme) JsonRpcTransport \<Rightarrow> string \<Rightarrow> string Result \<Rightarrow> ('w, 'scheme) CallOptions \<Rightarrow>
   (HttpClientResponse \<Rightarrow> string \<Rightarrow> 'm Result option) \<Rightarrow> ('w, 'm) step" where
  "json_rpc_exchange pj transport method_name request_json options parse w =
     do { (w, request_id) \<leftarrow> jr_id_generator transport w;
          if request_id = [] then Some (w, Inl (Internal ''JSON-RPC request id generator returned an empty id''))
          else case BuildJsonRpcEnvelope pj method_name request_json request_id of
              Inl e \<Rightarrow> Some (w, Inl e)
            | Inr envelope_json \<Rightarrow>
                do { (w, response) \<leftarrow> SendJsonRpcRequest transport envelope_json options w;
                     case response of
                       Inl e \<Rightarrow> Some (w, Inl e)
                     | Inr response \<Rightarrow> map_option (\<lambda>r. (w, r)) (parse response request_id) } }"

definition result_json :: "SimdJson \<Rightarrow> HttpClientResponse \<Rightarrow> string \<Rightarrow> string Result option" where
  "result_json sj response request_id =
     map_option (\<lambda>result. result_bind result (\<lambda>result.
         result_bind (ValidateJsonRpcHttpStatus response) (\<lambda>_. Inr result)))
       (ParseResponseResult sj response request_id)"

definition InvokeForResultJson ::
  "SimdJson \<Rightarrow> 'card ProtoJson \<Rightarrow> ('w, 'scheme) JsonRpcTransport \<Rightarrow> string \<Rightarrow> string Result \<Rightarrow>
   ('w, 'scheme) CallOptions \<Rightarrow> ('w, string) step" where
  "InvokeForResultJson sj pj transport method_name request_json options w =
     (if method_name = [] then Some (w, Inl (Validation ''JSON-RPC method name is required''))
      else json_rpc_exchange pj transport method_name request_json options (result_json sj) w)"

section \<open>Calls\<close>

definition invoke_typed ::
  "SimdJson \<Rightarrow> 'card ProtoJson \<Rightarrow> ('w, 'scheme) JsonRpcTransport \<Rightarrow> string \<Rightarrow> string Result \<Rightarrow>
   (ProtoJsonParseOptions \<Rightarrow> string \<Rightarrow> 'm Result) \<Rightarrow> ('w, 'scheme) CallOptions \<Rightarrow> ('w, 'm) step" where
  "invoke_typed sj pj transport method_name request_json JsonToMessage options w =
     map_option (\<lambda>(w, result). (w, result_bind result (\<lambda>json. ParseResultMessage JsonToMessage json 200)))
       (InvokeForResultJson sj pj transport method_name request_json options w)"

definition JsonRpc_SendMessage ::
  "SimdJson \<Rightarrow> 'card ProtoJson \<Rightarrow> ('w, 'scheme) JsonRpcTransport \<Rightarrow> SendMessageRequest \<Rightarrow> ('w, 'scheme) CallOptions \<Rightarrow>
   ('w, SendMessageResponse) step" where
  "JsonRpc_SendMessage sj pj transport request options =
     invoke_typed sj pj transport ''a2a.sendMessage'' (json_SendMessageRequest pj request) (parse_SendMessageResponse pj) options"

definition JsonRpc_GetTask ::
  "SimdJson \<Rightarrow> 'card ProtoJson \<Rightarrow> ('w, 'scheme) JsonRpcTransport \<Rightarrow> GetTaskRequest \<Rightarrow> ('w, 'scheme) CallOptions \<Rightarrow>
   ('w, Task) step" where
  "JsonRpc_GetTask sj pj transport request options w =
     (if GTR_id request = [] then Some (w, Inl (Validation ''GetTaskRequest.id is required''))
      else invoke_typed sj pj transport ''a2a.getTask'' (json_GetTaskRequest pj request) (parse_Task pj) options w)"

definition list_tasks_params :: "ClientListTasksRequest \<Rightarrow> Struct" where
  "list_tasks_params request =
     (if cltr_page_size request > 0 then [(''pageSize'', NumberValue (double_of_int (int (cltr_page_size request))))] else []) @
     (if cltr_page_token request \<noteq> [] then [(''pageToken'', StringValue (cltr_page_token request))] else [])"

definition ParseListTasksResult ::
  "SimdJson \<Rightarrow> 'card ProtoJson \<Rightarrow> HttpClientResponse \<Rightarrow> string \<Rightarrow> ListTasksResponsePayload Result option" where
  "ParseListTasksResult sj pj response expected_id =
     map_option (\<lambda>json. result_bind json (\<lambda>json.
         map_sum (\<lambda>e. WithHttpStatus (cresp_status_code response) (WithTransport ''jsonrpc'' e)) id
           (parse_ListTasksResponse pj strict_list_parse json)))
       (result_json sj response expected_id)"

definition JsonRpc_ListTasks ::
  "SimdJson \<Rightarrow> 'card ProtoJson \<Rightarrow> ('w, 'scheme) JsonRpcTransport \<Rightarrow> ClientListTasksRequest \<Rightarrow>
   ('w, 'scheme) CallOptions \<Rightarrow> ('w, ClientListTasksResponse) step" where
  "JsonRpc_ListTasks sj pj transport request options w =
     json_rpc_exchange pj transport ''a2a.listTasks'' (json_Struct pj (list_tasks_params request)) options
       (\<lambda>response request_id. map_option (map_sum id to_client_list) (ParseListTasksResult sj pj response request_id)) w"

definition JsonRpc_CancelTask ::
  "SimdJson \<Rightarrow> 'card ProtoJson \<Rightarrow> ('w, 'scheme) JsonRpcTransport \<Rightarrow> CancelTaskRequest \<Rightarrow> ('w, 'scheme) CallOptions \<Rightarrow>
   ('w, Task) step" where
  "JsonRpc_CancelTask sj pj transport request options w =
     (if CTR_id request = [] then Some (w, Inl (Validation ''CancelTaskRequest.id is required''))
      else invoke_typed sj pj transport ''a2a.cancelTask'' (json_CancelTaskRequest pj request) (parse_Task pj) options w)"

definition JsonRpc_CreateTaskPushNotificationConfig ::
  "SimdJson \<Rightarrow> 'card ProtoJson \<Rightarrow> ('w, 'scheme) JsonRpcTransport \<Rightarrow> TaskPushNotificationConfig \<Rightarrow>
   ('w, 'scheme) CallOptions \<Rightarrow> ('w, TaskPushNotificationConfig) step" where
  "JsonRpc_CreateTaskPushNotificationConfig sj pj transport request options =
     invoke_typed sj pj transport ''a2a.setTaskPushNotificationConfig'' (json_PushConfig pj request) (parse_PushConfig pj)
       options"

definition JsonRpc_GetTaskPushNotificationConfig ::
  "SimdJson \<Rightarrow> 'card ProtoJson \<Rightarrow> ('w, 'scheme) JsonRpcTransport \<Rightarrow> GetTaskPushNotificationConfigRequest \<Rightarrow>
   ('w, 'scheme) CallOptions \<Rightarrow> ('w, TaskPushNotificationConfig) step" where
  "JsonRpc_GetTaskPushNotificationConfig sj pj transport request options w =
     (if GPR_id request = [] then Some (w, Inl (Validation ''GetTaskPushNotificationConfigRequest.id is required''))
      else invoke_typed sj pj transport ''a2a.getTaskPushNotificationConfig'' (json_GetPushConfigRequest pj request)
             (parse_PushConfig pj) options w)"

definition JsonRpc_ListTaskPushNotificationConfigs ::
  "SimdJson \<Rightarrow> 'card ProtoJson \<Rightarrow> ('w, 'scheme) JsonRpcTransport \<Rightarrow> ListTaskPushNotificationConfigsRequest \<Rightarrow>
   ('w, 'scheme) CallOptions \<Rightarrow> ('w, ListTaskPushNotificationConfigsResponse) step" where
  "JsonRpc_ListTaskPushNotificationConfigs sj pj transport request options =
     invoke_typed sj pj transport ''a2a.listTaskPushNotificationConfigs'' (json_ListPushConfigsRequest pj request)
       (parse_PushConfigList pj) options"

definition JsonRpc_DeleteTaskPushNotificationConfig ::
  "SimdJson \<Rightarrow> 'card ProtoJson \<Rightarrow> ('w, 'scheme) JsonRpcTransport \<Rightarrow> DeleteTaskPushNotificationConfigRequest \<Rightarrow>
   ('w, 'scheme) CallOptions \<Rightarrow> ('w, unit) step" where
  "JsonRpc_DeleteTaskPushNotificationConfig sj pj transport request options w =
     (if DPR_id request = [] then Some (w, Inl (Validation ''DeleteTaskPushNotificationConfigRequest.id is required''))
      else invoke_typed sj pj transport ''a2a.deleteTaskPushNotificationConfig'' (json_DeletePushConfigRequest pj request)
             (parse_Empty pj) options w)"

end
