(* ===== verification/A2A_Client.thy ===== *)
theory A2A_Client
  imports Json_Rpc_Client
begin

text \<open>
  The client facade (\<open>src/client/client.cpp\<close>, \<open>include/a2a/client/client.h\<close>): every call runs the interceptors around the
  transport, and a stream handle can be cancelled from any thread. A transport is a record of steps on a state \<open>'w\<close>;
  interceptors change the state, and an exception they throw is caught, so that only not returning is \<open>None\<close>. A stream
  handle is an address of type \<open>'h\<close> in that state.
\<close>

section \<open>Transports and interceptors\<close>

record ('w, 'scheme, 'obs, 'h) ClientTransport =
  ct_SendMessage :: "SendMessageRequest \<Rightarrow> ('w, 'scheme) CallOptions \<Rightarrow> ('w, SendMessageResponse) step"
  ct_GetTask :: "GetTaskRequest \<Rightarrow> ('w, 'scheme) CallOptions \<Rightarrow> ('w, Task) step"
  ct_ListTasks :: "ClientListTasksRequest \<Rightarrow> ('w, 'scheme) CallOptions \<Rightarrow> ('w, ClientListTasksResponse) step"
  ct_CancelTask :: "CancelTaskRequest \<Rightarrow> ('w, 'scheme) CallOptions \<Rightarrow> ('w, Task) step"
  ct_CreateTaskPushNotificationConfig ::
    "TaskPushNotificationConfig \<Rightarrow> ('w, 'scheme) CallOptions \<Rightarrow> ('w, TaskPushNotificationConfig) step"
  ct_GetTaskPushNotificationConfig ::
    "GetTaskPushNotificationConfigRequest \<Rightarrow> ('w, 'scheme) CallOptions \<Rightarrow> ('w, TaskPushNotificationConfig) step"
  ct_ListTaskPushNotificationConfigs ::
    "ListTaskPushNotificationConfigsRequest \<Rightarrow> ('w, 'scheme) CallOptions \<Rightarrow>
     ('w, ListTaskPushNotificationConfigsResponse) step"
  ct_DeleteTaskPushNotificationConfig ::
    "DeleteTaskPushNotificationConfigRequest \<Rightarrow> ('w, 'scheme) CallOptions \<Rightarrow> ('w, unit) step"
  ct_SendStreamingMessage :: "SendMessageRequest \<Rightarrow> 'obs \<Rightarrow> ('w, 'scheme) CallOptions \<Rightarrow> ('w, 'h) step"
  ct_SubscribeTask :: "GetTaskRequest \<Rightarrow> 'obs \<Rightarrow> ('w, 'scheme) CallOptions \<Rightarrow> ('w, 'h) step"
  ct_Shutdown :: "('w, unit) step"

record ('w, 'scheme) ClientCallContext =
  ccc_operation :: string
  ccc_options :: "('w, 'scheme) CallOptions"

record ClientCallResult =
  ccr_ok :: bool
  ccr_error :: "Error option"

record ('w, 'scheme) ClientInterceptor =
  ci_BeforeCall :: "('w, 'scheme) ClientCallContext \<Rightarrow> 'w \<Rightarrow> 'w option"
  ci_AfterCall :: "('w, 'scheme) ClientCallContext \<Rightarrow> ClientCallResult \<Rightarrow> 'w \<Rightarrow> 'w option"

text \<open>An absent interceptor stands for a null pointer.\<close>

record ('w, 'scheme, 'obs, 'h) A2AClient =
  cl_transport :: "('w, 'scheme, 'obs, 'h) ClientTransport option"
  cl_interceptors :: "('w, 'scheme) ClientInterceptor option list"

definition Client_AddInterceptor ::
  "('w, 'scheme) ClientInterceptor option \<Rightarrow> ('w, 'scheme, 'obs, 'h) A2AClient \<Rightarrow> ('w, 'scheme, 'obs, 'h) A2AClient" where
  "Client_AddInterceptor interceptor client =
     (if interceptor = None then client else client\<lparr>cl_interceptors := cl_interceptors client @ [interceptor]\<rparr>)"

fun Client_RunBeforeInterceptors ::
  "('w, 'scheme) ClientInterceptor option list \<Rightarrow> ('w, 'scheme) ClientCallContext \<Rightarrow> 'w \<Rightarrow> 'w option" where
  "Client_RunBeforeInterceptors [] c w = Some w"
| "Client_RunBeforeInterceptors (None # is) c w = Client_RunBeforeInterceptors is c w"
| "Client_RunBeforeInterceptors (Some i # is) c w = Option.bind (ci_BeforeCall i c w) (Client_RunBeforeInterceptors is c)"

fun client_run_after ::
  "('w, 'scheme) ClientInterceptor option list \<Rightarrow> ('w, 'scheme) ClientCallContext \<Rightarrow> ClientCallResult \<Rightarrow> 'w \<Rightarrow> 'w option" where
  "client_run_after [] c r w = Some w"
| "client_run_after (None # is) c r w = client_run_after is c r w"
| "client_run_after (Some i # is) c r w = Option.bind (ci_AfterCall i c r w) (client_run_after is c r)"

definition Client_RunAfterInterceptors ::
  "('w, 'scheme) ClientInterceptor option list \<Rightarrow> ('w, 'scheme) ClientCallContext \<Rightarrow> ClientCallResult \<Rightarrow> 'w \<Rightarrow> 'w option" where
  "Client_RunAfterInterceptors is = client_run_after (rev is)"

section \<open>Calls\<close>

definition call_result :: "'a Result \<Rightarrow> ClientCallResult" where
  "call_result result =
     (case result of Inr _ \<Rightarrow> \<lparr>ccr_ok = True, ccr_error = None\<rparr> | Inl e \<Rightarrow> \<lparr>ccr_ok = False, ccr_error = Some e\<rparr>)"

definition intercepted ::
  "('w, 'scheme, 'obs, 'h) A2AClient \<Rightarrow> string \<Rightarrow> ('w, 'scheme) CallOptions \<Rightarrow>
   (('w, 'scheme, 'obs, 'h) ClientTransport \<Rightarrow> ('w, 'a) step) \<Rightarrow> ('w, 'a) step" where
  "intercepted client operation options call w =
     (case cl_transport client of
        None \<Rightarrow> Some (w, Inl (Internal ''Client transport is not configured''))
      | Some transport \<Rightarrow>
          let c = \<lparr>ccc_operation = operation, ccc_options = options\<rparr> in
          do { w \<leftarrow> Client_RunBeforeInterceptors (cl_interceptors client) c w;
               (w, result) \<leftarrow> call transport w;
               w \<leftarrow> Client_RunAfterInterceptors (cl_interceptors client) c (call_result result) w;
               Some (w, result) })"

definition Client_SendMessage ::
  "('w, 'scheme, 'obs, 'h) A2AClient \<Rightarrow> SendMessageRequest \<Rightarrow> ('w, 'scheme) CallOptions \<Rightarrow> ('w, SendMessageResponse) step" where
  "Client_SendMessage client request options =
     intercepted client ''SendMessage'' options (\<lambda>transport. ct_SendMessage transport request options)"

definition Client_GetTask ::
  "('w, 'scheme, 'obs, 'h) A2AClient \<Rightarrow> GetTaskRequest \<Rightarrow> ('w, 'scheme) CallOptions \<Rightarrow> ('w, Task) step" where
  "Client_GetTask client request options =
     intercepted client ''GetTask'' options (\<lambda>transport. ct_GetTask transport request options)"

definition Client_ListTasks ::
  "('w, 'scheme, 'obs, 'h) A2AClient \<Rightarrow> ClientListTasksRequest \<Rightarrow> ('w, 'scheme) CallOptions \<Rightarrow>
   ('w, ClientListTasksResponse) step" where
  "Client_ListTasks client request options =
     intercepted client ''ListTasks'' options (\<lambda>transport. ct_ListTasks transport request options)"

definition Client_CancelTask ::
  "('w, 'scheme, 'obs, 'h) A2AClient \<Rightarrow> CancelTaskRequest \<Rightarrow> ('w, 'scheme) CallOptions \<Rightarrow> ('w, Task) step" where
  "Client_CancelTask client request options =
     intercepted client ''CancelTask'' options (\<lambda>transport. ct_CancelTask transport request options)"

definition Client_CreateTaskPushNotificationConfig ::
  "('w, 'scheme, 'obs, 'h) A2AClient \<Rightarrow> TaskPushNotificationConfig \<Rightarrow> ('w, 'scheme) CallOptions \<Rightarrow>
   ('w, TaskPushNotificationConfig) step" where
  "Client_CreateTaskPushNotificationConfig client request options =
     intercepted client ''CreateTaskPushNotificationConfig'' options
       (\<lambda>transport. ct_CreateTaskPushNotificationConfig transport request options)"

definition Client_GetTaskPushNotificationConfig ::
  "('w, 'scheme, 'obs, 'h) A2AClient \<Rightarrow> GetTaskPushNotificationConfigRequest \<Rightarrow> ('w, 'scheme) CallOptions \<Rightarrow>
   ('w, TaskPushNotificationConfig) step" where
  "Client_GetTaskPushNotificationConfig client request options =
     intercepted client ''GetTaskPushNotificationConfig'' options
       (\<lambda>transport. ct_GetTaskPushNotificationConfig transport request options)"

definition Client_ListTaskPushNotificationConfigs ::
  "('w, 'scheme, 'obs, 'h) A2AClient \<Rightarrow> ListTaskPushNotificationConfigsRequest \<Rightarrow> ('w, 'scheme) CallOptions \<Rightarrow>
   ('w, ListTaskPushNotificationConfigsResponse) step" where
  "Client_ListTaskPushNotificationConfigs client request options =
     intercepted client ''ListTaskPushNotificationConfigs'' options
       (\<lambda>transport. ct_ListTaskPushNotificationConfigs transport request options)"

definition Client_DeleteTaskPushNotificationConfig ::
  "('w, 'scheme, 'obs, 'h) A2AClient \<Rightarrow> DeleteTaskPushNotificationConfigRequest \<Rightarrow> ('w, 'scheme) CallOptions \<Rightarrow>
   ('w, unit) step" where
  "Client_DeleteTaskPushNotificationConfig client request options =
     intercepted client ''DeleteTaskPushNotificationConfig'' options
       (\<lambda>transport. ct_DeleteTaskPushNotificationConfig transport request options)"

definition Client_SendStreamingMessage ::
  "('w, 'scheme, 'obs, 'h) A2AClient \<Rightarrow> SendMessageRequest \<Rightarrow> 'obs \<Rightarrow> ('w, 'scheme) CallOptions \<Rightarrow> ('w, 'h) step" where
  "Client_SendStreamingMessage client request observer options =
     intercepted client ''SendStreamingMessage'' options
       (\<lambda>transport. ct_SendStreamingMessage transport request observer options)"

definition Client_SubscribeTask ::
  "('w, 'scheme, 'obs, 'h) A2AClient \<Rightarrow> GetTaskRequest \<Rightarrow> 'obs \<Rightarrow> ('w, 'scheme) CallOptions \<Rightarrow> ('w, 'h) step" where
  "Client_SubscribeTask client request observer options =
     intercepted client ''SubscribeTask'' options (\<lambda>transport. ct_SubscribeTask transport request observer options)"

definition Client_Destroy ::
  "('w, 'scheme, 'obs, 'h) A2AClient \<Rightarrow> 'w \<Rightarrow> (('w, 'scheme, 'obs, 'h) A2AClient \<times> 'w \<times> unit Result) option" where
  "Client_Destroy client w =
     (case cl_transport client of
        None \<Rightarrow> Some (client, w, Inr ())
      | Some transport \<Rightarrow>
          map_option (\<lambda>(w, shutdown). (client\<lparr>cl_transport := None\<rparr>, w, shutdown)) (ct_Shutdown transport w))"

section \<open>Stream handles\<close>

text \<open>
  The shared state of a stream and the handle's worker thread; a handle that was moved from has no state, and cancelling
  it does nothing. \<open>transport_shutdown\<close> is the flag of the transport, when there is one. Threads and callbacks are
  identified by numbers. Each operation below is one critical section of
  \<open>cancellation_mutex\<close> with the store to \<open>active\<close> before it; what the code does after leaving it, calling a callback
  joining the worker or waiting for a running callback, is in the result or follows from the execution mode.
\<close>

record StreamState =
  ss_cancel_requested :: bool
  ss_active :: bool
  ss_transport_shutdown :: "bool option"
  ss_cancel_callback :: "nat option"
  ss_worker :: "nat option"

definition new_StreamState :: "bool option \<Rightarrow> nat option \<Rightarrow> StreamState" where
  "new_StreamState shutdown worker =
     \<lparr>ss_cancel_requested = False, ss_active = True, ss_transport_shutdown = shutdown, ss_cancel_callback = None,
      ss_worker = worker\<rparr>"

text \<open>The result: the callback to call at once.\<close>

definition RegisterCancelCallback :: "nat \<Rightarrow> StreamState \<Rightarrow> StreamState \<times> nat option" where
  "RegisterCancelCallback callback s =
     (if ss_cancel_requested s then (s, Some callback) else (s\<lparr>ss_cancel_callback := Some callback\<rparr>, None))"

text \<open>The result: the callback to call, and the worker to join.\<close>

definition StreamHandle_Cancel :: "nat \<Rightarrow> StreamState \<Rightarrow> StreamState \<times> nat option \<times> nat option" where
  "StreamHandle_Cancel this_thread s =
     (let first_cancellation = \<not> ss_cancel_requested s;
          worker = (if ss_worker s \<noteq> None \<and> ss_worker s \<noteq> Some this_thread then ss_worker s else None)
      in (s\<lparr>ss_active := False, ss_cancel_requested := True,
            ss_worker := (if worker \<noteq> None then None else ss_worker s)\<rparr>,
          if first_cancellation then ss_cancel_callback s else None, worker))"

definition StreamHandle_IsActive :: "StreamState \<Rightarrow> bool" where
  "StreamHandle_IsActive s \<longleftrightarrow> ss_active s \<and> \<not> ss_cancel_requested s \<and> ss_transport_shutdown s \<noteq> Some True"

end
