(* ===== verification/Client_Stream.thy ===== *)
theory Client_Stream
  imports A2A_Client Sse_Parser
begin

text \<open>
  The client's streams over server-sent events (\<open>src/client/transport/http_json_streaming.cpp\<close>, \<open>json_rpc_streaming.cpp\<close>):
  the request, the session that validates the answer's metadata, parses its chunks and notifies the observer, and the
  start of a stream. The observer and the shared flags of the stream are in a state \<open>'w\<close>: reading the cancellation flag
  is an operation on it, so that other threads may change the state in between. The caller's stream requester and the
  shared HTTP client are parameters. No constructor sets the requester with cancellation, so it is null.
\<close>

section \<open>Observer and flags\<close>

record 'w StreamHost =
  sh_cancel_requested :: "'w \<Rightarrow> 'w \<times> bool"
  sh_MarkInactive :: "'w \<Rightarrow> 'w"
  sh_OnEvent :: "StreamResponse \<Rightarrow> 'w \<Rightarrow> 'w"
  sh_OnError :: "Error \<Rightarrow> 'w \<Rightarrow> 'w"
  sh_OnCompleted :: "'w \<Rightarrow> 'w"

definition NotifyErrorAndStop :: "'w StreamHost \<Rightarrow> Error \<Rightarrow> 'w \<Rightarrow> 'w" where
  "NotifyErrorAndStop host error w = sh_MarkInactive host (sh_OnError host error w)"

definition HasSseContentType :: "headers \<Rightarrow> bool" where
  "HasSseContentType hs =
     (case FindHeaderValue hs kContentTypeHeaderName of None \<Rightarrow> False | Some content_type \<Rightarrow> IsSseContentType content_type)"

definition ClientHasJsonContentType :: "headers \<Rightarrow> bool" where
  "ClientHasJsonContentType hs =
     (case FindHeaderValue hs kContentTypeHeaderName of None \<Rightarrow> False | Some content_type \<Rightarrow> IsJsonContentType content_type)"

type_synonym 's HttpStreamRequester =
  "ClientHttpRequest \<Rightarrow> (HttpClientResponse \<Rightarrow> 's \<Rightarrow> 's \<times> unit Result) \<Rightarrow> (string \<Rightarrow> 's \<Rightarrow> 's \<times> unit Result) \<Rightarrow>
   ('s \<Rightarrow> 's \<times> bool) \<Rightarrow> 's \<Rightarrow> 's \<times> HttpClientResponse Result"

definition default_HttpClientResponse :: HttpClientResponse where
  "default_HttpClientResponse = \<lparr>cresp_status_code = 0, cresp_headers = [], cresp_body = []\<rparr>"

section \<open>Sessions of the REST transport\<close>

definition BuildRemoteStreamEventError :: "'card ProtoJson \<Rightarrow> string \<Rightarrow> Error" where
  "BuildRemoteStreamEventError pj payload_json =
     (let error = WithTransport ''http'' (RemoteProtocol ''Remote stream reported error event'') in
      case parse_Struct pj lenient_parse payload_json of
        Inl _ \<Rightarrow> error
      | Inr payload \<Rightarrow>
          let error = (case map_of payload ''code'' of Some (StringValue c) \<Rightarrow> WithProtocolCode c error | _ \<Rightarrow> error)
          in case map_of payload ''message'' of
               Some (StringValue m) \<Rightarrow>
                 WithProtocolCode (case error_protocol_code error of None \<Rightarrow> [] | Some c \<Rightarrow> c)
                   (WithTransport ''http'' (RemoteProtocol m))
             | _ \<Rightarrow> error)"

definition DispatchSseEvent :: "'card ProtoJson \<Rightarrow> 'w StreamHost \<Rightarrow> SseEvent \<Rightarrow> 'w \<Rightarrow> 'w \<times> unit Result" where
  "DispatchSseEvent pj host event w =
     (if sse_event event = ''error'' then (w, Inl (BuildRemoteStreamEventError pj (sse_data event)))
      else case parse_StreamResponse pj default_parse (sse_data event) of
          Inl e \<Rightarrow> (w, Inl (WithTransport ''http'' e))
        | Inr response \<Rightarrow> (sh_OnEvent host response w, Inr ()))"

record HttpSseSession =
  hss_method :: string
  hss_endpoint :: string
  hss_parser :: SseParser
  hss_response_metadata :: HttpClientResponse
  hss_metadata_validated :: bool
  hss_collecting_error_body :: bool

definition new_HttpSseSession :: "string \<Rightarrow> string \<Rightarrow> HttpSseSession" where
  "new_HttpSseSession http_method endpoint =
     \<lparr>hss_method = http_method, hss_endpoint = endpoint, hss_parser = new_SseParser,
      hss_response_metadata = default_HttpClientResponse, hss_metadata_validated = False,
      hss_collecting_error_body = False\<rparr>"

definition HttpSse_ValidateMetadata :: "HttpClientResponse \<Rightarrow> HttpSseSession \<Rightarrow> HttpSseSession \<times> unit Result" where
  "HttpSse_ValidateMetadata response s =
     (let s = s\<lparr>hss_response_metadata := response\<rparr> in
      case ValidateResponseVersion ''http'' response of
        Inl e \<Rightarrow> (s, Inl e)
      | Inr _ \<Rightarrow>
          if \<not> http_ok response
          then (s\<lparr>hss_collecting_error_body := True, hss_metadata_validated := True\<rparr>, Inr ())
          else if \<not> HasSseContentType (cresp_headers response)
          then (s, Inl (WithHttpStatus (cresp_status_code response) (WithTransport ''http''
                 (RemoteProtocol ''HTTP stream response must use text/event-stream''))))
          else (s\<lparr>hss_metadata_validated := True\<rparr>, Inr ()))"

text \<open>The callback that both the feeding and the finishing of the parser use.\<close>

definition HttpSse_on_event :: "'card ProtoJson \<Rightarrow> 'w StreamHost \<Rightarrow> 'w EventCallback" where
  "HttpSse_on_event pj host event w =
     (let (w, cancelled) = sh_cancel_requested host w in
      if cancelled then (w, Inr ()) else DispatchSseEvent pj host event w)"

definition HttpSse_HandleChunk ::
  "'card ProtoJson \<Rightarrow> 'w StreamHost \<Rightarrow> string \<Rightarrow> HttpSseSession \<times> 'w \<Rightarrow> (HttpSseSession \<times> 'w) \<times> unit Result" where
  "HttpSse_HandleChunk pj host chunk = (\<lambda>(s, w).
     let (w, cancelled) = sh_cancel_requested host w in
     if cancelled then ((s, w), Inr ())
     else if \<not> hss_metadata_validated s
     then ((s, w), Inl (WithTransport ''http'' (RemoteProtocol ''HTTP stream metadata must be validated before body chunks'')))
     else if hss_collecting_error_body s
     then ((s\<lparr>hss_response_metadata := (hss_response_metadata s)
             \<lparr>cresp_body := cresp_body (hss_response_metadata s) @ chunk\<rparr>\<rparr>, w), Inr ())
     else let (p, w, r) = Feed chunk (HttpSse_on_event pj host) (hss_parser s) w
          in ((s\<lparr>hss_parser := p\<rparr>, w), r))"

text \<open>The end of \<open>Complete\<close>, once the metadata is known to be valid.\<close>

definition HttpSse_finish :: "'card ProtoJson \<Rightarrow> 'w StreamHost \<Rightarrow> HttpClientResponse \<Rightarrow> HttpSseSession \<Rightarrow> 'w \<Rightarrow> HttpSseSession \<times> 'w" where
  "HttpSse_finish pj host response s w =
     (if hss_collecting_error_body s then
        let s = (if cresp_body (hss_response_metadata s) = []
                 then s\<lparr>hss_response_metadata := (hss_response_metadata s)\<lparr>cresp_body := cresp_body response\<rparr>\<rparr> else s)
        in (s, NotifyErrorAndStop host (BuildHttpError pj (hss_method s) (hss_endpoint s) (hss_response_metadata s)) w)
      else
        let (p, w, finish) = Finish (HttpSse_on_event pj host) (hss_parser s) w;
            s = s\<lparr>hss_parser := p\<rparr>;
            (w, cancelled) = sh_cancel_requested host w
        in (s, if cancelled then sh_MarkInactive host w
               else case finish of
                   Inl e \<Rightarrow> NotifyErrorAndStop host e w
                 | Inr _ \<Rightarrow> sh_MarkInactive host (sh_OnCompleted host w)))"

definition HttpSse_Complete ::
  "'card ProtoJson \<Rightarrow> 'w StreamHost \<Rightarrow> HttpClientResponse Result \<Rightarrow> HttpSseSession \<times> 'w \<Rightarrow> HttpSseSession \<times> 'w" where
  "HttpSse_Complete pj host response = (\<lambda>(s, w).
     let (w, cancelled) = sh_cancel_requested host w in
     if cancelled then (s, sh_MarkInactive host w)
     else case response of
         Inl e \<Rightarrow> (s, NotifyErrorAndStop host e w)
       | Inr response \<Rightarrow>
           (case (if hss_metadata_validated s then (s, Inr ()) else HttpSse_ValidateMetadata response s) of
              (s, Inl e) \<Rightarrow> (s, NotifyErrorAndStop host e w)
            | (s, Inr _) \<Rightarrow> HttpSse_finish pj host response s w))"

definition HttpSse_Run ::
  "'card ProtoJson \<Rightarrow> 'w StreamHost \<Rightarrow> (HttpSseSession \<times> 'w) HttpStreamRequester \<Rightarrow> ClientHttpRequest \<Rightarrow>
   HttpSseSession \<times> 'w \<Rightarrow> HttpSseSession \<times> 'w" where
  "HttpSse_Run pj host requester request sw =
     (let metadata_handler = (\<lambda>metadata (s, w). let (s, r) = HttpSse_ValidateMetadata metadata s in ((s, w), r));
          cancelled = (\<lambda>(s, w). let (w, c) = sh_cancel_requested host w in ((s, w), c));
          (sw, response) = requester request metadata_handler (HttpSse_HandleChunk pj host) cancelled sw
      in HttpSse_Complete pj host response sw)"

section \<open>Sessions of the JSON-RPC transport\<close>

definition BuildJsonRpcStreamStatusError :: "HttpClientResponse \<Rightarrow> Error" where
  "BuildJsonRpcStreamStatusError response =
     WithHttpStatus (cresp_status_code response) (WithTransport ''jsonrpc''
       (RemoteProtocol ''JSON-RPC stream returned non-success HTTP status''))"

definition ParseTypedResultPayload ::
  "SimdJson \<Rightarrow> (ProtoJsonParseOptions \<Rightarrow> string \<Rightarrow> 'm Result) \<Rightarrow> string \<Rightarrow> int \<Rightarrow> string \<Rightarrow> 'm Result option" where
  "ParseTypedResultPayload sj JsonToMessage response_body response_status_code expected_id =
     map_option (\<lambda>result. result_bind result (\<lambda>json. ParseResultMessage JsonToMessage json response_status_code))
       (ParseResponseResult sj \<lparr>cresp_status_code = response_status_code, cresp_headers = [], cresp_body = response_body\<rparr>
         expected_id)"

record JsonRpcSseSession =
  jss_request_id :: string
  jss_parser :: SseParser
  jss_response_metadata :: HttpClientResponse
  jss_json_response_body :: string
  jss_metadata_validated :: bool
  jss_is_json_response :: bool

definition new_JsonRpcSseSession :: "string \<Rightarrow> JsonRpcSseSession" where
  "new_JsonRpcSseSession request_id =
     \<lparr>jss_request_id = request_id, jss_parser = new_SseParser, jss_response_metadata = default_HttpClientResponse,
      jss_json_response_body = [], jss_metadata_validated = False, jss_is_json_response = False\<rparr>"

definition JsonRpcSse_ValidateMetadata ::
  "HttpClientResponse \<Rightarrow> JsonRpcSseSession \<Rightarrow> JsonRpcSseSession \<times> unit Result" where
  "JsonRpcSse_ValidateMetadata response s =
     (let s = s\<lparr>jss_response_metadata := response\<rparr> in
      case ValidateResponseVersion ''jsonrpc'' response of
        Inl e \<Rightarrow> (s, Inl e)
      | Inr _ \<Rightarrow>
          if ClientHasJsonContentType (cresp_headers response)
          then (s\<lparr>jss_is_json_response := True, jss_metadata_validated := True\<rparr>, Inr ())
          else if \<not> http_ok response then (s, Inl (BuildJsonRpcStreamStatusError response))
          else if HasSseContentType (cresp_headers response) then (s\<lparr>jss_metadata_validated := True\<rparr>, Inr ())
          else (s, Inl (WithHttpStatus (cresp_status_code response) (WithTransport ''jsonrpc''
                 (RemoteProtocol ''JSON-RPC stream response must use text/event-stream'')))))"

text \<open>An exception in the callback leaves no state: \<open>None\<close>. The error beside it only ends the parsing.\<close>

definition JsonRpcSse_DispatchEvent ::
  "SimdJson \<Rightarrow> 'card ProtoJson \<Rightarrow> 'w StreamHost \<Rightarrow> JsonRpcSseSession \<Rightarrow> 'w option EventCallback" where
  "JsonRpcSse_DispatchEvent sj pj host s event c =
     (case c of
        None \<Rightarrow> (None, Inl (Internal []))
      | Some w \<Rightarrow>
          let (w, cancelled) = sh_cancel_requested host w in
          if cancelled then (Some w, Inr ())
          else case ParseTypedResultPayload sj (parse_StreamResponse pj) (sse_data event)
                      (cresp_status_code (jss_response_metadata s)) (jss_request_id s) of
              None \<Rightarrow> (None, Inl (Internal []))
            | Some (Inl e) \<Rightarrow> (Some w, Inl e)
            | Some (Inr response) \<Rightarrow> (Some (sh_OnEvent host response w), Inr ()))"

definition JsonRpcSse_HandleChunk ::
  "SimdJson \<Rightarrow> 'card ProtoJson \<Rightarrow> 'w StreamHost \<Rightarrow> string \<Rightarrow> JsonRpcSseSession \<times> 'w \<Rightarrow>
   ((JsonRpcSseSession \<times> 'w) \<times> unit Result) option" where
  "JsonRpcSse_HandleChunk sj pj host chunk = (\<lambda>(s, w).
     let (w, cancelled) = sh_cancel_requested host w in
     if cancelled then Some ((s, w), Inr ())
     else if \<not> jss_metadata_validated s
     then Some ((s, w), Inl (WithTransport ''jsonrpc''
            (RemoteProtocol ''JSON-RPC stream metadata must be validated before body chunks'')))
     else if jss_is_json_response s
     then Some ((s\<lparr>jss_json_response_body := jss_json_response_body s @ chunk\<rparr>, w), Inr ())
     else let (p, c, r) = Feed chunk (JsonRpcSse_DispatchEvent sj pj host s) (jss_parser s) (Some w)
          in map_option (\<lambda>w. ((s\<lparr>jss_parser := p\<rparr>, w), r)) c)"

definition HandleJsonResponse ::
  "SimdJson \<Rightarrow> 'w StreamHost \<Rightarrow> HttpClientResponse \<Rightarrow> JsonRpcSseSession \<Rightarrow> 'w \<Rightarrow> (JsonRpcSseSession \<times> 'w) option" where
  "HandleJsonResponse sj host stream_response s w =
     (let body = (if jss_json_response_body s = [] then cresp_body stream_response else jss_json_response_body s);
          json_response = (jss_response_metadata s)\<lparr>cresp_body := body\<rparr>;
          s = s\<lparr>jss_json_response_body := []\<rparr>
      in map_option (\<lambda>result. (s, NotifyErrorAndStop host
             (case result of
                Inl e \<Rightarrow> e
              | Inr _ \<Rightarrow>
                  if \<not> http_ok json_response then BuildJsonRpcStreamStatusError json_response
                  else BuildJsonRpcEnvelopeError ''JSON-RPC streaming success response must use text/event-stream''
                         json_response) w))
           (ParseResponseResult sj json_response (jss_request_id s)))"

definition JsonRpcSse_finish ::
  "SimdJson \<Rightarrow> 'card ProtoJson \<Rightarrow> 'w StreamHost \<Rightarrow> JsonRpcSseSession \<Rightarrow> 'w \<Rightarrow> (JsonRpcSseSession \<times> 'w) option" where
  "JsonRpcSse_finish sj pj host s w =
     (let (p, c, finish) = Finish (JsonRpcSse_DispatchEvent sj pj host s) (jss_parser s) (Some w);
          s = s\<lparr>jss_parser := p\<rparr>
      in map_option (\<lambda>w. let (w, cancelled) = sh_cancel_requested host w in
             (s, if cancelled then sh_MarkInactive host w
                 else case finish of
                     Inl e \<Rightarrow> NotifyErrorAndStop host e w
                   | Inr _ \<Rightarrow> sh_MarkInactive host (sh_OnCompleted host w))) c)"

definition JsonRpcSse_Complete ::
  "SimdJson \<Rightarrow> 'card ProtoJson \<Rightarrow> 'w StreamHost \<Rightarrow> HttpClientResponse Result \<Rightarrow> JsonRpcSseSession \<times> 'w \<Rightarrow>
   (JsonRpcSseSession \<times> 'w) option" where
  "JsonRpcSse_Complete sj pj host stream_response = (\<lambda>(s, w).
     let (w, cancelled) = sh_cancel_requested host w in
     if cancelled then Some (s, sh_MarkInactive host w)
     else case stream_response of
         Inl e \<Rightarrow> Some (s, NotifyErrorAndStop host e w)
       | Inr response \<Rightarrow>
           (case (if jss_metadata_validated s then (s, Inr ()) else JsonRpcSse_ValidateMetadata response s) of
              (s, Inl e) \<Rightarrow> Some (s, NotifyErrorAndStop host e w)
            | (s, Inr _) \<Rightarrow>
                if jss_is_json_response s then HandleJsonResponse sj host response s w
                else JsonRpcSse_finish sj pj host s w))"

text \<open>The handlers of \<open>Run\<close> after an exception: the stream has no state.\<close>

definition lift_handler :: "('s \<Rightarrow> ('s \<times> unit Result) option) \<Rightarrow> 's option \<Rightarrow> 's option \<times> unit Result" where
  "lift_handler h c =
     (case Option.bind c h of None \<Rightarrow> (None, Inl (Internal [])) | Some (s, r) \<Rightarrow> (Some s, r))"

definition JsonRpcSse_Run ::
  "SimdJson \<Rightarrow> 'card ProtoJson \<Rightarrow> 'w StreamHost \<Rightarrow> (JsonRpcSseSession \<times> 'w) option HttpStreamRequester \<Rightarrow>
   ClientHttpRequest \<Rightarrow> JsonRpcSseSession \<times> 'w \<Rightarrow> (JsonRpcSseSession \<times> 'w) option" where
  "JsonRpcSse_Run sj pj host requester request sw =
     (let metadata_handler = (\<lambda>metadata. lift_handler (\<lambda>(s, w).
            let (s, r) = JsonRpcSse_ValidateMetadata metadata s in Some ((s, w), r)));
          chunk_handler = (\<lambda>chunk. lift_handler (JsonRpcSse_HandleChunk sj pj host chunk));
          cancelled = (\<lambda>c. case c of
              None \<Rightarrow> (None, True)
            | Some (s, w) \<Rightarrow> let (w, b) = sh_cancel_requested host w in (Some (s, w), b));
          (c, stream_response) = requester request metadata_handler chunk_handler cancelled (Some sw)
      in Option.bind c (JsonRpcSse_Complete sj pj host stream_response))"

section \<open>Callbacks of the shared HTTP client\<close>

text \<open>The callbacks of the asynchronous client check the transport's shutdown flag first; \<open>shutdown\<close> reads it.\<close>

definition async_shutting_down :: "string \<Rightarrow> string \<Rightarrow> Error" where
  "async_shutting_down transport message = WithTransport transport (Network message)"

definition HttpSse_AsyncMetadata ::
  "('w \<Rightarrow> 'w \<times> bool) \<Rightarrow> HttpResponse \<Rightarrow> HttpSseSession \<times> 'w \<Rightarrow> (HttpSseSession \<times> 'w) \<times> unit Result" where
  "HttpSse_AsyncMetadata shutdown metadata = (\<lambda>(s, w).
     let (w, stopped) = shutdown w in
     if stopped then ((s, w), Inl (async_shutting_down ''http'' ''HTTP transport is shutting down''))
     else let (s, r) = HttpSse_ValidateMetadata (ToClientHttpResponse metadata) s in ((s, w), r))"

definition HttpSse_AsyncChunk ::
  "'card ProtoJson \<Rightarrow> 'w StreamHost \<Rightarrow> ('w \<Rightarrow> 'w \<times> bool) \<Rightarrow> string \<Rightarrow> HttpSseSession \<times> 'w \<Rightarrow>
   (HttpSseSession \<times> 'w) \<times> unit Result" where
  "HttpSse_AsyncChunk pj host shutdown chunk = (\<lambda>(s, w).
     let (w, stopped) = shutdown w in
     if stopped then ((s, w), Inl (async_shutting_down ''http'' ''HTTP transport is shutting down''))
     else HttpSse_HandleChunk pj host chunk (s, w))"

definition HttpSse_AsyncComplete ::
  "'card ProtoJson \<Rightarrow> 'w StreamHost \<Rightarrow> ('w \<Rightarrow> 'w \<times> bool) \<Rightarrow> HttpResponse Result \<Rightarrow> HttpSseSession \<times> 'w \<Rightarrow>
   HttpSseSession \<times> 'w" where
  "HttpSse_AsyncComplete pj host shutdown response = (\<lambda>(s, w).
     let (w, stopped) = shutdown w in
     if stopped then (s, sh_MarkInactive host w)
     else HttpSse_Complete pj host (map_sum id ToClientHttpResponse response) (s, w))"

definition HandleAsyncJsonRpcMetadata ::
  "('w \<Rightarrow> 'w \<times> bool) \<Rightarrow> HttpResponse \<Rightarrow> JsonRpcSseSession \<times> 'w \<Rightarrow> (JsonRpcSseSession \<times> 'w) \<times> unit Result" where
  "HandleAsyncJsonRpcMetadata shutdown metadata = (\<lambda>(s, w).
     let (w, stopped) = shutdown w in
     if stopped then ((s, w), Inl (async_shutting_down ''jsonrpc'' ''JSON-RPC transport is shutting down''))
     else let (s, r) = JsonRpcSse_ValidateMetadata (ToClientHttpResponse metadata) s in ((s, w), r))"

definition HandleAsyncJsonRpcChunk ::
  "SimdJson \<Rightarrow> 'card ProtoJson \<Rightarrow> 'w StreamHost \<Rightarrow> ('w \<Rightarrow> 'w \<times> bool) \<Rightarrow> string \<Rightarrow> JsonRpcSseSession \<times> 'w \<Rightarrow>
   ((JsonRpcSseSession \<times> 'w) \<times> unit Result) option" where
  "HandleAsyncJsonRpcChunk sj pj host shutdown chunk = (\<lambda>(s, w).
     let (w, stopped) = shutdown w in
     if stopped then Some ((s, w), Inl (async_shutting_down ''jsonrpc'' ''JSON-RPC transport is shutting down''))
     else JsonRpcSse_HandleChunk sj pj host chunk (s, w))"

definition CompleteAsyncJsonRpcStream ::
  "SimdJson \<Rightarrow> 'card ProtoJson \<Rightarrow> 'w StreamHost \<Rightarrow> ('w \<Rightarrow> 'w \<times> bool) \<Rightarrow> HttpResponse Result \<Rightarrow> JsonRpcSseSession \<times> 'w \<Rightarrow>
   (JsonRpcSseSession \<times> 'w) option" where
  "CompleteAsyncJsonRpcStream sj pj host shutdown response = (\<lambda>(s, w).
     let (w, stopped) = shutdown w in
     if stopped then Some (s, sh_MarkInactive host w)
     else JsonRpcSse_Complete sj pj host (map_sum id ToClientHttpResponse response) (s, w))"

section \<open>Starting a stream\<close>

text \<open>
  What a transport has for streams: the shutdown flag, which the state holds, whether a stream requester is set, and the
  shared client's \<open>StartStreamRequest\<close>. A started stream is its session, its request, and who executes it.
\<close>

datatype ExecutionMode = kOwnedWorker | kExecutor

record 'w StreamSupport =
  sup_async_shutdown :: "'w \<Rightarrow> bool"
  sup_set_async_shutdown :: "'w \<Rightarrow> 'w"
  sup_has_stream_requester :: bool
  sup_StartStreamRequest :: "(HttpRequest \<Rightarrow> ('w, unit) step) option"
  sup_Shutdown :: "'w \<Rightarrow> 'w"

definition kDefaultMtlsUnsupportedMessage :: string where
  "kDefaultMtlsUnsupportedMessage =
     ''default libcurl HTTP requester does not support mTLS options; inject a custom requester for mTLS''"

text \<open>The last part of both \<open>StartSseStream\<close>: the second look at the flag and the choice of the executor.\<close>

definition launch_stream ::
  "'w StreamSupport \<Rightarrow> Error \<Rightarrow> ClientHttpRequest \<Rightarrow> 's \<Rightarrow> ('w, 's \<times> ClientHttpRequest \<times> ExecutionMode) step" where
  "launch_stream support stopped request session w =
     (if sup_async_shutdown support w then Some (w, Inl stopped)
      else case sup_StartStreamRequest support of
          None \<Rightarrow> Some (w, Inr (session, request, kOwnedWorker))
        | Some StartStreamRequest \<Rightarrow>
            if creq_mtls request \<noteq> None then Some (w, Inl (Validation kDefaultMtlsUnsupportedMessage))
            else map_option (\<lambda>(w, started). (w, result_bind started (\<lambda>_. Inr (session, request, kExecutor))))
                   (StartStreamRequest (ToSharedHttpRequest request) w))"

definition BuildStreamingRequest ::
  "('w, 'scheme) HttpJsonTransport \<Rightarrow> string \<Rightarrow> string \<Rightarrow> string \<Rightarrow> ('w, 'scheme) CallOptions \<Rightarrow>
   ('w, ClientHttpRequest) step" where
  "BuildStreamingRequest transport http_method endpoint body options w =
     (if ri_transport (hj_resolved_interface transport) \<noteq> Transport_kRest
      then Some (w, Inl (Validation ''HttpJsonTransport requires a REST interface''))
      else if ri_url (hj_resolved_interface transport) = []
      then Some (w, Inl (Validation ''Resolved REST interface URL is required''))
      else map_option (\<lambda>(w, hs). (w, map_sum id (HttpJson_request transport http_method endpoint body options) hs))
             (authorized_headers (body \<noteq> []) kContentTypeTextEventStream options w))"

definition HttpJson_StartSseStream ::
  "('w, 'scheme) HttpJsonTransport \<Rightarrow> 'w StreamSupport \<Rightarrow> string \<Rightarrow> string \<Rightarrow> string \<Rightarrow> ('w, 'scheme) CallOptions \<Rightarrow>
   ('w, HttpSseSession \<times> ClientHttpRequest \<times> ExecutionMode) step" where
  "HttpJson_StartSseStream transport support http_method endpoint body options w =
     (let stopped = async_shutting_down ''http'' ''HTTP transport is shutting down'' in
      if sup_async_shutdown support w then Some (w, Inl stopped)
      else if \<not> sup_has_stream_requester support \<and> sup_StartStreamRequest support = None
      then Some (w, Inl (Internal ''HTTP stream requester is not configured''))
      else do { (w, request) \<leftarrow> BuildStreamingRequest transport http_method endpoint body options w;
                case request of
                  Inl e \<Rightarrow> Some (w, Inl e)
                | Inr request \<Rightarrow> launch_stream support stopped request (new_HttpSseSession http_method endpoint) w })"

definition HttpJson_SendStreamingMessage ::
  "'card ProtoJson \<Rightarrow> ('w, 'scheme) HttpJsonTransport \<Rightarrow> 'w StreamSupport \<Rightarrow> SendMessageRequest \<Rightarrow>
   ('w, 'scheme) CallOptions \<Rightarrow> ('w, HttpSseSession \<times> ClientHttpRequest \<times> ExecutionMode) step" where
  "HttpJson_SendStreamingMessage pj transport support request options w =
     (case json_SendMessageRequest pj request of
        Inl e \<Rightarrow> Some (w, Inl e)
      | Inr body \<Rightarrow> HttpJson_StartSseStream transport support kMethodPost ''/message:stream'' body options w)"

definition subscribe_endpoint :: "GetTaskRequest \<Rightarrow> string" where
  "subscribe_endpoint request =
     BuildTaskPath (GTR_id request) @ '':subscribe'' @
       (case GTR_history_length request of None \<Rightarrow> [] | Some n \<Rightarrow> ''?historyLength='' @ to_string_int n)"

definition HttpJson_SubscribeTask ::
  "('w, 'scheme) HttpJsonTransport \<Rightarrow> 'w StreamSupport \<Rightarrow> GetTaskRequest \<Rightarrow> ('w, 'scheme) CallOptions \<Rightarrow>
   ('w, HttpSseSession \<times> ClientHttpRequest \<times> ExecutionMode) step" where
  "HttpJson_SubscribeTask transport support request options w =
     (if GTR_id request = [] then Some (w, Inl (Validation ''GetTaskRequest.id is required''))
      else HttpJson_StartSseStream transport support kMethodGet (subscribe_endpoint request) [] options w)"

definition StreamTransport_Shutdown :: "'w StreamSupport \<Rightarrow> 'w \<Rightarrow> 'w \<times> unit Result" where
  "StreamTransport_Shutdown support w =
     (let w = sup_set_async_shutdown support w
      in (if sup_StartStreamRequest support \<noteq> None then sup_Shutdown support w else w, Inr ()))"

definition JsonRpc_StartSseStream ::
  "'card ProtoJson \<Rightarrow> ('w, 'scheme) JsonRpcTransport \<Rightarrow> 'w StreamSupport \<Rightarrow> string \<Rightarrow> string Result \<Rightarrow>
   ('w, 'scheme) CallOptions \<Rightarrow> ('w, JsonRpcSseSession \<times> ClientHttpRequest \<times> ExecutionMode) step" where
  "JsonRpc_StartSseStream pj transport support method_name request_json options w =
     (let stopped = async_shutting_down ''jsonrpc'' ''JSON-RPC transport is shutting down'' in
      if sup_async_shutdown support w then Some (w, Inl stopped)
      else if ri_transport (jr_resolved_interface transport) \<noteq> Transport_kJsonRpc
      then Some (w, Inl (Validation ''JsonRpcTransport requires a JSON-RPC interface''))
      else if ri_url (jr_resolved_interface transport) = []
      then Some (w, Inl (Validation ''Resolved JSON-RPC interface URL is required''))
      else if \<not> sup_has_stream_requester support \<and> sup_StartStreamRequest support = None
      then Some (w, Inl (Internal ''HTTP stream requester is not configured''))
      else do { (w, request_id) \<leftarrow> jr_id_generator transport w;
                if request_id = [] then Some (w, Inl (Internal ''JSON-RPC request id generator returned an empty id''))
                else case BuildJsonRpcEnvelope pj method_name request_json request_id of
                    Inl e \<Rightarrow> Some (w, Inl e)
                  | Inr envelope_json \<Rightarrow>
                      do { (w, hs) \<leftarrow> authorized_headers True kContentTypeTextEventStream options w;
                           case hs of
                             Inl e \<Rightarrow> Some (w, Inl e)
                           | Inr hs \<Rightarrow>
                               launch_stream support stopped (JsonRpc_request transport envelope_json options hs)
                                 (new_JsonRpcSseSession request_id) w } })"

definition JsonRpc_SendStreamingMessage ::
  "'card ProtoJson \<Rightarrow> ('w, 'scheme) JsonRpcTransport \<Rightarrow> 'w StreamSupport \<Rightarrow> SendMessageRequest \<Rightarrow>
   ('w, 'scheme) CallOptions \<Rightarrow> ('w, JsonRpcSseSession \<times> ClientHttpRequest \<times> ExecutionMode) step" where
  "JsonRpc_SendStreamingMessage pj transport support request =
     JsonRpc_StartSseStream pj transport support ''a2a.sendStreamingMessage'' (json_SendMessageRequest pj request)"

definition JsonRpc_SubscribeTask ::
  "'card ProtoJson \<Rightarrow> ('w, 'scheme) JsonRpcTransport \<Rightarrow> 'w StreamSupport \<Rightarrow> GetTaskRequest \<Rightarrow>
   ('w, 'scheme) CallOptions \<Rightarrow> ('w, JsonRpcSseSession \<times> ClientHttpRequest \<times> ExecutionMode) step" where
  "JsonRpc_SubscribeTask pj transport support request options w =
     (if GTR_id request = [] then Some (w, Inl (Validation ''GetTaskRequest.id is required''))
      else JsonRpc_StartSseStream pj transport support ''a2a.subscribeToTask'' (json_GetTaskRequest pj request) options w)"

end
