(* ===== verification/Discovery.thy ===== *)
theory Discovery
  imports Client_Auth Rest_Server
begin

text \<open>
  Agent card discovery (\<open>src/client/discovery.cpp\<close>): fetching and caching of agent cards under a verifier, the validation of
  a card, and the choice of an interface. Agent cards are a parameter type with the accessors of the generated class;
  fetcher, verifier and clock are steps on a state \<open>'w\<close>. Times of the steady clock are nanoseconds of its 64 bits; an
  overflow is undefined behaviour, the outcome \<open>None\<close>.
\<close>

section \<open>Interfaces\<close>

definition HasHttpScheme :: "string \<Rightarrow> bool" where
  "HasHttpScheme url \<longleftrightarrow> prefix ''http://'' url \<or> prefix ''https://'' url"

definition HasGrpcScheme :: "string \<Rightarrow> bool" where
  "HasGrpcScheme url \<longleftrightarrow> prefix ''grpc://'' url \<or> prefix ''grpcs://'' url \<or> prefix ''dns:///'' url"

definition HasHostPortShape :: "string \<Rightarrow> bool" where
  "HasHostPortShape endpoint \<longleftrightarrow> index_of (\<lambda>c. c = CHR '':'') endpoint \<noteq> None"

definition IsValidInterfaceEndpoint :: "string \<Rightarrow> string \<Rightarrow> bool" where
  "IsValidInterfaceEndpoint protocol_binding endpoint =
     (if protocol_binding = ''HTTP+JSON'' \<or> protocol_binding = ''JSONRPC'' then HasHttpScheme endpoint
      else if protocol_binding = ''GRPC''
      then HasGrpcScheme endpoint \<or> HasHttpScheme endpoint \<or> HasHostPortShape endpoint
      else False)"

definition ToPreferredTransport :: "string \<Rightarrow> PreferredTransport" where
  "ToPreferredTransport protocol_binding =
     (if protocol_binding = ''HTTP+JSON'' then Transport_kRest
      else if protocol_binding = ''JSONRPC'' then Transport_kJsonRpc else Transport_kGrpc)"

fun ToWireTransport :: "PreferredTransport \<Rightarrow> string" where
  "ToWireTransport Transport_kRest = ''HTTP+JSON''"
| "ToWireTransport Transport_kJsonRpc = ''JSONRPC''"
| "ToWireTransport Transport_kGrpc = ''GRPC''"

definition ValidateInterface :: "AgentInterface \<Rightarrow> unit Result" where
  "ValidateInterface iface =
     (if iface_protocol_binding iface = [] then Inl (Validation ''Unsupported protocol binding'')
      else if iface_url iface = [] then Inl (Validation ''Missing interface URL'')
      else if \<not> IsValidInterfaceEndpoint (iface_protocol_binding iface) (iface_url iface)
      then Inl (Validation ''Interface endpoint is invalid for its protocol binding'')
      else Inr ())"

definition BuildTransportOrder :: "string \<Rightarrow> string list" where
  "BuildTransportOrder preferred_wire =
     (if preferred_wire = ''HTTP+JSON'' then [''HTTP+JSON'', ''JSONRPC'', ''GRPC'']
      else if preferred_wire = ''JSONRPC'' then [''JSONRPC'', ''HTTP+JSON'', ''GRPC'']
      else [''GRPC'', ''HTTP+JSON'', ''JSONRPC''])"

text \<open>The security part of a card: the scheme names of each requirement in the map's order, and the schemes by name.\<close>

record ('card, 'scheme) AgentCardSecurity =
  security_requirements :: "'card \<Rightarrow> string list list"
  security_schemes :: "'card \<Rightarrow> (string \<times> 'scheme) list"

text \<open>\<open>emplace\<close> keeps the scheme that is there.\<close>

fun emplace_schemes :: "(string \<times> 'scheme) list \<Rightarrow> string list \<Rightarrow> (string \<times> 'scheme) list \<Rightarrow> (string \<times> 'scheme) list" where
  "emplace_schemes schemes [] acc = acc"
| "emplace_schemes schemes (name # names) acc =
     emplace_schemes schemes names
       (case map_of schemes name of
          Some scheme \<Rightarrow> if map_of acc name = None then acc @ [(name, scheme)] else acc
        | None \<Rightarrow> acc)"

definition PopulateSecurityMetadata ::
  "('card, 'scheme) AgentCardSecurity \<Rightarrow> 'card \<Rightarrow> 'scheme ResolvedInterface \<Rightarrow> 'scheme ResolvedInterface" where
  "PopulateSecurityMetadata sec acard resolved =
     (let names = ri_security_requirements resolved @ concat (security_requirements sec acard)
      in resolved\<lparr>ri_security_requirements := names,
           ri_security_schemes := emplace_schemes (security_schemes sec acard) names (ri_security_schemes resolved)\<rparr>)"

fun find_interface :: "string \<Rightarrow> AgentInterface list \<Rightarrow> AgentInterface option" where
  "find_interface transport [] = None"
| "find_interface transport (iface # ifaces) =
     (if iface_protocol_binding iface \<noteq> transport \<or> isl (ValidateInterface iface) then find_interface transport ifaces
      else Some iface)"

fun select_loop_interface :: "string list \<Rightarrow> AgentInterface list \<Rightarrow> AgentInterface option" where
  "select_loop_interface [] ifaces = None"
| "select_loop_interface (transport # transports) ifaces =
     (case find_interface transport ifaces of
        Some iface \<Rightarrow> Some iface
      | None \<Rightarrow> select_loop_interface transports ifaces)"

definition SelectPreferredInterface ::
  "'card AgentCardClass \<Rightarrow> ('card, 'scheme) AgentCardSecurity \<Rightarrow> 'card \<Rightarrow> PreferredTransport \<Rightarrow>
   'scheme ResolvedInterface Result" where
  "SelectPreferredInterface cls sec acard preferred =
     (case select_loop_interface (BuildTransportOrder (ToWireTransport preferred)) (supported_interfaces cls acard) of
        None \<Rightarrow> Inl (Validation ''No usable interface found for this Agent Card'')
      | Some iface \<Rightarrow>
          Inr (PopulateSecurityMetadata sec acard
            \<lparr>ri_transport = ToPreferredTransport (iface_protocol_binding iface), ri_url = iface_url iface,
             ri_security_requirements = [], ri_security_schemes = []\<rparr>))"

section \<open>Validation of a card\<close>

fun check_schemes :: "(string \<times> 'scheme) list \<Rightarrow> string list \<Rightarrow> unit Result" where
  "check_schemes schemes [] = Inr ()"
| "check_schemes schemes (name # names) =
     (if map_of schemes name = None
      then Inl (Validation (''Agent Card security requirement references an unknown security scheme: '' @ name))
      else check_schemes schemes names)"

fun validate_interfaces ::
  "('card, 'scheme) AgentCardSecurity \<Rightarrow> 'card \<Rightarrow> AgentInterface list \<Rightarrow> unit Result" where
  "validate_interfaces sec acard [] = Inr ()"
| "validate_interfaces sec acard (iface # ifaces) =
     (if iface_protocol_binding iface = []
      then Inl (Validation ''Agent Card contains an interface with unspecified protocol binding'')
      else if iface_protocol_version iface = []
      then Inl (Validation ''Agent Card contains an interface with no protocol version'')
      else if \<not> IsSupported (iface_protocol_version iface)
      then Inl (UnsupportedVersion ''Only A2A protocol version 1.0 is supported'')
      else if iface_url iface = [] then Inl (Validation ''Agent Card contains an interface without a URL'')
      else if \<not> IsValidInterfaceEndpoint (iface_protocol_binding iface) (iface_url iface)
      then Inl (Validation ''Agent Card interface endpoint is invalid for its protocol binding'')
      else result_bind (check_schemes (security_schemes sec acard) (concat (security_requirements sec acard))) (\<lambda>_.
             validate_interfaces sec acard ifaces))"

definition ValidateAgentCard ::
  "'card AgentCardClass \<Rightarrow> ('card, 'scheme) AgentCardSecurity \<Rightarrow> 'card \<Rightarrow> unit Result" where
  "ValidateAgentCard cls sec acard =
     (if supported_interfaces cls acard = []
      then Inl (Validation ''Agent Card must include at least one supported interface'')
      else validate_interfaces sec acard (supported_interfaces cls acard))"

section \<open>Discovery\<close>

definition Discovery_Trim :: "string \<Rightarrow> string" where
  "Discovery_Trim input = rev (dropWhile isspace (rev (dropWhile isspace input)))"

definition discovery_url :: "string \<Rightarrow> string \<Rightarrow> string \<Rightarrow> string Result" where
  "discovery_url missing path base_url =
     (let normalized = Discovery_Trim base_url in
      if normalized = [] then Inl (Validation missing)
      else if \<not> HasHttpScheme normalized then Inl (Validation ''Base URL must start with http:// or https://'')
      else Inr (rev (dropWhile (\<lambda>c. c = CHR ''/'') (rev normalized)) @ path))"

definition BuildDiscoveryUrl :: "string \<Rightarrow> string Result" where
  "BuildDiscoveryUrl = discovery_url ''Base URL is required for Agent Card discovery'' ''/.well-known/agent-card.json''"

definition BuildExtendedDiscoveryUrl :: "string \<Rightarrow> string Result" where
  "BuildExtendedDiscoveryUrl = discovery_url ''Base URL is required for extended Agent Card discovery'' ''/extendedAgentCard''"

record DiscoveryHttpResponse =
  dresp_status_code :: int
  dresp_body :: string

record 'card CacheEntry =
  ce_card :: 'card
  ce_json :: string
  ce_expires_at :: int

record ('w, 'card) DiscoveryClient =
  dc_verifier :: "(string \<Rightarrow> ('w, unit) step) option"
  dc_fetcher :: "string \<Rightarrow> ('w, DiscoveryHttpResponse) step"
  dc_cache_ttl :: int
  dc_cache :: "(string \<times> 'card CacheEntry) list"

definition DiscoveryClient_new :: "(string \<Rightarrow> ('w, DiscoveryHttpResponse) step) \<Rightarrow> int \<Rightarrow> ('w, 'card) DiscoveryClient" where
  "DiscoveryClient_new fetcher cache_ttl =
     \<lparr>dc_verifier = None, dc_fetcher = fetcher, dc_cache_ttl = cache_ttl, dc_cache = []\<rparr>"

definition SetAgentCardVerifier ::
  "(string \<Rightarrow> ('w, unit) step) option \<Rightarrow> ('w, 'card) DiscoveryClient \<Rightarrow> ('w, 'card) DiscoveryClient" where
  "SetAgentCardVerifier verifier client = client\<lparr>dc_verifier := verifier, dc_cache := []\<rparr>"

definition run_verifier :: "('w, 'card) DiscoveryClient \<Rightarrow> string \<Rightarrow> ('w, unit) step" where
  "run_verifier client json w = (case dc_verifier client of None \<Rightarrow> Some (w, Inr ()) | Some verify \<Rightarrow> verify json w)"

definition VerifyAndParseAgentCard ::
  "'card ProtoJson \<Rightarrow> 'card AgentCardClass \<Rightarrow> ('card, 'scheme) AgentCardSecurity \<Rightarrow> ('w, 'card) DiscoveryClient \<Rightarrow> string \<Rightarrow>
   ('w, 'card) step" where
  "VerifyAndParseAgentCard pj cls sec client json w =
     map_option (\<lambda>(w, verified). (w, result_bind verified (\<lambda>_.
         result_bind (parse_AgentCard pj lenient_parse json) (\<lambda>acard.
           result_bind (ValidateAgentCard cls sec acard) (\<lambda>_. Inr acard)))))
       (run_verifier client json w)"

definition fetched_body :: "string \<Rightarrow> string \<Rightarrow> DiscoveryHttpResponse \<Rightarrow> string Result" where
  "fetched_body not_found failed response =
     (if dresp_status_code response = 404
      then Inl (WithHttpStatus 404 (WithTransport ''http'' (RemoteProtocol not_found)))
      else if dresp_status_code response < 200 \<or> dresp_status_code response > 299
      then Inl (WithHttpStatus (dresp_status_code response) (WithTransport ''http'' (RemoteProtocol failed)))
      else Inr (dresp_body response))"

text \<open>The part of \<open>Fetch\<close> after the cache: fetch, verify, parse, and cache.\<close>

definition fetch_fresh ::
  "'card ProtoJson \<Rightarrow> 'card AgentCardClass \<Rightarrow> ('card, 'scheme) AgentCardSecurity \<Rightarrow> string \<Rightarrow> int \<Rightarrow>
   ('w, 'card) DiscoveryClient \<Rightarrow> 'w \<Rightarrow> (('w, 'card) DiscoveryClient \<times> 'w \<times> 'card Result) option" where
  "fetch_fresh pj cls sec url now client w =
     do { (w, response) \<leftarrow> dc_fetcher client url w;
          case result_bind response (fetched_body ''Agent Card not found at well-known discovery endpoint''
                 ''Agent Card discovery failed'') of
            Inl e \<Rightarrow> Some (client, w, Inl e)
          | Inr body \<Rightarrow>
              do { (w, acard) \<leftarrow> VerifyAndParseAgentCard pj cls sec client body w;
                   case acard of
                     Inl e \<Rightarrow> Some (client, w, Inl e)
                   | Inr c \<Rightarrow>
                       let expires_at = now + dc_cache_ttl client * 1000000000 in
                       if expires_at < INT64_MIN \<or> expires_at > INT64_MAX then None
                       else Some (client\<lparr>dc_cache := AList.update url
                              \<lparr>ce_card = c, ce_json = body, ce_expires_at = expires_at\<rparr> (dc_cache client)\<rparr>, w, Inr c) } }"

definition Discovery_Fetch ::
  "'card ProtoJson \<Rightarrow> 'card AgentCardClass \<Rightarrow> ('card, 'scheme) AgentCardSecurity \<Rightarrow> ('w \<Rightarrow> 'w \<times> int) \<Rightarrow> string \<Rightarrow>
   ('w, 'card) DiscoveryClient \<Rightarrow> 'w \<Rightarrow> (('w, 'card) DiscoveryClient \<times> 'w \<times> 'card Result) option" where
  "Discovery_Fetch pj cls sec clock base_url client w =
     (case BuildDiscoveryUrl base_url of
        Inl e \<Rightarrow> Some (client, w, Inl e)
      | Inr url \<Rightarrow>
          let (w, now) = clock w in
          (case map_of (dc_cache client) url of
             None \<Rightarrow> fetch_fresh pj cls sec url now client w
           | Some cached \<Rightarrow>
               if ce_expires_at cached \<ge> now then
                 do { (w, verified) \<leftarrow> run_verifier client (ce_json cached) w;
                      case verified of
                        Inr _ \<Rightarrow> Some (client, w, Inr (ce_card cached))
                      | Inl _ \<Rightarrow> fetch_fresh pj cls sec url now
                          (client\<lparr>dc_cache := AList.delete url (dc_cache client)\<rparr>) w }
               else fetch_fresh pj cls sec url now client w))"

definition FetchExtendedAgentCard ::
  "'card ProtoJson \<Rightarrow> 'card AgentCardClass \<Rightarrow> ('card, 'scheme) AgentCardSecurity \<Rightarrow> ('w, 'card) DiscoveryClient \<Rightarrow> string \<Rightarrow>
   ('w, 'card) step" where
  "FetchExtendedAgentCard pj cls sec client base_url w =
     (case BuildExtendedDiscoveryUrl base_url of
        Inl e \<Rightarrow> Some (w, Inl e)
      | Inr url \<Rightarrow>
          do { (w, response) \<leftarrow> dc_fetcher client url w;
               case result_bind response (fetched_body ''Extended Agent Card not found at discovery endpoint''
                      ''Extended Agent Card discovery failed'') of
                 Inl e \<Rightarrow> Some (w, Inl e)
               | Inr body \<Rightarrow> VerifyAndParseAgentCard pj cls sec client body w })"

text \<open>The default fetcher sends the version header over the shared HTTP client.\<close>

definition MakeDefaultHttpFetcher ::
  "(HttpRequest \<Rightarrow> ('w, HttpResponse) step) \<Rightarrow> TlsOptions option \<Rightarrow> string \<Rightarrow> ('w, DiscoveryHttpResponse) step" where
  "MakeDefaultHttpFetcher SendRequest tls url w =
     map_option (\<lambda>(w, response). (w, map_sum id (\<lambda>r.
         \<lparr>dresp_status_code = hresp_status_code r, dresp_body = hresp_body r\<rparr>) response))
       (SendRequest \<lparr>hreq_method = kMethodGet, hreq_url = url, hreq_headers = [(kVersionHeaderName, HeaderValue)],
          hreq_body = [], hreq_timeout = 0, hreq_tls = tls, hreq_http_version = ''HTTP/1.1''\<rparr> w)"

section \<open>The chosen interface\<close>

definition usable :: "string \<Rightarrow> AgentInterface \<Rightarrow> bool" where
  "usable transport iface \<longleftrightarrow> iface_protocol_binding iface = transport \<and> iface_url iface \<noteq> [] \<and>
     IsValidInterfaceEndpoint transport (iface_url iface)"

lemma find_interface_find: "find_interface transport ifaces = find (usable transport) ifaces"
  by (induction ifaces)
    (auto simp: usable_def ValidateInterface_def IsValidInterfaceEndpoint_def)

lemma find_usable_None: "find (usable t) ifaces = None \<longleftrightarrow> (\<forall>i\<in>set ifaces. \<not> usable t i)"
  by (auto simp: find_None_iff)

lemma usable_binding: "usable t i \<Longrightarrow> ToWireTransport (ToPreferredTransport (iface_protocol_binding i)) = t"
  by (auto simp: usable_def IsValidInterfaceEndpoint_def ToPreferredTransport_def split: if_splits)

lemma ToWireTransport_inject [simp]: "ToWireTransport t = ToWireTransport u \<longleftrightarrow> t = u"
  by (cases t; cases u) simp_all

lemma BuildTransportOrder_hd:
  "\<exists>rest. BuildTransportOrder (ToWireTransport t) = ToWireTransport t # rest \<and>
     set (BuildTransportOrder (ToWireTransport t)) = range ToWireTransport"
proof -
  have "range ToWireTransport = {''HTTP+JSON'', ''JSONRPC'', ''GRPC''}"
    by (auto simp: image_iff) (metis PreferredTransport.exhaust ToWireTransport.simps)+
  then show ?thesis by (cases t) (auto simp: BuildTransportOrder_def)
qed

lemma select_loop_interface_Some:
  "select_loop_interface ts ifaces = Some i \<Longrightarrow>
     \<exists>t\<in>set ts. find (usable t) ifaces = Some i \<and> (t \<noteq> hd ts \<longrightarrow> find (usable (hd ts)) ifaces = None)"
  by (induction ts) (fastforce simp: find_interface_find split: option.splits)+

lemma select_loop_interface_None:
  "select_loop_interface ts ifaces = None \<longleftrightarrow> (\<forall>t\<in>set ts. find (usable t) ifaces = None)"
  by (induction ts) (auto simp: find_interface_find split: option.splits)

text \<open>C20: The resolver picks an interface of the card that is usable (known binding, nonempty URL of a scheme that fits the
  binding), of the preferred transport whenever the card has a usable one; among several of that transport it takes the
  first. It fails exactly when the card has no usable interface at all.\<close>

theorem SelectPreferredInterface_best:
  "case SelectPreferredInterface cls sec c preferred of
     Inl e \<Rightarrow> \<forall>i \<in> set (supported_interfaces cls c). \<forall>t. \<not> usable (ToWireTransport t) i
   | Inr r \<Rightarrow>
       (\<exists>i. find (usable (ToWireTransport (ri_transport r))) (supported_interfaces cls c) = Some i \<and> ri_url r = iface_url i) \<and>
       (ri_transport r \<noteq> preferred \<longrightarrow> (\<forall>i \<in> set (supported_interfaces cls c). \<not> usable (ToWireTransport preferred) i))"
proof -
  let ?is = "supported_interfaces cls c" and ?ts = "BuildTransportOrder (ToWireTransport preferred)"
  obtain rest where ts: "?ts = ToWireTransport preferred # rest" "set ?ts = range ToWireTransport"
    using BuildTransportOrder_hd by blast
  show ?thesis
  proof (cases "select_loop_interface ?ts ?is")
    case None
    then show ?thesis
      using ts(2) by (simp add: SelectPreferredInterface_def) (simp add: select_loop_interface_None find_usable_None)
  next
    case (Some i)
    from select_loop_interface_Some[OF this] obtain t where t: "find (usable t) ?is = Some i"
      "t \<noteq> ToWireTransport preferred \<longrightarrow> find (usable (ToWireTransport preferred)) ?is = None" by (auto simp: ts(1))
    then have "usable t i" by (auto simp: find_Some_iff)
    then have "ToWireTransport (ToPreferredTransport (iface_protocol_binding i)) = t" by (rule usable_binding)
    then show ?thesis
      using t by (auto simp: SelectPreferredInterface_def Some PopulateSecurityMetadata_def Let_def find_usable_None)
  qed
qed

definition sample_interfaces :: "AgentInterface list" where
  "sample_interfaces =
     [\<lparr>iface_url = ''ftp://x'', iface_protocol_binding = ''JSONRPC'', iface_tenant = [], iface_protocol_version = ''1.0''\<rparr>,
      \<lparr>iface_url = ''http://a'', iface_protocol_binding = ''HTTP+JSON'', iface_tenant = [], iface_protocol_version = ''1.0''\<rparr>,
      \<lparr>iface_url = ''http://b'', iface_protocol_binding = ''JSONRPC'', iface_tenant = [], iface_protocol_version = ''1.0''\<rparr>]"

definition list_cards :: "AgentInterface list AgentCardClass" where
  "list_cards = \<lparr>supported_interfaces = (\<lambda>c. c), map_supported_interfaces = map\<rparr>"

definition open_cards :: "(AgentInterface list, unit) AgentCardSecurity" where
  "open_cards = \<lparr>security_requirements = (\<lambda>_. []), security_schemes = (\<lambda>_. [])\<rparr>"

theorem SelectPreferredInterface_best_witness:
  "\<exists>r. SelectPreferredInterface list_cards open_cards sample_interfaces Transport_kJsonRpc = Inr r \<and>
     ri_transport r = Transport_kJsonRpc \<and> ri_url r = ''http://b''"
proof -
  have "SelectPreferredInterface list_cards open_cards sample_interfaces Transport_kJsonRpc =
      Inr \<lparr>ri_transport = Transport_kJsonRpc, ri_url = ''http://b'', ri_security_requirements = [], ri_security_schemes = []\<rparr>"
    by code_simp
  then show ?thesis
    using SelectPreferredInterface_best[where cls = list_cards and sec = open_cards and c = sample_interfaces
      and preferred = Transport_kJsonRpc] by auto
qed

section \<open>No card without verification\<close>

text \<open>Every cached card is the valid card of the cached document.\<close>

definition cache_inv ::
  "'card ProtoJson \<Rightarrow> 'card AgentCardClass \<Rightarrow> ('card, 'scheme) AgentCardSecurity \<Rightarrow> ('w, 'card) DiscoveryClient \<Rightarrow> bool" where
  "cache_inv pj cls sec client \<longleftrightarrow> (\<forall>(url, entry) \<in> set (dc_cache client).
     parse_AgentCard pj lenient_parse (ce_json entry) = Inr (ce_card entry) \<and>
     ValidateAgentCard cls sec (ce_card entry) = Inr ())"

text \<open>The verifier, when there is one, accepted a document of which this is the valid card, and left the state \<open>w'\<close>.\<close>

definition verified_card ::
  "'card ProtoJson \<Rightarrow> 'card AgentCardClass \<Rightarrow> ('card, 'scheme) AgentCardSecurity \<Rightarrow> ('w, 'card) DiscoveryClient \<Rightarrow> 'w \<Rightarrow> 'card \<Rightarrow>
   bool" where
  "verified_card pj cls sec client w' c \<longleftrightarrow> (\<exists>json w. run_verifier client json w = Some (w', Inr ()) \<and>
     parse_AgentCard pj lenient_parse json = Inr c \<and> ValidateAgentCard cls sec c = Inr ())"

inductive discovery_run ::
  "'card ProtoJson \<Rightarrow> 'card AgentCardClass \<Rightarrow> ('card, 'scheme) AgentCardSecurity \<Rightarrow> ('w \<Rightarrow> 'w \<times> int) \<Rightarrow>
   ('w, 'card) DiscoveryClient \<Rightarrow> bool"
  for pj cls sec clock where
  new: "discovery_run pj cls sec clock (DiscoveryClient_new fetcher ttl)"
| verifier: "discovery_run pj cls sec clock client \<Longrightarrow> discovery_run pj cls sec clock (SetAgentCardVerifier v client)"
| fetch: "discovery_run pj cls sec clock client \<Longrightarrow> Discovery_Fetch pj cls sec clock url client w = Some (client', w', r) \<Longrightarrow>
    discovery_run pj cls sec clock client'"

lemma VerifyAndParseAgentCard_ok:
  assumes "VerifyAndParseAgentCard pj cls sec client json w = Some (w', Inr c)"
  shows "run_verifier client json w = Some (w', Inr ())" "parse_AgentCard pj lenient_parse json = Inr c"
    "ValidateAgentCard cls sec c = Inr ()"
  using assms by (auto simp: VerifyAndParseAgentCard_def result_bind_Inr)

lemma run_verifier_cache [simp]: "run_verifier (client\<lparr>dc_cache := x\<rparr>) = run_verifier client"
  by (simp add: run_verifier_def fun_eq_iff)

lemma set_update_subset: "set (AList.update k v xs) \<subseteq> insert (k, v) (set xs)"
  by (induction xs) auto

lemma cache_inv_update:
  assumes "cache_inv pj cls sec client" "parse_AgentCard pj lenient_parse json = Inr c" "ValidateAgentCard cls sec c = Inr ()"
  shows "cache_inv pj cls sec (client\<lparr>dc_cache := AList.update url
    \<lparr>ce_card = c, ce_json = json, ce_expires_at = e\<rparr> (dc_cache client)\<rparr>)"
  using assms set_update_subset[of url "\<lparr>ce_card = c, ce_json = json, ce_expires_at = e\<rparr>" "dc_cache client"]
  by (auto simp: cache_inv_def)

lemma fetch_fresh_ok:
  assumes "fetch_fresh pj cls sec url now client w = Some (client', w', r)" "cache_inv pj cls sec client"
  shows "cache_inv pj cls sec client' \<and> (\<forall>c. r = Inr c \<longrightarrow> verified_card pj cls sec client w' c)"
proof -
  obtain w1 response where f: "dc_fetcher client url w = Some (w1, response)"
    using assms(1) by (auto simp: fetch_fresh_def split: Option.bind_splits)
  show ?thesis
  proof (cases "result_bind response (fetched_body ''Agent Card not found at well-known discovery endpoint''
      ''Agent Card discovery failed'')")
    case (Inl e)
    then show ?thesis using assms by (auto simp: fetch_fresh_def f)
  next
    case body: (Inr body)
    then obtain w2 acard where v: "VerifyAndParseAgentCard pj cls sec client body w1 = Some (w2, acard)"
      using assms(1) by (auto simp: fetch_fresh_def f split: Option.bind_splits)
    show ?thesis
    proof (cases acard)
      case (Inl e)
      then show ?thesis using assms by (auto simp: fetch_fresh_def f body v)
    next
      case (Inr c)
      note ok = VerifyAndParseAgentCard_ok[OF v[unfolded Inr]]
      have "verified_card pj cls sec client w2 c" using ok by (auto simp: verified_card_def)
      moreover have r: "r = Inr c" "w' = w2" "client' = client\<lparr>dc_cache := AList.update url
          \<lparr>ce_card = c, ce_json = body, ce_expires_at = now + dc_cache_ttl client * 1000000000\<rparr> (dc_cache client)\<rparr>"
        using assms(1) Inr by (simp_all add: fetch_fresh_def f body v Let_def split: if_splits)
      moreover have "cache_inv pj cls sec client'"
        unfolding r(3) using assms(2) ok(2,3) by (rule cache_inv_update)
      ultimately show ?thesis by simp
    qed
  qed
qed

lemma Fetch_ok:
  assumes "Discovery_Fetch pj cls sec clock url client w = Some (client', w', r)" "cache_inv pj cls sec client"
  shows "cache_inv pj cls sec client' \<and> (\<forall>c. r = Inr c \<longrightarrow> verified_card pj cls sec client w' c)"
proof (cases "BuildDiscoveryUrl url")
  case (Inl e)
  then show ?thesis using assms by (auto simp: Discovery_Fetch_def)
next
  case url: (Inr u)
  obtain w1 now where now: "clock w = (w1, now)" by fastforce
  have fresh: ?thesis if "fetch_fresh pj cls sec u now client w1 = Some (client', w', r)"
    using fetch_fresh_ok[OF that assms(2)] .
  show ?thesis
  proof (cases "map_of (dc_cache client) u")
    case None
    then show ?thesis using assms(1) fresh by (simp add: Discovery_Fetch_def url now)
  next
    case (Some cached)
    then have entry: "parse_AgentCard pj lenient_parse (ce_json cached) = Inr (ce_card cached)"
      "ValidateAgentCard cls sec (ce_card cached) = Inr ()"
      using assms(2) by (auto simp: cache_inv_def dest: map_of_SomeD)
    show ?thesis
    proof (cases "ce_expires_at cached \<ge> now")
      case False
      then show ?thesis using assms(1) fresh by (simp add: Discovery_Fetch_def url now Some)
    next
      case True
      then obtain w2 verified where v: "run_verifier client (ce_json cached) w1 = Some (w2, verified)"
        using assms(1) by (auto simp: Discovery_Fetch_def url now Some split: bind_splits)
      show ?thesis
      proof (cases verified)
        case (Inr a)
        then have "client' = client \<and> w' = w2 \<and> r = Inr (ce_card cached)"
          using assms(1) True by (simp add: Discovery_Fetch_def url now Some v)
        with entry v Inr assms(2) show ?thesis by (auto simp: verified_card_def)
      next
        case (Inl e)
        let ?client = "client\<lparr>dc_cache := AList.delete u (dc_cache client)\<rparr>"
        have "cache_inv pj cls sec ?client"
          using assms(2) by (auto simp: cache_inv_def AList.delete_eq)
        moreover have "fetch_fresh pj cls sec u now ?client w2 = Some (client', w', r)"
          using assms(1) True by (simp add: Discovery_Fetch_def url now Some v Inl)
        ultimately show ?thesis using fetch_fresh_ok by (fastforce simp: verified_card_def)
      qed
    qed
  qed
qed

lemma discovery_run_inv: "discovery_run pj cls sec clock client \<Longrightarrow> cache_inv pj cls sec client"
proof (induction rule: discovery_run.induct)
  case (new fetcher ttl)
  show ?case by (simp add: cache_inv_def DiscoveryClient_new_def)
next
  case (verifier client v)
  show ?case by (simp add: cache_inv_def SetAgentCardVerifier_def)
next
  case (fetch client url w client' w' r)
  then show ?case using Fetch_ok[OF fetch.hyps(2) fetch.IH] by simp
qed

text \<open>C19: Whatever sequence of fetches and verifier changes a discovery client has seen, a card that \<open>Fetch\<close> returns is valid
  and is the card of a document that the current verifier accepted as the last step of this very call, also when the
  card comes from the cache.\<close>

theorem Fetch_verified:
  assumes "discovery_run pj cls sec clock client" "Discovery_Fetch pj cls sec clock url client w = Some (client', w', Inr c)"
  shows "\<exists>json w1. run_verifier client json w1 = Some (w', Inr ()) \<and>
     parse_AgentCard pj lenient_parse json = Inr c \<and> ValidateAgentCard cls sec c = Inr ()"
  using Fetch_ok[OF assms(2) discovery_run_inv[OF assms(1)]] unfolding verified_card_def by blast

text \<open>A client whose verifier counts its calls, after a first fetch: the second one is answered from the cache.\<close>

definition card_codec :: "AgentInterface list ProtoJson" where
  "card_codec = refusing_codec\<lparr>parse_AgentCard := (\<lambda>_ s. if s = ''card'' then Inr (tl sample_interfaces) else Inl (Validation s))\<rparr>"

definition counting_client :: "(nat, AgentInterface list) DiscoveryClient" where
  "counting_client = SetAgentCardVerifier (Some (\<lambda>json n. Some (n + 1, if json = ''card'' then Inr () else Inl (Validation json))))
     (DiscoveryClient_new (\<lambda>url n. if n = 0 then Some (n, Inr \<lparr>dresp_status_code = 200, dresp_body = ''card''\<rparr>)
        else Some (n, Inl (Internal ''offline''))) 300)"

theorem Fetch_verified_witness:
  "\<exists>client client' n. Discovery_Fetch card_codec list_cards open_cards (\<lambda>n. (n, 0)) ''http://a'' client (1::nat) =
       Some (client', n, Inr (tl sample_interfaces)) \<and>
     (\<exists>json w1. run_verifier client json w1 = Some (n, Inr ()))"
proof -
  let ?fetch = "Discovery_Fetch card_codec list_cards open_cards (\<lambda>n. (n, 0)) ''http://a''"
  have "map_option (\<lambda>(client, n, r). (n, r)) (do { (client, n, r) \<leftarrow> ?fetch counting_client 0; ?fetch client n }) =
      Some (2, Inr (tl sample_interfaces))"
    by code_simp
  moreover have "map_option (\<lambda>(client, n, r). n) (?fetch counting_client 0) = Some 1" by code_simp
  ultimately obtain client r client' where run: "?fetch counting_client 0 = Some (client, 1, r)"
    "?fetch client 1 = Some (client', 2, Inr (tl sample_interfaces))"
    by (auto split: bind_splits)
  have "discovery_run card_codec list_cards open_cards (\<lambda>n. (n, 0)) counting_client"
    unfolding counting_client_def by (intro discovery_run.intros)
  from Fetch_verified[OF discovery_run.fetch[OF this run(1)] run(2)] run(2) show ?thesis by blast
qed

end
