(* ===== verification/Rest_Roundtrip.thy ===== *)
theory Rest_Roundtrip
  imports Http_Json_Client Rest_Server Dispatcher_Props
begin

text \<open>
  The client's REST transport against the server's: a client call on a transport whose requests are answered by the REST
  server is a dispatch of the same operation with the same payload, and the client returns what the dispatcher answered.
  The HTTP exchange in between hands over method, target, headers and body; the ProtoJSON codec is assumed to carry the
  messages at hand, not more.
\<close>

section \<open>Paths that arrive as they were sent\<close>

definition plain :: "char \<Rightarrow> bool" where
  "plain c \<longleftrightarrow> isgraph c \<and> c \<notin> set ''/?#%+&''"

definition plain_text :: "string \<Rightarrow> bool" where
  "plain_text s \<longleftrightarrow> s \<noteq> [] \<and> list_all plain s"

text \<open>An id that the routes cannot mistake for an action or for the extended agent card.\<close>

definition plain_id :: "string \<Rightarrow> bool" where
  "plain_id s \<longleftrightarrow> plain_text s \<and> \<not> suffix '':cancel'' s \<and> \<not> suffix '':subscribe'' s \<and> s \<noteq> ''extendedAgentCard''"

lemma plain_noneq: "list_all plain s \<Longrightarrow> c \<in> set ''/?#%+&'' \<Longrightarrow> c \<notin> set s"
  by (auto simp: plain_def list_all_iff)

lemma plain_text_noneq:
  assumes "plain_text s"
  shows "CHR ''/'' \<notin> set s" "CHR ''?'' \<notin> set s" "CHR ''%'' \<notin> set s" "CHR ''+'' \<notin> set s" "CHR ''&'' \<notin> set s" "s \<noteq> []"
  using assms plain_noneq unfolding plain_text_def by auto

lemma isdigit_plain: "isdigit c \<Longrightarrow> plain c"
  by (auto simp: plain_def isdigit_def isgraph_def Let_def)

lemma plain_to_string_nat: "list_all plain (to_string_nat n)"
  using to_string_nat_digits isdigit_plain by (auto simp: list_all_iff)

lemma has_slash_iff: "has_slash s \<longleftrightarrow> CHR ''/'' \<in> set s"
  by (auto simp: has_slash_def index_of_None)

lemma find_sub_no_slash: "CHR ''/'' \<notin> set s \<Longrightarrow> find_sub kPushNotificationConfigsSegment s = None"
proof (rule ccontr)
  assume *: "CHR ''/'' \<notin> set s" "find_sub kPushNotificationConfigsSegment s \<noteq> None"
  then obtain n where "prefix kPushNotificationConfigsSegment (drop n s)" using find_sub_Some_prefix by blast
  then have "CHR ''/'' \<in> set (drop n s)" by (auto simp: kPushNotificationConfigsSegment_def prefix_def)
  with *(1) show False by (meson in_set_dropD)
qed

lemma find_sub_segment: "CHR ''/'' \<notin> set s \<Longrightarrow> find_sub kPushNotificationConfigsSegment (s @ kPushNotificationConfigsSegment @ r) = Some (length s)"
  by (induction s) (auto simp: kPushNotificationConfigsSegment_def)

lemma DecodeUrlComponent_plain: "CHR ''%'' \<notin> set s \<Longrightarrow> CHR ''+'' \<notin> set s \<Longrightarrow> DecodeUrlComponent s = Inr s"
  by (auto simp: DecodeUrlComponent_def index_of_None)

lemma last_segment:
  assumes "a @ CHR ''/'' # b = c @ CHR ''/'' # d" "CHR ''/'' \<notin> set b" "CHR ''/'' \<notin> set d"
  shows "b = d"
proof -
  have seg: "takeWhile (\<lambda>y. y \<noteq> CHR ''/'') (rev (x @ CHR ''/'' # y)) = rev y" if "CHR ''/'' \<notin> set y" for x y
    using that takeWhile_append2[of "rev y" "\<lambda>y. y \<noteq> CHR ''/''" "CHR ''/'' # rev x"] by auto
  from arg_cong[OF assms(1), of "\<lambda>x. takeWhile (\<lambda>y. y \<noteq> CHR ''/'') (rev x)"] show ?thesis
    using seg[OF assms(2)] seg[OF assms(3)] by simp
qed

section \<open>Client calls\<close>

datatype ClientCall =
    Call_SendMessage SendMessageRequest
  | Call_GetTask GetTaskRequest
  | Call_ListTasks ClientListTasksRequest
  | Call_CancelTask CancelTaskRequest
  | Call_CreateConfig TaskPushNotificationConfig
  | Call_GetConfig GetTaskPushNotificationConfigRequest
  | Call_ListConfigs ListTaskPushNotificationConfigsRequest
  | Call_DeleteConfig DeleteTaskPushNotificationConfigRequest

datatype ClientAnswer =
    Ans_SendMessage SendMessageResponse
  | Ans_Task Task
  | Ans_List ClientListTasksResponse
  | Ans_Config TaskPushNotificationConfig
  | Ans_Configs ListTaskPushNotificationConfigsResponse
  | Ans_Done

definition answering :: "('a \<Rightarrow> 'b) \<Rightarrow> ('w \<times> 'a Result) option \<Rightarrow> ('w \<times> 'b Result) option" where
  "answering f = map_option (\<lambda>(w, r). (w, map_sum id f r))"

fun run_rest ::
  "'card ProtoJson \<Rightarrow> ('w, 'scheme) HttpJsonTransport \<Rightarrow> ClientCall \<Rightarrow> ('w, 'scheme) CallOptions \<Rightarrow> ('w, ClientAnswer) step" where
  "run_rest pj t (Call_SendMessage q) opts w = answering Ans_SendMessage (HttpJson_SendMessage pj t q opts w)"
| "run_rest pj t (Call_GetTask q) opts w = answering Ans_Task (HttpJson_GetTask pj t q opts w)"
| "run_rest pj t (Call_ListTasks q) opts w = answering Ans_List (HttpJson_ListTasks pj t q opts w)"
| "run_rest pj t (Call_CancelTask q) opts w = answering Ans_Task (HttpJson_CancelTask pj t q opts w)"
| "run_rest pj t (Call_CreateConfig q) opts w = answering Ans_Config (HttpJson_CreateTaskPushNotificationConfig pj t q opts w)"
| "run_rest pj t (Call_GetConfig q) opts w = answering Ans_Config (HttpJson_GetTaskPushNotificationConfig pj t q opts w)"
| "run_rest pj t (Call_ListConfigs q) opts w = answering Ans_Configs (HttpJson_ListTaskPushNotificationConfigs pj t q opts w)"
| "run_rest pj t (Call_DeleteConfig q) opts w =
     answering (\<lambda>_. Ans_Done) (HttpJson_DeleteTaskPushNotificationConfig pj t q opts w)"

text \<open>The dispatch request a call stands for. The client's listing has no tenant, filters or projection.\<close>

definition list_request :: "ClientListTasksRequest \<Rightarrow> ListTasksRequest" where
  "list_request q = default_ListTasksRequest
     \<lparr>LTR_page_size := (if cltr_page_size q = 0 then kDefaultListTasksPageSize else cltr_page_size q),
      LTR_page_token := cltr_page_token q\<rparr>"

fun call_request :: "ClientCall \<Rightarrow> DispatchRequest" where
  "call_request (Call_SendMessage q) = \<lparr>req_operation = kSendMessage, req_payload = Req_SendMessage q\<rparr>"
| "call_request (Call_GetTask q) = \<lparr>req_operation = kGetTask, req_payload = Req_GetTask q\<rparr>"
| "call_request (Call_ListTasks q) = \<lparr>req_operation = kListTasks, req_payload = Req_ListTasks (list_request q)\<rparr>"
| "call_request (Call_CancelTask q) = \<lparr>req_operation = kCancelTask, req_payload = Req_CancelTask q\<rparr>"
| "call_request (Call_CreateConfig q) =
     \<lparr>req_operation = kCreateTaskPushNotificationConfig, req_payload = Req_PushConfig q\<rparr>"
| "call_request (Call_GetConfig q) = \<lparr>req_operation = kGetTaskPushNotificationConfig, req_payload = Req_GetPushConfig q\<rparr>"
| "call_request (Call_ListConfigs q) =
     \<lparr>req_operation = kListTaskPushNotificationConfigs, req_payload = Req_ListPushConfigs q\<rparr>"
| "call_request (Call_DeleteConfig q) =
     \<lparr>req_operation = kDeleteTaskPushNotificationConfig, req_payload = Req_DeletePushConfig q\<rparr>"

text \<open>What REST can carry: plain ids, no tenant, no metadata of a cancellation, sizes in the range of the query.\<close>

fun expressible :: "ClientCall \<Rightarrow> bool" where
  "expressible (Call_SendMessage q) = True"
| "expressible (Call_GetTask q) \<longleftrightarrow> plain_id (GTR_id q) \<and> GTR_tenant q = [] \<and>
     (case GTR_history_length q of None \<Rightarrow> True | Some n \<Rightarrow> 0 \<le> n \<and> n \<le> INT32_MAX)"
| "expressible (Call_ListTasks q) \<longleftrightarrow> cltr_page_size q \<le> kMaxListTasksPageSize \<and> list_all plain (cltr_page_token q)"
| "expressible (Call_CancelTask q) \<longleftrightarrow> plain_text (CTR_id q) \<and> CTR_tenant q = [] \<and> CTR_metadata q = None"
| "expressible (Call_CreateConfig q) \<longleftrightarrow> plain_text (Push_task_id q)"
| "expressible (Call_GetConfig q) \<longleftrightarrow> plain_text (GPR_task_id q) \<and> plain_text (GPR_id q) \<and> GPR_tenant q = []"
| "expressible (Call_ListConfigs q) \<longleftrightarrow> plain_text (LPR_task_id q) \<and> LPR_tenant q = [] \<and>
     0 \<le> LPR_page_size q \<and> LPR_page_size q \<le> INT32_MAX \<and> list_all plain (LPR_page_token q)"
| "expressible (Call_DeleteConfig q) \<longleftrightarrow> plain_text (DPR_task_id q) \<and> plain_text (DPR_id q) \<and> DPR_tenant q = []"

text \<open>Method, endpoint and body of a call.\<close>

fun call_method :: "ClientCall \<Rightarrow> string" where
  "call_method (Call_SendMessage q) = kMethodPost"
| "call_method (Call_CancelTask q) = kMethodPost"
| "call_method (Call_CreateConfig q) = kMethodPost"
| "call_method (Call_DeleteConfig q) = kMethodDelete"
| "call_method _ = kMethodGet"

fun call_endpoint :: "ClientCall \<Rightarrow> string" where
  "call_endpoint (Call_SendMessage q) = EndpointMap_kSendMessage"
| "call_endpoint (Call_GetTask q) = get_task_endpoint q"
| "call_endpoint (Call_ListTasks q) = list_tasks_endpoint q"
| "call_endpoint (Call_CancelTask q) = BuildTaskPath (CTR_id q) @ '':cancel''"
| "call_endpoint (Call_CreateConfig q) = BuildTaskPushConfigCollectionPath (Push_task_id q)"
| "call_endpoint (Call_GetConfig q) = BuildTaskPushConfigPath (GPR_task_id q) (GPR_id q)"
| "call_endpoint (Call_ListConfigs q) = list_push_configs_endpoint q"
| "call_endpoint (Call_DeleteConfig q) = BuildTaskPushConfigPath (DPR_task_id q) (DPR_id q)"

fun call_body :: "'card ProtoJson \<Rightarrow> ClientCall \<Rightarrow> string Result" where
  "call_body pj (Call_SendMessage q) = json_SendMessageRequest pj q"
| "call_body pj (Call_CreateConfig q) = json_PushConfig pj q"
| "call_body pj (Call_CancelTask q) = Inr ''{}''"
| "call_body pj _ = Inr []"

fun call_parse :: "'card ProtoJson \<Rightarrow> ClientCall \<Rightarrow> HttpClientResponse \<Rightarrow> ClientAnswer Result" where
  "call_parse pj (Call_SendMessage q) response =
     map_sum id Ans_SendMessage (ParseBodyOrMapError pj (parse_SendMessageResponse pj) kMethodPost EndpointMap_kSendMessage response)"
| "call_parse pj (Call_GetTask q) response =
     map_sum id Ans_Task (ParseBodyOrMapError pj (parse_Task pj) kMethodGet (get_task_endpoint q) response)"
| "call_parse pj (Call_ListTasks q) response =
     map_sum id Ans_List (ParseListTasksResponsePayload pj response (list_tasks_endpoint q))"
| "call_parse pj (Call_CancelTask q) response =
     map_sum id Ans_Task (ParseBodyOrMapError pj (parse_Task pj) kMethodPost (BuildTaskPath (CTR_id q) @ '':cancel'') response)"
| "call_parse pj (Call_CreateConfig q) response =
     map_sum id Ans_Config (ParseBodyOrMapError pj (parse_PushConfig pj) kMethodPost
       (BuildTaskPushConfigCollectionPath (Push_task_id q)) response)"
| "call_parse pj (Call_GetConfig q) response =
     map_sum id Ans_Config (ParseBodyOrMapError pj (parse_PushConfig pj) kMethodGet
       (BuildTaskPushConfigPath (GPR_task_id q) (GPR_id q)) response)"
| "call_parse pj (Call_ListConfigs q) response =
     map_sum id Ans_Configs (ParseBodyOrMapError pj (parse_PushConfigList pj) kMethodGet (list_push_configs_endpoint q) response)"
| "call_parse pj (Call_DeleteConfig q) response =
     map_sum id (\<lambda>_. Ans_Done) (delete_answer pj (BuildTaskPushConfigPath (DPR_task_id q) (DPR_id q)) response)"

lemma answering_http_call:
  "answering f (http_call t m ep b opts parse w) = http_call t m ep b opts (\<lambda>r. map_sum id f (parse r)) w"
proof -
  have "map_sum id f (result_bind r parse) = result_bind r (\<lambda>r. map_sum id f (parse r))" for r
    by (cases r) simp_all
  then show ?thesis by (simp add: answering_def http_call_def option.map_comp comp_def case_prod_unfold)
qed

lemma answering_simps [simp]:
  "answering f None = None" "answering f (Some (w, Inl e)) = Some (w, Inl e)" "answering f (Some (w, Inr v)) = Some (w, Inr (f v))"
  by (simp_all add: answering_def)

lemma run_rest_call:
  assumes "expressible call"
  shows "run_rest pj t call opts w = (case call_body pj call of Inl e \<Rightarrow> Some (w, Inl e)
     | Inr body \<Rightarrow> http_call t (call_method call) (call_endpoint call) body opts (call_parse pj call) w)"
  using assms plain_text_noneq(6)
  by (cases call)
    (auto simp: HttpJson_SendMessage_def HttpJson_GetTask_def HttpJson_ListTasks_def HttpJson_CancelTask_def
      HttpJson_CreateTaskPushNotificationConfig_def HttpJson_GetTaskPushNotificationConfig_def
      HttpJson_ListTaskPushNotificationConfigs_def HttpJson_DeleteTaskPushNotificationConfig_def plain_id_def
      answering_http_call call_parse.simps[abs_def] Let_def split: sum.split)

section \<open>What the server reads\<close>

definition wire :: "string \<Rightarrow> string \<Rightarrow> ClientHttpRequest \<Rightarrow> HttpServerRequest" where
  "wire origin peer request =
     \<lparr>req_method = creq_method request, req_target = drop (length origin) (creq_url request),
      req_headers = creq_headers request, req_body = creq_body request, req_remote_address = peer\<rparr>"

definition client_view :: "'w ServerResponse \<Rightarrow> HttpClientResponse" where
  "client_view response =
     \<lparr>cresp_status_code = resp_status_code response, cresp_headers = resp_headers response, cresp_body = resp_body response\<rparr>"

definition served_by ::
  "'card ProtoJson \<Rightarrow> 'card AgentCardClass \<Rightarrow> ('w, 'card) RestServerTransport \<Rightarrow> string \<Rightarrow> string \<Rightarrow> 'w HttpRequester" where
  "served_by pj cls server origin peer request w =
     answering client_view (RestServerTransport_Handle pj cls server (wire origin peer request) w)"

text \<open>The path and the query of a call.\<close>

fun call_path :: "ClientCall \<Rightarrow> string" where
  "call_path (Call_GetTask q) = BuildTaskPath (GTR_id q)"
| "call_path (Call_ListTasks q) = EndpointMap_kTaskCollection"
| "call_path (Call_ListConfigs q) = BuildTaskPushConfigCollectionPath (LPR_task_id q)"
| "call_path call = call_endpoint call"

definition page_params :: "string option \<Rightarrow> string \<Rightarrow> headers" where
  "page_params n token = (case n of None \<Rightarrow> [] | Some n \<Rightarrow> [(''pageSize'', n)]) @
     (if token = [] then [] else [(''pageToken'', token)])"

fun call_params :: "ClientCall \<Rightarrow> headers" where
  "call_params (Call_GetTask q) = (case GTR_history_length q of None \<Rightarrow> [] | Some n \<Rightarrow> [(''historyLength'', to_string_int n)])"
| "call_params (Call_ListTasks q) =
     page_params (if cltr_page_size q > 0 then Some (to_string_nat (cltr_page_size q)) else None) (cltr_page_token q)"
| "call_params (Call_ListConfigs q) =
     page_params (if LPR_page_size q > 0 then Some (to_string_int (LPR_page_size q)) else None) (LPR_page_token q)"
| "call_params _ = []"

lemma parse_query_part_plain:
  assumes "list_all plain k" "CHR ''='' \<notin> set k" "list_all plain v"
  shows "parse_query_part (k @ CHR ''='' # v) out = Inr (AList.update k v out)"
proof -
  have "index_of (\<lambda>c. c = CHR ''='') (k @ CHR ''='' # v) = Some (length k)"
    using assms(2) by (intro index_of_append_hit) auto
  then show ?thesis
    using assms(1,3)[THEN plain_noneq] by (simp add: parse_query_part_def DecodeUrlComponent_plain Let_def)
qed

lemma parse_query_one:
  "list_all plain k \<Longrightarrow> CHR ''='' \<notin> set k \<Longrightarrow> list_all plain v \<Longrightarrow>
     parse_query_loop (k @ CHR ''='' # v) out = Inr (AList.update k v out)"
proof -
  assume *: "list_all plain k" "CHR ''='' \<notin> set k" "list_all plain v"
  then have "index_of (\<lambda>c. c = CHR ''&'') (k @ CHR ''='' # v) = None"
    using plain_noneq[of k "CHR ''&''"] plain_noneq[of v "CHR ''&''"] by (auto simp: index_of_None)
  with * show ?thesis by (subst parse_query_loop.simps) (simp add: parse_query_part_plain)
qed

lemma parse_query_two:
  assumes "list_all plain k" "CHR ''='' \<notin> set k" "list_all plain v"
  shows "parse_query_loop (k @ CHR ''='' # v @ CHR ''&'' # r) out = parse_query_loop r (AList.update k v out)"
proof -
  have "index_of (\<lambda>c. c = CHR ''&'') ((k @ CHR ''='' # v) @ CHR ''&'' # r) = Some (length (k @ CHR ''='' # v))"
    using assms(1,3)[THEN plain_noneq] by (intro index_of_append_hit) auto
  then show ?thesis
    by (subst parse_query_loop.simps) (simp add: parse_query_part_plain[OF assms])
qed

lemma parse_page_query:
  assumes "case n of None \<Rightarrow> True | Some s \<Rightarrow> list_all plain s" "list_all plain token"
  shows "page_query n token = [] \<and> page_params n token = [] \<or>
    (\<exists>q. page_query n token = CHR ''?'' # q \<and> ParseRestQueryString q = Inr (page_params n token))"
proof -
  have keys: "list_all plain ''pageSize''" "list_all plain ''pageToken''" by code_simp+
  have size: "parse_query_loop (''pageSize='' @ v) out = Inr (AList.update ''pageSize'' v out)"
    "parse_query_loop (''pageSize='' @ v @ CHR ''&'' # r) out = parse_query_loop r (AList.update ''pageSize'' v out)"
    if "list_all plain v" for v out r
    using parse_query_one[OF keys(1) _ that, of out] parse_query_two[OF keys(1) _ that, of r out] by simp_all
  have token: "parse_query_loop (''pageToken='' @ v) out = Inr (AList.update ''pageToken'' v out)"
    if "list_all plain v" for v out
    using parse_query_one[OF keys(2) _ that, of out] by simp
  show ?thesis
  proof (cases n)
    case None
    with token[OF assms(2)] show ?thesis by (simp add: page_query_def page_params_def ParseRestQueryString_def)
  next
    case (Some v)
    with assms(1) have "list_all plain v" by simp
    with Some size token[OF assms(2)] show ?thesis
      by (simp add: page_query_def page_params_def ParseRestQueryString_def)
  qed
qed

lemmas path_defs = BuildTaskPushConfigPath_def BuildTaskPushConfigCollectionPath_def BuildTaskPath_def
  EndpointMap_kTaskCollection_def EndpointMap_kPushConfigCollection_def EndpointMap_kSendMessage_def
  kPushNotificationConfigsSegment_def

lemma call_split:
  assumes "expressible call"
  shows "call_endpoint call = call_path call \<and> call_params call = [] \<or>
    (\<exists>q. call_endpoint call = call_path call @ CHR ''?'' # q \<and> ParseRestQueryString q = Inr (call_params call))"
proof (cases call)
  case (Call_GetTask q)
  have key: "list_all plain ''historyLength''" by code_simp
  show ?thesis
  proof (cases "GTR_history_length q")
    case (Some n)
    with assms Call_GetTask have "to_string_int n = to_string_nat (nat n)" by (simp add: to_string_int_def)
    then have "parse_query_loop (''historyLength='' @ to_string_int n) [] = Inr [(''historyLength'', to_string_int n)]"
      using parse_query_one[OF key _ plain_to_string_nat, of "nat n" "[]"] by simp
    with Some Call_GetTask show ?thesis by (simp add: get_task_endpoint_def ParseRestQueryString_def)
  qed (simp add: Call_GetTask get_task_endpoint_def)
next
  case (Call_ListTasks q)
  then show ?thesis
    using assms parse_page_query[of "if cltr_page_size q > 0 then Some (to_string_nat (cltr_page_size q)) else None" "cltr_page_token q"]
    by (auto simp: list_tasks_endpoint_def plain_to_string_nat)
next
  case (Call_ListConfigs q)
  then have "0 < LPR_page_size q \<Longrightarrow> list_all plain (to_string_int (LPR_page_size q))"
    by (simp add: to_string_int_def plain_to_string_nat)
  with Call_ListConfigs show ?thesis
    using assms parse_page_query[of "if LPR_page_size q > 0 then Some (to_string_int (LPR_page_size q)) else None" "LPR_page_token q"]
    by (auto simp: list_push_configs_endpoint_def)
qed simp_all

lemma call_path_no_query: "expressible call \<Longrightarrow> CHR ''?'' \<notin> set (call_path call)"
  using plain_text_noneq(2) by (cases call) (auto simp: path_defs plain_id_def)

lemma call_path_slash: "\<exists>r. call_path call = CHR ''/'' # r"
  by (cases call) (auto simp: path_defs)

lemma split_target_call:
  assumes "expressible call"
  shows "\<exists>query. split_target (call_endpoint call) = (call_path call, query) \<and>
    (case query of None \<Rightarrow> call_params call = [] | Some q \<Rightarrow> ParseRestQueryString q = Inr (call_params call))"
  using call_split[OF assms]
proof (elim disjE conjE exE)
  assume *: "call_endpoint call = call_path call" "call_params call = []"
  then have "split_target (call_endpoint call) = (call_path call, None)"
    using call_path_no_query[OF assms] by (auto simp: split_target_def index_of_None split: option.split)
  with * show ?thesis by simp
next
  fix q
  assume *: "call_endpoint call = call_path call @ CHR ''?'' # q" "ParseRestQueryString q = Inr (call_params call)"
  have "index_of (\<lambda>c. c = CHR ''?'') (call_path call @ CHR ''?'' # q) = Some (length (call_path call))"
    using call_path_no_query[OF assms] by (intro index_of_append_hit) auto
  with * show ?thesis by (simp add: split_target_def)
qed

definition rest_request_of :: "ClientCall \<Rightarrow> HttpServerRequest \<Rightarrow> RestRequest" where
  "rest_request_of call request =
     \<lparr>rest_method = req_method request, rest_path = call_path call, rest_query_params = call_params call,
      rest_headers = req_headers request, rest_body = req_body request, rest_context = http_request_context request\<rparr>"

lemma BuildRestRequest_call:
  assumes "expressible call" "rest_api_base_path options = ''/''" "req_target request = call_endpoint call"
  shows "BuildRestRequest options request = Inr (rest_request_of call request)"
proof -
  obtain query where "split_target (call_endpoint call) = (call_path call, query)"
    "case query of None \<Rightarrow> call_params call = [] | Some q \<Rightarrow> ParseRestQueryString q = Inr (call_params call)"
    using split_target_call[OF assms(1)] by blast
  then show ?thesis
    using assms(2,3) by (cases query) (auto simp: BuildRestRequest_def rest_request_of_def)
qed

text \<open>No call goes to an agent card.\<close>

lemma not_extended_path:
  assumes "path = a @ CHR ''/'' # b" "CHR ''/'' \<notin> set b" "b \<noteq> ''extendedAgentCard''"
  shows "\<not> suffix kExtendedAgentCardPath path"
proof
  assume "suffix kExtendedAgentCardPath path"
  then obtain x where "a @ CHR ''/'' # b = x @ CHR ''/'' # ''extendedAgentCard''"
    unfolding suffix_def kExtendedAgentCardPath_def assms(1) by auto
  from last_segment[OF this assms(2)] assms(3) show False by auto
qed

lemma extended_None_suffix: "\<not> suffix kExtendedAgentCardPath path \<Longrightarrow> ExtractTenantFromRelativeExtendedAgentCardPath path = None"
  by (simp add: ExtractTenantFromRelativeExtendedAgentCardPath_def)

lemma extended_None_slash:
  assumes "path = p @ kExtendedAgentCardPath" "CHR ''/'' \<in> set (tl p)"
  shows "ExtractTenantFromRelativeExtendedAgentCardPath path = None"
proof -
  have "substr 1 (length p - 1) path = tl p"
    using assms by (cases p) (simp_all add: substr_def)
  then show ?thesis
    using assms by (auto simp: ExtractTenantFromRelativeExtendedAgentCardPath_def has_slash_iff Let_def)
qed

lemma config_path_extended:
  assumes "plain_text t" "plain_text i"
  shows "ExtractTenantFromRelativeExtendedAgentCardPath (BuildTaskPushConfigPath t i) = None"
proof (cases "i = ''extendedAgentCard''")
  case True
  then show ?thesis
    by (intro extended_None_slash[of _ "BuildTaskPushConfigCollectionPath t"])
      (simp_all add: path_defs kExtendedAgentCardPath_def)
next
  case False
  then show ?thesis
    using plain_text_noneq(1)[OF assms(2)]
    by (intro extended_None_suffix not_extended_path[of _ "BuildTaskPushConfigCollectionPath t" i])
      (simp_all add: BuildTaskPushConfigPath_def)
qed

lemma collection_path_extended:
  "ExtractTenantFromRelativeExtendedAgentCardPath (BuildTaskPushConfigCollectionPath t) = None"
  by (intro extended_None_suffix not_extended_path[of _ "BuildTaskPath t" "''pushNotificationConfigs''"])
    (simp_all add: BuildTaskPushConfigCollectionPath_def EndpointMap_kPushConfigCollection_def
      kPushNotificationConfigsSegment_def)

lemma task_path_extended:
  assumes "CHR ''/'' \<notin> set t" "t \<noteq> ''extendedAgentCard''"
  shows "ExtractTenantFromRelativeExtendedAgentCardPath (BuildTaskPath t) = None"
  using assms
  by (intro extended_None_suffix not_extended_path[of _ EndpointMap_kTaskCollection t]) (simp_all add: BuildTaskPath_def)

lemma extended_None:
  assumes "expressible call"
  shows "ExtractTenantFromRelativeExtendedAgentCardPath (call_path call) = None"
proof (cases call)
  case (Call_CancelTask q)
  have "CTR_id q @ '':cancel'' \<noteq> ''extendedAgentCard''"
  proof
    assume "CTR_id q @ '':cancel'' = ''extendedAgentCard''"
    then have "last (CTR_id q @ '':cancel'') = CHR ''d''" by simp
    then show False by simp
  qed
  with assms Call_CancelTask plain_text_noneq(1) show ?thesis
    using task_path_extended[of "CTR_id q @ '':cancel''"] by (simp add: BuildTaskPath_def)
next
  case (Call_SendMessage q)
  then show ?thesis by (simp add: EndpointMap_kSendMessage_def) code_simp
next
  case (Call_ListTasks q)
  then show ?thesis by (simp add: EndpointMap_kTaskCollection_def) code_simp
qed (use assms plain_text_noneq(1) in \<open>auto simp: plain_id_def task_path_extended collection_path_extended config_path_extended\<close>)

lemma Handle_call:
  assumes "expressible call" "rest_api_base_path (rst_options server) = ''/''" "req_target request = call_endpoint call"
  shows "RestServerTransport_Handle pj cls server request w = RestServer_HandleApi pj server request w"
proof -
  obtain query where split: "split_target (call_endpoint call) = (call_path call, query)"
    using split_target_call[OF assms(1)] by blast
  obtain r where slash: "call_endpoint call = CHR ''/'' # r"
    using call_split[OF assms(1)] call_path_slash[of call] by auto
  have none: "ExtractTenantFromExtendedAgentCardPath (call_path call) ''/'' = None"
    by (simp add: ExtractTenantFromExtendedAgentCardPath_def extended_None[OF assms(1)] PathStartsWithBasePath_def)
  have paths: "call_path call \<noteq> kAgentCardPath" "call_path call \<noteq> kLegacyAgentCardPath" "call_path call \<noteq> kExtendedAgentCardPath"
    by (cases call; simp add: path_defs kAgentCardPath_def kLegacyAgentCardPath_def kExtendedAgentCardPath_def)+
  show ?thesis
    using assms(2,3) by (simp add: RestServerTransport_Handle_def slash split[unfolded slash] none paths)
qed

section \<open>What the server dispatches\<close>

lemma ParsePageSize_loop_append:
  "ParsePageSize_loop a (s @ t) = Option.bind (ParsePageSize_loop a s) (\<lambda>b. ParsePageSize_loop b t)"
  by (induction s arbitrary: a) auto

lemma ParsePageSize_loop_digits: "\<forall>c\<in>set s. isdigit c \<Longrightarrow> ParsePageSize_loop 0 s = Some (of_nat (dec_value s))"
proof (induction s rule: rev_induct)
  case (snoc c s)
  then show ?case by (simp add: ParsePageSize_loop_append algebra_simps)
qed (simp add: dec_value_def)

lemma ParsePageSize_to_string: "int n \<le> INT32_MAX \<Longrightarrow> ParsePageSize (to_string_nat n) = int n"
proof -
  assume n: "int n \<le> INT32_MAX"
  then have "uint (of_nat n :: 64 word) = int n"
    by (simp add: INT32_MAX_def unsigned_of_nat take_bit_nat_eq_self)
  with n show ?thesis
    using ParsePageSize_loop_digits[OF to_string_nat_digits, of n] by (simp add: ParsePageSize_def)
qed

lemma ParsePageSize_to_string_int: "0 \<le> n \<Longrightarrow> n \<le> INT32_MAX \<Longrightarrow> ParsePageSize (to_string_int n) = n"
  using ParsePageSize_to_string[of "nat n"] by (simp add: to_string_int_def)

lemma ParsePushConfigPath_none: "CHR ''/'' \<notin> set t \<Longrightarrow> ParsePushConfigPath (BuildTaskPath t) = None"
  by (simp add: ParsePushConfigPath_def BuildTaskPath_def EndpointMap_kTaskCollection_def kTaskResourcePrefix_def
      find_sub_no_slash)

lemma ParsePushConfigPath_collection:
  "plain_text t \<Longrightarrow> ParsePushConfigPath (BuildTaskPushConfigCollectionPath t) =
     Some \<lparr>parts_task_id = t, parts_config_id = [], parts_collection = True\<rparr>"
  using find_sub_segment[of t "[]"] plain_text_noneq(1,6)[of t]
  by (simp add: ParsePushConfigPath_def BuildTaskPushConfigCollectionPath_def BuildTaskPath_def has_slash_iff
      EndpointMap_kTaskCollection_def EndpointMap_kPushConfigCollection_def kTaskResourcePrefix_def)

lemma ParsePushConfigPath_config:
  "plain_text t \<Longrightarrow> plain_text i \<Longrightarrow> ParsePushConfigPath (BuildTaskPushConfigPath t i) =
     Some \<lparr>parts_task_id = t, parts_config_id = i, parts_collection = False\<rparr>"
  using find_sub_segment[of t "CHR ''/'' # i"] plain_text_noneq(1,6)[of t] plain_text_noneq(1,6)[of i]
  by (simp add: ParsePushConfigPath_def BuildTaskPushConfigPath_def BuildTaskPushConfigCollectionPath_def BuildTaskPath_def
      has_slash_iff EndpointMap_kTaskCollection_def EndpointMap_kPushConfigCollection_def kTaskResourcePrefix_def)

lemma ParseTaskIdFromPath_get: "plain_id t \<Longrightarrow> ParseTaskIdFromPath (BuildTaskPath t) False = Some t"
  using plain_text_noneq(1,6)[of t]
  by (simp add: ParseTaskIdFromPath_def BuildTaskPath_def EndpointMap_kTaskCollection_def kTaskResourcePrefix_def
      kTaskCancelSuffix_def kTaskSubscribeSuffix_def plain_id_def has_slash_iff)

lemma ParseTaskIdFromPath_cancel: "plain_text t \<Longrightarrow> ParseTaskIdFromPath (BuildTaskPath t @ '':cancel'') True = Some t"
  using plain_text_noneq(1,6)[of t]
  by (simp add: ParseTaskIdFromPath_def BuildTaskPath_def EndpointMap_kTaskCollection_def kTaskResourcePrefix_def
      kTaskCancelSuffix_def has_slash_iff Let_def suffix_def)

lemma BuildTaskPath_neq [simp]:
  "BuildTaskPath t \<noteq> ''/tasks''" "BuildTaskPath t \<noteq> ''/message:send''" "BuildTaskPath t \<noteq> ''/message:stream''"
  by (simp_all add: path_defs)

lemma BuildTaskPath_cancel: "BuildTaskPath t @ '':cancel'' = BuildTaskPath (t @ '':cancel'')"
  by (simp add: BuildTaskPath_def)

fun body_carried :: "'card ProtoJson \<Rightarrow> ClientCall \<Rightarrow> bool" where
  "body_carried pj (Call_SendMessage q) \<longleftrightarrow>
     (\<exists>s. json_SendMessageRequest pj q = Inr s \<and> parse_SendMessageRequest pj lenient_parse s = Inr q)"
| "body_carried pj (Call_CreateConfig q) \<longleftrightarrow>
     (\<exists>s. json_PushConfig pj q = Inr s \<and> parse_PushConfig pj lenient_parse s = Inr q)"
| "body_carried pj _ \<longleftrightarrow> True"

lemma BuildDispatchRequest_call:
  assumes "expressible call" "req_method request = call_method call" "call_body pj call = Inr (req_body request)"
    "body_carried pj call"
  shows "BuildDispatchRequest pj (rest_request_of call request) = Some (call_request call)"
proof -
  note defs = BuildDispatchRequest_def BuildPushConfigDispatchRequest_def BuildMessageDispatchRequest_def
    BuildListTasksDispatchRequest_def BuildGetTaskDispatchRequest_def BuildCancelTaskDispatchRequest_def
    rest_request_of_def kMethodPost_def kMethodGet_def kMethodDelete_def
  show ?thesis
  proof (cases call)
    case (Call_SendMessage q)
    have "ParsePushConfigPath EndpointMap_kSendMessage = None" by code_simp
    with assms Call_SendMessage show ?thesis
      by (auto simp: defs EndpointMap_kSendMessage_def kSendMessagePath_def kSendStreamingMessagePath_def)
  next
    case (Call_GetTask q)
    then have t: "plain_id (GTR_id q)" "CHR ''/'' \<notin> set (GTR_id q)"
      using assms(1) plain_text_noneq(1) by (auto simp: plain_id_def)
    have "ApplyHistoryLengthQuery (rest_request_of call request) (default_GetTaskRequest\<lparr>GTR_id := GTR_id q\<rparr>) = Some q"
      using assms(1) Call_GetTask
      by (auto simp: ApplyHistoryLengthQuery_def LookupQuery_def rest_request_of_def default_GetTaskRequest_def
          ParsePageSize_to_string_int split: option.splits)
    with assms Call_GetTask t show ?thesis
      by (auto simp: defs ParsePushConfigPath_none ParseTaskIdFromPath_get kTaskCollection_def BuildTaskPath_neq)
  next
    case (Call_ListTasks q)
    have "ParsePushConfigPath EndpointMap_kTaskCollection = None" by code_simp
    with assms Call_ListTasks show ?thesis
      by (auto simp: defs kTaskCollection_def EndpointMap_kTaskCollection_def LookupQuery_def page_params_def list_request_def
          ParsePageSize_to_string kMaxListTasksPageSize_def INT32_MAX_def NormalizeListTasksPageSize_def
          default_ListTasksRequest_def)
  next
    case (Call_CancelTask q)
    then have "CHR ''/'' \<notin> set (CTR_id q @ '':cancel'')" "CTR_id q \<noteq> []"
      using assms(1) plain_text_noneq(1,6) by auto
    with assms Call_CancelTask show ?thesis
      using ParsePushConfigPath_none[of "CTR_id q @ '':cancel''"] ParseTaskIdFromPath_cancel[of "CTR_id q"]
        BuildTaskPath_neq[of "CTR_id q @ '':cancel''"]
      by (simp add: defs BuildTaskPath_cancel kSendMessagePath_def kSendStreamingMessagePath_def)
  next
    case (Call_ListConfigs q)
    with assms show ?thesis
      by (auto simp: defs ParsePushConfigPath_collection list_push_configs_payload_def LookupQuery_def page_params_def
          ParsePageSize_to_string_int Let_def)
  qed (use assms in \<open>auto simp: defs ParsePushConfigPath_collection ParsePushConfigPath_config\<close>)
qed

lemma suffix_last_segment: "suffix s (a @ CHR ''/'' # t) \<Longrightarrow> CHR ''/'' \<notin> set s \<Longrightarrow> suffix s t"
  by (auto simp: suffix_def append_eq_append_conv2 append_eq_Cons_conv Cons_eq_append_conv)

lemma action_None_slash:
  assumes "path = kTaskResourcePrefix @ x @ CHR ''/'' # y"
  shows "ParseTaskIdFromActionPath path kTaskSubscribeSuffix = None"
proof (cases "suffix kTaskSubscribeSuffix path")
  case True
  then have "suffix kTaskSubscribeSuffix y"
    unfolding assms using suffix_last_segment[of kTaskSubscribeSuffix "kTaskResourcePrefix @ x" y]
    by (simp add: kTaskSubscribeSuffix_def)
  then obtain z where "y = z @ kTaskSubscribeSuffix" by (auto simp: suffix_def)
  then have "substr (length kTaskResourcePrefix) (size_sub (size_sub (length path) (length kTaskResourcePrefix))
      (length kTaskSubscribeSuffix)) path = x @ CHR ''/'' # z"
    unfolding assms by (simp add: substr_def)
  then show ?thesis by (simp add: ParseTaskIdFromActionPath_def has_slash_iff Let_def)
qed (simp add: ParseTaskIdFromActionPath_def)

lemma action_None_suffix: "\<not> suffix kTaskSubscribeSuffix path \<Longrightarrow> ParseTaskIdFromActionPath path kTaskSubscribeSuffix = None"
  by (simp add: ParseTaskIdFromActionPath_def)

lemma not_subscribe:
  assumes "expressible call"
  shows "ParseTaskIdFromActionPath (call_path call) kTaskSubscribeSuffix = None"
proof (cases call)
  case (Call_SendMessage q)
  then show ?thesis by (simp add: EndpointMap_kSendMessage_def) code_simp
next
  case (Call_ListTasks q)
  then show ?thesis by (simp add: EndpointMap_kTaskCollection_def) code_simp
next
  case (Call_GetTask q)
  then have "\<not> suffix kTaskSubscribeSuffix (BuildTaskPath (GTR_id q))"
    using assms suffix_last_segment[of kTaskSubscribeSuffix EndpointMap_kTaskCollection "GTR_id q"]
    by (auto simp: plain_id_def kTaskSubscribeSuffix_def BuildTaskPath_def)
  with Call_GetTask show ?thesis by (simp add: action_None_suffix)
next
  case (Call_CancelTask q)
  have "\<not> suffix kTaskSubscribeSuffix (BuildTaskPath (CTR_id q) @ '':cancel'')"
  proof
    assume "suffix kTaskSubscribeSuffix (BuildTaskPath (CTR_id q) @ '':cancel'')"
    then obtain z where "BuildTaskPath (CTR_id q) @ '':cancel'' = z @ '':subscribe''"
      by (auto simp: suffix_def kTaskSubscribeSuffix_def)
    then have "last (BuildTaskPath (CTR_id q) @ '':cancel'') = last (z @ '':subscribe'')" by (rule arg_cong)
    then show False by simp
  qed
  with Call_CancelTask show ?thesis by (simp add: action_None_suffix)
next
  case (Call_CreateConfig q)
  then show ?thesis
    by (auto intro!: action_None_slash[of _ "Push_task_id q" "''pushNotificationConfigs''"] simp: path_defs kTaskResourcePrefix_def)
next
  case (Call_ListConfigs q)
  then show ?thesis
    by (auto intro!: action_None_slash[of _ "LPR_task_id q" "''pushNotificationConfigs''"] simp: path_defs kTaskResourcePrefix_def)
next
  case (Call_GetConfig q)
  then show ?thesis
    by (auto intro!: action_None_slash[of _ "GPR_task_id q @ ''/pushNotificationConfigs''" "GPR_id q"]
        simp: path_defs kTaskResourcePrefix_def)
next
  case (Call_DeleteConfig q)
  then show ?thesis
    by (auto intro!: action_None_slash[of _ "DPR_task_id q @ ''/pushNotificationConfigs''" "DPR_id q"]
        simp: path_defs kTaskResourcePrefix_def)
qed

section \<open>The exchange\<close>

definition rest_link ::
  "'card ProtoJson \<Rightarrow> 'card AgentCardClass \<Rightarrow> ('w, 'card) RestServerTransport \<Rightarrow> string \<Rightarrow> string \<Rightarrow>
   ('w, 'scheme) HttpJsonTransport \<Rightarrow> bool" where
  "rest_link pj cls server origin peer transport \<longleftrightarrow>
     ri_transport (hj_resolved_interface transport) = Transport_kRest \<and> origin \<noteq> [] \<and> strip_slashes origin = origin \<and>
     ri_url (hj_resolved_interface transport) = origin \<and>
     hj_requester transport = Some (served_by pj cls server origin peer) \<and>
     rest_api_base_path (rst_options server) = ''/'' \<and> required_extensions (rst_options server) = []"

definition link_context :: "string \<Rightarrow> headers \<Rightarrow> RequestContext" where
  "link_context peer hs = http_request_context
     \<lparr>req_method = [], req_target = [], req_headers = hs, req_body = [], req_remote_address = peer\<rparr>"

lemma EqualsAsciiCaseInsensitive_refl [simp]: "EqualsAsciiCaseInsensitive s s"
  by (simp add: EqualsAsciiCaseInsensitive_def list_all_iff)

lemma FindHeaderValue_update:
  "\<forall>h\<in>set hs. \<not> EqualsAsciiCaseInsensitive (fst h) name \<Longrightarrow> FindHeaderValue (AList.update name v hs) name = Some v"
  by (induction hs) auto

lemma ApplyProtocolVersion_header:
  assumes "ApplyProtocolVersion opts hs = Inr hs'" "co_protocol_version opts = ''1.0''"
  shows "FindHeaderValue hs' kVersionHeaderName = Some ''1.0''"
proof -
  have "MajorMinor ''1.0'' = Some ''1.0''" by code_simp
  then show ?thesis
    using assms by (auto simp: ApplyProtocolVersion_def Let_def intro!: FindHeaderValue_update)
qed

lemma authorized_version:
  assumes "authorized_headers json_body accept opts w = Some (w1, Inr hs)" "co_protocol_version opts = ''1.0''"
  shows "FindHeaderValue hs kVersionHeaderName = Some ''1.0''"
proof -
  obtain hs0 where "ApplyProtocolVersion opts hs0 = Inr hs"
    using assms(1) by (auto simp: authorized_headers_def result_bind_Inr split: bind_splits)
  then show ?thesis using assms(2) by (rule ApplyProtocolVersion_header)
qed

lemma supported_1_0: "IsSupported ''1.0''"
  by code_simp

lemma JoinUrl_call:
  "expressible call \<Longrightarrow> strip_slashes origin = origin \<Longrightarrow> HttpJson_JoinUrl origin (call_endpoint call) = origin @ call_endpoint call"
  using call_split[of call] call_path_slash[of call] by (auto simp: HttpJson_JoinUrl_def)

text \<open>The REST layer's response to a dispatched call.\<close>

definition rest_answer ::
  "'card ProtoJson \<Rightarrow> DispatcherOperation \<Rightarrow> ('w, 'card) DispatchResponse Result \<Rightarrow> 'w RestResponse option" where
  "rest_answer pj operation outcome =
     (case outcome of
        Inl e \<Rightarrow> Some (Rest_BuildErrorResponse pj (WithTransport ''rest'' e))
      | Inr response \<Rightarrow> map_option (\<lambda>serialized. case serialized of
            Inl e \<Rightarrow> Rest_BuildErrorResponse pj (WithTransport ''rest'' e) | Inr r \<Rightarrow> r)
          (Rest_SerializeDispatchResponse pj operation response))"

definition json_headers :: "headers \<Rightarrow> bool" where
  "json_headers hs \<longleftrightarrow>
     (case FindHeaderValue hs kContentTypeHeaderName of None \<Rightarrow> True | Some content_type \<Rightarrow> IsJsonContentType content_type)"

lemma server_answers:
  assumes "expressible call" "rest_api_base_path (rst_options server) = ''/''" "required_extensions (rst_options server) = []"
    "rst_dispatcher server = Some d" "req_target request = call_endpoint call" "req_method request = call_method call"
    "call_body pj call = Inr (req_body request)" "body_carried pj call"
    "FindHeaderValue (req_headers request) kVersionHeaderName = Some ''1.0''" "json_headers (req_headers request)"
    "Dispatch d (call_request call) (w, http_request_context request) = Some ((w', c), outcome)"
    "rest_answer pj (req_operation (call_request call)) outcome = Some response"
  shows "RestServerTransport_Handle pj cls server request w = Some (w', Inr (BuildRestHttpResponse response []))"
proof -
  let ?rr = "rest_request_of call request"
  have "VersionHeaderValidator_Validate b (req_headers request) = Inr ()" for b
    using assms(9) supported_1_0 by (simp add: VersionHeaderValidator_Validate_def)
  moreover have "RestTransport_Handle pj (Some d) ?rr w = Rest_HandleRequest pj d ?rr w"
    using not_subscribe[OF assms(1)] by (simp add: RestTransport_Handle_def rest_request_of_def)
  moreover have "ValidateJsonRequestContentType ?rr = None"
    using assms(10) by (auto simp: ValidateJsonRequestContentType_def json_headers_def rest_request_of_def split: option.splits)
  moreover have "BuildDispatchRequest pj ?rr = Some (call_request call)"
    using BuildDispatchRequest_call assms(1,6,7,8) by blast
  moreover have "rest_context ?rr = http_request_context request" by (simp add: rest_request_of_def)
  moreover from this have "Rest_HandleRequest pj d ?rr w = Some (w', Inr response)" if "ValidateJsonRequestContentType ?rr = None"
    "BuildDispatchRequest pj ?rr = Some (call_request call)"
    using that assms(11,12) by (cases outcome) (auto simp: Rest_HandleRequest_def rest_answer_def)
  ultimately have "RestServer_HandleApi pj server request w = Some (w', Inr (BuildRestHttpResponse response []))"
    using assms(3,4) BuildRestRequest_call[OF assms(1,2,5)]
    by (simp add: RestServer_HandleApi_def RequiredExtensionsValidator_Validate_def)
  then show ?thesis using Handle_call[OF assms(1,2,5)] by simp
qed

lemma SendRequest_answers:
  assumes "rest_link pj cls server origin peer transport" "expressible call" "rst_dispatcher server = Some d"
    "call_body pj call = Inr body" "body_carried pj call" "co_protocol_version opts = ''1.0''"
    "authorized_headers True kContentTypeApplicationJson opts w = Some (w1, Inr hs)" "json_headers hs"
    "Dispatch d (call_request call) (w1, link_context peer hs) = Some ((w2, c), outcome)"
    "rest_answer pj (req_operation (call_request call)) outcome = Some response"
    "ValidateResponseVersion ''http'' (client_view (BuildRestHttpResponse response [])) = Inr ()"
  shows "HttpJson_SendRequest transport (call_method call) (call_endpoint call) body opts w =
     Some (w2, Inr (client_view (BuildRestHttpResponse response [])))"
proof -
  note link = assms(1)[unfolded rest_link_def]
  let ?creq = "HttpJson_request transport (call_method call) (call_endpoint call) body opts hs"
  let ?hreq = "wire origin peer ?creq"
  have hreq: "req_target ?hreq = call_endpoint call" "req_method ?hreq = call_method call" "req_body ?hreq = body"
    "req_headers ?hreq = hs" "http_request_context ?hreq = link_context peer hs"
    using link JoinUrl_call[OF assms(2)]
    by (simp_all add: wire_def HttpJson_request_def link_context_def http_request_context_def)
  have "RestServerTransport_Handle pj cls server ?hreq w1 = Some (w2, Inr (BuildRestHttpResponse response []))"
    using assms link authorized_version[OF assms(7,6)]
    by (intro server_answers[of call server d]) (simp_all add: hreq)
  then have "served_by pj cls server origin peer ?creq w1 = Some (w2, Inr (client_view (BuildRestHttpResponse response [])))"
    by (simp add: served_by_def)
  then show ?thesis
    using link assms(7,11) by (simp add: HttpJson_SendRequest_def)
qed

section \<open>Transparency\<close>

fun answer_carried :: "'card ProtoJson \<Rightarrow> ClientCall \<Rightarrow> ('w, 'card) DispatchResponse \<Rightarrow> bool" where
  "answer_carried pj (Call_SendMessage q) (Resp_SendMessage r) \<longleftrightarrow>
     (\<exists>s. json_SendMessageResponse pj r = Inr s \<and> parse_SendMessageResponse pj default_parse s = Inr r)"
| "answer_carried pj (Call_GetTask q) (Resp_Task t) \<longleftrightarrow> (\<exists>s. json_Task pj t = Inr s \<and> parse_Task pj default_parse s = Inr t)"
| "answer_carried pj (Call_CancelTask q) (Resp_Task t) \<longleftrightarrow> (\<exists>s. json_Task pj t = Inr s \<and> parse_Task pj default_parse s = Inr t)"
| "answer_carried pj (Call_ListTasks q) (Resp_ListTasks r) \<longleftrightarrow>
     (\<exists>s p. SerializeListTasksResponse (json_ListTasksResponse pj) r = Some (Inr s) \<and>
        parse_ListTasksResponse pj strict_list_parse s = Inr p \<and> LTPay_tasks p = LTResp_tasks r \<and>
        LTPay_next_page_token p = LTResp_next_page_token r)"
| "answer_carried pj (Call_CreateConfig q) (Resp_PushConfig c) \<longleftrightarrow>
     (\<exists>s. json_PushConfig pj c = Inr s \<and> parse_PushConfig pj default_parse s = Inr c)"
| "answer_carried pj (Call_GetConfig q) (Resp_PushConfig c) \<longleftrightarrow>
     (\<exists>s. json_PushConfig pj c = Inr s \<and> parse_PushConfig pj default_parse s = Inr c)"
| "answer_carried pj (Call_ListConfigs q) (Resp_ListPushConfigs r) \<longleftrightarrow>
     (\<exists>s. json_PushConfigList pj r = Inr s \<and> parse_PushConfigList pj default_parse s = Inr r)"
| "answer_carried pj (Call_DeleteConfig q) _ \<longleftrightarrow> json_Struct pj [] = Inr ''{}''"
| "answer_carried pj _ _ \<longleftrightarrow> False"

text \<open>What the client makes of the dispatcher's answer. Deleting a configuration has no answer.\<close>

fun call_answer :: "ClientCall \<Rightarrow> ('w, 'card) DispatchResponse \<Rightarrow> ClientAnswer" where
  "call_answer (Call_DeleteConfig q) _ = Ans_Done"
| "call_answer _ (Resp_SendMessage r) = Ans_SendMessage r"
| "call_answer _ (Resp_Task t) = Ans_Task t"
| "call_answer _ (Resp_ListTasks r) =
     Ans_List \<lparr>cltresp_tasks = LTResp_tasks r, cltresp_next_page_token = LTResp_next_page_token r\<rparr>"
| "call_answer _ (Resp_PushConfig c) = Ans_Config c"
| "call_answer _ (Resp_ListPushConfigs r) = Ans_Configs r"
| "call_answer _ _ = Ans_Done"

lemma rest_version: "FindHeaderValue (cresp_headers (client_view (BuildRestHttpResponse response []))) kVersionHeaderName = Some ''1.0''"
  if "rr_headers response = [(kContentTypeHeaderName, kContentTypeApplicationJson)]"
  using that
  by (simp add: client_view_def BuildRestHttpResponse_def builder_defs HeaderValue_def kProtocolVersion_def
      kContentTypeHeaderName_def kVersionHeaderName_def EqualsAsciiCaseInsensitive_def)

lemma rest_version_valid:
  "rr_headers response = [(kContentTypeHeaderName, kContentTypeApplicationJson)] \<Longrightarrow>
     ValidateResponseVersion ''http'' (client_view (BuildRestHttpResponse response [])) = Inr ()"
  using rest_version[of response] supported_1_0 by (simp add: ValidateResponseVersion_def)

lemma client_view_json:
  "cresp_status_code (client_view (BuildRestHttpResponse (json_response s) [])) = 200"
  "cresp_body (client_view (BuildRestHttpResponse (json_response s) [])) = s"
  by (simp_all add: client_view_def BuildRestHttpResponse_def builder_defs json_response_def)

lemma json_response_headers: "rr_headers (json_response s) = [(kContentTypeHeaderName, kContentTypeApplicationJson)]"
  by (simp add: json_response_def)

lemma parse_json_response:
  "parse default_parse s = Inr v \<Longrightarrow>
     ParseBodyOrMapError pj parse m ep (client_view (BuildRestHttpResponse (json_response s) [])) = Inr v"
  by (simp add: ParseBodyOrMapError_def http_ok_def with_http_context_def client_view_json)

lemma parse_list_response:
  "parse_ListTasksResponse pj strict_list_parse s = Inr p \<Longrightarrow>
     ParseListTasksResponsePayload pj (client_view (BuildRestHttpResponse (json_response s) [])) ep = Inr (to_client_list p)"
  by (simp add: ParseListTasksResponsePayload_def http_ok_def with_http_context_def client_view_json)

lemma delete_json_response: "delete_answer pj ep (client_view (BuildRestHttpResponse (json_response ''{}'') [])) = Inr ()"
  by (simp add: delete_answer_def http_ok_def client_view_json)

lemma error_response_headers:
  "rr_headers (Rest_BuildErrorResponse pj e) = [(kContentTypeHeaderName, kContentTypeApplicationJson)]"
  by (simp add: Rest_BuildErrorResponse_def)

lemma rest_answer_carried:
  assumes "answer_carried pj call r"
  shows "\<exists>response. rest_answer pj (req_operation (call_request call)) (Inr r) = Some response \<and>
    rr_headers response = [(kContentTypeHeaderName, kContentTypeApplicationJson)] \<and>
    call_parse pj call (client_view (BuildRestHttpResponse response [])) = Inr (call_answer call r)"
  using assms
  by (cases "(pj, call, r)" rule: answer_carried.cases)
    (auto simp: rest_answer_def Rest_SerializeDispatchResponse_def BuildJsonResponse_def json_response_headers
      parse_json_response parse_list_response delete_json_response to_client_list_def)

lemma error_answer:
  assumes "ToHttpStatus e \<notin> {200..299}"
  shows "\<exists>e'. call_parse pj call (client_view (BuildRestHttpResponse
      (Rest_BuildErrorResponse pj (WithTransport ''rest'' e) :: 'w RestResponse) [])) =
    Inl e' \<and> error_http_status e' = Some (ToHttpStatus e)"
proof -
  let ?r = "client_view (BuildRestHttpResponse (Rest_BuildErrorResponse pj (WithTransport ''rest'' e) :: 'w RestResponse) [])"
  have "cresp_status_code ?r = ToHttpStatus e"
    by (simp add: client_view_def BuildRestHttpResponse_def builder_defs Rest_BuildErrorResponse_def ToHttpStatus_def
        WithTransport_def)
  moreover have "error_http_status (BuildHttpError pj m ep ?r) = Some (cresp_status_code ?r)" for m ep
    by (simp add: BuildHttpError_def WithHttpStatus_def WithProtocolCode_def Let_def split: option.split)
  ultimately show ?thesis
    using assms by (cases call)
      (auto simp: ParseBodyOrMapError_def ParseListTasksResponsePayload_def delete_answer_def http_ok_def)
qed

text \<open>C2: Through a REST client and a REST server a call is a dispatch: a client call that REST can express reaches the
  dispatcher as exactly the operation and payload it stands for, under the headers the client sent, and the client
  returns the dispatcher's answer. When the dispatcher fails, the client fails with the HTTP status of that error.\<close>

theorem rest_transparent:
  assumes "rest_link pj cls server origin peer transport" "expressible call" "body_carried pj call"
    "rst_dispatcher server = Some d" "co_protocol_version opts = ''1.0''"
    "authorized_headers True kContentTypeApplicationJson opts w = Some (w1, Inr hs)" "json_headers hs"
    "Dispatch d (call_request call) (w1, link_context peer hs) = Some ((w2, c), outcome)"
    "case outcome of Inl e \<Rightarrow> ToHttpStatus e \<notin> {200..299} | Inr r \<Rightarrow> answer_carried pj call r"
  shows "\<exists>result. run_rest pj transport call opts w = Some (w2, result) \<and>
     (case outcome of
        Inr r \<Rightarrow> result = Inr (call_answer call r)
      | Inl e \<Rightarrow> \<exists>e'. result = Inl e' \<and> error_http_status e' = Some (ToHttpStatus e))"
proof -
  obtain body where body: "call_body pj call = Inr body"
    using assms(3) by (cases call) auto
  have run: "run_rest pj transport call opts w = Some (w2, call_parse pj call (client_view (BuildRestHttpResponse response [])))"
    if "rest_answer pj (req_operation (call_request call)) outcome = Some response"
      "rr_headers response = [(kContentTypeHeaderName, kContentTypeApplicationJson)]" for response
    using SendRequest_answers[OF assms(1,2,4) body assms(3,5-8) that(1) rest_version_valid[OF that(2)]]
    by (simp add: run_rest_call[OF assms(2)] body http_call_def)
  show ?thesis
  proof (cases outcome)
    case (Inr r)
    with assms(9) obtain response where "rest_answer pj (req_operation (call_request call)) outcome = Some response"
      "rr_headers response = [(kContentTypeHeaderName, kContentTypeApplicationJson)]"
      "call_parse pj call (client_view (BuildRestHttpResponse response [])) = Inr (call_answer call r)"
      using rest_answer_carried[of pj call r] by auto
    with run[of response] Inr show ?thesis by simp
  next
    case (Inl e)
    then obtain response where response: "rest_answer pj (req_operation (call_request call)) outcome = Some response"
      "response = Rest_BuildErrorResponse pj (WithTransport ''rest'' e)"
      by (simp add: rest_answer_def)
    then have "rr_headers response = [(kContentTypeHeaderName, kContentTypeApplicationJson)]"
      by (simp add: error_response_headers)
    from run[OF response(1) this] error_answer[of e pj call] assms(9) Inl show ?thesis by (auto simp: response(2))
  qed
qed

text \<open>A codec that carries the sample tasks, the sample dispatcher behind REST, and a client linked to it.\<close>

definition sample_codec :: "unit ProtoJson" where
  "sample_codec = refusing_codec\<lparr>json_Task := (\<lambda>t. Inr (Task_id t)),
     parse_Task := (\<lambda>_ s. Inr (sample_task s TASK_STATE_WORKING))\<rparr>"

definition unit_cards :: "unit AgentCardClass" where
  "unit_cards = \<lparr>supported_interfaces = (\<lambda>_. []), map_supported_interfaces = (\<lambda>_ c. c)\<rparr>"

definition sample_server :: "(InMemoryTaskStore, unit) RestServerTransport" where
  "sample_server = RestServerTransport_new unit_cards (Some sample_dispatcher) () default_RestServerTransportOptions"

definition sample_transport :: "(InMemoryTaskStore, unit) HttpJsonTransport" where
  "sample_transport =
     \<lparr>hj_resolved_interface = \<lparr>ri_transport = Transport_kRest, ri_url = ''http://agent'', ri_security_requirements = [],
        ri_security_schemes = []\<rparr>,
      hj_requester = Some (served_by sample_codec unit_cards sample_server ''http://agent'' ''peer''),
      hj_default_timeout = 30000\<rparr>"

definition sample_call :: ClientCall where
  "sample_call = Call_GetTask \<lparr>GTR_tenant = [], GTR_id = ''a'', GTR_history_length = Some 1\<rparr>"

definition sample_headers :: headers where
  "sample_headers = [(''Content-Type'', ''application/json''), (''Accept'', ''application/json''), (''A2A-Version'', ''1.0'')]"

lemma sample_link: "rest_link sample_codec unit_cards sample_server ''http://agent'' ''peer'' sample_transport"
  by (simp add: rest_link_def sample_transport_def sample_server_def RestServerTransport_new_def
      default_RestServerTransportOptions_def strip_slashes_def NormalizeBasePath_def)

theorem rest_transparent_witness:
  "\<exists>s. run_rest sample_codec sample_transport sample_call default_CallOptions sample_store =
     Some (s, Inr (Ans_Task (sample_task ''a'' TASK_STATE_WORKING)))"
proof -
  let ?run = "Dispatch sample_dispatcher (call_request sample_call) (sample_store, link_context ''peer'' sample_headers)"
  have "map_option (\<lambda>((s, c), r). map_sum (\<lambda>_. ()) (\<lambda>resp. case resp of Resp_Task t \<Rightarrow> Some t | _ \<Rightarrow> None) r) ?run =
      Some (Inr (Some (sample_task ''a'' TASK_STATE_WORKING)))" by code_simp
  then obtain s c resp where "?run = Some ((s, c), Inr resp)"
    "(case resp of Resp_Task t \<Rightarrow> Some t | _ \<Rightarrow> None) = Some (sample_task ''a'' TASK_STATE_WORKING)"
    by (auto simp: map_sum_Inr_iff)
  then have run: "?run = Some ((s, c), Inr (Resp_Task (sample_task ''a'' TASK_STATE_WORKING)))" by (cases resp) auto
  have "authorized_headers True kContentTypeApplicationJson (default_CallOptions :: (InMemoryTaskStore, unit) CallOptions)
      sample_store = Some (sample_store, Inr sample_headers)"
    by (simp add: authorized_headers_def default_CallOptions_def) code_simp
  moreover have "expressible sample_call" by code_simp
  moreover have "json_headers sample_headers" by code_simp
  moreover have "rst_dispatcher sample_server = Some sample_dispatcher"
    by (simp add: sample_server_def RestServerTransport_new_def)
  ultimately show ?thesis
    using rest_transparent[OF sample_link, of sample_call sample_dispatcher default_CallOptions sample_store sample_store
      sample_headers s c "Inr (Resp_Task (sample_task ''a'' TASK_STATE_WORKING))"] run
    by (simp add: sample_call_def sample_codec_def default_CallOptions_def kProtocolVersion_def sample_task_def)
qed

section \<open>Hidden tasks over HTTP\<close>

definition get_task_http :: "string \<Rightarrow> string \<Rightarrow> headers \<Rightarrow> HttpServerRequest" where
  "get_task_http k peer hs =
     \<lparr>req_method = ''GET'', req_target = ''/tasks/'' @ k, req_headers = hs, req_body = [], req_remote_address = peer\<rparr>"

definition not_found_http :: "'card ProtoJson \<Rightarrow> 'w ServerResponse" where
  "not_found_http pj = BuildRestHttpResponse (Rest_BuildErrorResponse pj
     (WithTransport ''rest'' (TaskNotFound ''task not found''))) []"

text \<open>C7: On the wire, too, a hidden task cannot be told from a missing one: the REST server answers a request for a task that
  the policy hides from the caller with the same status, headers and body as a request for a task that does not exist,
  and the store stays as it is.\<close>

theorem rest_hidden_task:
  assumes "d_security d = Some \<lparr>ds_policy = Some policy, ds_task_store = Some (in_memory_ops ser)\<rparr>"
    "d_executor d = Some executor" "d_interceptors d = []" "store_inv s"
    "rst_dispatcher server = Some d" "rest_api_base_path (rst_options server) = ''/''" "required_extensions (rst_options server) = []"
    "FindHeaderValue hs kVersionHeaderName = Some ''1.0''" "json_headers hs"
    "Authenticate policy ((link_context peer hs)\<lparr>ctx_principal := []\<rparr>) = Inr identity" "identity \<noteq> []"
    "plain_id hidden" "InMemory_Get hidden s = Some (Inr t)" "\<not> CanAccessTask policy t ((link_context peer hs)\<lparr>ctx_principal := identity\<rparr>)"
    "plain_id missing" "\<And>t. InMemory_Get missing s \<noteq> Some (Inr t)"
  shows "RestServerTransport_Handle pj cls server (get_task_http hidden peer hs) s = Some (s, Inr (not_found_http pj)) \<and>
    RestServerTransport_Handle pj cls server (get_task_http missing peer hs) s = Some (s, Inr (not_found_http pj))"
proof -
  have answer: "RestServerTransport_Handle pj cls server (get_task_http k peer hs) s = Some (s, Inr (not_found_http pj))"
    if k: "plain_id k" "\<And>t. InMemory_Get k s = Some (Inr t) \<Longrightarrow> \<not> CanAccessTask policy t ((link_context peer hs)\<lparr>ctx_principal := identity\<rparr>)"
    for k
  proof -
    let ?call = "Call_GetTask \<lparr>GTR_tenant = [], GTR_id = k, GTR_history_length = None\<rparr>"
    let ?r = "get_task_http k peer hs"
    have ctx: "http_request_context ?r = link_context peer hs"
      by (simp add: get_task_http_def link_context_def http_request_context_def)
    have "k \<noteq> []" using k(1) plain_text_noneq(6) by (auto simp: plain_id_def)
    then have "Dispatch d (call_request ?call) (s, link_context peer hs) =
        finish d (call_request ?call) (Some identity) (Inl (TaskNotFound ''task not found''))
          (s, (link_context peer hs)\<lparr>ctx_principal := identity\<rparr>)"
      using k(2) by (intro Dispatch_hidden_task[OF assms(1,2,4,10,11), of _ k]) auto
    then have "\<exists>c. Dispatch d (call_request ?call) (s, link_context peer hs) = Some ((s, c), Inl (TaskNotFound ''task not found''))"
      by (auto simp: finish_def RunAfterInterceptors_def assms(3))
    then obtain c where "Dispatch d (call_request ?call) (s, link_context peer hs) = Some ((s, c), Inl (TaskNotFound ''task not found''))" ..
    then show ?thesis
      unfolding not_found_http_def
      by (intro server_answers[of ?call _ d])
        (use assms k(1) in \<open>simp_all add: ctx, simp_all add: get_task_http_def get_task_endpoint_def path_defs kMethodGet_def
          rest_answer_def\<close>)
  qed
  have "RestServerTransport_Handle pj cls server (get_task_http hidden peer hs) s = Some (s, Inr (not_found_http pj))"
    by (rule answer[OF assms(12)]) (use assms(13,14) in simp)
  moreover have "RestServerTransport_Handle pj cls server (get_task_http missing peer hs) s = Some (s, Inr (not_found_http pj))"
    by (rule answer[OF assms(15)]) (use assms(16) in simp)
  ultimately show ?thesis ..
qed

definition quiet_dispatcher :: "(InMemoryTaskStore, unit) Dispatcher" where
  "quiet_dispatcher = sample_dispatcher\<lparr>d_interceptors := []\<rparr>"

definition quiet_server :: "(InMemoryTaskStore, unit) RestServerTransport" where
  "quiet_server = RestServerTransport_new unit_cards (Some quiet_dispatcher) () default_RestServerTransportOptions"

theorem rest_hidden_task_witness:
  "RestServerTransport_Handle sample_codec unit_cards quiet_server (get_task_http ''b'' ''peer'' sample_headers) sample_store =
     RestServerTransport_Handle sample_codec unit_cards quiet_server (get_task_http ''nope'' ''peer'' sample_headers) sample_store \<and>
   InMemory_Get ''b'' sample_store \<noteq> InMemory_Get ''nope'' sample_store"
proof -
  have get: "InMemory_Get ''b'' sample_store = Some (Inr (sample_task ''b'' TASK_STATE_COMPLETED))"
    "InMemory_Get ''nope'' sample_store = Some (Inl (TaskNotFound ''Task not found''))" by code_simp+
  have hidden: "\<not> CanAccessTask sample_policy (sample_task ''b'' TASK_STATE_COMPLETED)
      ((link_context ''peer'' sample_headers)\<lparr>ctx_principal := ''a''\<rparr>)" by code_simp
  have ok: "plain_id ''b''" "plain_id ''nope''" "FindHeaderValue sample_headers kVersionHeaderName = Some ''1.0''"
    "json_headers sample_headers" by code_simp+
  have "Authenticate sample_policy ((link_context ''peer'' sample_headers)\<lparr>ctx_principal := []\<rparr>) = Inr ''a''"
    by (simp add: sample_policy_def)
  moreover have "d_security quiet_dispatcher = Some \<lparr>ds_policy = Some sample_policy, ds_task_store = Some (in_memory_ops (\<lambda>_. []))\<rparr>"
    "d_executor quiet_dispatcher = Some sample_executor" "d_interceptors quiet_dispatcher = []"
    by (simp_all add: quiet_dispatcher_def sample_dispatcher_sel)
  moreover have "rst_dispatcher quiet_server = Some quiet_dispatcher" "rest_api_base_path (rst_options quiet_server) = ''/''"
    "required_extensions (rst_options quiet_server) = []"
    by (simp_all add: quiet_server_def RestServerTransport_new_def default_RestServerTransportOptions_def NormalizeBasePath_def)
  ultimately show ?thesis
    using rest_hidden_task[of quiet_dispatcher sample_policy "\<lambda>_. []" sample_executor sample_store quiet_server sample_headers
      "''peer''" "''a''" "''b''" "sample_task ''b'' TASK_STATE_COMPLETED" "''nope''" sample_codec unit_cards]
      ok get hidden sample_inv by simp
qed

end
