(* ===== verification/Spec2Isabelle.thy ===== *)
theory Spec2Isabelle
  imports Task_Store_Props Task_Subscription_Props Server_Context Task_Id Task_Lifecycle Task_Authorization_Props Http_Adapter_Props Sse_Stream
    Dispatcher_Props Transport_Mux Push_Props Client_Stream Discovery Rest_Roundtrip
begin

text \<open>
  A verification development of the A2A C++ SDK: the core text utilities, the task store and its pagination.
\<close>

end
